(* ===== verification/GoMap.thy ===== *)
theory GoMap
  imports Prelude
begin

text \<open>
  Go's \<^verbatim>\<open>map\<close> and \<^verbatim>\<open>sync.Map\<close> as association lists, the interface their clients use as a locale,
  and the interpretation of that locale on the list operations. The components use the facts of
  the interpretation, so their proofs do not depend on the representation.
\<close>

type_synonym ('k, 'v) gomap = "('k \<times> 'v) list"

definition sm_load :: "('k, 'v) gomap \<Rightarrow> 'k \<Rightarrow> 'v option" where
  "sm_load m k = map_of m k"

definition sm_store :: "'k \<Rightarrow> 'v \<Rightarrow> ('k, 'v) gomap \<Rightarrow> ('k, 'v) gomap" where
  "sm_store k v m = AList.update k v m"

definition sm_delete :: "'k \<Rightarrow> ('k, 'v) gomap \<Rightarrow> ('k, 'v) gomap" where
  "sm_delete k m = AList.delete k m"

definition sm_keys :: "('k, 'v) gomap \<Rightarrow> 'k list" where
  "sm_keys m = map fst m"

definition sm_wf :: "('k, 'v) gomap \<Rightarrow> bool" where
  "sm_wf m = distinct (map fst m)"

text \<open>\<^verbatim>\<open>LoadOrStore\<close>: the value now in the map, whether it was there before, and the map.\<close>

definition sm_load_or_store :: "'k \<Rightarrow> 'v \<Rightarrow> ('k, 'v) gomap \<Rightarrow> 'v \<times> bool \<times> ('k, 'v) gomap" where
  "sm_load_or_store k v m = (case sm_load m k of
     Some v' \<Rightarrow> (v', True, m)
   | None \<Rightarrow> (v, False, sm_store k v m))"

text \<open>Reading a Go map at a missing key gives the zero value.\<close>

definition map_get :: "'v \<Rightarrow> ('k, 'v) gomap \<Rightarrow> 'k \<Rightarrow> 'v" where
  "map_get z m k = (case sm_load m k of None \<Rightarrow> z | Some v \<Rightarrow> v)"

locale kv_store =
  fixes load :: "'m \<Rightarrow> 'k \<Rightarrow> 'v option"
    and store :: "'k \<Rightarrow> 'v \<Rightarrow> 'm \<Rightarrow> 'm"
    and delete :: "'k \<Rightarrow> 'm \<Rightarrow> 'm"
    and keys :: "'m \<Rightarrow> 'k list"
    and wf :: "'m \<Rightarrow> bool"
    and empty_map :: "'m"
  assumes load_empty: "load empty_map k = None"
    and load_store: "load (store k v m) k' = (if k' = k then Some v else load m k')"
    and load_delete: "load (delete k m) k' = (if k' = k then None else load m k')"
    and keys_load: "k \<in> set (keys m) \<longleftrightarrow> load m k \<noteq> None"
    and wf_keys: "wf m \<Longrightarrow> distinct (keys m)"
    and wf_empty: "wf empty_map"
    and wf_store: "wf m \<Longrightarrow> wf (store k v m)"
    and wf_delete: "wf m \<Longrightarrow> wf (delete k m)"
begin

lemma load_store_same: "load (store k v m) k = Some v"
  by (simp add: load_store)

lemma load_store_other: "k' \<noteq> k \<Longrightarrow> load (store k v m) k' = load m k'"
  by (simp add: load_store)

lemma load_delete_same: "load (delete k m) k = None"
  by (simp add: load_delete)

lemma load_delete_other: "k' \<noteq> k \<Longrightarrow> load (delete k m) k' = load m k'"
  by (simp add: load_delete)

lemma set_keys: "set (keys m) = {k. load m k \<noteq> None}"
  using keys_load by blast

lemma set_keys_store: "set (keys (store k v m)) = insert k (set (keys m))"
  by (auto simp: set_keys load_store)

lemma set_keys_delete: "set (keys (delete k m)) = set (keys m) - {k}"
  by (auto simp: set_keys load_delete)

text \<open>Storing a list of entries in order: the last entry for a key wins.\<close>

lemma load_fold_store:
  "load (fold (\<lambda>x. store (f x) (g x)) xs m) k =
   (case map_of (rev (map (\<lambda>x. (f x, g x)) xs)) k of None \<Rightarrow> load m k | Some v \<Rightarrow> Some v)"
  by (induction xs arbitrary: m) (auto simp: load_store map_add_def split: option.splits)

lemma load_fold_delete:
  "load (fold (\<lambda>x. delete (f x)) xs m) k = (if k \<in> f ` set xs then None else load m k)"
  by (induction xs arbitrary: m) (auto simp: load_delete)

lemma wf_fold_store: "wf m \<Longrightarrow> wf (fold (\<lambda>x. store (f x) (g x)) xs m)"
  by (induction xs arbitrary: m) (auto intro: wf_store)

lemma wf_fold_delete: "wf m \<Longrightarrow> wf (fold (\<lambda>x. delete (f x)) xs m)"
  by (induction xs arbitrary: m) (auto intro: wf_delete)

lemma length_keys_store:
  "wf m \<Longrightarrow> length (keys (store k v m)) = (if load m k = None then Suc (length (keys m)) else length (keys m))"
  using wf_keys [of m] wf_keys [OF wf_store, of m k v] keys_load [of k m]
  by (auto simp: distinct_card [symmetric] set_keys_store card_insert_if insert_absorb)

end

interpretation sm: kv_store sm_load sm_store sm_delete sm_keys sm_wf "[]"
  by unfold_locales
    (auto simp: sm_load_def sm_store_def sm_delete_def sm_keys_def sm_wf_def update_conv'
      delete_conv' map_of_eq_None_iff domIff distinct_update distinct_delete dest: map_of_SomeD)

lemmas sm_facts [simp, gomap_simps] =
  sm.load_empty sm.load_store sm.load_delete sm.wf_empty sm.wf_store sm.wf_delete
  sm.set_keys_store sm.set_keys_delete

text \<open>What the list representation adds: lengths, and undoing a fresh or an overwriting store.\<close>

lemma sm_keys_length [simp]: "length (sm_keys m) = length m"
  by (simp add: sm_keys_def)

lemma length_store: "sm_wf m \<Longrightarrow>
    length (sm_store k v m) = (if sm_load m k = None then Suc (length m) else length m)"
  using sm.length_keys_store [of m k v] by simp

lemma length_delete_le: "length (sm_delete k m) \<le> length m"
  by (simp add: sm_delete_def AList.delete_eq)

lemma sm_store_nonempty [simp]: "sm_store k v m \<noteq> []"
  by (simp add: sm_store_def)

lemma delete_store_fresh: "sm_load m k = None \<Longrightarrow> sm_delete k (sm_store k v m) = m"
  by (induction m) (auto simp: sm_load_def sm_delete_def sm_store_def AList.delete_eq split: if_splits)

lemma store_store [simp]: "sm_store k v (sm_store k w m) = sm_store k v m"
  by (simp add: sm_store_def)

lemma store_same: "sm_load m k = Some v \<Longrightarrow> sm_store k v m = m"
  by (simp add: sm_load_def sm_store_def AList.update_triv)

lemma sm_load_in: "sm_wf m \<Longrightarrow> sm_load m k = Some v \<longleftrightarrow> (k, v) \<in> set m"
  by (simp add: sm_wf_def sm_load_def)

lemma sm_load_inD: "sm_load m k = Some v \<Longrightarrow> (k, v) \<in> set m"
  by (simp add: sm_load_def map_of_SomeD)

lemma sm_wf_Nil [simp]: "sm_wf []"
  by (simp add: sm_wf_def)

lemma sm_load_Nil [simp]: "sm_load [] k = None"
  by (simp add: sm_load_def)

lemma sm_load_Cons: "sm_load ((a, b) # m) k = (if k = a then Some b else sm_load m k)"
  by (simp add: sm_load_def)

lemma load_or_store_eq [gomap_simps]:
  "sm_load_or_store k v m = (case sm_load m k of Some w \<Rightarrow> (w, True, m) | None \<Rightarrow> (v, False, sm_store k v m))"
  by (simp add: sm_load_or_store_def)

lemma map_get_store [simp]: "map_get z (sm_store k v m) k' = (if k' = k then v else map_get z m k')"
  by (simp add: map_get_def)

lemma map_get_delete [simp]: "map_get z (sm_delete k m) k' = (if k' = k then z else map_get z m k')"
  by (simp add: map_get_def)

lemma sm_wf_filter: "sm_wf m \<Longrightarrow> sm_wf (filter P m)"
  by (simp add: sm_wf_def distinct_map_filter)

lemma sm_load_filter:
  "sm_wf m \<Longrightarrow> sm_load (filter P m) k =
     (case sm_load m k of None \<Rightarrow> None | Some v \<Rightarrow> if P (k, v) then Some v else None)"
  by (induction m)
    (auto simp: sm_load_def sm_wf_def map_of_eq_None_iff rev_image_eqI split: option.splits)

lemma sm_load_map_val:
  "sm_load (map (\<lambda>(k, v). (k, f k v)) m) k = map_option (f k) (sm_load m k)"
  by (induction m) (auto simp: sm_load_def)

lemma sm_wf_map_val: "sm_wf (map (\<lambda>(k, v). (k, f k v)) m) = sm_wf m"
  by (simp add: sm_wf_def comp_def case_prod_unfold)

end
