(* ===== verification/Machine.thy ===== *)
theory Machine
  imports Prelude
begin

text \<open>
  Components as machines: a step function that may panic, its run over a list of operations, and
  the interface of a machine with an invariant. A component that shows its steps safe gets the
  safety of every run, and of every prefix of a run, from the locale.
\<close>

fun run_ops :: "('s \<Rightarrow> 'o \<Rightarrow> 's option) \<Rightarrow> 's \<Rightarrow> 'o list \<Rightarrow> 's option" where
  "run_ops step s [] = Some s"
| "run_ops step s (x # xs) = (case step s x of None \<Rightarrow> None | Some s' \<Rightarrow> run_ops step s' xs)"

lemma run_ops_append:
  "run_ops step s (xs @ ys) = (case run_ops step s xs of None \<Rightarrow> None | Some s' \<Rightarrow> run_ops step s' ys)"
  by (induction xs arbitrary: s) (auto split: option.splits)

text \<open>A machine whose enabled steps keep an invariant; \<^term>\<open>None\<close> is a step that is not enabled.\<close>

locale inv_machine =
  fixes step :: "'s \<Rightarrow> 'o \<Rightarrow> 's option"
    and inv :: "'s \<Rightarrow> bool"
  assumes step_inv: "inv s \<Longrightarrow> step s x = Some s' \<Longrightarrow> inv s'"
begin

lemma run_inv: "inv s \<Longrightarrow> run_ops step s xs = Some s' \<Longrightarrow> inv s'"
  by (induction xs arbitrary: s) (auto split: option.splits dest: step_inv)

end

text \<open>A machine that never panics from a state of the invariant; it is an instance of the former.\<close>

locale safe_machine =
  fixes step :: "'s \<Rightarrow> 'o \<Rightarrow> 's option"
    and inv :: "'s \<Rightarrow> bool"
  assumes step_safe: "inv s \<Longrightarrow> \<exists>s'. step s x = Some s' \<and> inv s'"
begin

lemma run_safe: "inv s \<Longrightarrow> \<exists>s'. run_ops step s xs = Some s' \<and> inv s'"
proof (induction xs arbitrary: s)
  case Nil
  then show ?case by simp
next
  case (Cons x xs)
  from step_safe [OF Cons.prems] obtain s' where "step s x = Some s'" "inv s'" by blast
  with Cons.IH show ?case by simp
qed

lemma run_no_panic: "inv s \<Longrightarrow> run_ops step s xs \<noteq> None"
  using run_safe [of s xs] by auto

end

sublocale safe_machine \<subseteq> inv_machine step inv
proof unfold_locales
  fix s x s' assume "inv s" "step s x = Some s'"
  with step_safe [of s x] show "inv s'" by auto
qed

text \<open>A machine whose steps also keep a measured quantity from growing.\<close>

locale bounded_machine = safe_machine step inv
  for step :: "'s \<Rightarrow> 'o \<Rightarrow> 's option" and inv :: "'s \<Rightarrow> bool" +
  fixes bound :: "'s \<Rightarrow> bool"
  assumes step_bound: "inv s \<Longrightarrow> bound s \<Longrightarrow> step s x = Some s' \<Longrightarrow> bound s'"
begin

lemma run_bound: "inv s \<Longrightarrow> bound s \<Longrightarrow> run_ops step s xs = Some s' \<Longrightarrow> bound s'"
proof (induction xs arbitrary: s)
  case Nil
  then show ?case by simp
next
  case (Cons x xs)
  from step_safe [OF Cons.prems(1)] obtain t where t: "step s x = Some t" "inv t" by blast
  with Cons.prems step_bound have "bound t" by blast
  with t Cons show ?case by simp
qed

end

end
