(* ===== verification/Conn_Limiter.thy ===== *)
theory Conn_Limiter
  imports GoMap Machine
begin

text \<open>
  \<^verbatim>\<open>limiter/conn.go\<close>: the connection counter and the table of online addresses of each user. A table
  entry is a count (2 for each TCP connection, 1 for packet traffic) in realtime mode and the
  instant of the last connection otherwise; \<^verbatim>\<open>sync.Map\<close> holds both as \<^verbatim>\<open>any\<close>, so reading an entry at the
  wrong type is a panic, here \<^term>\<open>None\<close>. Each method is one atomic step, and reads the clock once.
\<close>

datatype online = OnCount int | OnSince int

type_synonym ip_map = "(string, online) gomap"

record conn_limiter =
  cl_realtime :: bool
  cl_ipLimit :: int
  cl_connLimit :: int
  cl_count :: "(string, int) gomap"
  cl_ip :: "(string, ip_map) gomap"

definition nonRealtimeOnlineTTL :: int where
  "nonRealtimeOnlineTTL = 5 * Minute"

definition NewConnLimiter :: "int \<Rightarrow> int \<Rightarrow> bool \<Rightarrow> conn_limiter" where
  "NewConnLimiter conn ip realtime =
     \<lparr>cl_realtime = realtime, cl_ipLimit = ip, cl_connLimit = conn, cl_count = [], cl_ip = []\<rparr>"

section \<open>AddConnCount\<close>

text \<open>The connection limit: \<^term>\<open>None\<close> when the method returns true at once.\<close>

definition count_conn :: "conn_limiter \<Rightarrow> string \<Rightarrow> bool \<Rightarrow> conn_limiter option" where
  "count_conn c user isTcp =
     (if cl_connLimit c \<noteq> 0 then
        (case sm_load (cl_count c) user of
           Some v \<Rightarrow>
             if v \<ge> cl_connLimit c then None
             else if isTcp then Some (c\<lparr>cl_count := sm_store user (v + 1) (cl_count c)\<rparr>)
             else Some c
         | None \<Rightarrow>
             if isTcp then Some (c\<lparr>cl_count := sm_store user 1 (cl_count c)\<rparr>) else Some c)
      else Some c)"

definition new_online :: "conn_limiter \<Rightarrow> int \<Rightarrow> bool \<Rightarrow> online" where
  "new_online c now isTcp =
     (if cl_realtime c then OnCount (if isTcp then 2 else 1) else OnSince now)"

text \<open>The loop that counts the addresses until the limit is reached.\<close>

fun range_reaches :: "int \<Rightarrow> int \<Rightarrow> 'a list \<Rightarrow> bool" where
  "range_reaches lim cn [] = False"
| "range_reaches lim cn (_ # xs) = (if cn + 1 \<ge> lim then True else range_reaches lim (cn + 1) xs)"

definition put_ips :: "conn_limiter \<Rightarrow> string \<Rightarrow> ip_map \<Rightarrow> conn_limiter" where
  "put_ips c user ips = c\<lparr>cl_ip := sm_store user ips (cl_ip c)\<rparr>"

definition track_ip ::
  "conn_limiter \<Rightarrow> int \<Rightarrow> string \<Rightarrow> string \<Rightarrow> bool \<Rightarrow> (bool \<times> conn_limiter) option" where
  "track_ip c now user ip isTcp =
     (case sm_load_or_store user (sm_store ip (new_online c now isTcp) []) (cl_ip c) of
        (ips, loaded, m) \<Rightarrow>
          if loaded then
            (case sm_load ips ip of
               Some entry \<Rightarrow>
                 if cl_realtime c then
                   (if isTcp then
                      (case entry of
                         OnCount n \<Rightarrow> Some (False, put_ips c user (sm_store ip (OnCount (n + 2)) ips))
                       | OnSince _ \<Rightarrow> panic)
                    else Some (False, c))
                 else Some (False, put_ips c user (sm_store ip (OnSince now) ips))
             | None \<Rightarrow>
                 if cl_ipLimit c > 0 \<and> range_reaches (cl_ipLimit c) 0 ips then Some (True, c)
                 else Some (False, put_ips c user (sm_store ip (new_online c now isTcp) ips)))
          else Some (False, c\<lparr>cl_ip := m\<rparr>))"

definition AddConnCount ::
  "conn_limiter \<Rightarrow> int \<Rightarrow> string \<Rightarrow> string \<Rightarrow> bool \<Rightarrow> (bool \<times> conn_limiter) option" where
  "AddConnCount c now user ip isTcp =
     (case count_conn c user isTcp of
        None \<Rightarrow> Some (True, c)
      | Some c' \<Rightarrow> track_ip c' now user ip isTcp)"

section \<open>DelConnCount and ClearOnlineIP\<close>

definition isSyncMapEmpty :: "('k, 'v) gomap \<Rightarrow> bool" where
  "isSyncMapEmpty m = (case m of [] \<Rightarrow> True | _ # _ \<Rightarrow> False)"

definition uncount_conn :: "conn_limiter \<Rightarrow> string \<Rightarrow> conn_limiter" where
  "uncount_conn c user =
     (if cl_connLimit c \<noteq> 0 then
        (case sm_load (cl_count c) user of
           Some v \<Rightarrow>
             if v = 1 then c\<lparr>cl_count := sm_delete user (cl_count c)\<rparr>
             else c\<lparr>cl_count := sm_store user (v - 1) (cl_count c)\<rparr>
         | None \<Rightarrow> c)
      else c)"

definition DelConnCount :: "conn_limiter \<Rightarrow> string \<Rightarrow> string \<Rightarrow> conn_limiter option" where
  "DelConnCount c user ip =
     (if \<not> cl_realtime c then Some c
      else
        let c' = uncount_conn c user in
        if cl_ipLimit c' = 0 then Some c'
        else (case sm_load (cl_ip c') user of
           None \<Rightarrow> Some c'
         | Some is \<Rightarrow>
             (case sm_load is ip of
                None \<Rightarrow> Some c'
              | Some (OnSince _) \<Rightarrow> panic
              | Some (OnCount n) \<Rightarrow>
                  let is' = (if n = 2 then sm_delete ip is else sm_store ip (OnCount (n - 2)) is)
                  in Some (if isSyncMapEmpty is' then c'\<lparr>cl_ip := sm_delete user (cl_ip c')\<rparr>
                           else put_ips c' user is'))))"

text \<open>The inner \<^verbatim>\<open>Range\<close>: the entries it visits, the map it deletes from, and \<^verbatim>\<open>notDel\<close>.\<close>

fun clear_user_ips :: "int \<Rightarrow> (string \<times> online) list \<Rightarrow> ip_map \<Rightarrow> bool \<Rightarrow> ip_map \<times> bool" where
  "clear_user_ips now [] m notDel = (m, notDel)"
| "clear_user_ips now ((ip, OnCount n) # rest) m notDel =
     (if n = 1 then clear_user_ips now rest (sm_delete ip m) notDel
      else clear_user_ips now rest m True)"
| "clear_user_ips now ((ip, OnSince t) # rest) m notDel =
     (if t < now - nonRealtimeOnlineTTL then clear_user_ips now rest (sm_delete ip m) notDel
      else clear_user_ips now rest m True)"

fun clear_users :: "int \<Rightarrow> (string \<times> ip_map) list \<Rightarrow> (string, ip_map) gomap \<Rightarrow> (string, ip_map) gomap" where
  "clear_users now [] m = m"
| "clear_users now ((u, ips) # rest) m =
     (case clear_user_ips now ips ips False of
        (ips', notDel) \<Rightarrow>
          clear_users now rest
            (if \<not> notDel \<or> isSyncMapEmpty ips' then sm_delete u m else sm_store u ips' m))"

definition ClearOnlineIP :: "int \<Rightarrow> conn_limiter \<Rightarrow> conn_limiter" where
  "ClearOnlineIP now c = c\<lparr>cl_ip := clear_users now (cl_ip c) (cl_ip c)\<rparr>"

text \<open>The limiter as a machine: the operations its callers perform, in any order.\<close>

datatype conn_op = AddOp int string string bool | DelOp string string | ClearOp int

fun conn_step :: "conn_limiter \<Rightarrow> conn_op \<Rightarrow> conn_limiter option" where
  "conn_step c (AddOp now user ip isTcp) = map_option snd (AddConnCount c now user ip isTcp)"
| "conn_step c (DelOp user ip) = DelConnCount c user ip"
| "conn_step c (ClearOp now) = Some (ClearOnlineIP now c)"

section \<open>The invariant\<close>

definition entry_ok :: "bool \<Rightarrow> online \<Rightarrow> bool" where
  "entry_ok realtime v = (case v of OnCount n \<Rightarrow> realtime \<and> (even n \<longrightarrow> 2 \<le> n) | OnSince _ \<Rightarrow> \<not> realtime)"

definition ips_ok :: "bool \<Rightarrow> ip_map \<Rightarrow> bool" where
  "ips_ok realtime ips \<longleftrightarrow> sm_wf ips \<and> ips \<noteq> [] \<and> (\<forall>i v. sm_load ips i = Some v \<longrightarrow> entry_ok realtime v)"

definition conn_inv :: "conn_limiter \<Rightarrow> bool" where
  "conn_inv c \<longleftrightarrow> sm_wf (cl_count c) \<and> sm_wf (cl_ip c) \<and>
     (\<forall>u v. sm_load (cl_count c) u = Some v \<longrightarrow> 1 \<le> v) \<and>
     (\<forall>u ips. sm_load (cl_ip c) u = Some ips \<longrightarrow> ips_ok (cl_realtime c) ips)"

text \<open>What the limiter promises: no user is above either limit.\<close>

definition within_limits :: "conn_limiter \<Rightarrow> bool" where
  "within_limits c \<longleftrightarrow>
     (0 < cl_connLimit c \<longrightarrow> (\<forall>u v. sm_load (cl_count c) u = Some v \<longrightarrow> v \<le> cl_connLimit c)) \<and>
     (0 < cl_ipLimit c \<longrightarrow> (\<forall>u ips. sm_load (cl_ip c) u = Some ips \<longrightarrow> int (length ips) \<le> cl_ipLimit c))"

definition keep_entry :: "int \<Rightarrow> online \<Rightarrow> bool" where
  "keep_entry now v = (case v of OnCount n \<Rightarrow> n \<noteq> 1 | OnSince t \<Rightarrow> \<not> t < now - nonRealtimeOnlineTTL)"

lemma range_reaches_iff:
  "range_reaches lim cn xs \<longleftrightarrow> xs \<noteq> [] \<and> lim \<le> cn + int (length xs)"
  by (induction xs arbitrary: cn) auto

lemma isSyncMapEmpty_iff [simp]: "isSyncMapEmpty m \<longleftrightarrow> m = []"
  by (cases m) (simp_all add: isSyncMapEmpty_def)

lemma keep_entry_simps [simp]:
  "keep_entry now (OnCount n) \<longleftrightarrow> n \<noteq> 1"
  "keep_entry now (OnSince t) \<longleftrightarrow> \<not> t < now - nonRealtimeOnlineTTL"
  by (simp_all add: keep_entry_def)

lemma clear_user_ips_eq:
  "clear_user_ips now r m b =
     (filter (\<lambda>(k, v). k \<notin> set (map fst (filter (\<lambda>x. \<not> keep_entry now (snd x)) r))) m,
      b \<or> (\<exists>x \<in> set r. keep_entry now (snd x)))"
  by (induction now r m b rule: clear_user_ips.induct)
    (auto simp: sm_delete_def AList.delete_eq intro!: filter_cong)

lemma clear_user_ips_all:
  assumes "sm_wf ips"
  shows "clear_user_ips now ips ips False =
     (filter (keep_entry now \<circ> snd) ips, filter (keep_entry now \<circ> snd) ips \<noteq> [])"
proof -
  let ?gone = "set (map fst (filter (\<lambda>x. \<not> keep_entry now (snd x)) ips))"
  have "(case x of (k, v) \<Rightarrow> k \<notin> ?gone) = (keep_entry now \<circ> snd) x" if "x \<in> set ips" for x
    using assms that by (cases x) (auto simp: sm_wf_def image_iff dest: eq_key_imp_eq_value)
  then have "filter (\<lambda>(k, v). k \<notin> ?gone) ips = filter (keep_entry now \<circ> snd) ips"
    by (intro filter_cong refl)
  then show ?thesis
    by (simp add: clear_user_ips_eq filter_empty_conv del: set_map)
qed

lemma load_clear_users:
  assumes "sm_wf r" and "\<forall>(u, ips) \<in> set r. sm_wf ips"
  shows "sm_load (clear_users now r m) u =
    (case sm_load r u of
       None \<Rightarrow> sm_load m u
     | Some ips \<Rightarrow> let f = filter (keep_entry now \<circ> snd) ips in if f = [] then None else Some f)"
  using assms
proof (induction r arbitrary: m)
  case Nil
  then show ?case by simp
next
  case (Cons p r)
  obtain w ips where p: "p = (w, ips)" by force
  with Cons.prems have *: "sm_wf r" "sm_wf ips" "sm_load r w = None" "\<forall>(u, ips) \<in> set r. sm_wf ips"
    by (auto simp: sm_wf_def sm_load_def map_of_eq_None_iff)
  show ?case
    using Cons.IH [OF *(1,4)] *(3)
    by (auto simp: p clear_user_ips_all [OF *(2)] sm_load_Cons Let_def split: option.splits)
qed

lemma sm_wf_clear_users: "sm_wf m \<Longrightarrow> sm_wf (clear_users now r m)"
  by (induction now r m rule: clear_users.induct) (auto split: prod.splits)

section \<open>Every operation keeps the invariant and the limits\<close>

lemma entry_ok_simps [simp]:
  "entry_ok rt (OnCount n) \<longleftrightarrow> rt \<and> (even n \<longrightarrow> 2 \<le> n)"
  "entry_ok rt (OnSince t) \<longleftrightarrow> \<not> rt"
  by (simp_all add: entry_ok_def)

lemma ips_ok_entry: "ips_ok rt ips \<Longrightarrow> sm_load ips i = Some v \<Longrightarrow> entry_ok rt v"
  by (simp add: ips_ok_def)

lemma conn_inv_ips: "conn_inv c \<Longrightarrow> sm_load (cl_ip c) u = Some ips \<Longrightarrow> ips_ok (cl_realtime c) ips"
  by (simp add: conn_inv_def)

lemma within_limits_ips:
  "within_limits c \<Longrightarrow> 0 < cl_ipLimit c \<Longrightarrow> sm_load (cl_ip c) u = Some ips \<Longrightarrow> int (length ips) \<le> cl_ipLimit c"
  by (simp add: within_limits_def)

lemma ips_ok_store: "ips_ok rt ips \<Longrightarrow> entry_ok rt v \<Longrightarrow> ips_ok rt (sm_store i v ips)"
  by (auto simp: ips_ok_def)

lemma ips_ok_single: "entry_ok rt v \<Longrightarrow> ips_ok rt (sm_store i v [])"
  by (auto simp: ips_ok_def)

lemma entry_ok_new [simp]: "entry_ok (cl_realtime c) (new_online c now isTcp)"
  by (simp add: new_online_def)

lemma ips_ok_delete: "ips_ok rt ips \<Longrightarrow> sm_delete i ips \<noteq> [] \<Longrightarrow> ips_ok rt (sm_delete i ips)"
  by (auto simp: ips_ok_def)

lemma conn_inv_put: "conn_inv c \<Longrightarrow> ips_ok (cl_realtime c) ips \<Longrightarrow> conn_inv (put_ips c u ips)"
  by (auto simp: conn_inv_def put_ips_def)

lemma conn_inv_new [simp]: "conn_inv (NewConnLimiter conn ip rt)"
  by (simp add: conn_inv_def NewConnLimiter_def)

lemma within_limits_new [simp]: "within_limits (NewConnLimiter conn ip rt)"
  by (simp add: within_limits_def NewConnLimiter_def)

lemma put_ips_simps [simp]:
  "cl_realtime (put_ips c u ips) = cl_realtime c" "cl_ipLimit (put_ips c u ips) = cl_ipLimit c"
  "cl_connLimit (put_ips c u ips) = cl_connLimit c" "cl_count (put_ips c u ips) = cl_count c"
  "cl_ip (put_ips c u ips) = sm_store u ips (cl_ip c)"
  by (simp_all add: put_ips_def)

lemma within_limits_put:
  "within_limits c \<Longrightarrow> (0 < cl_ipLimit c \<Longrightarrow> int (length ips) \<le> cl_ipLimit c) \<Longrightarrow> within_limits (put_ips c u ips)"
  by (auto simp: within_limits_def)

lemma count_conn_frame:
  "count_conn c u t = Some c' \<Longrightarrow> cl_ip c' = cl_ip c \<and> cl_realtime c' = cl_realtime c \<and>
     cl_ipLimit c' = cl_ipLimit c \<and> cl_connLimit c' = cl_connLimit c"
  by (auto simp: count_conn_def split: if_splits option.splits)

lemma count_conn_inv: "conn_inv c \<Longrightarrow> count_conn c u t = Some c' \<Longrightarrow> conn_inv c'"
  by (fastforce simp: count_conn_def conn_inv_def split: if_splits option.splits)

lemma count_conn_limits: "within_limits c \<Longrightarrow> count_conn c u t = Some c' \<Longrightarrow> within_limits c'"
  by (auto simp: count_conn_def within_limits_def split: if_splits option.splits)

lemma track_ip_safe:
  assumes "conn_inv c"
  shows "\<exists>r c'. track_ip c now u ip t = Some (r, c') \<and> conn_inv c'"
proof (cases "sm_load (cl_ip c) u")
  case None
  with assms show ?thesis
    by (auto simp: track_ip_def load_or_store_eq conn_inv_def ips_ok_single)
next
  case (Some ips)
  note ok = conn_inv_ips [OF assms Some]
  note put = conn_inv_put [OF assms ips_ok_store [OF ok]]
  show ?thesis
  proof (cases "sm_load ips ip")
    case None
    with assms Some put show ?thesis by (auto simp: track_ip_def load_or_store_eq)
  next
    case (Some v)
    with ok have "entry_ok (cl_realtime c) v" by (rule ips_ok_entry)
    with assms \<open>sm_load (cl_ip c) u = Some ips\<close> Some put show ?thesis
      by (cases v) (auto simp: track_ip_def load_or_store_eq)
  qed
qed

lemma AddConnCount_safe:
  "conn_inv c \<Longrightarrow> \<exists>r c'. AddConnCount c now u ip t = Some (r, c') \<and> conn_inv c'"
  using track_ip_safe count_conn_inv
  by (cases "count_conn c u t") (auto simp: AddConnCount_def)

lemma length_store_bound:
  "ips_ok rt ips \<Longrightarrow> sm_load ips i \<noteq> None \<or> \<not> range_reaches lim 0 ips \<Longrightarrow> int (length ips) \<le> lim \<Longrightarrow>
    int (length (sm_store i v ips)) \<le> lim"
  by (auto simp: ips_ok_def length_store range_reaches_iff)

lemma track_ip_limits:
  assumes "conn_inv c" "within_limits c" "track_ip c now u ip t = Some (r, c')"
  shows "within_limits c'"
proof (cases "sm_load (cl_ip c) u")
  case None
  have "int (length (sm_store ip v [])) \<le> lim" if "0 < lim" for v :: online and lim
    using that by (simp add: sm_store_def)
  then have "within_limits (put_ips c u (sm_store ip v []))" for v
    using assms(2) by (intro within_limits_put) simp_all
  with assms(3) None show ?thesis
    by (auto simp: track_ip_def load_or_store_eq put_ips_def)
next
  case (Some ips)
  have "within_limits (put_ips c u (sm_store ip v ips))"
    if "sm_load ips ip \<noteq> None \<or> \<not> (0 < cl_ipLimit c \<and> range_reaches (cl_ipLimit c) 0 ips)" for v
    using that assms(2) length_store_bound [OF conn_inv_ips [OF assms(1) Some]] within_limits_ips [OF assms(2) _ Some]
    by (intro within_limits_put) auto
  with assms Some show ?thesis
    by (auto simp: track_ip_def load_or_store_eq split: option.splits online.splits if_splits)
qed

lemma AddConnCount_limits:
  "conn_inv c \<Longrightarrow> within_limits c \<Longrightarrow> AddConnCount c now u ip t = Some (r, c') \<Longrightarrow> within_limits c'"
  by (auto simp: AddConnCount_def split: option.splits
      dest: track_ip_limits count_conn_inv count_conn_limits)

lemma uncount_conn_frame [simp]:
  "cl_ip (uncount_conn c u) = cl_ip c" "cl_realtime (uncount_conn c u) = cl_realtime c"
  "cl_ipLimit (uncount_conn c u) = cl_ipLimit c" "cl_connLimit (uncount_conn c u) = cl_connLimit c"
  by (simp_all add: uncount_conn_def split: option.splits)

lemma uncount_conn_inv: "conn_inv c \<Longrightarrow> conn_inv (uncount_conn c u)"
  by (fastforce simp: uncount_conn_def conn_inv_def split: option.splits)

lemma uncount_conn_limits: "within_limits c \<Longrightarrow> within_limits (uncount_conn c u)"
  by (fastforce simp: uncount_conn_def within_limits_def split: option.splits)

lemma even_above_two: "even (n::int) \<Longrightarrow> 2 \<le> n \<Longrightarrow> n \<noteq> 2 \<Longrightarrow> 4 \<le> n"
  by presburger

lemma conn_inv_drop: "conn_inv c \<Longrightarrow> conn_inv (c\<lparr>cl_ip := sm_delete u (cl_ip c)\<rparr>)"
  by (simp add: conn_inv_def)

lemma within_limits_drop: "within_limits c \<Longrightarrow> within_limits (c\<lparr>cl_ip := sm_delete u (cl_ip c)\<rparr>)"
  by (simp add: within_limits_def)

lemma DelConnCount_safe:
  assumes "conn_inv c"
  shows "\<exists>c'. DelConnCount c u ip = Some c' \<and> conn_inv c'"
proof (cases "sm_load (cl_ip c) u")
  case None
  with assms show ?thesis by (simp add: DelConnCount_def Let_def uncount_conn_inv)
next
  case (Some ips)
  let ?c = "uncount_conn c u"
  from assms have inv: "conn_inv ?c" by (rule uncount_conn_inv)
  note ok = conn_inv_ips [OF assms Some]
  show ?thesis
  proof (cases "sm_load ips ip")
    case None
    with assms Some inv show ?thesis by (simp add: DelConnCount_def Let_def)
  next
    case (Some v)
    with ok have v: "entry_ok (cl_realtime c) v" by (rule ips_ok_entry)
    have "conn_inv (put_ips ?c u (sm_store ip (OnCount (n - 2)) ips))" if "v = OnCount n" "n \<noteq> 2" for n
      using that v ok by (intro conn_inv_put [OF inv] ips_ok_store) (auto dest: even_above_two)
    moreover have "conn_inv (put_ips ?c u (sm_delete ip ips))" if "sm_delete ip ips \<noteq> []"
      using that ok by (intro conn_inv_put [OF inv] ips_ok_delete) simp_all
    ultimately show ?thesis
      using assms inv Some \<open>sm_load (cl_ip c) u = Some ips\<close> v conn_inv_drop [OF inv, of u]
      by (cases v) (simp_all add: DelConnCount_def Let_def)
  qed
qed

lemma DelConnCount_limits:
  assumes "conn_inv c" "within_limits c" "DelConnCount c u ip = Some c'"
  shows "within_limits c'"
proof (cases "sm_load (cl_ip c) u")
  case None
  with assms show ?thesis by (auto simp: DelConnCount_def Let_def uncount_conn_limits split: if_splits)
next
  case (Some ips)
  let ?c = "uncount_conn c u"
  from assms(2) have lim: "within_limits ?c" by (rule uncount_conn_limits)
  note ok = conn_inv_ips [OF assms(1) Some]
  note len = within_limits_ips [OF assms(2) _ Some]
  have "within_limits (put_ips ?c u (sm_store ip v ips))" if "sm_load ips ip \<noteq> None" for v
    using that length_store_bound [OF ok] len by (intro within_limits_put [OF lim]) simp
  moreover have "within_limits (put_ips ?c u (sm_delete ip ips))"
    using length_delete_le [of ip ips] len by (intro within_limits_put [OF lim]) fastforce
  ultimately show ?thesis
    using assms(2,3) Some lim within_limits_drop [OF lim, of u]
    by (auto simp: DelConnCount_def Let_def split: option.splits online.splits if_splits)
qed

lemma conn_inv_ips_wf: "conn_inv c \<Longrightarrow> \<forall>(u, ips) \<in> set (cl_ip c). sm_wf ips"
  by (auto simp: conn_inv_def ips_ok_def sm_load_in)

lemma load_ClearOnlineIP:
  assumes "conn_inv c"
  shows "sm_load (cl_ip (ClearOnlineIP now c)) u =
    (case sm_load (cl_ip c) u of
       None \<Rightarrow> None
     | Some ips \<Rightarrow> let f = filter (keep_entry now \<circ> snd) ips in if f = [] then None else Some f)"
  using assms load_clear_users [OF _ conn_inv_ips_wf [OF assms]]
  by (auto simp: ClearOnlineIP_def conn_inv_def split: option.splits)

lemma ips_ok_filter: "ips_ok rt ips \<Longrightarrow> filter P ips \<noteq> [] \<Longrightarrow> ips_ok rt (filter P ips)"
  by (auto simp: ips_ok_def sm_wf_filter sm_load_filter split: option.splits if_splits)

lemma ClearOnlineIP_inv: "conn_inv c \<Longrightarrow> conn_inv (ClearOnlineIP now c)"
proof -
  assume c: "conn_inv c"
  then have "ips_ok (cl_realtime c) ips" if "sm_load (cl_ip (ClearOnlineIP now c)) u = Some ips" for u ips
    using that load_ClearOnlineIP [OF c]
    by (auto simp: Let_def conn_inv_def intro!: ips_ok_filter split: option.splits if_splits)
  moreover have "sm_wf (cl_ip (ClearOnlineIP now c))"
    using c by (simp add: ClearOnlineIP_def conn_inv_def sm_wf_clear_users)
  ultimately show ?thesis using c
    by (simp add: conn_inv_def) (simp add: ClearOnlineIP_def)
qed

lemma ClearOnlineIP_limits: "conn_inv c \<Longrightarrow> within_limits c \<Longrightarrow> within_limits (ClearOnlineIP now c)"
proof -
  assume c: "conn_inv c" "within_limits c"
  have "int (length f) \<le> cl_ipLimit c"
    if "0 < cl_ipLimit c" "sm_load (cl_ip (ClearOnlineIP now c)) u = Some f" for u f
  proof -
    from that(2) load_ClearOnlineIP [OF c(1)] obtain ips
      where "sm_load (cl_ip c) u = Some ips" and "f = filter (keep_entry now \<circ> snd) ips"
      by (auto simp: Let_def split: option.splits if_splits)
    then have "int (length f) \<le> int (length ips)" "int (length ips) \<le> cl_ipLimit c"
      using within_limits_ips [OF c(2) that(1)] by auto
    then show ?thesis by (rule order_trans)
  qed
  with c(2) show ?thesis
    by (simp add: within_limits_def) (simp add: ClearOnlineIP_def)
qed

interpretation conn: bounded_machine conn_step conn_inv within_limits
proof unfold_locales
  fix c x assume c: "conn_inv c"
  then show "\<exists>c'. conn_step c x = Some c' \<and> conn_inv c'"
    using AddConnCount_safe DelConnCount_safe ClearOnlineIP_inv by (cases x) fastforce+
next
  fix c x c' assume "conn_inv c" "within_limits c" "conn_step c x = Some c'"
  then show "within_limits c'"
    by (cases x) (auto dest: AddConnCount_limits DelConnCount_limits ClearOnlineIP_limits)
qed

end
