(* ===== verification/Conn_Ledger.thy ===== *)
theory Conn_Ledger
  imports Conn_Limiter
begin

text \<open>
  What \<^verbatim>\<open>limiter/conn.go\<close> promises. An abstract ledger records the open TCP connections and the
  connection slots that were taken by a rejected request; the limiter's two tables refine it.
  The properties of the connection limiter are stated here.
\<close>

record conn_ledger =
  lg_c :: conn_limiter
  lg_open :: "(string \<times> string) list"
  lg_leak :: "string list"

text \<open>
  The callers' discipline: \<^const>\<open>DelConnCount\<close> is called once for each accepted TCP connection,
  when it ends. A rejected request never reaches the call.
\<close>

fun ledger_step :: "conn_ledger \<Rightarrow> conn_op \<Rightarrow> conn_ledger option" where
  "ledger_step g (AddOp now u ip t) =
     (case AddConnCount (lg_c g) now u ip t of
        None \<Rightarrow> None
      | Some (rejected, c') \<Rightarrow> Some
          \<lparr>lg_c = c',
           lg_open = (if t \<and> \<not> rejected then (u, ip) # lg_open g else lg_open g),
           lg_leak = (if rejected \<and> cl_count c' \<noteq> cl_count (lg_c g) then u # lg_leak g else lg_leak g)\<rparr>)"
| "ledger_step g (DelOp u ip) =
     (if (u, ip) \<in> set (lg_open g) then
        (case DelConnCount (lg_c g) u ip of
           None \<Rightarrow> None
         | Some c' \<Rightarrow> Some (g\<lparr>lg_c := c', lg_open := remove1 (u, ip) (lg_open g)\<rparr>))
      else Some g)"
| "ledger_step g (ClearOp now) = Some (g\<lparr>lg_c := ClearOnlineIP now (lg_c g)\<rparr>)"

definition new_ledger :: "int \<Rightarrow> int \<Rightarrow> conn_ledger" where
  "new_ledger conn ip = \<lparr>lg_c = NewConnLimiter conn ip True, lg_open = [], lg_leak = []\<rparr>"

definition open_conns :: "conn_ledger \<Rightarrow> string \<Rightarrow> nat" where
  "open_conns g u = length (filter (\<lambda>p. fst p = u) (lg_open g))"

definition online_entry :: "conn_limiter \<Rightarrow> string \<Rightarrow> string \<Rightarrow> online option" where
  "online_entry c u ip = (case sm_load (cl_ip c) u of None \<Rightarrow> None | Some ips \<Rightarrow> sm_load ips ip)"

text \<open>An entry is twice the open connections, plus one when packet traffic was seen.\<close>

definition entry_matches :: "online option \<Rightarrow> nat \<Rightarrow> bool" where
  "entry_matches e k = (case e of
     None \<Rightarrow> k = 0
   | Some (OnCount n) \<Rightarrow> (n = 2 * int k \<and> 0 < k) \<or> n = 2 * int k + 1
   | Some (OnSince _) \<Rightarrow> False)"

definition counts_match :: "conn_ledger \<Rightarrow> bool" where
  "counts_match g \<longleftrightarrow> (cl_connLimit (lg_c g) \<noteq> 0 \<longrightarrow>
     (\<forall>u. map_get 0 (cl_count (lg_c g)) u = int (open_conns g u + count_list (lg_leak g) u)))"

definition ips_match :: "conn_ledger \<Rightarrow> bool" where
  "ips_match g \<longleftrightarrow> (cl_ipLimit (lg_c g) \<noteq> 0 \<longrightarrow>
     (\<forall>u ip. entry_matches (online_entry (lg_c g) u ip) (count_list (lg_open g) (u, ip))))"

definition ledger_inv :: "conn_ledger \<Rightarrow> bool" where
  "ledger_inv g \<longleftrightarrow> conn_inv (lg_c g) \<and> cl_realtime (lg_c g) \<and> counts_match g \<and> ips_match g"

section \<open>What the steps do to the two tables\<close>

lemma count_conn_count:
  assumes "count_conn c u t = Some c'"
  shows "map_get 0 (cl_count c') w =
    (if w = u \<and> t \<and> cl_connLimit c \<noteq> 0 then map_get 0 (cl_count c) w + 1 else map_get 0 (cl_count c) w)"
  using assms by (auto simp: count_conn_def map_get_def split: if_splits option.splits)

lemma count_conn_changes:
  assumes "count_conn c u t = Some c'"
  shows "cl_count c' \<noteq> cl_count c \<longleftrightarrow> t \<and> cl_connLimit c \<noteq> 0"
proof
  assume "cl_count c' \<noteq> cl_count c"
  with assms show "t \<and> cl_connLimit c \<noteq> 0"
    by (auto simp: count_conn_def split: if_splits option.splits)
next
  assume "t \<and> cl_connLimit c \<noteq> 0"
  with count_conn_count [OF assms, of u] have "map_get 0 (cl_count c') u \<noteq> map_get 0 (cl_count c) u"
    by simp
  then show "cl_count c' \<noteq> cl_count c" by auto
qed

lemma track_ip_frame:
  "track_ip c now u ip t = Some (r, c') \<Longrightarrow>
     cl_count c' = cl_count c \<and> cl_realtime c' = cl_realtime c \<and>
     cl_connLimit c' = cl_connLimit c \<and> cl_ipLimit c' = cl_ipLimit c"
  by (auto simp: track_ip_def load_or_store_eq split: option.splits online.splits if_splits)

lemma AddConnCount_config:
  "AddConnCount c now u ip t = Some (r, c') \<Longrightarrow>
     cl_realtime c' = cl_realtime c \<and> cl_connLimit c' = cl_connLimit c \<and> cl_ipLimit c' = cl_ipLimit c"
  by (auto simp: AddConnCount_def split: option.splits dest!: track_ip_frame count_conn_frame)

lemma DelConnCount_config:
  "DelConnCount c u ip = Some c' \<Longrightarrow>
     cl_realtime c' = cl_realtime c \<and> cl_connLimit c' = cl_connLimit c \<and> cl_ipLimit c' = cl_ipLimit c"
  by (auto simp: DelConnCount_def Let_def split: option.splits online.splits if_splits)

lemma ClearOnlineIP_config [simp]:
  "cl_realtime (ClearOnlineIP now c) = cl_realtime c" "cl_connLimit (ClearOnlineIP now c) = cl_connLimit c"
  "cl_ipLimit (ClearOnlineIP now c) = cl_ipLimit c" "cl_count (ClearOnlineIP now c) = cl_count c"
  by (simp_all add: ClearOnlineIP_def)

lemma conn_step_config:
  "conn_step c x = Some c' \<Longrightarrow>
     cl_realtime c' = cl_realtime c \<and> cl_connLimit c' = cl_connLimit c \<and> cl_ipLimit c' = cl_ipLimit c"
  by (cases x) (auto dest: AddConnCount_config DelConnCount_config)

lemma conn_run_config:
  "run_ops conn_step c ops = Some c' \<Longrightarrow>
     cl_realtime c' = cl_realtime c \<and> cl_connLimit c' = cl_connLimit c \<and> cl_ipLimit c' = cl_ipLimit c"
  by (induction ops arbitrary: c) (auto split: option.splits dest!: conn_step_config)

lemma AddConnCount_cases:
  assumes "AddConnCount c now u ip t = Some (r, c')"
  obtains (limit) "count_conn c u t = None" "r" "c' = c"
    | (track) d where "count_conn c u t = Some d" "track_ip d now u ip t = Some (r, c')"
  using assms by (auto simp: AddConnCount_def split: option.splits)

lemma AddConnCount_counts:
  assumes "AddConnCount c now u ip t = Some (r, c')"
  shows "map_get 0 (cl_count c') w = map_get 0 (cl_count c) w +
    (if w = u \<and> cl_count c' \<noteq> cl_count c then 1 else 0)"
  using assms
proof (cases rule: AddConnCount_cases)
  case (track d)
  then show ?thesis
    using track_ip_frame [OF track(2)] count_conn_count [OF track(1)] count_conn_changes [OF track(1)]
    by auto
qed simp

lemma AddConnCount_accepted:
  assumes "AddConnCount c now u ip t = Some (False, c')"
  shows "cl_count c' \<noteq> cl_count c \<longleftrightarrow> t \<and> cl_connLimit c \<noteq> 0"
  using assms
proof (cases rule: AddConnCount_cases)
  case (track d)
  then show ?thesis
    using track_ip_frame [OF track(2)] count_conn_changes [OF track(1)] by simp
qed simp

lemma online_entry_put [simp]:
  "online_entry (put_ips c u ips) w j = (if w = u then sm_load ips j else online_entry c w j)"
  by (simp add: online_entry_def)

lemma online_entry_count [simp]: "online_entry (c\<lparr>cl_count := m\<rparr>) = online_entry c"
  by (simp add: online_entry_def fun_eq_iff)

lemma online_entry_count_conn:
  "count_conn c u t = Some d \<Longrightarrow> online_entry d = online_entry c"
  by (auto simp: online_entry_def fun_eq_iff dest!: count_conn_frame)

lemma online_entry_uncount [simp]: "online_entry (uncount_conn c u) = online_entry c"
  by (simp add: online_entry_def fun_eq_iff)

definition bumped :: "bool \<Rightarrow> online option \<Rightarrow> online option" where
  "bumped t e = (case e of
     None \<Rightarrow> Some (OnCount (if t then 2 else 1))
   | Some (OnCount n) \<Rightarrow> Some (OnCount (if t then n + 2 else n))
   | Some (OnSince s) \<Rightarrow> Some (OnSince s))"

lemma track_ip_entry:
  assumes "conn_inv c" "cl_realtime c" "track_ip c now u ip t = Some (r, c')"
  shows "online_entry c' w j =
    (if w = u \<and> j = ip \<and> \<not> r then bumped t (online_entry c w j) else online_entry c w j)"
proof (cases "sm_load (cl_ip c) u")
  case None
  with assms show ?thesis
    by (auto simp: track_ip_def load_or_store_eq online_entry_def bumped_def new_online_def)
next
  case (Some ips)
  note ok = conn_inv_ips [OF assms(1) Some]
  show ?thesis
  proof (cases "sm_load ips ip")
    case None
    with assms Some show ?thesis
      by (auto simp: track_ip_def load_or_store_eq online_entry_def bumped_def new_online_def split: if_splits)
  next
    case (Some v)
    with ok assms(2) obtain n where "v = OnCount n" using ips_ok_entry by (cases v) fastforce+
    with assms Some \<open>sm_load (cl_ip c) u = Some ips\<close> show ?thesis
      by (auto simp: track_ip_def load_or_store_eq online_entry_def bumped_def split: if_splits)
  qed
qed

lemma AddConnCount_entry:
  assumes "conn_inv c" "cl_realtime c" "AddConnCount c now u ip t = Some (r, c')"
  shows "online_entry c' w j =
    (if w = u \<and> j = ip \<and> \<not> r then bumped t (online_entry c w j) else online_entry c w j)"
  using assms(3)
proof (cases rule: AddConnCount_cases)
  case (track d)
  then show ?thesis
    using track_ip_entry [OF count_conn_inv [OF assms(1) track(1)] _ track(2)]
      count_conn_frame [OF track(1)] online_entry_count_conn [OF track(1)] assms(2) by simp
qed simp

definition dropped :: "online option \<Rightarrow> online option" where
  "dropped e = (case e of
     Some (OnCount n) \<Rightarrow> if n = 2 then None else Some (OnCount (n - 2))
   | _ \<Rightarrow> e)"

lemma DelConnCount_entry:
  assumes "conn_inv c" "cl_realtime c" "cl_ipLimit c \<noteq> 0" "DelConnCount c u ip = Some c'"
  shows "online_entry c' w j = (if w = u \<and> j = ip then dropped (online_entry c w j) else online_entry c w j)"
proof (cases "sm_load (cl_ip c) u")
  case None
  with assms show ?thesis
    by (auto simp: DelConnCount_def Let_def online_entry_def dropped_def)
next
  case (Some ips)
  note ok = conn_inv_ips [OF assms(1) Some]
  have gone: "sm_load ips j = None" if "sm_delete ip ips = []" "j \<noteq> ip" for j
    using sm.load_delete_other [OF that(2), of ips] that(1) by simp
  show ?thesis
  proof (cases "sm_load ips ip")
    case None
    with assms Some show ?thesis by (auto simp: DelConnCount_def Let_def online_entry_def dropped_def)
  next
    case (Some v)
    with ok assms(2) obtain n where "v = OnCount n" using ips_ok_entry by (cases v) fastforce+
    with assms Some \<open>sm_load (cl_ip c) u = Some ips\<close> gone show ?thesis
      by (auto simp: DelConnCount_def Let_def online_entry_def dropped_def split: if_splits option.splits)
  qed
qed

lemma DelConnCount_count:
  assumes "conn_inv c" "cl_realtime c" "cl_connLimit c \<noteq> 0" "DelConnCount c u ip = Some c'"
  shows "map_get 0 (cl_count c') w = (if w = u then max 0 (map_get 0 (cl_count c) w - 1) else map_get 0 (cl_count c) w)"
proof -
  have "cl_count c' = cl_count (uncount_conn c u)"
    using assms(2,4) by (auto simp: DelConnCount_def Let_def split: option.splits online.splits if_splits)
  moreover have "1 \<le> v" if "sm_load (cl_count c) u = Some v" for v
    using assms(1) that by (auto simp: conn_inv_def)
  ultimately show ?thesis
    using assms(3) by (auto simp: uncount_conn_def map_get_def split: option.splits if_splits)
qed

lemma ClearOnlineIP_entry:
  assumes "conn_inv c"
  shows "online_entry (ClearOnlineIP now c) w j =
    (case online_entry c w j of None \<Rightarrow> None | Some v \<Rightarrow> if keep_entry now v then Some v else None)"
proof (cases "sm_load (cl_ip c) w")
  case None
  with assms show ?thesis by (simp add: online_entry_def load_ClearOnlineIP)
next
  case (Some ips)
  then have wf: "sm_wf ips" using conn_inv_ips [OF assms] by (simp add: ips_ok_def)
  have *: "sm_load (filter (keep_entry now \<circ> snd) ips) j =
      (case sm_load ips j of None \<Rightarrow> None | Some v \<Rightarrow> if keep_entry now v then Some v else None)"
    using sm_load_filter [OF wf, of "keep_entry now \<circ> snd" j] by (simp cong: option.case_cong)
  show ?thesis
    using Some * by (simp add: online_entry_def load_ClearOnlineIP [OF assms] Let_def)
      (metis sm_load_Nil)
qed

section \<open>The ledger's invariant\<close>

lemma count_list_filter_le: "count_list xs (u, ip) \<le> length (filter (\<lambda>p. fst p = u) xs)"
  by (induction xs) auto

lemma open_conns_remove:
  "(u, ip) \<in> set xs \<Longrightarrow>
     length (filter (\<lambda>p. fst p = w) (remove1 (u, ip) xs)) =
       length (filter (\<lambda>p. fst p = w) xs) - (if w = u then 1 else 0)"
  by (auto simp: filter_remove1 length_remove1)

lemma count_list_remove1:
  "count_list (remove1 x xs) y = count_list xs y - (if y = x then 1 else 0)"
proof (cases "x \<in> set xs")
  case True
  then obtain as bs where "xs = as @ x # bs" "x \<notin> set as" by (meson split_list_first)
  then show ?thesis by (auto simp: remove1_append)
next
  case False
  then show ?thesis by (simp add: remove1_idem)
qed

lemma entry_bumped:
  "entry_matches e k \<Longrightarrow> entry_matches (bumped t e) (if t then Suc k else k)"
  by (auto simp: entry_matches_def bumped_def split: option.splits online.splits)

lemma entry_dropped:
  "entry_matches e k \<Longrightarrow> 0 < k \<Longrightarrow> entry_matches (dropped e) (k - 1)"
  by (auto simp: entry_matches_def dropped_def split: option.splits online.splits)

lemma entry_cleared:
  "entry_matches e k \<Longrightarrow>
     entry_matches (case e of None \<Rightarrow> None | Some v \<Rightarrow> if keep_entry now v then Some v else None) k"
  by (auto simp: entry_matches_def split: option.splits online.splits)

lemma open_conns_pos: "(u, ip) \<in> set (lg_open g) \<Longrightarrow> 0 < open_conns g u"
  by (force simp: open_conns_def filter_empty_conv)

lemma ledger_add:
  assumes g: "ledger_inv g" and add: "AddConnCount (lg_c g) now u ip t = Some (r, c')"
    and inv: "conn_inv c'" and g': "ledger_step g (AddOp now u ip t) = Some g'"
  shows "ledger_inv g'"
proof -
  note cfg = AddConnCount_config [OF add] and counts = AddConnCount_counts [OF add]
  have acc: "cl_count c' \<noteq> cl_count (lg_c g) \<longleftrightarrow> t" if "\<not> r" "cl_connLimit (lg_c g) \<noteq> 0"
    using AddConnCount_accepted [of "lg_c g" now u ip t c'] add that by simp
  have "counts_match g'"
    using g g' cfg counts acc
    by (auto simp: add ledger_inv_def counts_match_def open_conns_def)
  moreover have "ips_match g'"
    unfolding ips_match_def
  proof (intro impI allI)
    fix w j assume "cl_ipLimit (lg_c g') \<noteq> 0"
    with g g' cfg have "entry_matches (online_entry (lg_c g) w j) (count_list (lg_open g) (w, j))"
      and rt: "cl_realtime (lg_c g)" and ci: "conn_inv (lg_c g)"
      by (auto simp: add ledger_inv_def ips_match_def)
    then show "entry_matches (online_entry (lg_c g') w j) (count_list (lg_open g') (w, j))"
      using g' AddConnCount_entry [OF ci rt add, of w j]
        entry_bumped [of "online_entry (lg_c g) w j" "count_list (lg_open g) (w, j)" t]
      by (auto simp: add)
  qed
  ultimately show ?thesis
    using g g' cfg inv by (auto simp: add ledger_inv_def)
qed

lemma ledger_del:
  assumes g: "ledger_inv g" and mem: "(u, ip) \<in> set (lg_open g)"
    and del: "DelConnCount (lg_c g) u ip = Some c'" and inv: "conn_inv c'"
  shows "ledger_inv (g\<lparr>lg_c := c', lg_open := remove1 (u, ip) (lg_open g)\<rparr>)" (is "ledger_inv ?g")
proof -
  note cfg = DelConnCount_config [OF del]
  from g have ci: "conn_inv (lg_c g)" and rt: "cl_realtime (lg_c g)" by (simp_all add: ledger_inv_def)
  have pos: "0 < length (filter (\<lambda>p. fst p = u) (lg_open g))"
    using open_conns_pos [OF mem] by (simp add: open_conns_def)
  then have "max 0 (int (length (filter (\<lambda>p. fst p = u) (lg_open g))) + int n - 1) =
      int (length (filter (\<lambda>p. fst p = u) (lg_open g)) - Suc 0) + int n" for n
    by linarith
  with g cfg DelConnCount_count [OF ci rt _ del] have "counts_match ?g"
    by (auto simp: ledger_inv_def counts_match_def open_conns_def open_conns_remove [OF mem])
  moreover have "entry_matches (online_entry c' w j) (count_list (remove1 (u, ip) (lg_open g)) (w, j))"
    if "cl_ipLimit (lg_c g) \<noteq> 0" for w j
  proof -
    have "entry_matches (online_entry (lg_c g) w j) (count_list (lg_open g) (w, j))"
      using g that by (simp add: ledger_inv_def ips_match_def)
    moreover have "0 < count_list (lg_open g) (u, ip)"
      using mem by (metis count_list_0_iff gr0I)
    ultimately show ?thesis
      using DelConnCount_entry [OF ci rt that del, of w j]
        entry_dropped [of "online_entry (lg_c g) w j" "count_list (lg_open g) (w, j)"]
      by (auto simp: count_list_remove1)
  qed
  ultimately show ?thesis
    using g cfg inv by (auto simp: ledger_inv_def ips_match_def)
qed

lemma ledger_clear:
  assumes g: "ledger_inv g"
  shows "ledger_inv (g\<lparr>lg_c := ClearOnlineIP now (lg_c g)\<rparr>)"
proof -
  from g have ci: "conn_inv (lg_c g)" by (simp add: ledger_inv_def)
  then show ?thesis
    using g ClearOnlineIP_inv [OF ci, of now]
    by (auto simp: ledger_inv_def counts_match_def ips_match_def open_conns_def
        ClearOnlineIP_entry [OF ci] intro: entry_cleared)
qed

interpretation ledger: safe_machine ledger_step ledger_inv
proof unfold_locales
  fix g x assume g: "ledger_inv g"
  then have ci: "conn_inv (lg_c g)" by (simp add: ledger_inv_def)
  show "\<exists>g'. ledger_step g x = Some g' \<and> ledger_inv g'"
  proof (cases x)
    case (AddOp now u ip t)
    obtain r c' where add: "AddConnCount (lg_c g) now u ip t = Some (r, c')" "conn_inv c'"
      using AddConnCount_safe [OF ci] by blast
    then obtain g' where "ledger_step g x = Some g'" by (simp add: AddOp)
    with ledger_add [OF g add] show ?thesis by (auto simp: AddOp)
  next
    case (DelOp u ip)
    obtain c' where del: "DelConnCount (lg_c g) u ip = Some c'" "conn_inv c'"
      using DelConnCount_safe [OF ci] by blast
    with g ledger_del [OF g _ del] show ?thesis by (auto simp: DelOp)
  next
    case (ClearOp now)
    with g show ?thesis by (simp add: ledger_clear)
  qed
qed

lemma ledger_inv_new: "ledger_inv (new_ledger conn ip)"
  by (simp add: ledger_inv_def new_ledger_def counts_match_def ips_match_def open_conns_def
      online_entry_def entry_matches_def) (simp add: NewConnLimiter_def map_get_def)


lemma ledger_step_config:
  "ledger_step g x = Some g' \<Longrightarrow>
     cl_connLimit (lg_c g') = cl_connLimit (lg_c g) \<and> cl_ipLimit (lg_c g') = cl_ipLimit (lg_c g)"
  by (cases x) (auto dest: AddConnCount_config DelConnCount_config split: option.splits if_splits)

lemma ledger_run_config:
  "run_ops ledger_step g ops = Some g' \<Longrightarrow>
     cl_connLimit (lg_c g') = cl_connLimit (lg_c g) \<and> cl_ipLimit (lg_c g') = cl_ipLimit (lg_c g)"
  by (induction ops arbitrary: g) (auto split: option.splits dest!: ledger_step_config)

lemma AddConnCount_load:
  assumes "AddConnCount c now u ip True = Some (False, c')"
  shows "sm_load (cl_count c') w =
    (if w = u \<and> cl_connLimit c \<noteq> 0 then Some (map_get 0 (cl_count c) u + 1) else sm_load (cl_count c) w)"
  using assms
proof (cases rule: AddConnCount_cases)
  case (track d)
  then show ?thesis using track_ip_frame [OF track(2)]
    by (auto simp: count_conn_def map_get_def split: option.splits if_splits)
qed simp

lemma DelConnCount_load:
  assumes "cl_realtime c" "DelConnCount c u ip = Some c'"
  shows "sm_load (cl_count c') w =
    (if w = u \<and> cl_connLimit c \<noteq> 0 \<and> sm_load (cl_count c) u \<noteq> None then
       (if map_get 0 (cl_count c) u = 1 then None else Some (map_get 0 (cl_count c) u - 1))
     else sm_load (cl_count c) w)"
proof -
  have "cl_count c' = cl_count (uncount_conn c u)"
    using assms by (auto simp: DelConnCount_def Let_def split: option.splits online.splits if_splits)
  then show ?thesis by (auto simp: uncount_conn_def map_get_def split: option.splits)
qed

lemma nonrealtime_count_stuck:
  assumes "\<not> cl_realtime c" "0 < cl_connLimit c" "sm_load (cl_count c) u = Some v" "cl_connLimit c \<le> v"
    and "conn_step c x = Some c'"
  shows "sm_load (cl_count c') u = Some v"
  using assms
  by (cases x) (auto simp: AddConnCount_def DelConnCount_def count_conn_def split: option.splits if_splits
      dest!: track_ip_frame)

lemma online_entry_ok:
  "conn_inv c \<Longrightarrow> online_entry c w a = Some v \<Longrightarrow> entry_ok (cl_realtime c) v"
  by (auto simp: online_entry_def dest: conn_inv_ips ips_ok_entry split: option.splits)

section \<open>Properties of the connection limiter\<close>

text \<open>C25: Whatever calls reach a fresh limiter, in whatever order (a \<^const>\<open>DelConnCount\<close> for a
  connection that was never accepted included), no call panics: every entry has the type its mode
  reads. A user's connection count never exceeds a positive connection limit, and the addresses
  recorded for a user never exceed a positive address limit.\<close>

theorem conn_limiter_safe:
  "\<exists>c. run_ops conn_step (NewConnLimiter conn ip rt) ops = Some c \<and>
     (0 < conn \<longrightarrow> (\<forall>u v. sm_load (cl_count c) u = Some v \<longrightarrow> 1 \<le> v \<and> v \<le> conn)) \<and>
     (0 < ip \<longrightarrow> (\<forall>u ips. sm_load (cl_ip c) u = Some ips \<longrightarrow> distinct (sm_keys ips) \<and> int (length ips) \<le> ip))"
proof -
  obtain c where c: "run_ops conn_step (NewConnLimiter conn ip rt) ops = Some c" "conn_inv c"
    using conn.run_safe [OF conn_inv_new] by blast
  moreover have "within_limits c"
    using conn.run_bound [OF conn_inv_new within_limits_new c(1)] .
  moreover have "cl_connLimit c = conn" "cl_ipLimit c = ip"
    using conn_run_config [OF c(1)] by (simp_all add: NewConnLimiter_def)
  ultimately show ?thesis
    by (force simp: conn_inv_def within_limits_def ips_ok_def dest: sm.wf_keys)
qed

definition conn_demo_ops :: "conn_op list" where
  "conn_demo_ops = [AddOp 0 ''u'' ''1.1.1.1'' True, AddOp 0 ''u'' ''2.2.2.2'' True,
     AddOp 0 ''u'' ''1.1.1.1'' False, DelOp ''u'' ''1.1.1.1'']"

lemma conn_limiter_safe_witness:
  "\<exists>c. run_ops conn_step (NewConnLimiter 5 1 True) conn_demo_ops = Some c \<and>
     (\<forall>u v. sm_load (cl_count c) u = Some v \<longrightarrow> 1 \<le> v \<and> v \<le> 5)"
  using conn_limiter_safe [of 5 1 True conn_demo_ops] by auto



text \<open>An accepted TCP connection that ends gives everything back: from any state the limiter
  can reach, in realtime mode with an address limit set, accepting a TCP connection and then calling
  \<^const>\<open>DelConnCount\<close> for it restores both tables to what they were.\<close>

theorem add_then_del_restores:
  assumes "conn_inv c" "cl_realtime c" "cl_ipLimit c \<noteq> 0"
    and "AddConnCount c now u ip True = Some (False, c')"
  shows "\<exists>c''. DelConnCount c' u ip = Some c'' \<and>
     (\<forall>w. sm_load (cl_count c'') w = sm_load (cl_count c) w) \<and>
     (\<forall>w a. online_entry c'' w a = online_entry c w a)"
proof -
  note cfg = AddConnCount_config [OF assms(4)]
  have c': "conn_inv c'" using AddConnCount_safe [OF assms(1)] assms(4) by (metis option.inject prod.inject)
  then obtain c'' where c'': "DelConnCount c' u ip = Some c''" using DelConnCount_safe by blast
  have undo: "dropped (bumped True e) = e" if "\<And>v. e = Some v \<Longrightarrow> entry_ok True v" for e
    using that by (cases e rule: option.exhaust; cases "the e") (auto simp: bumped_def dropped_def)
  have "online_entry c'' w a = online_entry c w a" for w a
    using DelConnCount_entry [OF c' _ _ c'', of w a] AddConnCount_entry [OF assms(1,2,4), of w a]
      cfg assms(2,3) online_entry_ok [OF assms(1), of w a] undo [of "online_entry c w a"]
    by auto
  moreover have "1 \<le> v" if "sm_load (cl_count c) u = Some v" for v
    using assms(1) that by (auto simp: conn_inv_def)
  with cfg assms(2) have "sm_load (cl_count c'') w = sm_load (cl_count c) w" for w
    by (cases "sm_load (cl_count c) u")
      (auto simp: DelConnCount_load [OF _ c''] AddConnCount_load [OF assms(4)] map_get_def)
  ultimately show ?thesis using c'' by blast
qed

lemma add_then_del_restores_witness:
  "\<exists>c c' c''. AddConnCount c 0 ''u'' ''1.1.1.1'' True = Some (False, c') \<and> cl_count c' \<noteq> cl_count c \<and>
     DelConnCount c' ''u'' ''1.1.1.1'' = Some c'' \<and>
     (\<forall>w. sm_load (cl_count c'') w = sm_load (cl_count c) w)"
proof -
  let ?c = "the (run_ops conn_step (NewConnLimiter 5 2 True) [AddOp 0 ''u'' ''1.1.1.1'' False])"
  let ?c' = "snd (the (AddConnCount ?c 0 ''u'' ''1.1.1.1'' True))"
  have *: "cl_realtime ?c" "cl_ipLimit ?c \<noteq> 0" "cl_count ?c' \<noteq> cl_count ?c"
    "AddConnCount ?c 0 ''u'' ''1.1.1.1'' True = Some (False, ?c')"
    "run_ops conn_step (NewConnLimiter 5 2 True) [AddOp 0 ''u'' ''1.1.1.1'' False] = Some ?c"
    by code_simp+
  then have "conn_inv ?c" using conn.run_inv [OF conn_inv_new] by blast
  with add_then_del_restores [OF this *(1,2,4)] *(3,4) show ?thesis by blast
qed

text \<open>Outside realtime mode nothing ever lowers a connection count: once a user has reached a
  positive connection limit, every later request of that user is rejected, whatever operations
  (ends of the user's connections included) come in between. The user is locked out until the
  limiter is replaced.\<close>

theorem nonrealtime_lockout:
  assumes "\<not> cl_realtime c" "0 < cl_connLimit c" "sm_load (cl_count c) u = Some v" "cl_connLimit c \<le> v"
    and "run_ops conn_step c ops = Some c'"
  shows "AddConnCount c' now u ip t = Some (True, c')"
proof -
  have "sm_load (cl_count c') u = Some v" using assms
  proof (induction ops arbitrary: c)
    case (Cons x ops)
    then obtain d where d: "conn_step c x = Some d" "run_ops conn_step d ops = Some c'"
      by (auto split: option.splits)
    with Cons.prems have "sm_load (cl_count d) u = Some v"
      using nonrealtime_count_stuck [OF _ _ _ _ d(1)] by simp
    with Cons.IH [OF _ _ _ _ d(2)] Cons.prems conn_step_config [OF d(1)] show ?case by simp
  qed simp
  moreover have "cl_connLimit c' = cl_connLimit c" using conn_run_config [OF assms(5)] by simp
  ultimately show ?thesis using assms(2,4) by (simp add: AddConnCount_def count_conn_def)
qed

lemma nonrealtime_lockout_witness:
  "\<exists>c c'. run_ops conn_step (NewConnLimiter 1 0 False) [AddOp 0 ''u'' ''a'' True] = Some c \<and>
     run_ops conn_step c [DelOp ''u'' ''a'', ClearOp Hour] = Some c' \<and>
     AddConnCount c' (2 * Hour) ''u'' ''a'' True = Some (True, c')"
proof -
  let ?c = "the (run_ops conn_step (NewConnLimiter 1 0 False) [AddOp 0 ''u'' ''a'' True])"
  let ?c' = "the (run_ops conn_step ?c [DelOp ''u'' ''a'', ClearOp Hour])"
  have *: "\<not> cl_realtime ?c" "0 < cl_connLimit ?c" "sm_load (cl_count ?c) ''u'' = Some 1" "cl_connLimit ?c \<le> 1"
    "run_ops conn_step ?c [DelOp ''u'' ''a'', ClearOp Hour] = Some ?c'"
    "run_ops conn_step (NewConnLimiter 1 0 False) [AddOp 0 ''u'' ''a'' True] = Some ?c"
    by code_simp+
  show ?thesis using nonrealtime_lockout [OF *(1-5), of "2 * Hour" "''a''" True] *(5,6) by blast
qed

end
