(* ===== verification/Shared_Types.thy ===== *)
theory Shared_Types
  imports GoMap
begin

text \<open>
  The data that several components share: users, online users and traffic records of
  \<^verbatim>\<open>api/panel/user.go\<close>, rules of \<^verbatim>\<open>api/panel/node.go\<close>, the limit configuration of \<^verbatim>\<open>conf/limit.go\<close>,
  and the two formatting helpers of \<^verbatim>\<open>common/format\<close> and \<^verbatim>\<open>common/netutil\<close>.
\<close>

record user_info =
  ui_Id :: int
  ui_Uuid :: string
  ui_SpeedLimit :: int
  ui_DeviceLimit :: int

datatype online_user = OnlineUser (UID: int) (IP: string)

record user_traffic =
  ut_UID :: int
  ut_Upload :: int
  ut_Download :: int
  ut_Key :: string

record rules =
  ru_Regexp :: "string list"
  ru_Protocol :: "string list"

record recorder_config =
  rc_Url :: string
  rc_Token :: string
  rc_Timeout :: int

record redis_config =
  rd_Address :: string
  rd_Password :: string
  rd_Db :: int
  rd_Expiry :: int

record ip_report_config =
  ir_Periodic :: int
  ir_Type :: string
  ir_RecorderConfig :: "recorder_config option"
  ir_RedisConfig :: "redis_config option"
  ir_EnableIpSync :: bool

record dynamic_limit_config =
  dy_Periodic :: int
  dy_Traffic :: int
  dy_SpeedLimit :: int
  dy_ExpireTime :: int

record limit_config =
  lc_EnableRealtime :: bool
  lc_SpeedLimit :: int
  lc_IPLimit :: int
  lc_ConnLimit :: int
  lc_EnableIpRecorder :: bool
  lc_IpRecorderConfig :: "ip_report_config option"
  lc_EnableDynamicSpeedLimit :: bool
  lc_DynamicSpeedLimitConfig :: "dynamic_limit_config option"

text \<open>
  Online users are ordered by uid, then by address: the order of the sort in
  \<^verbatim>\<open>dedupeOnlineUsersByIP\<close>. Go compares strings byte by byte, as the lexicographic order does.
\<close>

instantiation online_user :: linorder
begin

definition less_online_user :: "online_user \<Rightarrow> online_user \<Rightarrow> bool" where
  "less_online_user a b \<longleftrightarrow> (if UID a \<noteq> UID b then UID a < UID b else IP a < IP b)"

definition less_eq_online_user :: "online_user \<Rightarrow> online_user \<Rightarrow> bool" where
  "less_eq_online_user a b \<longleftrightarrow> a = b \<or> a < b"

instance
  by standard (auto simp: less_online_user_def less_eq_online_user_def online_user.expand
      split: if_splits intro: online_user.expand)

end

section \<open>Formatting\<close>

definition UserTag :: "string \<Rightarrow> string \<Rightarrow> string" where
  "UserTag tag uuid = tag @ ''|'' @ uuid"

definition NormalizeIP :: "string \<Rightarrow> string" where
  "NormalizeIP ip = TrimPrefix ip ''::ffff:''"

lemma UserTag_inject [simp]: "UserTag tag a = UserTag tag b \<longleftrightarrow> a = b"
  by (simp add: UserTag_def)

text \<open>Looking users up by uuid: a later entry of the list overwrites an earlier one.\<close>

definition user_table :: "(user_info \<Rightarrow> 'a) \<Rightarrow> user_info list \<Rightarrow> string \<Rightarrow> 'a option" where
  "user_table f users = map_of (rev (map (\<lambda>u. (ui_Uuid u, f u)) users))"

lemma user_table_Nil [simp]: "user_table f [] = Map.empty"
  by (simp add: user_table_def)

lemma user_table_snoc: "user_table f (us @ [u]) = (user_table f us)(ui_Uuid u \<mapsto> f u)"
  by (simp add: user_table_def)

lemma user_table_None: "user_table f us k = None \<longleftrightarrow> k \<notin> ui_Uuid ` set us"
  by (auto simp: user_table_def map_of_eq_None_iff image_iff)

lemma user_table_distinct:
  assumes "distinct (map ui_Uuid us)" "u \<in> set us"
  shows "user_table f us (ui_Uuid u) = Some (f u)"
proof -
  have "distinct (map fst (rev (map (\<lambda>u. (ui_Uuid u, f u)) us)))"
    using assms(1) by (simp add: rev_map [symmetric] comp_def)
  moreover have "(ui_Uuid u, f u) \<in> set (rev (map (\<lambda>u. (ui_Uuid u, f u)) us))"
    using assms(2) by auto
  ultimately show ?thesis unfolding user_table_def by (rule map_of_is_SomeI)
qed

end
