(* ===== verification/Limiter.thy ===== *)
theory Limiter
  imports Conn_Limiter Shared_Types
begin

text \<open>
  \<^verbatim>\<open>limiter/limiter.go\<close>, \<^verbatim>\<open>dynamic.go\<close>, \<^verbatim>\<open>rule.go\<close>, \<^verbatim>\<open>clear.go\<close>: one node's limiter and the registry of
  limiters. A compiled regular expression has an abstract type, and compiling and matching are
  arguments (package \<^verbatim>\<open>regexp\<close>). A rate bucket of \<^verbatim>\<open>juju/ratelimit\<close> is its rate and an identity, so
  that sharing one bucket can be told from having two of the same rate. Methods hold the clock as an
  argument; an error is the left side of a sum and a panic \<^term>\<open>None\<close>.
\<close>

record limit_info =
  li_UID :: int
  li_SpeedLimit :: int
  li_DeviceLimit :: int
  li_DynamicSpeedLimit :: int
  li_ExpireTime :: int
  li_OverLimit :: bool

datatype bucket = Bucket (bucket_id: nat) (bucket_rate: int)

record speed_bucket =
  sb_Limit :: int
  sb_Bucket :: bucket

text \<open>The last field is the allocator of bucket identities.\<close>

record 're limiter =
  DomainRules :: "'re list"
  ProtocolRules :: "string list"
  NodeSpeedLimit :: int
  UserOnlineIP :: "(string, (string, int) gomap) gomap"
  OldUserOnline :: "(string, int) gomap"
  UUIDtoUID :: "(string, int) gomap"
  UserLimitInfo :: "(string, limit_info) gomap"
  ConnLimiter :: conn_limiter
  SpeedLimiter :: "(string, speed_bucket) gomap"
  AliveList :: "(int, int) gomap"
  nextBucket :: nat

definition new_limit_info :: "user_info \<Rightarrow> limit_info" where
  "new_limit_info u =
     \<lparr>li_UID = ui_Id u,
      li_SpeedLimit = (if ui_SpeedLimit u \<noteq> 0 then ui_SpeedLimit u else 0),
      li_DeviceLimit = (if ui_DeviceLimit u \<noteq> 0 then ui_DeviceLimit u else 0),
      li_DynamicSpeedLimit = 0, li_ExpireTime = 0, li_OverLimit = False\<rparr>"

definition SetAliveList :: "(int, int) gomap \<Rightarrow> 're limiter \<Rightarrow> 're limiter" where
  "SetAliveList aliveList l = l\<lparr>AliveList := fold (\<lambda>(uid, n) m. sm_store uid n m) aliveList []\<rparr>"

definition DeleteAlive :: "int \<Rightarrow> 're limiter \<Rightarrow> 're limiter" where
  "DeleteAlive uid l = l\<lparr>AliveList := sm_delete uid (AliveList l)\<rparr>"

definition GetAlive :: "'re limiter \<Rightarrow> int \<Rightarrow> int" where
  "GetAlive l uid = map_get 0 (AliveList l) uid"

definition store_user :: "string \<Rightarrow> user_info \<Rightarrow> 're limiter \<Rightarrow> 're limiter" where
  "store_user tag u l = l\<lparr>
     UserLimitInfo := sm_store (UserTag tag (ui_Uuid u)) (new_limit_info u) (UserLimitInfo l),
     UUIDtoUID := sm_store (ui_Uuid u) (ui_Id u) (UUIDtoUID l)\<rparr>"

definition drop_user :: "string \<Rightarrow> user_info \<Rightarrow> 're limiter \<Rightarrow> 're limiter" where
  "drop_user tag u l = DeleteAlive (ui_Id u) (l\<lparr>
     UserLimitInfo := sm_delete (UserTag tag (ui_Uuid u)) (UserLimitInfo l),
     UserOnlineIP := sm_delete (UserTag tag (ui_Uuid u)) (UserOnlineIP l),
     SpeedLimiter := sm_delete (UserTag tag (ui_Uuid u)) (SpeedLimiter l),
     UUIDtoUID := sm_delete (ui_Uuid u) (UUIDtoUID l)\<rparr>)"

definition NewLimiter :: "string \<Rightarrow> limit_config \<Rightarrow> user_info list \<Rightarrow> (int, int) gomap \<Rightarrow> 're limiter" where
  "NewLimiter tag cfg users aliveList =
     fold (store_user tag) users (SetAliveList aliveList
       \<lparr>DomainRules = [], ProtocolRules = [], NodeSpeedLimit = lc_SpeedLimit cfg,
        UserOnlineIP = [], OldUserOnline = [], UUIDtoUID = [], UserLimitInfo = [],
        ConnLimiter = NewConnLimiter (lc_ConnLimit cfg) (lc_IPLimit cfg) (lc_EnableRealtime cfg),
        SpeedLimiter = [], AliveList = [], nextBucket = 0\<rparr>)"

definition UpdateUser :: "string \<Rightarrow> user_info list \<Rightarrow> user_info list \<Rightarrow> 're limiter \<Rightarrow> 're limiter" where
  "UpdateUser tag added deleted l = fold (store_user tag) added (fold (drop_user tag) deleted l)"

definition UpdateDynamicSpeedLimit ::
  "string \<Rightarrow> string \<Rightarrow> int \<Rightarrow> int \<Rightarrow> 're limiter \<Rightarrow> string + 're limiter" where
  "UpdateDynamicSpeedLimit tag uuid limit expire l =
     (case sm_load (UserLimitInfo l) (UserTag tag uuid) of
        Some info \<Rightarrow> Inr (l\<lparr>
          UserLimitInfo := sm_store (UserTag tag uuid)
            (info\<lparr>li_DynamicSpeedLimit := limit, li_ExpireTime := Unix expire\<rparr>) (UserLimitInfo l),
          SpeedLimiter := sm_delete (UserTag tag uuid) (SpeedLimiter l)\<rparr>)
      | None \<Rightarrow> Inl ''not found'')"

definition AddDynamicSpeedLimit :: "int \<Rightarrow> string \<Rightarrow> user_info \<Rightarrow> int \<Rightarrow> int \<Rightarrow> 're limiter \<Rightarrow> 're limiter" where
  "AddDynamicSpeedLimit now tag userInfo limitNum expire l =
     l\<lparr>UserLimitInfo := sm_store (UserTag tag (ui_Uuid userInfo))
        \<lparr>li_UID = 0, li_SpeedLimit = 0, li_DeviceLimit = 0, li_DynamicSpeedLimit = limitNum,
         li_ExpireTime = Unix (now + i64 (expire * Second)), li_OverLimit = False\<rparr> (UserLimitInfo l)\<rparr>"

definition determineSpeedLimit :: "int \<Rightarrow> int \<Rightarrow> int" where
  "determineSpeedLimit limit1 limit2 =
     (if limit1 = 0 \<or> limit2 = 0 then
        (if limit1 > limit2 then limit1 else if limit1 < limit2 then limit2 else 0)
      else
        (if limit1 > limit2 then limit2 else if limit1 < limit2 then limit1 else limit1))"

section \<open>CheckLimit\<close>

text \<open>The entry of the user: uid, device limit, speed limit, and the limiter with an expired
  temporary limit taken back; \<^term>\<open>None\<close> for an unknown user.\<close>

definition load_user_limit :: "'re limiter \<Rightarrow> int \<Rightarrow> string \<Rightarrow> (int \<times> int \<times> int \<times> 're limiter) option" where
  "load_user_limit l now taguuid =
     (case sm_load (UserLimitInfo l) taguuid of
        Some u \<Rightarrow>
          if li_ExpireTime u < Unix now \<and> li_ExpireTime u \<noteq> 0 then
            if li_SpeedLimit u \<noteq> 0 then
              Some (li_UID u, li_DeviceLimit u, li_SpeedLimit u,
                l\<lparr>UserLimitInfo := sm_store taguuid
                    (u\<lparr>li_DynamicSpeedLimit := 0, li_ExpireTime := 0\<rparr>) (UserLimitInfo l)\<rparr>)
            else Some (li_UID u, li_DeviceLimit u, 0,
                l\<lparr>UserLimitInfo := sm_delete taguuid (UserLimitInfo l)\<rparr>)
          else Some (li_UID u, li_DeviceLimit u,
                determineSpeedLimit (li_SpeedLimit u) (li_DynamicSpeedLimit u), l)
      | None \<Rightarrow> None)"

text \<open>The device limit: whether the request is rejected.\<close>

definition check_device :: "'re limiter \<Rightarrow> string \<Rightarrow> string \<Rightarrow> int \<Rightarrow> int \<Rightarrow> bool \<times> 're limiter" where
  "check_device l taguuid ip uid deviceLimit =
     (let aliveIp = GetAlive l uid in
      case sm_load_or_store taguuid (sm_store ip uid []) (UserOnlineIP l) of (ipMap, ok, online) \<Rightarrow>
        if ok then
          (case sm_load_or_store ip uid ipMap of (_, known, ipMap') \<Rightarrow>
             if \<not> known \<and> deviceLimit > 0 \<and> deviceLimit \<le> aliveIp then
               (True, l\<lparr>UserOnlineIP := sm_store taguuid (sm_delete ip ipMap') online\<rparr>)
             else (False, l\<lparr>UserOnlineIP := sm_store taguuid ipMap' online\<rparr>))
        else
          (case sm_load (OldUserOnline l) ip of
             Some v \<Rightarrow> (False, l\<lparr>UserOnlineIP := online,
               OldUserOnline := (if v = uid then sm_delete ip (OldUserOnline l) else OldUserOnline l)\<rparr>)
           | None \<Rightarrow>
               if deviceLimit > 0 \<and> deviceLimit \<le> aliveIp then
                 (True, l\<lparr>UserOnlineIP := sm_delete taguuid online\<rparr>)
               else (False, l\<lparr>UserOnlineIP := online\<rparr>)))"

definition speed_limit_bytes :: "int \<Rightarrow> int \<Rightarrow> int" where
  "speed_limit_bytes nodeLimit userLimit =
     go_div (i64 (determineSpeedLimit nodeLimit userLimit * 1000000)) 8"

definition take_bucket :: "'re limiter \<Rightarrow> string \<Rightarrow> int \<Rightarrow> bucket option \<times> 're limiter" where
  "take_bucket l taguuid userLimit =
     (let limit = speed_limit_bytes (NodeSpeedLimit l) userLimit;
          fresh = Bucket (nextBucket l) limit;
          create = (Some fresh, l\<lparr>SpeedLimiter := sm_store taguuid \<lparr>sb_Limit = limit, sb_Bucket = fresh\<rparr> (SpeedLimiter l),
             nextBucket := Suc (nextBucket l)\<rparr>)
      in if limit > 0 then
           (case sm_load (SpeedLimiter l) taguuid of
              Some cached \<Rightarrow> if sb_Limit cached = limit then (Some (sb_Bucket cached), l) else create
            | None \<Rightarrow> create)
         else (None, l\<lparr>SpeedLimiter := sm_delete taguuid (SpeedLimiter l)\<rparr>))"

definition CheckLimit ::
  "'re limiter \<Rightarrow> int \<Rightarrow> string \<Rightarrow> string \<Rightarrow> bool \<Rightarrow> bool \<Rightarrow> ((bucket option \<times> bool) \<times> 're limiter) option" where
  "CheckLimit l now taguuid ip0 isTcp noSSUDP =
     (let ip = NormalizeIP ip0 in
      case AddConnCount (ConnLimiter l) now taguuid ip isTcp of
        None \<Rightarrow> panic
      | Some (limited, c) \<Rightarrow>
          let l = l\<lparr>ConnLimiter := c\<rparr> in
          if limited then Some ((None, True), l)
          else (case load_user_limit l now taguuid of
             None \<Rightarrow> Some ((None, True), l)
           | Some (uid, deviceLimit, userLimit, l) \<Rightarrow>
               (case (if noSSUDP then check_device l taguuid ip uid deviceLimit else (False, l)) of
                  (rejected, l) \<Rightarrow>
                    if rejected then Some ((None, True), l)
                    else (case take_bucket l taguuid userLimit of (b, l) \<Rightarrow> Some ((b, False), l)))))"

section \<open>Online users\<close>

text \<open>The inner and the outer \<^verbatim>\<open>Range\<close> of \<^verbatim>\<open>snapshotOnlineUsers\<close>: \<^verbatim>\<open>seen\<close> and the result.\<close>

fun snapshot_ips :: "int \<Rightarrow> string list \<Rightarrow> (int \<times> string) list \<times> online_user list \<Rightarrow>
    (int \<times> string) list \<times> online_user list" where
  "snapshot_ips uid [] acc = acc"
| "snapshot_ips uid (ip # ips) (seen, out) =
     (let ip = NormalizeIP ip in
      if ip = '''' \<or> (uid, ip) \<in> set seen then snapshot_ips uid ips (seen, out)
      else snapshot_ips uid ips ((uid, ip) # seen, out @ [OnlineUser uid ip]))"

fun snapshot_users :: "(string, limit_info) gomap \<Rightarrow> (string \<times> ip_map) list \<Rightarrow>
    (int \<times> string) list \<times> online_user list \<Rightarrow> (int \<times> string) list \<times> online_user list" where
  "snapshot_users infos [] acc = acc"
| "snapshot_users infos ((taguuid, ipMap) # rest) acc =
     (case sm_load infos taguuid of
        None \<Rightarrow> snapshot_users infos rest acc
      | Some u \<Rightarrow>
          if li_UID u = 0 then snapshot_users infos rest acc
          else snapshot_users infos rest (snapshot_ips (li_UID u) (sm_keys ipMap) acc))"

definition snapshotOnlineUsers :: "'re limiter \<Rightarrow> online_user list" where
  "snapshotOnlineUsers l = snd (snapshot_users (UserLimitInfo l) (cl_ip (ConnLimiter l)) ([], []))"

fun remember_ips :: "(string \<times> int) list \<Rightarrow> (string, int) gomap \<Rightarrow> (string, int) gomap" where
  "remember_ips [] old = old"
| "remember_ips ((key, uid) # rest) old =
     (let ip = NormalizeIP key in
      if ip = '''' then remember_ips rest old else remember_ips rest (sm_store ip uid old))"

fun rotate_online :: "(string \<times> (string, int) gomap) list \<Rightarrow> 're limiter \<Rightarrow> 're limiter" where
  "rotate_online [] l = l"
| "rotate_online ((taguuid, ipMap) # rest) l =
     rotate_online rest (l\<lparr>OldUserOnline := remember_ips ipMap (OldUserOnline l),
       UserOnlineIP := sm_delete taguuid (UserOnlineIP l)\<rparr>)"

definition GetOnlineDevice :: "'re limiter \<Rightarrow> online_user list \<times> 're limiter" where
  "GetOnlineDevice l = (snapshotOnlineUsers l, rotate_online (UserOnlineIP l) l)"

definition GetOnlineIPMap :: "'re limiter \<Rightarrow> (int, string list) gomap" where
  "GetOnlineIPMap l =
     fold (\<lambda>u data. sm_store (UID u) (map_get [] data (UID u) @ [IP u]) data) (snapshotOnlineUsers l) []"

section \<open>Rules\<close>

fun CheckDomainRule :: "('re \<Rightarrow> string \<Rightarrow> bool) \<Rightarrow> 're list \<Rightarrow> string \<Rightarrow> bool" where
  "CheckDomainRule MatchString [] destination = False"
| "CheckDomainRule MatchString (r # rs) destination =
     (if MatchString r destination then True else CheckDomainRule MatchString rs destination)"

fun CheckProtocolRule :: "string list \<Rightarrow> string \<Rightarrow> bool" where
  "CheckProtocolRule [] protocol = False"
| "CheckProtocolRule (r # rs) protocol = (if r = protocol then True else CheckProtocolRule rs protocol)"

text \<open>\<^verbatim>\<open>regexp.MustCompile\<close> panics when the pattern does not compile.\<close>

fun compile_all :: "(string \<Rightarrow> 're option) \<Rightarrow> string list \<Rightarrow> 're list option" where
  "compile_all Compile [] = Some []"
| "compile_all Compile (p # ps) =
     do { r \<leftarrow> Compile p; rs \<leftarrow> compile_all Compile ps; Some (r # rs) }"

definition UpdateRule :: "(string \<Rightarrow> 're option) \<Rightarrow> rules \<Rightarrow> 're limiter \<Rightarrow> 're limiter option" where
  "UpdateRule Compile rule l =
     do { rs \<leftarrow> compile_all Compile (ru_Regexp rule);
          Some (l\<lparr>DomainRules := rs, ProtocolRules := ru_Protocol rule\<rparr>) }"

section \<open>The registry\<close>

text \<open>Limiters live on a heap, since the registry and the controllers share pointers to them.
  The package variable is \<^term>\<open>None\<close> (a nil map) before \<^verbatim>\<open>Init\<close>.\<close>

record 're registry =
  rg_heap :: "'re limiter list"
  rg_limiter :: "(string, nat) gomap option"

definition InitLimiter :: "'re registry \<Rightarrow> 're registry" where
  "InitLimiter r = r\<lparr>rg_limiter := Some []\<rparr>"

definition AddLimiter :: "string \<Rightarrow> limit_config \<Rightarrow> user_info list \<Rightarrow> (int, int) gomap \<Rightarrow>
    're registry \<Rightarrow> nat \<times> 're registry" where
  "AddLimiter tag cfg users aliveList r =
     (let addr = length (rg_heap r);
          tags = (case rg_limiter r of None \<Rightarrow> [] | Some m \<Rightarrow> m)
      in (addr, r\<lparr>rg_heap := rg_heap r @ [NewLimiter tag cfg users aliveList],
                  rg_limiter := Some (sm_store tag addr tags)\<rparr>))"

definition GetLimiter :: "'re registry \<Rightarrow> string \<Rightarrow> string + nat" where
  "GetLimiter r tag =
     (case (case rg_limiter r of None \<Rightarrow> None | Some m \<Rightarrow> sm_load m tag) of
        None \<Rightarrow> Inl ''not found'' | Some addr \<Rightarrow> Inr addr)"

definition DeleteLimiter :: "string \<Rightarrow> 're registry \<Rightarrow> 're registry" where
  "DeleteLimiter tag r = r\<lparr>rg_limiter := map_option (sm_delete tag) (rg_limiter r)\<rparr>"

definition heap_update :: "nat \<Rightarrow> ('re limiter \<Rightarrow> 're limiter) \<Rightarrow> 're registry \<Rightarrow> 're registry" where
  "heap_update a f r = r\<lparr>rg_heap := (rg_heap r)[a := f (rg_heap r ! a)]\<rparr>"

definition ClearAllOnlineIP :: "int \<Rightarrow> 're registry \<Rightarrow> 're registry" where
  "ClearAllOnlineIP now r =
     (case rg_limiter r of None \<Rightarrow> r
      | Some m \<Rightarrow> fold (\<lambda>(tag, a). heap_update a (\<lambda>l. l\<lparr>ConnLimiter := ClearOnlineIP now (ConnLimiter l)\<rparr>)) m r)"

end
