(* ===== verification/Limiter_Check.thy ===== *)
theory Limiter_Check
  imports Limiter
begin

text \<open>
  What \<^const>\<open>CheckLimit\<close> decides: the reject decision, the rate of the bucket it hands out, the sharing
  of buckets, the fate of an expired temporary limit, and the safety of every run of a limiter.
\<close>

section \<open>The decision of CheckLimit\<close>

definition device_refused :: "'re limiter \<Rightarrow> string \<Rightarrow> string \<Rightarrow> int \<Rightarrow> int \<Rightarrow> bool" where
  "device_refused l t ip uid deviceLimit \<longleftrightarrow>
     0 < deviceLimit \<and> deviceLimit \<le> GetAlive l uid \<and>
     (case sm_load (UserOnlineIP l) t of
        Some m \<Rightarrow> sm_load m ip = None
      | None \<Rightarrow> sm_load (OldUserOnline l) ip = None)"

definition expired :: "int \<Rightarrow> limit_info \<Rightarrow> bool" where
  "expired now u \<longleftrightarrow> li_ExpireTime u \<noteq> 0 \<and> li_ExpireTime u < Unix now"

definition user_limit_at :: "int \<Rightarrow> limit_info \<Rightarrow> int" where
  "user_limit_at now u =
     (if expired now u then li_SpeedLimit u else determineSpeedLimit (li_SpeedLimit u) (li_DynamicSpeedLimit u))"

definition min_nonzero :: "int \<Rightarrow> int \<Rightarrow> int" where
  "min_nonzero a b = (if a = 0 then b else if b = 0 then a else min a b)"

lemma determine_min_nonzero: "0 \<le> a \<Longrightarrow> 0 \<le> b \<Longrightarrow> determineSpeedLimit a b = min_nonzero a b"
  by (auto simp: determineSpeedLimit_def min_nonzero_def)

lemma check_device_reject: "fst (check_device l t ip uid d) \<longleftrightarrow> device_refused l t ip uid d"
  by (auto simp: check_device_def device_refused_def Let_def load_or_store_eq split: option.splits)

lemma check_device_frame:
  "check_device l t ip uid d = (r, l') \<Longrightarrow>
     ConnLimiter l' = ConnLimiter l \<and> UserLimitInfo l' = UserLimitInfo l \<and>
     NodeSpeedLimit l' = NodeSpeedLimit l \<and> SpeedLimiter l' = SpeedLimiter l \<and>
     AliveList l' = AliveList l \<and> nextBucket l' = nextBucket l"
  by (auto simp: check_device_def Let_def load_or_store_eq split: option.splits if_splits)

lemmas check_device_snd = check_device_frame [OF prod.collapse [symmetric]]

lemma take_bucket_frame:
  "take_bucket l t u = (b, l') \<Longrightarrow>
     ConnLimiter l' = ConnLimiter l \<and> UserLimitInfo l' = UserLimitInfo l \<and>
     NodeSpeedLimit l' = NodeSpeedLimit l \<and> UserOnlineIP l' = UserOnlineIP l"
  by (auto simp: take_bucket_def Let_def split: option.splits if_splits)

lemmas take_bucket_snd = take_bucket_frame [OF prod.collapse [symmetric]]

lemma load_user_limit_eq:
  "load_user_limit l now t = (case sm_load (UserLimitInfo l) t of
     None \<Rightarrow> None
   | Some u \<Rightarrow> Some (li_UID u, li_DeviceLimit u, user_limit_at now u,
       if expired now u then
         l\<lparr>UserLimitInfo := (if li_SpeedLimit u \<noteq> 0
            then sm_store t (u\<lparr>li_DynamicSpeedLimit := 0, li_ExpireTime := 0\<rparr>) (UserLimitInfo l)
            else sm_delete t (UserLimitInfo l))\<rparr>
       else l))"
  by (auto simp: load_user_limit_def user_limit_at_def expired_def split: option.splits)

text \<open>The limiter after the entry of the user was read.\<close>

definition after_read :: "'re limiter \<Rightarrow> conn_limiter \<Rightarrow> int \<Rightarrow> string \<Rightarrow> limit_info \<Rightarrow> 're limiter" where
  "after_read l c now t u = (if expired now u then
     l\<lparr>ConnLimiter := c, UserLimitInfo := (if li_SpeedLimit u \<noteq> 0
        then sm_store t (u\<lparr>li_DynamicSpeedLimit := 0, li_ExpireTime := 0\<rparr>) (UserLimitInfo l)
        else sm_delete t (UserLimitInfo l))\<rparr>
     else l\<lparr>ConnLimiter := c\<rparr>)"

lemma after_read_simps [simp]:
  "ConnLimiter (after_read l c now t u) = c"
  "UserOnlineIP (after_read l c now t u) = UserOnlineIP l"
  "OldUserOnline (after_read l c now t u) = OldUserOnline l"
  "AliveList (after_read l c now t u) = AliveList l"
  "NodeSpeedLimit (after_read l c now t u) = NodeSpeedLimit l"
  "SpeedLimiter (after_read l c now t u) = SpeedLimiter l"
  "nextBucket (after_read l c now t u) = nextBucket l"
  by (simp_all add: after_read_def)

lemma device_refused_after_read [simp]:
  "device_refused (after_read l c now t u) = device_refused l"
  by (simp add: device_refused_def GetAlive_def fun_eq_iff split: option.splits)

lemma CheckLimit_unfold:
  assumes "AddConnCount (ConnLimiter l) now t (NormalizeIP ip) tcp = Some (lim, c)"
  shows "CheckLimit l now t ip tcp su =
    (if lim then Some ((None, True), l\<lparr>ConnLimiter := c\<rparr>)
     else case sm_load (UserLimitInfo l) t of
       None \<Rightarrow> Some ((None, True), l\<lparr>ConnLimiter := c\<rparr>)
     | Some u \<Rightarrow>
         let r = (if su then check_device (after_read l c now t u) t (NormalizeIP ip) (li_UID u) (li_DeviceLimit u)
                  else (False, after_read l c now t u))
         in if fst r then Some ((None, True), snd r)
            else Some ((fst (take_bucket (snd r) t (user_limit_at now u)), False),
                       snd (take_bucket (snd r) t (user_limit_at now u))))"
  using assms
  by (simp add: CheckLimit_def load_user_limit_eq after_read_def Let_def case_prod_unfold
      split: option.splits)

lemma CheckLimit_accepted:
  assumes "CheckLimit l now t ip tcp su = Some ((b, False), l')"
  obtains c u l1 where
    "AddConnCount (ConnLimiter l) now t (NormalizeIP ip) tcp = Some (False, c)"
    "sm_load (UserLimitInfo l) t = Some u"
    "(if su then check_device (after_read l c now t u) t (NormalizeIP ip) (li_UID u) (li_DeviceLimit u)
      else (False, after_read l c now t u)) = (False, l1)"
    "take_bucket l1 t (user_limit_at now u) = (b, l')"
proof -
  from assms obtain lim c where add: "AddConnCount (ConnLimiter l) now t (NormalizeIP ip) tcp = Some (lim, c)"
    by (auto simp: CheckLimit_def Let_def split: option.splits)
  with assms obtain u where "\<not> lim" "sm_load (UserLimitInfo l) t = Some u"
    by (auto simp: CheckLimit_unfold split: option.splits if_splits)
  with add assms show ?thesis
    by (intro that [of c u "if su then snd (check_device (after_read l c now t u) t (NormalizeIP ip) (li_UID u) (li_DeviceLimit u)) else after_read l c now t u"])
      (auto simp: CheckLimit_unfold Let_def prod_eq_iff split: if_splits)
qed

section \<open>The invariant of a limiter\<close>

definition buckets_ok :: "'re limiter \<Rightarrow> bool" where
  "buckets_ok l \<longleftrightarrow>
     (\<forall>t s. sm_load (SpeedLimiter l) t = Some s \<longrightarrow>
        0 < sb_Limit s \<and> bucket_rate (sb_Bucket s) = sb_Limit s \<and> bucket_id (sb_Bucket s) < nextBucket l) \<and>
     (\<forall>t t' s s'. sm_load (SpeedLimiter l) t = Some s \<longrightarrow> sm_load (SpeedLimiter l) t' = Some s' \<longrightarrow>
        bucket_id (sb_Bucket s) = bucket_id (sb_Bucket s') \<longrightarrow> t = t')"

definition limiter_inv :: "'re limiter \<Rightarrow> bool" where
  "limiter_inv l \<longleftrightarrow> conn_inv (ConnLimiter l) \<and> within_limits (ConnLimiter l) \<and> buckets_ok l"

lemma buckets_ok_cong:
  "SpeedLimiter l' = SpeedLimiter l \<Longrightarrow> nextBucket l' = nextBucket l \<Longrightarrow> buckets_ok l' = buckets_ok l"
  by (simp add: buckets_ok_def)

lemma buckets_ok_delete:
  "buckets_ok l \<Longrightarrow> SpeedLimiter l' = sm_delete t (SpeedLimiter l) \<Longrightarrow> nextBucket l' = nextBucket l \<Longrightarrow> buckets_ok l'"
  by (simp add: buckets_ok_def)

lemma buckets_ok_create:
  assumes "buckets_ok l" "0 < lim" "SpeedLimiter l' = sm_store t \<lparr>sb_Limit = lim, sb_Bucket = Bucket (nextBucket l) lim\<rparr> (SpeedLimiter l)"
    "nextBucket l' = Suc (nextBucket l)"
  shows "buckets_ok l'"
  unfolding buckets_ok_def using assms
  by (auto simp: buckets_ok_def less_Suc_eq split: if_splits)
    (metis bucket.sel(1) less_irrefl)+

lemma take_bucket_ok: "buckets_ok l \<Longrightarrow> take_bucket l t u = (b, l') \<Longrightarrow> buckets_ok l'"
  by (auto simp: take_bucket_def Let_def split: option.splits if_splits
      intro: buckets_ok_create [of l "speed_limit_bytes (NodeSpeedLimit l) u"] buckets_ok_delete)

lemma take_bucket_rate:
  assumes "buckets_ok l" "take_bucket l t u = (b, l')"
  shows "b = None \<longleftrightarrow> speed_limit_bytes (NodeSpeedLimit l) u \<le> 0"
    and "b = Some k \<Longrightarrow> bucket_rate k = speed_limit_bytes (NodeSpeedLimit l) u"
    and "b = Some k \<Longrightarrow> sm_load (SpeedLimiter l') t =
       Some \<lparr>sb_Limit = speed_limit_bytes (NodeSpeedLimit l) u, sb_Bucket = k\<rparr>"
  using assms by (auto simp: take_bucket_def buckets_ok_def Let_def split: option.splits if_splits)

lemma CheckLimit_safe:
  assumes "limiter_inv l"
  shows "\<exists>b r l'. CheckLimit l now t ip tcp su = Some ((b, r), l') \<and> limiter_inv l'"
proof -
  from assms have ci: "conn_inv (ConnLimiter l)" and wl: "within_limits (ConnLimiter l)" and bo: "buckets_ok l"
    by (simp_all add: limiter_inv_def)
  obtain lim c where add: "AddConnCount (ConnLimiter l) now t (NormalizeIP ip) tcp = Some (lim, c)" "conn_inv c"
    using AddConnCount_safe [OF ci] by blast
  note c = add(2) AddConnCount_limits [OF ci wl add(1)]
  show ?thesis
  proof (cases "lim \<or> sm_load (UserLimitInfo l) t = None")
    case True
    with c bo show ?thesis
      by (auto simp: CheckLimit_unfold [OF add(1)] limiter_inv_def cong: buckets_ok_cong split: option.splits)
  next
    case False
    then obtain u where u: "\<not> lim" "sm_load (UserLimitInfo l) t = Some u" by auto
    let ?r = "if su then check_device (after_read l c now t u) t (NormalizeIP ip) (li_UID u) (li_DeviceLimit u)
              else (False, after_read l c now t u)"
    have "ConnLimiter (snd ?r) = c \<and> SpeedLimiter (snd ?r) = SpeedLimiter l \<and> nextBucket (snd ?r) = nextBucket l"
      by (simp add: check_device_snd)
    then have "limiter_inv (snd ?r)"
      using c bo buckets_ok_cong [of "snd ?r" l] by (simp add: limiter_inv_def)
    moreover have "limiter_inv (snd (take_bucket (snd ?r) t (user_limit_at now u)))"
      using calculation take_bucket_ok [OF _ prod.collapse [symmetric], of "snd ?r"]
      by (simp add: limiter_inv_def take_bucket_snd del: split_paired_All)
    ultimately show ?thesis
      using u by (auto simp: CheckLimit_unfold [OF add(1)] Let_def)
  qed
qed

section \<open>The limiter as a machine\<close>

datatype limiter_op =
    CheckOp int string string bool bool
  | EndOp string string
  | UserOp string "user_info list" "user_info list"
  | DynamicOp string string int int
  | AliveOp "(int, int) gomap"
  | OnlineOp
  | ExpireOp int

fun limiter_step :: "'re limiter \<Rightarrow> limiter_op \<Rightarrow> 're limiter option" where
  "limiter_step l (CheckOp now t ip tcp su) = map_option snd (CheckLimit l now t ip tcp su)"
| "limiter_step l (EndOp t ip) =
     map_option (\<lambda>c. l\<lparr>ConnLimiter := c\<rparr>) (DelConnCount (ConnLimiter l) t ip)"
| "limiter_step l (UserOp tag added deleted) = Some (UpdateUser tag added deleted l)"
| "limiter_step l (DynamicOp tag uuid limit expire) =
     Some (case UpdateDynamicSpeedLimit tag uuid limit expire l of Inl _ \<Rightarrow> l | Inr l' \<Rightarrow> l')"
| "limiter_step l (AliveOp m) = Some (SetAliveList m l)"
| "limiter_step l OnlineOp = Some (snd (GetOnlineDevice l))"
| "limiter_step l (ExpireOp now) = Some (l\<lparr>ConnLimiter := ClearOnlineIP now (ConnLimiter l)\<rparr>)"

lemma SetAliveList_simps [simp]:
  "ConnLimiter (SetAliveList m l) = ConnLimiter l" "SpeedLimiter (SetAliveList m l) = SpeedLimiter l"
  "nextBucket (SetAliveList m l) = nextBucket l" "UserLimitInfo (SetAliveList m l) = UserLimitInfo l"
  "UUIDtoUID (SetAliveList m l) = UUIDtoUID l"
  by (simp_all add: SetAliveList_def)

lemma fold_store_user_frame [simp]:
  "ConnLimiter (fold (store_user tag) us l) = ConnLimiter l"
  "SpeedLimiter (fold (store_user tag) us l) = SpeedLimiter l"
  "nextBucket (fold (store_user tag) us l) = nextBucket l"
  by (induction us arbitrary: l) (simp_all add: store_user_def)

lemma fold_drop_user_inv: "limiter_inv l \<Longrightarrow> limiter_inv (fold (drop_user tag) us l)"
proof (induction us arbitrary: l)
  case (Cons u us)
  then have "limiter_inv (drop_user tag u l)"
    using buckets_ok_delete [of l "drop_user tag u l" "UserTag tag (ui_Uuid u)"]
    by (simp add: limiter_inv_def drop_user_def DeleteAlive_def)
  with Cons show ?case by simp
qed simp

lemma UpdateUser_inv: "limiter_inv l \<Longrightarrow> limiter_inv (UpdateUser tag added deleted l)"
  using fold_drop_user_inv [of l tag deleted]
    buckets_ok_cong [of "UpdateUser tag added deleted l" "fold (drop_user tag) deleted l"]
  by (simp add: UpdateUser_def limiter_inv_def)

lemma UpdateDynamic_inv:
  "limiter_inv l \<Longrightarrow> UpdateDynamicSpeedLimit tag uuid n e l = Inr l' \<Longrightarrow> limiter_inv l'"
  using buckets_ok_delete [of l l' "UserTag tag uuid"]
  by (auto simp: UpdateDynamicSpeedLimit_def limiter_inv_def split: option.splits)

lemma rotate_online_frame [simp]:
  "ConnLimiter (rotate_online m l) = ConnLimiter l" "SpeedLimiter (rotate_online m l) = SpeedLimiter l"
  "nextBucket (rotate_online m l) = nextBucket l" "UserLimitInfo (rotate_online m l) = UserLimitInfo l"
  "AliveList (rotate_online m l) = AliveList l"
  by (induction m l rule: rotate_online.induct) simp_all

lemma limiter_inv_conn:
  "limiter_inv l \<Longrightarrow> conn_inv c \<Longrightarrow> within_limits c \<Longrightarrow> limiter_inv (l\<lparr>ConnLimiter := c\<rparr>)"
  using buckets_ok_cong [of "l\<lparr>ConnLimiter := c\<rparr>" l] by (simp add: limiter_inv_def)

lemma limiter_inv_frame:
  "limiter_inv l \<Longrightarrow> ConnLimiter l' = ConnLimiter l \<Longrightarrow> SpeedLimiter l' = SpeedLimiter l \<Longrightarrow>
     nextBucket l' = nextBucket l \<Longrightarrow> limiter_inv l'"
  using buckets_ok_cong [of l' l] by (simp add: limiter_inv_def)

interpretation limiter_machine: safe_machine limiter_step limiter_inv
proof unfold_locales
  fix l :: "'a limiter" and x assume l: "limiter_inv l"
  then have c: "conn_inv (ConnLimiter l)" "within_limits (ConnLimiter l)" by (simp_all add: limiter_inv_def)
  show "\<exists>l'. limiter_step l x = Some l' \<and> limiter_inv l'"
  proof (cases x)
    case (CheckOp now t ip tcp su)
    with CheckLimit_safe [OF l, of now t ip tcp su] show ?thesis by auto
  next
    case (EndOp t ip)
    obtain c' where "DelConnCount (ConnLimiter l) t ip = Some c'" "conn_inv c'" "within_limits c'"
      using DelConnCount_safe [OF c(1)] DelConnCount_limits [OF c] by blast
    with l EndOp show ?thesis by (simp add: limiter_inv_conn)
  next
    case (UserOp tag a d)
    with l show ?thesis by (simp add: UpdateUser_inv)
  next
    case (DynamicOp tag u n e)
    with l show ?thesis using UpdateDynamic_inv [OF l] by (auto split: sum.splits)
  next
    case (AliveOp m)
    with l show ?thesis by (auto intro: limiter_inv_frame)
  next
    case OnlineOp
    with l show ?thesis by (auto simp: GetOnlineDevice_def intro: limiter_inv_frame)
  next
    case (ExpireOp now)
    with l c show ?thesis by (auto intro: limiter_inv_conn ClearOnlineIP_inv ClearOnlineIP_limits)
  qed
qed

lemma limiter_inv_new: "limiter_inv (NewLimiter tag cfg users alive)"
  by (simp add: NewLimiter_def limiter_inv_def buckets_ok_def)

section \<open>Properties of CheckLimit\<close>

text \<open>C2: A node's limiter never panics, whatever requests, connection ends, user updates, temporary
  limits, alive lists, online reports and clearings arrive and in whatever order; after any of them
  both limits of \<^const>\<open>ConnLimiter\<close> hold, each cached bucket has the rate it was cached for, and no two
  users share a bucket.\<close>

theorem limiter_run_safe:
  "\<exists>l. run_ops limiter_step (NewLimiter tag cfg users alive :: 're limiter) ops = Some l \<and>
     within_limits (ConnLimiter l) \<and>
     (\<forall>t s. sm_load (SpeedLimiter l) t = Some s \<longrightarrow> 0 < sb_Limit s \<and> bucket_rate (sb_Bucket s) = sb_Limit s) \<and>
     (\<forall>t t' s s'. sm_load (SpeedLimiter l) t = Some s \<longrightarrow> sm_load (SpeedLimiter l) t' = Some s' \<longrightarrow>
        t \<noteq> t' \<longrightarrow> sb_Bucket s \<noteq> sb_Bucket s')"
proof -
  obtain l :: "'re limiter" where "run_ops limiter_step (NewLimiter tag cfg users alive) ops = Some l" "limiter_inv l"
    using limiter_machine.run_safe [OF limiter_inv_new] by blast
  then show ?thesis by (auto simp: limiter_inv_def buckets_ok_def)
qed


definition demo_cfg :: limit_config where
  "demo_cfg = \<lparr>lc_EnableRealtime = True, lc_SpeedLimit = 100, lc_IPLimit = 0, lc_ConnLimit = 0,
     lc_EnableIpRecorder = False, lc_IpRecorderConfig = None, lc_EnableDynamicSpeedLimit = False,
     lc_DynamicSpeedLimitConfig = None\<rparr>"

definition demo_user :: user_info where
  "demo_user = \<lparr>ui_Id = 7, ui_Uuid = ''u7'', ui_SpeedLimit = 0, ui_DeviceLimit = 1\<rparr>"

definition demo_limiter :: "unit limiter" where
  "demo_limiter = NewLimiter ''n'' demo_cfg [demo_user] [(7, 1)]"


text \<open>C24: The speed of an accepted request: the bucket it gets has the smaller non-zero one of the
  node's and the user's limit (the temporary limit counting while it has not expired), converted
  from Mbit/s to bytes per second; there is no bucket exactly when no limit applies.\<close>

theorem check_limit_rate:
  assumes "limiter_inv l" "CheckLimit l now t ip tcp su = Some ((b, False), l')"
    and "sm_load (UserLimitInfo l) t = Some u"
    and "0 \<le> NodeSpeedLimit l" "NodeSpeedLimit l < 2 ^ 40"
    and "0 \<le> li_SpeedLimit u" "li_SpeedLimit u < 2 ^ 40" "0 \<le> li_DynamicSpeedLimit u" "li_DynamicSpeedLimit u < 2 ^ 40"
  shows "let own = (if expired now u then li_SpeedLimit u
                    else min_nonzero (li_SpeedLimit u) (li_DynamicSpeedLimit u));
             rate = 125000 * min_nonzero (NodeSpeedLimit l) own
         in (b = None \<longleftrightarrow> rate = 0) \<and> (\<forall>k. b = Some k \<longrightarrow> bucket_rate k = rate)"
proof -
  define own where "own = user_limit_at now u"
  from assms(2) obtain c u' l1 where *:
    "AddConnCount (ConnLimiter l) now t (NormalizeIP ip) tcp = Some (False, c)"
    "sm_load (UserLimitInfo l) t = Some u'"
    "(if su then check_device (after_read l c now t u') t (NormalizeIP ip) (li_UID u') (li_DeviceLimit u')
      else (False, after_read l c now t u')) = (False, l1)" "take_bucket l1 t (user_limit_at now u') = (b, l')"
    by (rule CheckLimit_accepted)
  have "NodeSpeedLimit l1 = NodeSpeedLimit l" and bo: "buckets_ok l1"
    using *(3) check_device_frame [of "after_read l c now t u'" t _ _ _ False l1] assms(1)
      buckets_ok_cong [of l1 l]
    by (auto simp: limiter_inv_def split: if_splits)
  moreover have "user_limit_at now u' = own" using *(2) assms(3) by (simp add: own_def)
  ultimately have b: "b = None \<longleftrightarrow> speed_limit_bytes (NodeSpeedLimit l) own \<le> 0"
    "b = Some k \<Longrightarrow> bucket_rate k = speed_limit_bytes (NodeSpeedLimit l) own" for k
    using take_bucket_rate(1,2) [OF bo *(4)] by auto
  have own: "own = (if expired now u then li_SpeedLimit u else min_nonzero (li_SpeedLimit u) (li_DynamicSpeedLimit u))"
    using assms(6,8) by (simp add: own_def user_limit_at_def determine_min_nonzero)
  then have "0 \<le> own" "own < 2 ^ 40" using assms(6-9) by (auto simp: min_nonzero_def min_def)
  then have "speed_limit_bytes (NodeSpeedLimit l) own = 125000 * min_nonzero (NodeSpeedLimit l) own"
    using assms(4,5)
    by (simp add: speed_limit_bytes_def determine_min_nonzero)
      (subst i64_id; simp add: go_div_nonneg min_nonzero_def min_def)
  moreover have "0 \<le> min_nonzero (NodeSpeedLimit l) own"
    using \<open>0 \<le> own\<close> assms(4) by (simp add: min_nonzero_def)
  ultimately show ?thesis using b by (simp add: Let_def own [symmetric])
qed

definition demo_fast_user :: user_info where
  "demo_fast_user = \<lparr>ui_Id = 8, ui_Uuid = ''u8'', ui_SpeedLimit = 40, ui_DeviceLimit = 0\<rparr>"

definition demo_open_limiter :: "unit limiter" where
  "demo_open_limiter = NewLimiter ''n'' demo_cfg [demo_fast_user] []"

lemma check_limit_rate_witness:
  "\<exists>k l'. CheckLimit demo_open_limiter 0 ''n|u8'' ''9.9.9.9'' True True = Some ((Some k, False), l') \<and>
     bucket_rate k = 5000000"
proof -
  let ?r = "the (CheckLimit demo_open_limiter 0 ''n|u8'' ''9.9.9.9'' True True)"
  let ?u = "the (sm_load (UserLimitInfo demo_open_limiter) ''n|u8'')"
  have *: "CheckLimit demo_open_limiter 0 ''n|u8'' ''9.9.9.9'' True True = Some ((fst (fst ?r), False), snd ?r)"
    "sm_load (UserLimitInfo demo_open_limiter) ''n|u8'' = Some ?u"
    "0 \<le> NodeSpeedLimit demo_open_limiter" "NodeSpeedLimit demo_open_limiter < 2 ^ 40"
    "0 \<le> li_SpeedLimit ?u" "li_SpeedLimit ?u < 2 ^ 40" "0 \<le> li_DynamicSpeedLimit ?u" "li_DynamicSpeedLimit ?u < 2 ^ 40"
    by code_simp+
  have rate: "(let own = (if expired 0 ?u then li_SpeedLimit ?u else min_nonzero (li_SpeedLimit ?u) (li_DynamicSpeedLimit ?u))
        in 125000 * min_nonzero (NodeSpeedLimit demo_open_limiter) own) = 5000000" by code_simp
  have "limiter_inv demo_open_limiter" by (simp add: demo_open_limiter_def limiter_inv_new)
  from check_limit_rate [OF this *] rate show ?thesis
    using *(1) by (cases "fst (fst ?r)") (auto simp: Let_def)
qed

text \<open>Connections of one user share one bucket: when two requests of a user are accepted one
  after the other and the user's limit is the same at both, the second one is handed the very bucket
  of the first, whatever their addresses and transports.\<close>

theorem check_limit_shares_bucket:
  assumes "limiter_inv l" "CheckLimit l now t ip tcp su = Some ((Some k, False), l')"
    and "sm_load (UserLimitInfo l) t = Some u" "sm_load (UserLimitInfo l') t = Some u'"
    and "user_limit_at now2 u' = user_limit_at now u"
    and "CheckLimit l' now2 t ip2 tcp2 su2 = Some ((b, False), l'')"
  shows "b = Some k"
proof -
  from assms(2) obtain c v l1 where *:
    "sm_load (UserLimitInfo l) t = Some v"
    "(if su then check_device (after_read l c now t v) t (NormalizeIP ip) (li_UID v) (li_DeviceLimit v)
      else (False, after_read l c now t v)) = (False, l1)" "take_bucket l1 t (user_limit_at now v) = (Some k, l')"
    by (rule CheckLimit_accepted)
  from assms(6) obtain c2 v2 l2 where **:
    "sm_load (UserLimitInfo l') t = Some v2"
    "(if su2 then check_device (after_read l' c2 now2 t v2) t (NormalizeIP ip2) (li_UID v2) (li_DeviceLimit v2)
      else (False, after_read l' c2 now2 t v2)) = (False, l2)" "take_bucket l2 t (user_limit_at now2 v2) = (b, l'')"
    by (rule CheckLimit_accepted)
  have l1: "NodeSpeedLimit l1 = NodeSpeedLimit l" "buckets_ok l1"
    using *(2) check_device_frame [of "after_read l c now t v" t _ _ _ False l1] assms(1)
      buckets_ok_cong [of l1 l]
    by (auto simp: limiter_inv_def split: if_splits)
  have l2: "NodeSpeedLimit l2 = NodeSpeedLimit l'" "SpeedLimiter l2 = SpeedLimiter l'"
    using **(2) check_device_frame [of "after_read l' c2 now2 t v2" t _ _ _ False l2]
    by (auto split: if_splits)
  have same: "user_limit_at now2 v2 = user_limit_at now v"
    using assms(3-5) *(1) **(1) by simp
  have pos: "0 < speed_limit_bytes (NodeSpeedLimit l) (user_limit_at now v)"
    using take_bucket_rate(1) [OF l1(2) *(3)] l1(1) by simp
  moreover have "NodeSpeedLimit l' = NodeSpeedLimit l"
    using take_bucket_frame [OF *(3)] l1(1) by simp
  moreover have "sm_load (SpeedLimiter l') t =
      Some \<lparr>sb_Limit = speed_limit_bytes (NodeSpeedLimit l) (user_limit_at now v), sb_Bucket = k\<rparr>"
    using take_bucket_rate(3) [OF l1(2) *(3)] l1(1) by simp
  ultimately show ?thesis using **(3) l2 same by (simp add: take_bucket_def Let_def)
qed

lemma check_limit_shares_bucket_witness:
  "\<exists>l' k. CheckLimit demo_open_limiter 0 ''n|u8'' ''9.9.9.9'' True True = Some ((Some k, False), l') \<and>
     map_option fst (CheckLimit l' 5 ''n|u8'' ''8.8.8.8'' False True) = Some (Some k, False)"
proof -
  let ?r = "the (CheckLimit demo_open_limiter 0 ''n|u8'' ''9.9.9.9'' True True)"
  let ?k = "the (fst (fst ?r))"
  let ?u = "the (sm_load (UserLimitInfo demo_open_limiter) ''n|u8'')"
  let ?u' = "the (sm_load (UserLimitInfo (snd ?r)) ''n|u8'')"
  let ?r2 = "the (CheckLimit (snd ?r) 5 ''n|u8'' ''8.8.8.8'' False True)"
  have *: "CheckLimit demo_open_limiter 0 ''n|u8'' ''9.9.9.9'' True True = Some ((Some ?k, False), snd ?r)"
    "sm_load (UserLimitInfo demo_open_limiter) ''n|u8'' = Some ?u"
    "sm_load (UserLimitInfo (snd ?r)) ''n|u8'' = Some ?u'"
    "user_limit_at 5 ?u' = user_limit_at 0 ?u"
    "CheckLimit (snd ?r) 5 ''n|u8'' ''8.8.8.8'' False True = Some ((fst (fst ?r2), False), snd ?r2)"
    by code_simp+
  have "limiter_inv demo_open_limiter" by (simp add: demo_open_limiter_def limiter_inv_new)
  from check_limit_shares_bucket [OF this *] have k: "fst (fst ?r2) = Some ?k" .
  have "map_option fst (CheckLimit (snd ?r) 5 ''n|u8'' ''8.8.8.8'' False True) = Some (Some ?k, False)"
    using *(5) unfolding k by (metis fst_conv option.map(2))
  with *(1) show ?thesis by blast
qed

text \<open>What happens to a user without a speed limit of his own when a temporary limit runs out:
  the first accepted request after the expiry removes the user's whole entry, and from then on every
  request of the user is rejected as unknown (until the user is stored again).\<close>

theorem expired_limit_evicts_user:
  assumes "sm_load (UserLimitInfo l) t = Some u" "expired now u" "li_SpeedLimit u = 0"
    and "CheckLimit l now t ip tcp su = Some ((b, False), l')"
    and "CheckLimit l' now2 t ip2 tcp2 su2 = Some ((b2, r2), l'')"
  shows "r2 \<and> b2 = None"
proof -
  from assms(4) obtain c v l1 where *:
    "sm_load (UserLimitInfo l) t = Some v"
    "(if su then check_device (after_read l c now t v) t (NormalizeIP ip) (li_UID v) (li_DeviceLimit v)
      else (False, after_read l c now t v)) = (False, l1)" "take_bucket l1 t (user_limit_at now v) = (b, l')"
    by (rule CheckLimit_accepted)
  have "UserLimitInfo l' = sm_delete t (UserLimitInfo l)"
    using assms(1-3) *(1,2) take_bucket_frame [OF *(3)]
      check_device_frame [of "after_read l c now t v" t _ _ _ False l1]
    by (auto simp: after_read_def split: if_splits)
  moreover obtain lim c2 where "AddConnCount (ConnLimiter l') now2 t (NormalizeIP ip2) tcp2 = Some (lim, c2)"
    using assms(5) by (auto simp: CheckLimit_def Let_def split: option.splits)
  ultimately show ?thesis using assms(5) by (auto simp: CheckLimit_unfold split: if_splits)
qed

definition demo_punished :: "unit limiter" where
  "demo_punished = (let l = NewLimiter ''n'' demo_cfg [demo_user\<lparr>ui_DeviceLimit := 0\<rparr>] []
     in case UpdateDynamicSpeedLimit ''n'' ''u7'' 10 (60 * Second) l of Inl _ \<Rightarrow> l | Inr l' \<Rightarrow> l')"

lemma expired_limit_evicts_user_witness:
  "\<exists>b l' l''. CheckLimit demo_punished (120 * Second) ''n|u7'' ''1.1.1.1'' True True = Some ((b, False), l') \<and>
     CheckLimit l' (121 * Second) ''n|u7'' ''1.1.1.1'' True True = Some ((None, True), l'')"
proof -
  let ?r = "the (CheckLimit demo_punished (120 * Second) ''n|u7'' ''1.1.1.1'' True True)"
  let ?u = "the (sm_load (UserLimitInfo demo_punished) ''n|u7'')"
  let ?r2 = "the (CheckLimit (snd ?r) (121 * Second) ''n|u7'' ''1.1.1.1'' True True)"
  have *: "sm_load (UserLimitInfo demo_punished) ''n|u7'' = Some ?u" "expired (120 * Second) ?u" "li_SpeedLimit ?u = 0"
    "CheckLimit demo_punished (120 * Second) ''n|u7'' ''1.1.1.1'' True True = Some ((fst (fst ?r), False), snd ?r)"
    "CheckLimit (snd ?r) (121 * Second) ''n|u7'' ''1.1.1.1'' True True =
       Some ((fst (fst ?r2), snd (fst ?r2)), snd ?r2)"
    by code_simp+
  from expired_limit_evicts_user [OF *] have "snd (fst ?r2) \<and> fst (fst ?r2) = None" .
  with *(4,5) show ?thesis by metis
qed

lemma limiter_run_safe_witness:
  "\<exists>l. run_ops limiter_step demo_open_limiter [CheckOp 0 ''n|u8'' ''1.1.1.1'' True True, OnlineOp, EndOp ''n|u8'' ''1.1.1.1''] = Some l \<and>
     within_limits (ConnLimiter l) \<and>
     map_option sb_Limit (sm_load (SpeedLimiter l) ''n|u8'') = Some 5000000"
proof -
  let ?ops = "[CheckOp 0 ''n|u8'' ''1.1.1.1'' True True, OnlineOp, EndOp ''n|u8'' ''1.1.1.1'']"
  have "map_option (\<lambda>l. map_option sb_Limit (sm_load (SpeedLimiter l) ''n|u8''))
      (run_ops limiter_step demo_open_limiter ?ops) = Some (Some 5000000)" by code_simp
  moreover obtain l where "run_ops limiter_step demo_open_limiter ?ops = Some l" "within_limits (ConnLimiter l)"
    unfolding demo_open_limiter_def using limiter_run_safe [of "''n''" demo_cfg "[demo_fast_user]" "[]" ?ops] by blast
  ultimately show ?thesis by simp
qed

end
