(* ===== verification/Limiter_Online.thy ===== *)
theory Limiter_Online
  imports Limiter
begin

text \<open>
  The online-user reports of a limiter, the replacement of users, and the registry: what
  \<^verbatim>\<open>snapshotOnlineUsers\<close>, \<^verbatim>\<open>GetOnlineIPMap\<close>, \<^verbatim>\<open>GetOnlineDevice\<close> and \<^verbatim>\<open>UpdateUser\<close> compute, and the laws
  of \<^verbatim>\<open>AddLimiter\<close>, \<^verbatim>\<open>GetLimiter\<close> and \<^verbatim>\<open>DeleteLimiter\<close>.
\<close>

section \<open>The snapshot\<close>

text \<open>The loop keeps \<^verbatim>\<open>seen\<close> and the result in step.\<close>

definition in_step :: "(int \<times> string) list \<times> online_user list \<Rightarrow> bool" where
  "in_step acc \<longleftrightarrow> distinct (snd acc) \<and> set (fst acc) = (\<lambda>u. (UID u, IP u)) ` set (snd acc)"

definition seen_ips :: "int \<Rightarrow> string set \<Rightarrow> online_user set" where
  "seen_ips uid ips = {OnlineUser uid (NormalizeIP a) | a. a \<in> ips \<and> NormalizeIP a \<noteq> ''''}"

lemma in_step_mem: "in_step acc \<Longrightarrow> (uid, ip) \<in> set (fst acc) \<longleftrightarrow> OnlineUser uid ip \<in> set (snd acc)"
proof -
  assume "in_step acc"
  then have "(uid, ip) \<in> set (fst acc) \<longleftrightarrow> (uid, ip) \<in> (\<lambda>u. (UID u, IP u)) ` set (snd acc)"
    by (simp add: in_step_def)
  also have "\<dots> \<longleftrightarrow> OnlineUser uid ip \<in> set (snd acc)"
  proof
    assume "(uid, ip) \<in> (\<lambda>u. (UID u, IP u)) ` set (snd acc)"
    then obtain u where "u \<in> set (snd acc)" "(uid, ip) = (UID u, IP u)" by (rule imageE)
    then show "OnlineUser uid ip \<in> set (snd acc)" by simp
  next
    assume "OnlineUser uid ip \<in> set (snd acc)"
    then show "(uid, ip) \<in> (\<lambda>u. (UID u, IP u)) ` set (snd acc)"
      by (intro image_eqI [of _ _ "OnlineUser uid ip"]) simp_all
  qed
  finally show ?thesis .
qed

lemma snapshot_ips_spec:
  "in_step acc \<Longrightarrow> in_step (snapshot_ips uid ips acc) \<and>
     set (snd (snapshot_ips uid ips acc)) = set (snd acc) \<union> seen_ips uid (set ips)"
proof (induction uid ips acc rule: snapshot_ips.induct)
  case (1 uid acc)
  then show ?case by (simp add: seen_ips_def)
next
  case (2 uid ip ips seen out)
  let ?ip = "NormalizeIP ip"
  show ?case
  proof (cases "?ip = '''' \<or> (uid, ?ip) \<in> set seen")
    case True
    with 2 in_step_mem [OF "2.prems"] show ?thesis
      by (auto simp: seen_ips_def)
  next
    case False
    then have "in_step ((uid, ?ip) # seen, out @ [OnlineUser uid ?ip])"
      using "2.prems" in_step_mem [OF "2.prems", of uid ?ip] by (auto simp: in_step_def)
    with 2 False show ?thesis by (auto simp: seen_ips_def Let_def)
  qed
qed

lemma snapshot_users_spec:
  "in_step acc \<Longrightarrow> in_step (snapshot_users infos r acc) \<and>
     set (snd (snapshot_users infos r acc)) = set (snd acc) \<union>
       (\<Union>(t, m) \<in> set r. case sm_load infos t of None \<Rightarrow> {}
          | Some u \<Rightarrow> if li_UID u = 0 then {} else seen_ips (li_UID u) (set (sm_keys m)))"
proof (induction infos r acc rule: snapshot_users.induct)
  case (2 infos t m rest acc)
  then show ?case
    using snapshot_ips_spec [OF "2.prems"] by (auto split: option.splits if_splits)
qed simp

lemma snapshot_start: "in_step ([], [])"
  by (simp add: in_step_def)

lemma map_get_fold_append:
  "map_get [] (fold (\<lambda>u data. sm_store (k u) (map_get [] data (k u) @ [f u]) data) us m) x =
     map_get [] m x @ map f (filter (\<lambda>u. k u = x) us)"
  by (induction us arbitrary: m) auto

lemma load_fold_append:
  "sm_load (fold (\<lambda>u data. sm_store (k u) (map_get [] data (k u) @ [f u]) data) us m) x =
     (if x \<in> k ` set us then Some (map_get [] m x @ map f (filter (\<lambda>u. k u = x) us)) else sm_load m x)"
  by (induction us arbitrary: m) (auto simp: filter_empty_conv image_iff)

text \<open>The report of the online users of a node: it lists, without repetition, exactly the
  pairs of a user's uid and a normalised non-empty address in the connection limiter's table, over the
  users the limiter knows and whose uid is not zero.\<close>

theorem snapshot_reports_online_users:
  "distinct (snapshotOnlineUsers l) \<and>
   (OnlineUser uid a \<in> set (snapshotOnlineUsers l) \<longleftrightarrow>
      uid \<noteq> 0 \<and> a \<noteq> '''' \<and>
      (\<exists>t m u ip. (t, m) \<in> set (cl_ip (ConnLimiter l)) \<and> sm_load (UserLimitInfo l) t = Some u \<and>
         li_UID u = uid \<and> ip \<in> set (sm_keys m) \<and> NormalizeIP ip = a))"
proof -
  let ?s = "snapshot_users (UserLimitInfo l) (cl_ip (ConnLimiter l)) ([], [])"
  have s: "in_step ?s" "set (snd ?s) = (\<Union>(t, m) \<in> set (cl_ip (ConnLimiter l)).
      case sm_load (UserLimitInfo l) t of None \<Rightarrow> {}
      | Some u \<Rightarrow> if li_UID u = 0 then {} else seen_ips (li_UID u) (set (sm_keys m)))"
    using snapshot_users_spec [OF snapshot_start] by simp_all
  then have "distinct (snapshotOnlineUsers l)" by (simp add: snapshotOnlineUsers_def in_step_def)
  moreover have "OnlineUser uid a \<in> set (snapshotOnlineUsers l) \<longleftrightarrow>
      (\<exists>(t, m) \<in> set (cl_ip (ConnLimiter l)). \<exists>u. sm_load (UserLimitInfo l) t = Some u \<and> li_UID u \<noteq> 0 \<and>
         OnlineUser uid a \<in> seen_ips (li_UID u) (set (sm_keys m)))"
    by (force simp: snapshotOnlineUsers_def s(2) split: option.splits if_splits)
  ultimately show ?thesis by (fastforce simp: seen_ips_def)
qed

text \<open>The map of addresses by uid is a regrouping of the snapshot: a uid has an entry exactly
  when it is in the snapshot, and the entry holds its addresses in the snapshot's order.\<close>

theorem online_ip_map_groups:
  "sm_load (GetOnlineIPMap l) uid =
     (let ips = map IP (filter (\<lambda>u. UID u = uid) (snapshotOnlineUsers l))
      in if ips = [] then None else Some ips)"
  unfolding GetOnlineIPMap_def load_fold_append
  by (auto simp: map_get_def Let_def filter_empty_conv)

section \<open>The device window\<close>

lemma remember_ips_load:
  "sm_load (remember_ips m old) a \<noteq> None \<longleftrightarrow>
     sm_load old a \<noteq> None \<or> (a \<noteq> '''' \<and> a \<in> NormalizeIP ` set (sm_keys m))"
  by (induction m old rule: remember_ips.induct) (auto simp: Let_def sm_keys_def)

lemma rotate_online_load:
  "sm_load (OldUserOnline (rotate_online r l)) a \<noteq> None \<longleftrightarrow>
     sm_load (OldUserOnline l) a \<noteq> None \<or> (a \<noteq> '''' \<and> (\<exists>(t, m) \<in> set r. a \<in> NormalizeIP ` set (sm_keys m)))"
proof (induction r l rule: rotate_online.induct)
  case (2 t m rest l)
  then show ?case by (simp add: remember_ips_load del: not_None_eq) blast
qed simp

lemma rotate_online_online:
  "sm_load (UserOnlineIP (rotate_online r l)) t = (if t \<in> fst ` set r then None else sm_load (UserOnlineIP l) t)"
  by (induction r l rule: rotate_online.induct) auto

definition remembered :: "'re limiter \<Rightarrow> string \<Rightarrow> bool" where
  "remembered l a \<longleftrightarrow> sm_load (OldUserOnline l) a \<noteq> None"

definition in_some_window :: "'re limiter \<Rightarrow> string \<Rightarrow> bool" where
  "in_some_window l a \<longleftrightarrow> a \<noteq> '''' \<and> (\<exists>(t, m) \<in> set (UserOnlineIP l). a \<in> NormalizeIP ` set (sm_keys m))"

text \<open>The rotation of the device window by the online report: afterwards no user has a current
  window, and the remembered addresses are those remembered before together with the normalised
  non-empty addresses of all the closed windows. The table of connections, the users and the
  buckets are untouched, and the report itself is the snapshot.\<close>

theorem online_device_rotates_window:
  "fst (GetOnlineDevice l) = snapshotOnlineUsers l \<and>
   sm_load (UserOnlineIP (snd (GetOnlineDevice l))) t = None \<and>
   (remembered (snd (GetOnlineDevice l)) a \<longleftrightarrow> remembered l a \<or> in_some_window l a) \<and>
   ConnLimiter (snd (GetOnlineDevice l)) = ConnLimiter l \<and>
   UserLimitInfo (snd (GetOnlineDevice l)) = UserLimitInfo l"
proof -
  have frame: "ConnLimiter (rotate_online r l) = ConnLimiter l \<and> UserLimitInfo (rotate_online r l) = UserLimitInfo l" for r
    by (induction r l rule: rotate_online.induct) simp_all
  have "sm_load (UserOnlineIP l) t = None" if "t \<notin> fst ` set (UserOnlineIP l)"
    using that sm.keys_load [of t "UserOnlineIP l"] by (simp add: sm_keys_def)
  with frame show ?thesis
    by (simp add: GetOnlineDevice_def rotate_online_load rotate_online_online remembered_def
        in_some_window_def del: not_None_eq)
qed

section \<open>Replacing users\<close>

lemma load_drop_users:
  "sm_load (UserLimitInfo (fold (drop_user tag) us l)) (UserTag tag k) =
     (if k \<in> ui_Uuid ` set us then None else sm_load (UserLimitInfo l) (UserTag tag k))"
  "sm_load (UUIDtoUID (fold (drop_user tag) us l)) k =
     (if k \<in> ui_Uuid ` set us then None else sm_load (UUIDtoUID l) k)"
  by (induction us arbitrary: l) (auto simp: drop_user_def DeleteAlive_def)

lemma load_store_users:
  "sm_load (UserLimitInfo (fold (store_user tag) us l)) (UserTag tag k) =
     (case user_table new_limit_info us k of None \<Rightarrow> sm_load (UserLimitInfo l) (UserTag tag k) | Some i \<Rightarrow> Some i)"
  "sm_load (UUIDtoUID (fold (store_user tag) us l)) k =
     (case user_table ui_Id us k of None \<Rightarrow> sm_load (UUIDtoUID l) k | Some i \<Rightarrow> Some i)"
  by (induction us rule: rev_induct) (auto simp: user_table_snoc store_user_def)

lemma load_UpdateUser:
  "sm_load (UserLimitInfo (UpdateUser tag added deleted l)) (UserTag tag k) =
     (case user_table new_limit_info added k of Some i \<Rightarrow> Some i
      | None \<Rightarrow> if k \<in> ui_Uuid ` set deleted then None else sm_load (UserLimitInfo l) (UserTag tag k))"
  "sm_load (UUIDtoUID (UpdateUser tag added deleted l)) k =
     (case user_table ui_Id added k of Some i \<Rightarrow> Some i
      | None \<Rightarrow> if k \<in> ui_Uuid ` set deleted then None else sm_load (UUIDtoUID l) k)"
  by (simp_all add: UpdateUser_def load_drop_users load_store_users split: option.splits)

lemma load_NewLimiter:
  "sm_load (UserLimitInfo (NewLimiter tag cfg users alive)) (UserTag tag k) = user_table new_limit_info users k"
  "sm_load (UUIDtoUID (NewLimiter tag cfg users alive)) k = user_table ui_Id users k"
  by (simp_all add: NewLimiter_def load_store_users SetAliveList_def split: option.splits)

text \<open>What the limiter holds of the panel's user list: per uuid the uid and the two limits.\<close>

definition panel_view :: "limit_info \<Rightarrow> int \<times> int \<times> int" where
  "panel_view i = (li_UID i, li_SpeedLimit i, li_DeviceLimit i)"

definition user_view :: "user_info \<Rightarrow> int \<times> int \<times> int" where
  "user_view u = (ui_Id u, ui_SpeedLimit u, ui_DeviceLimit u)"

definition tracks_users :: "string \<Rightarrow> user_info list \<Rightarrow> 're limiter \<Rightarrow> bool" where
  "tracks_users tag users l \<longleftrightarrow>
     (\<forall>k. map_option panel_view (sm_load (UserLimitInfo l) (UserTag tag k)) = user_table user_view users k) \<and>
     (\<forall>k. sm_load (UUIDtoUID l) k = user_table ui_Id users k)"

lemma panel_view_new [simp]: "panel_view (new_limit_info u) = user_view u"
  by (simp add: panel_view_def new_limit_info_def user_view_def)

lemma user_table_map: "map_option g (user_table f us k) = user_table (\<lambda>u. g (f u)) us k"
  by (induction us rule: rev_induct) (auto simp: user_table_snoc)

lemma tracks_new: "tracks_users tag users (NewLimiter tag cfg users alive)"
  by (simp add: tracks_users_def load_NewLimiter user_table_map)

section \<open>The registry\<close>

definition registry_wf :: "'re registry \<Rightarrow> bool" where
  "registry_wf r \<longleftrightarrow> (case rg_limiter r of None \<Rightarrow> True
     | Some m \<Rightarrow> sm_wf m \<and> (\<forall>t a. sm_load m t = Some a \<longrightarrow> a < length (rg_heap r)) \<and>
         (\<forall>t t' a. sm_load m t = Some a \<longrightarrow> sm_load m t' = Some a \<longrightarrow> t = t'))"

lemma registry_wf_Some:
  "rg_limiter r = Some m \<Longrightarrow> registry_wf r \<longleftrightarrow> sm_wf m \<and>
     (\<forall>t a. sm_load m t = Some a \<longrightarrow> a < length (rg_heap r)) \<and>
     (\<forall>t t' a. sm_load m t = Some a \<longrightarrow> sm_load m t' = Some a \<longrightarrow> t = t')"
  by (simp add: registry_wf_def)

lemma registry_wf_add:
  assumes "registry_wf r" "AddLimiter tag cfg us al r = (a, r')"
  shows "registry_wf r'"
proof -
  define m where "m = (case rg_limiter r of None \<Rightarrow> [] | Some m \<Rightarrow> m)"
  have old: "sm_wf m" "\<forall>t a. sm_load m t = Some a \<longrightarrow> a < length (rg_heap r)"
    "\<forall>t t' a. sm_load m t = Some a \<longrightarrow> sm_load m t' = Some a \<longrightarrow> t = t'"
    using assms(1) by (auto simp: registry_wf_def m_def split: option.splits)
  have r': "rg_limiter r' = Some (sm_store tag (length (rg_heap r)) m)"
      "length (rg_heap r') = Suc (length (rg_heap r))"
    using assms(2) by (auto simp: AddLimiter_def Let_def m_def)
  have "t = t'" if "sm_load m t = Some (length (rg_heap r))" for t t' using old(2) that by blast
  with old show ?thesis by (auto simp: registry_wf_Some [OF r'(1)] r'(2) less_SucI)
qed

lemma registry_wf_delete: "registry_wf r \<Longrightarrow> registry_wf (DeleteLimiter tag r)"
  by (cases "rg_limiter r") (auto simp: registry_wf_def DeleteLimiter_def)

lemma heap_update_simps [simp]:
  "rg_limiter (heap_update a f r) = rg_limiter r"
  "length (rg_heap (heap_update a f r)) = length (rg_heap r)"
  by (simp_all add: heap_update_def)

lemma fold_heap_update:
  "distinct (map snd m) \<Longrightarrow> \<forall>(t, a) \<in> set m. a < length (rg_heap r) \<Longrightarrow> i < length (rg_heap r) \<Longrightarrow>
     rg_heap (fold (\<lambda>(t, a). heap_update a f) m r) ! i =
       (if i \<in> snd ` set m then f (rg_heap r ! i) else rg_heap r ! i) \<and>
     rg_limiter (fold (\<lambda>(t, a). heap_update a f) m r) = rg_limiter r \<and>
     length (rg_heap (fold (\<lambda>(t, a). heap_update a f) m r)) = length (rg_heap r)"
proof (induction m arbitrary: r)
  case (Cons p m)
  obtain t a where p: "p = (t, a)" by force
  with Cons.prems have "a < length (rg_heap r)" "a \<notin> snd ` set m" by auto
  with Cons.IH [of "heap_update a f r"] Cons.prems show ?case
    by (auto simp: p heap_update_def nth_list_update split: if_splits)
qed simp

lemma registry_addrs_distinct: "registry_wf r \<Longrightarrow> rg_limiter r = Some m \<Longrightarrow> distinct (map snd m)"
proof -
  assume r: "registry_wf r" "rg_limiter r = Some m"
  then have wf: "sm_wf m" by (simp add: registry_wf_Some)
  have "x = y" if "x \<in> set m" "y \<in> set m" "snd x = snd y" for x y
  proof -
    have "sm_load m (fst x) = Some (snd x)" "sm_load m (fst y) = Some (snd x)"
      using that(1,2) by (simp_all add: sm_load_in [OF wf]) (metis that(3) prod.collapse)
    with r that(3) show ?thesis by (auto simp: registry_wf_Some prod_eq_iff)
  qed
  moreover have "distinct m" using wf by (simp add: sm_wf_def distinct_map)
  ultimately show ?thesis by (auto simp: distinct_map inj_on_def)
qed

text \<open>The registry of limiters is a table of pointers: a fresh limiter is the one a later lookup
  of its tag returns, deleting a tag makes its lookup fail, and neither affects another tag. A limiter
  that was replaced or deleted stays as it is for whoever still holds the pointer.\<close>

theorem registry_laws:
  assumes "AddLimiter tag cfg users alive r = (a, r')"
  shows "GetLimiter r' tag = Inr a \<and> rg_heap r' ! a = NewLimiter tag cfg users alive \<and>
     (t \<noteq> tag \<longrightarrow> GetLimiter r' t = GetLimiter r t) \<and>
     (i < length (rg_heap r) \<longrightarrow> rg_heap r' ! i = rg_heap r ! i) \<and>
     GetLimiter (DeleteLimiter tag r') tag = Inl ''not found'' \<and>
     (t \<noteq> tag \<longrightarrow> GetLimiter (DeleteLimiter tag r') t = GetLimiter r t) \<and>
     rg_heap (DeleteLimiter tag r') = rg_heap r'"
  using assms
  by (auto simp: AddLimiter_def GetLimiter_def DeleteLimiter_def Let_def nth_append split: option.splits if_splits)

lemma GetLimiter_Inr: "GetLimiter r t = Inr i \<longleftrightarrow> (\<exists>m. rg_limiter r = Some m \<and> sm_load m t = Some i)"
  by (auto simp: GetLimiter_def split: option.splits)

text \<open>The periodic clearing reaches the limiter of every registered tag, once, and no limiter
  that is not registered any more.\<close>

theorem clear_all_registered:
  assumes "registry_wf r" "i < length (rg_heap r)"
  shows "rg_heap (ClearAllOnlineIP now r) ! i =
     (if \<exists>t. GetLimiter r t = Inr i
      then (rg_heap r ! i)\<lparr>ConnLimiter := ClearOnlineIP now (ConnLimiter (rg_heap r ! i))\<rparr>
      else rg_heap r ! i)"
proof (cases "rg_limiter r")
  case None
  then show ?thesis by (simp add: ClearAllOnlineIP_def GetLimiter_def)
next
  case (Some m)
  with assms(1) have wf: "sm_wf m" "\<forall>(t, a) \<in> set m. a < length (rg_heap r)"
    by (auto simp: registry_wf_def sm_load_in)
  have "(\<exists>t. GetLimiter r t = Inr i) \<longleftrightarrow> i \<in> snd ` set m"
    by (auto simp: GetLimiter_Inr Some sm_load_in [OF wf(1)] intro: rev_image_eqI)
  then show ?thesis
    using fold_heap_update [OF registry_addrs_distinct [OF assms(1) Some] wf(2) assms(2)]
    by (simp add: ClearAllOnlineIP_def Some)
qed

definition demo_limits :: limit_config where
  "demo_limits = \<lparr>lc_EnableRealtime = False, lc_SpeedLimit = 0, lc_IPLimit = 0, lc_ConnLimit = 0,
     lc_EnableIpRecorder = False, lc_IpRecorderConfig = None, lc_EnableDynamicSpeedLimit = False,
     lc_DynamicSpeedLimitConfig = None\<rparr>"

definition empty_registry :: "unit registry" where
  "empty_registry = \<lparr>rg_heap = [], rg_limiter = None\<rparr>"

definition demo_registry :: "unit registry" where
  "demo_registry = snd (AddLimiter ''a'' demo_limits [] [] empty_registry)"

lemma registry_laws_witness:
  "GetLimiter (snd (AddLimiter ''b'' demo_limits [] [] demo_registry)) ''b'' = Inr 1 \<and>
   GetLimiter (snd (AddLimiter ''b'' demo_limits [] [] demo_registry)) ''a'' = Inr 0"
proof -
  have *: "AddLimiter ''b'' demo_limits [] [] demo_registry =
      (1, snd (AddLimiter ''b'' demo_limits [] [] demo_registry))"
    by (simp add: AddLimiter_def demo_registry_def empty_registry_def Let_def)
  moreover have "GetLimiter demo_registry ''a'' = Inr 0"
    by (simp add: AddLimiter_def demo_registry_def empty_registry_def Let_def GetLimiter_def)
  ultimately show ?thesis using registry_laws [OF *, of "''a''" 0] by simp
qed

lemma clear_all_registered_witness:
  "rg_heap (ClearAllOnlineIP 0 (DeleteLimiter ''a'' demo_registry)) ! 0 = rg_heap demo_registry ! 0"
proof -
  let ?r = "DeleteLimiter ''a'' demo_registry"
  have "registry_wf demo_registry"
    unfolding demo_registry_def by (rule registry_wf_add [of empty_registry]) (auto simp: registry_wf_def empty_registry_def prod_eq_iff)
  then have "registry_wf ?r" by (rule registry_wf_delete)
  moreover have "0 < length (rg_heap ?r)" "\<And>t. GetLimiter ?r t = Inl ''not found''"
    by (simp_all add: DeleteLimiter_def demo_registry_def empty_registry_def AddLimiter_def Let_def GetLimiter_def)
  ultimately show ?thesis using clear_all_registered [of ?r 0 0] by (simp add: DeleteLimiter_def)
qed

end
