(* ===== verification/User_Diff.thy ===== *)
theory User_Diff
  imports Limiter_Online "HOL-Library.Multiset"
begin

text \<open>
  \<^verbatim>\<open>compareUserList\<close> of \<^verbatim>\<open>node/user.go\<close>: the difference between the old and the new user list, keyed by
  a rendering of the whole record, and what applying the difference to a limiter does.
\<close>

definition userCompareKey :: "user_info \<Rightarrow> string" where
  "userCompareKey user =
     Itoa (ui_Id user) @ ''|'' @ ui_Uuid user @ ''|'' @ Itoa (ui_SpeedLimit user) @ ''|'' @ Itoa (ui_DeviceLimit user)"

text \<open>The map from keys to the last index of the old list that has it.\<close>

definition index_users :: "user_info list \<Rightarrow> (string, nat) gomap" where
  "index_users old = fold (\<lambda>(i, user). sm_store (userCompareKey user) i) (enumerate 0 old) []"

fun scan_new :: "user_info list \<Rightarrow> (string, nat) gomap \<Rightarrow> user_info list \<Rightarrow> (string, nat) gomap \<times> user_info list" where
  "scan_new [] oldMap added = (oldMap, added)"
| "scan_new (user # rest) oldMap added =
     (case sm_load oldMap (userCompareKey user) of
        None \<Rightarrow> scan_new rest oldMap (added @ [user])
      | Some _ \<Rightarrow> scan_new rest (sm_delete (userCompareKey user) oldMap) added)"

text \<open>The final loop ranges over the map that is left, in any order: here in the list's.\<close>

definition compareUserList :: "user_info list \<Rightarrow> user_info list \<Rightarrow> user_info list \<times> user_info list" where
  "compareUserList old new =
     (case scan_new new (index_users old) [] of (oldMap, added) \<Rightarrow>
        (map (\<lambda>(_, index). old ! index) oldMap, added))"

section \<open>The key is injective\<close>

lemma split_at_bar:
  "CHR ''|'' \<notin> set a \<Longrightarrow> CHR ''|'' \<notin> set b \<Longrightarrow> a @ CHR ''|'' # x = b @ CHR ''|'' # y \<longleftrightarrow> a = b \<and> x = y"
  by (auto simp: append_eq_append_conv2 append_eq_Cons_conv Cons_eq_append_conv)

lemma split_at_last_bar:
  "CHR ''|'' \<notin> set a \<Longrightarrow> CHR ''|'' \<notin> set b \<Longrightarrow> x @ CHR ''|'' # a = y @ CHR ''|'' # b \<longleftrightarrow> a = b \<and> x = y"
  by (auto simp: append_eq_append_conv2 append_eq_Cons_conv Cons_eq_append_conv)

text \<open>The key under which users are compared identifies the whole record: two users have the same key
  exactly when uid, uuid and both limits agree, even when a uuid holds the separator.\<close>

theorem userCompareKey_injective:
  "userCompareKey u = userCompareKey v \<longleftrightarrow>
     ui_Id u = ui_Id v \<and> ui_Uuid u = ui_Uuid v \<and> ui_SpeedLimit u = ui_SpeedLimit v \<and> ui_DeviceLimit u = ui_DeviceLimit v"
  using split_at_last_bar [OF Itoa_no_bar Itoa_no_bar,
      of "ui_Uuid u @ ''|'' @ Itoa (ui_SpeedLimit u)" _ "ui_Uuid v @ ''|'' @ Itoa (ui_SpeedLimit v)"]
    split_at_last_bar [OF Itoa_no_bar Itoa_no_bar, of "ui_Uuid u" _ "ui_Uuid v"]
  by (auto simp: userCompareKey_def split_at_bar Itoa_no_bar)

lemma userCompareKey_eq: "userCompareKey u = userCompareKey v \<longleftrightarrow> u = v"
proof -
  have "userCompareKey u = userCompareKey v \<longleftrightarrow>
     ui_Id u = ui_Id v \<and> ui_Uuid u = ui_Uuid v \<and> ui_SpeedLimit u = ui_SpeedLimit v \<and> ui_DeviceLimit u = ui_DeviceLimit v"
    using split_at_last_bar [OF Itoa_no_bar Itoa_no_bar,
        of "ui_Uuid u @ ''|'' @ Itoa (ui_SpeedLimit u)" _ "ui_Uuid v @ ''|'' @ Itoa (ui_SpeedLimit v)"]
      split_at_last_bar [OF Itoa_no_bar Itoa_no_bar, of "ui_Uuid u" _ "ui_Uuid v"]
    by (auto simp: userCompareKey_def split_at_bar Itoa_no_bar)
  then show ?thesis by (cases u; cases v) simp
qed

section \<open>The difference of two lists\<close>

lemma index_users_Nil [simp]: "index_users [] = []"
  by (simp add: index_users_def)

lemma index_users_snoc:
  "index_users (us @ [u]) = sm_store (userCompareKey u) (length us) (index_users us)"
  by (simp add: index_users_def enumerate_append_eq)

lemma index_users_wf: "sm_wf (index_users us)"
  by (induction us rule: rev_induct) (auto simp: index_users_snoc)

lemma index_users_load:
  "sm_load (index_users us) k = Some i \<Longrightarrow> i < length us \<and> userCompareKey (us ! i) = k"
proof (induction us rule: rev_induct)
  case Nil
  then show ?case by simp
next
  case (snoc u us)
  then show ?case
    by (auto simp: index_users_snoc nth_append split: if_splits dest: less_SucI)
qed

lemma index_users_dom: "sm_load (index_users us) k \<noteq> None \<longleftrightarrow> k \<in> userCompareKey ` set us"
  by (induction us rule: rev_induct) (auto simp: index_users_snoc)

lemma scan_new_spec:
  assumes "distinct new"
  shows "scan_new new m added = (m', added') \<Longrightarrow>
     added' = added @ filter (\<lambda>u. sm_load m (userCompareKey u) = None) new \<and>
     (\<forall>k. sm_load m' k = (if k \<in> userCompareKey ` set new then None else sm_load m k)) \<and>
     (sm_wf m \<longrightarrow> sm_wf m')"
  using assms
proof (induction new arbitrary: m added)
  case Nil
  then show ?case by simp
next
  case (Cons u new)
  show ?case
  proof (cases "sm_load m (userCompareKey u)")
    case None
    with Cons.IH [of m "added @ [u]"] Cons.prems show ?thesis by auto
  next
    case (Some i)
    have "filter (\<lambda>v. sm_load (sm_delete (userCompareKey u) m) (userCompareKey v) = None) new =
        filter (\<lambda>v. sm_load m (userCompareKey v) = None) new"
      using Cons.prems(2) by (intro filter_cong) (auto simp: userCompareKey_eq)
    with Some Cons.IH [of "sm_delete (userCompareKey u) m" added] Cons.prems show ?thesis by auto
  qed
qed

lemma compareUserList_spec:
  assumes "distinct new" "compareUserList old new = (deleted, added)"
  shows "added = filter (\<lambda>u. u \<notin> set old) new" "set deleted = set old - set new" "distinct deleted"
proof -
  obtain m where scan: "scan_new new (index_users old) [] = (m, added)"
    and del: "deleted = map (\<lambda>(_, i). old ! i) m"
    using assms(2) by (auto simp: compareUserList_def split: prod.splits)
  note spec = scan_new_spec [OF assms(1) scan]
  have wf: "sm_wf m" using spec index_users_wf by blast
  have load: "sm_load m k = (if k \<in> userCompareKey ` set new then None else sm_load (index_users old) k)" for k
    using spec by blast
  have mem: "k = userCompareKey (old ! i) \<and> old ! i \<in> set old \<and> old ! i \<notin> set new" if "(k, i) \<in> set m" for k i
  proof -
    have *: "sm_load (index_users old) k = Some i" "k \<notin> userCompareKey ` set new"
      using load [of k] sm_load_in [OF wf, of k i] that by (auto split: if_splits)
    then show ?thesis using index_users_load [OF *(1)] by auto
  qed
  have "\<exists>i. (userCompareKey u, i) \<in> set m \<and> old ! i = u" if u: "u \<in> set old" "u \<notin> set new" for u
  proof -
    obtain i where i: "sm_load (index_users old) (userCompareKey u) = Some i"
      using index_users_dom [of old "userCompareKey u"] u(1) by auto
    moreover have "userCompareKey u \<notin> userCompareKey ` set new" using u(2) by (auto simp: userCompareKey_eq)
    ultimately have "(userCompareKey u, i) \<in> set m" using load sm_load_in [OF wf] by metis
    with index_users_load [OF i] show ?thesis by (auto simp: userCompareKey_eq)
  qed
  with mem show "set deleted = set old - set new"
    by (force simp: del)
  have "map userCompareKey deleted = map fst m"
    using mem by (auto simp: del)
  then show "distinct deleted"
    using wf by (metis distinct_map sm_wf_def)
  show "added = filter (\<lambda>u. u \<notin> set old) new"
  proof -
    have "sm_load (index_users old) (userCompareKey u) = None \<longleftrightarrow> u \<notin> set old" for u
      using index_users_dom [of old "userCompareKey u"] by (auto simp: userCompareKey_eq)
    with spec show ?thesis by simp
  qed
qed

text \<open>C33: The difference of two user lists, the new one without repetitions: the added users are the
  new ones that are not in the old list, in their order, and the deleted ones are, each once, the old ones that
  are not in the new list. A user whose limits or uid changed is in both.\<close>

theorem compareUserList_correct:
  assumes "distinct new" "compareUserList old new = (deleted, added)"
  shows "added = filter (\<lambda>u. u \<notin> set old) new \<and> set deleted = set old - set new \<and> distinct deleted"
  using compareUserList_spec [OF assms] by blast

definition demo_old_users :: "user_info list" where
  "demo_old_users = [\<lparr>ui_Id = 1, ui_Uuid = ''a'', ui_SpeedLimit = 0, ui_DeviceLimit = 0\<rparr>,
     \<lparr>ui_Id = 2, ui_Uuid = ''b'', ui_SpeedLimit = 0, ui_DeviceLimit = 0\<rparr>]"

definition demo_new_users :: "user_info list" where
  "demo_new_users = [\<lparr>ui_Id = 2, ui_Uuid = ''b'', ui_SpeedLimit = 10, ui_DeviceLimit = 0\<rparr>,
     \<lparr>ui_Id = 3, ui_Uuid = ''c'', ui_SpeedLimit = 0, ui_DeviceLimit = 2\<rparr>]"

lemma compareUserList_correct_witness:
  "set (fst (compareUserList demo_old_users demo_new_users)) = set demo_old_users \<and>
   snd (compareUserList demo_old_users demo_new_users) = demo_new_users"
  using compareUserList_correct [of demo_new_users demo_old_users, OF _ prod.collapse [symmetric]]
  by (auto simp: demo_old_users_def demo_new_users_def)

section \<open>Applying the difference\<close>

lemma diff_table:
  assumes old: "distinct (map ui_Uuid old)" and new: "distinct (map ui_Uuid new)"
    and "compareUserList old new = (deleted, added)"
  shows "(case user_table f added k of Some i \<Rightarrow> Some i
          | None \<Rightarrow> if k \<in> ui_Uuid ` set deleted then None else user_table f old k) = user_table f new k"
proof -
  have "distinct new" using new by (simp add: distinct_map)
  note diff = compareUserList_spec [OF this assms(3)]
  have eq_old: "u = v" if "u \<in> set old" "v \<in> set old" "ui_Uuid u = ui_Uuid v" for u v
    using old that by (auto simp: distinct_map inj_on_def)
  have eq_new: "u = v" if "u \<in> set new" "v \<in> set new" "ui_Uuid u = ui_Uuid v" for u v
    using new that by (auto simp: distinct_map inj_on_def)
  have dist_added: "distinct (map ui_Uuid added)"
    using new by (simp add: diff(1) distinct_map_filter)
  show ?thesis
  proof (cases "k \<in> ui_Uuid ` set added")
    case True
    then obtain u where u: "u \<in> set added" "k = ui_Uuid u" by blast
    then show ?thesis
      using user_table_distinct [OF dist_added u(1), of f] user_table_distinct [OF new, of u f] by (simp add: diff(1))
  next
    case False
    then have none: "user_table f added k = None" by (simp add: user_table_None)
    show ?thesis
    proof (cases "k \<in> ui_Uuid ` set new")
      case True
      then obtain w where w: "w \<in> set new" "k = ui_Uuid w" by blast
      with False have "w \<in> set old" by (auto simp: diff(1))
      moreover have "k \<notin> ui_Uuid ` set deleted"
        using eq_old [OF \<open>w \<in> set old\<close>] w by (auto simp: diff(2))
      ultimately show ?thesis
        using none user_table_distinct [OF old, of w f] user_table_distinct [OF new w(1), of f] w(2) by simp
    next
      case False
      then have "user_table f new k = None" by (simp add: user_table_None)
      moreover have "user_table f old k = None" if "k \<notin> ui_Uuid ` set deleted"
        using that False by (auto simp: user_table_None diff(2))
      ultimately show ?thesis using none by auto
    qed
  qed
qed

lemma UpdateUser_tracks:
  assumes "tracks_users tag old l" "distinct (map ui_Uuid old)" "distinct (map ui_Uuid new)"
    and "compareUserList old new = (deleted, added)"
  shows "tracks_users tag new (UpdateUser tag added deleted l)"
proof -
  have "map_option panel_view (sm_load (UserLimitInfo (UpdateUser tag added deleted l)) (UserTag tag k)) =
      user_table user_view new k" for k
  proof -
    have "map_option panel_view (sm_load (UserLimitInfo (UpdateUser tag added deleted l)) (UserTag tag k)) =
       (case user_table user_view added k of Some i \<Rightarrow> Some i
        | None \<Rightarrow> if k \<in> ui_Uuid ` set deleted then None else user_table user_view old k)"
      using assms(1) user_table_map [of panel_view new_limit_info added k]
      by (auto simp: load_UpdateUser tracks_users_def split: option.splits)
    then show ?thesis by (simp add: diff_table [OF assms(2-4)])
  qed
  moreover have "sm_load (UUIDtoUID (UpdateUser tag added deleted l)) k = user_table ui_Id new k" for k
    using assms(1) diff_table [OF assms(2-4), where f = ui_Id and k = k]
    by (auto simp: load_UpdateUser tracks_users_def split: option.splits)
  ultimately show ?thesis by (simp add: tracks_users_def)
qed

text \<open>C9: The incremental update of a limiter refines replacing its user list: when the limiter holds
  the old list (uid and limits of each uuid, and nobody else), then after \<^const>\<open>UpdateUser\<close> with the
  difference it holds the new list, exactly as a limiter built from the new list would.\<close>

theorem update_by_difference_refines:
  assumes "tracks_users tag old l" "distinct (map ui_Uuid old)" "distinct (map ui_Uuid new)"
    and "compareUserList old new = (deleted, added)"
  shows "map_option panel_view (sm_load (UserLimitInfo (UpdateUser tag added deleted l)) (UserTag tag k)) =
         map_option panel_view (sm_load (UserLimitInfo (NewLimiter tag cfg new alive :: 're limiter)) (UserTag tag k)) \<and>
     sm_load (UUIDtoUID (UpdateUser tag added deleted l)) k =
       sm_load (UUIDtoUID (NewLimiter tag cfg new alive :: 're limiter)) k"
proof -
  have "tracks_users tag new (NewLimiter tag cfg new alive :: 're limiter)" by (rule tracks_new)
  then show ?thesis using UpdateUser_tracks [OF assms] by (simp add: tracks_users_def)
qed

lemma update_by_difference_refines_witness:
  "map_option panel_view (sm_load (UserLimitInfo
     (UpdateUser ''n'' demo_new_users demo_old_users (NewLimiter ''n'' demo_limits demo_old_users [] :: unit limiter)))
     (UserTag ''n'' ''b'')) = Some (2, 10, 0)"
proof -
  let ?l = "NewLimiter ''n'' demo_limits demo_old_users [] :: unit limiter"
  have d: "distinct (map ui_Uuid demo_old_users)" "distinct (map ui_Uuid demo_new_users)"
    "compareUserList demo_old_users demo_new_users = (demo_old_users, demo_new_users)"
    by code_simp+
  have "map_option panel_view (sm_load (UserLimitInfo (UpdateUser ''n'' demo_new_users demo_old_users ?l)) (UserTag ''n'' ''b'')) =
      map_option panel_view (sm_load (UserLimitInfo (NewLimiter ''n'' demo_limits demo_new_users [] :: unit limiter))
        (UserTag ''n'' ''b''))"
    using update_by_difference_refines [OF tracks_new d] by blast
  also have "\<dots> = Some (2, 10, 0)" by code_simp
  finally show ?thesis .
qed

end
