(* ===== verification/Online_Report.thy ===== *)
theory Online_Report
  imports Shared_Types
begin

text \<open>
  The pure functions of \<^verbatim>\<open>node/user.go\<close> that prepare the report of online addresses: removing
  duplicates, sorting, and building the payload. A Go map that a loop writes while it ranges over a
  sorted key list is an association list; \<^verbatim>\<open>sort.Slice\<close>, \<^verbatim>\<open>sort.Ints\<close> and \<^verbatim>\<open>sort.Strings\<close> are
  \<^term>\<open>sort\<close> (the elements of each sorted list are ordered totally, so the result does not depend on
  the algorithm).
\<close>

fun dedupe_users :: "online_user list \<Rightarrow> (int \<times> string) list \<Rightarrow> online_user list \<Rightarrow> online_user list" where
  "dedupe_users [] seen result = result"
| "dedupe_users (onlineUser # rest) seen result =
     (let ip = NormalizeIP (IP onlineUser); key = (UID onlineUser, ip) in
      if ip = '''' then dedupe_users rest seen result
      else if key \<in> set seen then dedupe_users rest seen result
      else dedupe_users rest (key # seen) (result @ [OnlineUser (UID onlineUser) ip]))"

definition dedupeOnlineUsersByIP :: "online_user list \<Rightarrow> online_user list" where
  "dedupeOnlineUsersByIP users = sort (dedupe_users users [] [])"

fun dedupe_ips :: "int \<Rightarrow> string list \<Rightarrow> (int \<times> string) list \<times> (int, string list) gomap \<Rightarrow>
    (int \<times> string) list \<times> (int, string list) gomap" where
  "dedupe_ips uid [] acc = acc"
| "dedupe_ips uid (ip # ips) (seen, result) =
     (let ip = NormalizeIP ip; key = (uid, ip) in
      if ip = '''' then dedupe_ips uid ips (seen, result)
      else if key \<in> set seen then dedupe_ips uid ips (seen, result)
      else dedupe_ips uid ips (key # seen, sm_store uid (map_get [] result uid @ [ip]) result))"

fun dedupe_uids :: "int list \<Rightarrow> (int, string list) gomap \<Rightarrow>
    (int \<times> string) list \<times> (int, string list) gomap \<Rightarrow> (int \<times> string) list \<times> (int, string list) gomap" where
  "dedupe_uids [] data acc = acc"
| "dedupe_uids (uid # uids) data acc = dedupe_uids uids data (dedupe_ips uid (map_get [] data uid) acc)"

definition dedupeOnlineIPMapByIP :: "(int, string list) gomap \<Rightarrow> (int, string list) gomap" where
  "dedupeOnlineIPMapByIP data =
     map (\<lambda>(uid, ips). (uid, sort ips)) (snd (dedupe_uids (sort (sm_keys data)) data ([], [])))"

text \<open>The argument is \<^term>\<open>None\<close> for the nil map.\<close>

definition buildOnlineIPMapPayload :: "(int, string list) gomap option \<Rightarrow> (int, string list) gomap" where
  "buildOnlineIPMapPayload data = (case data of
     None \<Rightarrow> []
   | Some data \<Rightarrow>
       fold (\<lambda>(uid, ips) payload. if ips = [] then payload else sm_store uid ips payload)
         (dedupeOnlineIPMapByIP data) [])"

definition buildOnlineIPPayload :: "online_user list \<Rightarrow> (int, string list) gomap" where
  "buildOnlineIPPayload onlineUsers = buildOnlineIPMapPayload (Some
     (fold (\<lambda>u data. if IP u = '''' then data else sm_store (UID u) (map_get [] data (UID u) @ [IP u]) data)
        onlineUsers []))"

section \<open>The list of online users\<close>

lemma dedupe_users_spec:
  assumes "distinct result" "set seen = (\<lambda>u. (UID u, IP u)) ` set result"
  shows "distinct (dedupe_users users seen result) \<and>
     set (dedupe_users users seen result) =
       set result \<union> {OnlineUser (UID u) (NormalizeIP (IP u)) | u. u \<in> set users \<and> NormalizeIP (IP u) \<noteq> ''''}"
  using assms
proof (induction users seen result rule: dedupe_users.induct)
  case (1 seen result)
  then show ?case by simp
next
  case (2 u rest seen result)
  let ?ip = "NormalizeIP (IP u)"
  have mem: "(UID u, ?ip) \<in> set seen \<longleftrightarrow> OnlineUser (UID u) ?ip \<in> set result"
    unfolding "2.prems"(2) by (auto simp: image_iff intro!: bexI [of _ "OnlineUser (UID u) ?ip"])
  show ?case
  proof (cases "?ip = '''' \<or> (UID u, ?ip) \<in> set seen")
    case True
    with 2 mem show ?thesis by (auto simp: Let_def)
  next
    case False
    with mem "2.prems" have new: "distinct (result @ [OnlineUser (UID u) ?ip])"
      "set ((UID u, ?ip) # seen) = (\<lambda>u. (UID u, IP u)) ` set (result @ [OnlineUser (UID u) ?ip])"
      by auto
    from False have *: "?ip \<noteq> ''''" "(UID u, ?ip) \<notin> set seen" by auto
    from "2.IH"(3) [OF refl refl * new] * show ?thesis by (auto simp: Let_def)
  qed
qed

text \<open>Removing duplicates from the list of online users: the result is strictly sorted by uid and then by
  address, and holds exactly the users of the input with their addresses normalised, those with an
  empty address left out. It depends only on the set of users, not on the order of their report.\<close>

theorem dedupe_online_users:
  "sorted_wrt (<) (dedupeOnlineUsersByIP users) \<and>
   set (dedupeOnlineUsersByIP users) =
     {OnlineUser (UID u) (NormalizeIP (IP u)) | u. u \<in> set users \<and> NormalizeIP (IP u) \<noteq> ''''}"
  using dedupe_users_spec [of "[]" "[]" users]
  by (auto simp: dedupeOnlineUsersByIP_def strict_sorted_iff)

section \<open>The map of addresses\<close>

definition clean_ips :: "string list \<Rightarrow> string set" where
  "clean_ips ips = {NormalizeIP a | a. a \<in> set ips \<and> NormalizeIP a \<noteq> ''''}"

lemma clean_ips_simps [simp]:
  "clean_ips [] = {}"
  "clean_ips (a # ips) = (if NormalizeIP a = '''' then clean_ips ips else insert (NormalizeIP a) (clean_ips ips))"
  by (auto simp: clean_ips_def)

lemma finite_clean_ips [simp]: "finite (clean_ips ips)"
  by (simp add: clean_ips_def)

text \<open>The loop keeps \<^verbatim>\<open>seen\<close> and the result in step.\<close>

definition ips_in_step :: "(int \<times> string) list \<times> (int, string list) gomap \<Rightarrow> bool" where
  "ips_in_step acc \<longleftrightarrow> (\<forall>uid. distinct (map_get [] (snd acc) uid)) \<and>
     (\<forall>uid ip. (uid, ip) \<in> set (fst acc) \<longleftrightarrow> ip \<in> set (map_get [] (snd acc) uid)) \<and>
     (\<forall>uid. sm_load (snd acc) uid \<noteq> Some [])"

lemma dedupe_ips_spec:
  "ips_in_step acc \<Longrightarrow> ips_in_step (dedupe_ips uid ips acc) \<and>
     set (map_get [] (snd (dedupe_ips uid ips acc)) v) =
       (if v = uid then set (map_get [] (snd acc) v) \<union> clean_ips ips else set (map_get [] (snd acc) v))"
proof (induction uid ips acc rule: dedupe_ips.induct)
  case (1 uid acc)
  then show ?case by simp
next
  case (2 uid ip ips seen result)
  let ?ip = "NormalizeIP ip"
  show ?case
  proof (cases "?ip = '''' \<or> (uid, ?ip) \<in> set seen")
    case True
    with 2 show ?thesis by (auto simp: Let_def ips_in_step_def)
  next
    case False
    with "2.prems" have "ips_in_step ((uid, ?ip) # seen, sm_store uid (map_get [] result uid @ [?ip]) result)"
      by (auto simp: ips_in_step_def)
    with 2(3) [OF refl refl] False show ?thesis by (auto simp: Let_def)
  qed
qed

lemma dedupe_uids_spec:
  "ips_in_step acc \<Longrightarrow> ips_in_step (dedupe_uids uids data acc) \<and>
     set (map_get [] (snd (dedupe_uids uids data acc)) v) =
       set (map_get [] (snd acc) v) \<union> (if v \<in> set uids then clean_ips (map_get [] data v) else {})"
proof (induction uids data acc rule: dedupe_uids.induct)
  case (2 uid uids data acc)
  note step = dedupe_ips_spec [OF "2.prems", of uid "map_get [] data uid"]
  from "2.IH" step show ?case by auto
qed simp

lemma load_dedupeOnlineIPMap:
  "sm_load (dedupeOnlineIPMapByIP data) uid =
     (if clean_ips (map_get [] data uid) = {} then None
      else Some (sorted_list_of_set (clean_ips (map_get [] data uid))))"
proof -
  let ?r = "snd (dedupe_uids (sort (sm_keys data)) data ([], []))"
  have spec: "ips_in_step (dedupe_uids (sort (sm_keys data)) data ([], []))"
    "set (map_get [] ?r uid) = (if uid \<in> set (sm_keys data) then clean_ips (map_get [] data uid) else {})"
    using dedupe_uids_spec [of "([], [])" "sort (sm_keys data)" data uid]
    by (simp_all add: ips_in_step_def map_get_def)
  have "clean_ips (map_get [] data uid) = {}" if "uid \<notin> set (sm_keys data)"
    using that sm.keys_load [of uid data] by (simp add: map_get_def)
  with spec(2) have set_eq: "set (map_get [] ?r uid) = clean_ips (map_get [] data uid)" by auto
  have "distinct (map_get [] ?r uid)" "sm_load ?r uid \<noteq> Some []"
    using spec(1) by (simp_all add: ips_in_step_def)
  then show ?thesis
    using set_eq sorted_list_of_set_sort_remdups [of "map_get [] ?r uid"]
    by (auto simp: dedupeOnlineIPMapByIP_def sm_load_map_val map_get_def distinct_remdups_id
        split: option.splits)
qed

lemma sm_wf_dedupe_ips: "sm_wf (snd acc) \<Longrightarrow> sm_wf (snd (dedupe_ips uid ips acc))"
  by (induction uid ips acc rule: dedupe_ips.induct) (auto simp: Let_def)

lemma sm_wf_dedupe: "sm_wf (dedupeOnlineIPMapByIP data)"
proof -
  have "sm_wf (snd acc) \<Longrightarrow> sm_wf (snd (dedupe_uids uids data acc))" for uids acc
    by (induction uids data acc rule: dedupe_uids.induct) (auto intro: sm_wf_dedupe_ips)
  then show ?thesis by (simp add: dedupeOnlineIPMapByIP_def sm_wf_map_val)
qed

lemma load_fold_nonempty:
  "sm_wf m \<Longrightarrow> sm_load (fold (\<lambda>(k, xs) p. if xs = [] then p else sm_store k xs p) m p) k =
     (case sm_load m k of None \<Rightarrow> sm_load p k | Some xs \<Rightarrow> if xs = [] then sm_load p k else Some xs)"
proof (induction m arbitrary: p)
  case (Cons x m)
  obtain a xs where x: "x = (a, xs)" by force
  with Cons.prems have "sm_wf m" "sm_load m a = None"
    by (auto simp: sm_wf_def sm_load_def map_of_eq_None_iff)
  with Cons.IH x show ?case by (auto simp: sm_load_Cons split: option.splits)
qed simp

lemma load_payload:
  "sm_load (buildOnlineIPMapPayload (Some data)) uid =
     (if clean_ips (map_get [] data uid) = {} then None
      else Some (sorted_list_of_set (clean_ips (map_get [] data uid))))"
  using sorted_list_of_set_eq_Nil_iff [OF finite_clean_ips, of "map_get [] data uid"]
  by (simp add: buildOnlineIPMapPayload_def load_fold_nonempty [OF sm_wf_dedupe] load_dedupeOnlineIPMap)

text \<open>The payload of an address report: a uid has an entry exactly when one of its addresses is not
  empty after normalisation, and the entry is the strictly sorted list of its normalised addresses.
  So it does not depend on the order in which the map or the lists are given, nor on repetitions.\<close>

theorem online_ip_payload:
  "sm_load (buildOnlineIPMapPayload (Some data)) uid =
     (let ips = sorted_list_of_set {NormalizeIP a | a. a \<in> set (map_get [] data uid) \<and> NormalizeIP a \<noteq> ''''}
      in if ips = [] then None else Some ips)"
  using load_payload [of data uid] sorted_list_of_set_eq_Nil_iff [OF finite_clean_ips, of "map_get [] data uid"]
  by (simp add: clean_ips_def Let_def)

lemma map_get_fold_users:
  "map_get [] (fold (\<lambda>u data. if IP u = '''' then data else sm_store (UID u) (map_get [] data (UID u) @ [IP u]) data) us m) uid =
     map_get [] m uid @ map IP (filter (\<lambda>u. UID u = uid \<and> IP u \<noteq> '''') us)"
  by (induction us arbitrary: m) auto

text \<open>The two reports agree: the payload built from a list of online users gives each uid the strictly
  sorted normalised addresses the list has for it, and so building it from the list after duplicates
  were removed gives each uid the addresses of the list normalised twice.\<close>

theorem online_user_payload:
  "sm_load (buildOnlineIPPayload users) uid =
     (let ips = sorted_list_of_set {NormalizeIP (IP u) | u. u \<in> set users \<and> UID u = uid \<and> NormalizeIP (IP u) \<noteq> ''''}
      in if ips = [] then None else Some ips) \<and>
   sm_load (buildOnlineIPPayload (dedupeOnlineUsersByIP users)) uid =
     (let ips = sorted_list_of_set {NormalizeIP (NormalizeIP (IP u)) | u.
        u \<in> set users \<and> UID u = uid \<and> NormalizeIP (NormalizeIP (IP u)) \<noteq> ''''}
      in if ips = [] then None else Some ips)"
proof -
  have nil: "NormalizeIP '''' = ''''" by (simp add: NormalizeIP_def TrimPrefix_def HasPrefix_def)
  let ?f = "\<lambda>us. fold (\<lambda>u data. if IP u = '''' then data else sm_store (UID u) (map_get [] data (UID u) @ [IP u]) data) us []"
  have clean: "clean_ips (map_get [] (?f us) uid) =
      {NormalizeIP (IP u) | u. u \<in> set us \<and> UID u = uid \<and> NormalizeIP (IP u) \<noteq> ''''}" for us
  proof -
    have "IP u \<noteq> ''''" if "NormalizeIP (IP u) \<noteq> ''''" for u using that nil by auto
    then show ?thesis unfolding map_get_fold_users by (auto simp: clean_ips_def map_get_def)
  qed
  have load: "sm_load (buildOnlineIPPayload us) uid =
      (let ips = sorted_list_of_set {NormalizeIP (IP u) | u. u \<in> set us \<and> UID u = uid \<and> NormalizeIP (IP u) \<noteq> ''''}
       in if ips = [] then None else Some ips)" for us
    using load_payload [of "?f us" uid] sorted_list_of_set_eq_Nil_iff [OF finite_clean_ips, of "map_get [] (?f us) uid"]
    unfolding clean buildOnlineIPPayload_def by (simp add: Let_def)
  have "set (dedupeOnlineUsersByIP users) =
      {OnlineUser (UID u) (NormalizeIP (IP u)) | u. u \<in> set users \<and> NormalizeIP (IP u) \<noteq> ''''}"
    using dedupe_users_spec [of "[]" "[]" users] by (simp add: dedupeOnlineUsersByIP_def)
  then have "{NormalizeIP (IP u) | u. u \<in> set (dedupeOnlineUsersByIP users) \<and> UID u = uid \<and> NormalizeIP (IP u) \<noteq> ''''} =
      {NormalizeIP (NormalizeIP (IP u)) | u. u \<in> set users \<and> UID u = uid \<and> NormalizeIP (NormalizeIP (IP u)) \<noteq> ''''}"
  proof -
    assume set_eq: "set (dedupeOnlineUsersByIP users) =
      {OnlineUser (UID u) (NormalizeIP (IP u)) | u. u \<in> set users \<and> NormalizeIP (IP u) \<noteq> ''''}"
    have "NormalizeIP (IP u) \<noteq> ''''" if "NormalizeIP (NormalizeIP (IP u)) \<noteq> ''''" for u using that nil by auto
    then show ?thesis unfolding set_eq by force
  qed
  then show ?thesis using load [of users] load [of "dedupeOnlineUsersByIP users"] by (simp only:)
qed

end
