(* ===== verification/Periodic_Task.thy ===== *)
theory Periodic_Task
  imports Machine
begin

text \<open>
  \<^verbatim>\<open>common/task/task.go\<close>: a periodic task under its mutex, as a machine of threads. A thread is a
  goroutine that called \<^verbatim>\<open>Start\<close> or \<^verbatim>\<open>Close\<close>, or the callback of a fired timer; its program counter is
  the next section it enters. A section between \<^verbatim>\<open>Lock\<close> and \<^verbatim>\<open>Unlock\<close> that calls nothing is one step;
  the body of \<^verbatim>\<open>checkedExecute\<close> holds the mutex over several steps, since it calls \<^verbatim>\<open>Execute\<close>. What
  \<^verbatim>\<open>Execute\<close> does is the label of its step: it returns nil, returns an error, or calls \<^verbatim>\<open>Close\<close> of its own
  task. A label is a choice of the scheduler; a step that is not enabled is \<^term>\<open>None\<close>. A timer is an
  identity; when it fires is open, so its interval does not appear.
\<close>

datatype pc =
    StartEnter bool          \<comment> \<open>before the first section of \<open>Start(first)\<close>\<close>
  | HasClosed bool bool      \<comment> \<open>\<open>checkedExecute(first)\<close> before \<open>hasClosed\<close>; called by \<open>Start\<close>?\<close>
  | WantLock bool bool       \<comment> \<open>\<open>hasClosed\<close> said no; before \<open>Lock\<close>\<close>
  | Executing bool           \<comment> \<open>inside \<open>Execute\<close>, the mutex held\<close>
  | SelfClose bool           \<comment> \<open>\<open>Execute\<close> has called \<open>Close\<close> of this task\<close>
  | Arm bool                 \<comment> \<open>before the test of \<open>running\<close>, the mutex held\<close>
  | StartFailed              \<comment> \<open>\<open>Start\<close> after an error\<close>
  | CloseEnter               \<comment> \<open>before \<open>Lock\<close> in \<open>Close\<close>\<close>
  | Finished

datatype outcome = ReturnsNil | ReturnsErr | CallsClose

record task =
  tk_running :: bool
  tk_access :: "nat option"
  tk_timer :: "nat option"
  tk_armed :: "nat list"
  tk_next :: nat
  tk_threads :: "pc list"

datatype label = CallStart bool | CallClose | Fire nat | Run nat outcome

definition new_task :: task where
  "new_task = \<lparr>tk_running = False, tk_access = None, tk_timer = None, tk_armed = [], tk_next = 0, tk_threads = []\<rparr>"

definition goto :: "nat \<Rightarrow> pc \<Rightarrow> task \<Rightarrow> task" where
  "goto i p s = s\<lparr>tk_threads := (tk_threads s)[i := p]\<rparr>"

definition spawn :: "pc \<Rightarrow> task \<Rightarrow> task" where
  "spawn p s = s\<lparr>tk_threads := tk_threads s @ [p]\<rparr>"

definition unlock :: "task \<Rightarrow> task" where
  "unlock s = s\<lparr>tk_access := None\<rparr>"

text \<open>\<^verbatim>\<open>if t.timer != nil { t.timer.Stop(); t.timer = nil }\<close>; stopping a fired timer does nothing.\<close>

definition stop_timer :: "task \<Rightarrow> task" where
  "stop_timer s = (case tk_timer s of None \<Rightarrow> s
     | Some k \<Rightarrow> s\<lparr>tk_armed := removeAll k (tk_armed s), tk_timer := None\<rparr>)"

definition close_section :: "task \<Rightarrow> task" where
  "close_section s = stop_timer (s\<lparr>tk_running := False\<rparr>)"

definition arm_timer :: "task \<Rightarrow> task" where
  "arm_timer s = s\<lparr>tk_armed := tk_next s # tk_armed s, tk_timer := Some (tk_next s), tk_next := Suc (tk_next s)\<rparr>"

fun run_thread :: "task \<Rightarrow> nat \<Rightarrow> outcome \<Rightarrow> pc \<Rightarrow> task option" where
  "run_thread s i x (StartEnter first) =
     (if tk_access s \<noteq> None then None
      else if tk_running s then Some (goto i Finished s)
      else Some (goto i (HasClosed first True) (s\<lparr>tk_running := True\<rparr>)))"
| "run_thread s i x (HasClosed first byStart) =
     (if tk_access s \<noteq> None then None
      else if \<not> tk_running s then Some (goto i Finished s)
      else Some (goto i (WantLock first byStart) s))"
| "run_thread s i x (WantLock first byStart) =
     (if tk_access s \<noteq> None then None
      else Some (goto i (if first then Executing byStart else Arm byStart) (s\<lparr>tk_access := Some i\<rparr>)))"
| "run_thread s i x (Executing byStart) =
     (case x of
        ReturnsErr \<Rightarrow> Some (goto i (if byStart then StartFailed else Finished) (unlock (s\<lparr>tk_running := False\<rparr>)))
      | ReturnsNil \<Rightarrow> Some (goto i (Arm byStart) s)
      | CallsClose \<Rightarrow> Some (goto i (SelfClose byStart) s))"
| "run_thread s i x (SelfClose byStart) =
     (if tk_access s \<noteq> None then None
      else Some (goto i (Executing byStart) (close_section s)))"
| "run_thread s i x (Arm byStart) =
     (if \<not> tk_running s then Some (goto i Finished (unlock s))
      else Some (goto i Finished (unlock (arm_timer s))))"
| "run_thread s i x StartFailed =
     (if tk_access s \<noteq> None then None else Some (goto i Finished (s\<lparr>tk_running := False\<rparr>)))"
| "run_thread s i x CloseEnter =
     (if tk_access s \<noteq> None then None else Some (goto i Finished (close_section s)))"
| "run_thread s i x Finished = None"

fun task_step :: "task \<Rightarrow> label \<Rightarrow> task option" where
  "task_step s (CallStart first) = Some (spawn (StartEnter first) s)"
| "task_step s CallClose = Some (spawn CloseEnter s)"
| "task_step s (Fire k) =
     (if k \<in> set (tk_armed s)
      then Some (spawn (HasClosed True False) (s\<lparr>tk_armed := removeAll k (tk_armed s)\<rparr>)) else None)"
| "task_step s (Run i x) =
     (if i < length (tk_threads s) then run_thread s i x (tk_threads s ! i) else None)"

section \<open>Mutual exclusion\<close>

definition in_section :: "pc \<Rightarrow> bool" where
  "in_section p = (case p of Executing _ \<Rightarrow> True | SelfClose _ \<Rightarrow> True | Arm _ \<Rightarrow> True | _ \<Rightarrow> False)"

definition task_inv :: "task \<Rightarrow> bool" where
  "task_inv s \<longleftrightarrow>
     (\<forall>i < length (tk_threads s). in_section (tk_threads s ! i) \<longleftrightarrow> tk_access s = Some i) \<and>
     (\<forall>i. tk_access s = Some i \<longrightarrow> i < length (tk_threads s)) \<and>
     (\<forall>k \<in> set (tk_armed s). k < tk_next s)"

lemma in_section_simps [simp]:
  "in_section (Executing b)" "in_section (SelfClose b)" "in_section (Arm b)"
  "\<not> in_section (StartEnter b)" "\<not> in_section (HasClosed b c)" "\<not> in_section (WantLock b c)"
  "\<not> in_section StartFailed" "\<not> in_section CloseEnter" "\<not> in_section Finished"
  by (simp_all add: in_section_def)

lemmas task_updates = goto_def spawn_def unlock_def close_section_def stop_timer_def arm_timer_def

lemma spawn_inv: "task_inv s \<Longrightarrow> \<not> in_section p \<Longrightarrow> task_inv (spawn p s)"
  by (auto simp: task_inv_def spawn_def nth_append less_Suc_eq)

lemma run_thread_inv:
  assumes s: "task_inv s" and i: "i < length (tk_threads s)" and r: "run_thread s i x (tk_threads s ! i) = Some s'"
  shows "task_inv s'"
proof -
  have held: "in_section (tk_threads s ! i) \<longleftrightarrow> tk_access s = Some i" using s i by (simp add: task_inv_def)
  show ?thesis
    using s i r held
    by (cases "tk_threads s ! i")
      (auto simp: task_inv_def task_updates nth_list_update less_SucI split: if_splits outcome.splits option.splits)
qed

interpretation task_machine: inv_machine task_step task_inv
proof unfold_locales
  fix s l s' assume s: "task_inv s" and l: "task_step s l = Some s'"
  show "task_inv s'"
  proof (cases l)
    case (Fire k)
    have "task_inv (s\<lparr>tk_armed := removeAll k (tk_armed s)\<rparr>)" using s by (auto simp: task_inv_def)
    with l Fire show ?thesis by (auto split: if_splits intro: spawn_inv)
  next
    case (Run i x)
    with l s show ?thesis by (auto split: if_splits intro: run_thread_inv)
  qed (use s l in \<open>auto intro: spawn_inv\<close>)
qed

lemma new_task_inv: "task_inv new_task"
  by (simp add: task_inv_def new_task_def)

text \<open>C16: \<^verbatim>\<open>Execute\<close> never runs twice at the same time: whatever goroutines call \<^verbatim>\<open>Start\<close> and
  \<^verbatim>\<open>Close\<close>, whatever timers fire, and however they interleave, at most one thread is in the section of
  \<^verbatim>\<open>checkedExecute\<close>, and it is the holder of the mutex.\<close>

theorem task_mutual_exclusion:
  assumes "run_ops task_step new_task ls = Some s"
    and "i < length (tk_threads s)" "in_section (tk_threads s ! i)"
    and "j < length (tk_threads s)" "in_section (tk_threads s ! j)"
  shows "i = j \<and> tk_access s = Some i"
  using task_machine.run_inv [OF new_task_inv assms(1)] assms(2-5) by (auto simp: task_inv_def)

lemma task_mutual_exclusion_witness:
  "\<exists>s. run_ops task_step new_task [CallStart True, Run 0 ReturnsNil, Run 0 ReturnsNil, Run 0 ReturnsNil] = Some s \<and>
     tk_threads s ! 0 = Executing True \<and> tk_access s = Some 0"
proof -
  let ?s = "the (run_ops task_step new_task [CallStart True, Run 0 ReturnsNil, Run 0 ReturnsNil, Run 0 ReturnsNil])"
  have *: "run_ops task_step new_task [CallStart True, Run 0 ReturnsNil, Run 0 ReturnsNil, Run 0 ReturnsNil] = Some ?s"
    "0 < length (tk_threads ?s)" "in_section (tk_threads ?s ! 0)" "tk_threads ?s ! 0 = Executing True"
    by code_simp+
  from task_mutual_exclusion [OF *(1-3) *(2,3)] *(1,4) show ?thesis by blast
qed

section \<open>After Close\<close>

text \<open>No \<^verbatim>\<open>Start\<close> is under way that could set \<^verbatim>\<open>running\<close> again.\<close>

definition quiet :: "task \<Rightarrow> bool" where
  "quiet s \<longleftrightarrow> \<not> tk_running s \<and> (\<forall>p \<in> set (tk_threads s). \<forall>b. p \<noteq> StartEnter b)"

text \<open>The threads that passed \<^verbatim>\<open>hasClosed\<close> before and will run \<^verbatim>\<open>Execute\<close>, or run it now.\<close>

definition late :: "pc \<Rightarrow> bool" where
  "late p = (case p of WantLock first _ \<Rightarrow> first | Executing _ \<Rightarrow> True | SelfClose _ \<Rightarrow> True | _ \<Rightarrow> False)"

definition late_executions :: "task \<Rightarrow> nat" where
  "late_executions s = length (filter late (tk_threads s))"

lemma late_simps [simp]:
  "late (WantLock f b) = f" "late (Executing b)" "late (SelfClose b)" "\<not> late (Arm b)"
  "\<not> late (StartEnter b)" "\<not> late (HasClosed b c)" "\<not> late StartFailed" "\<not> late CloseEnter" "\<not> late Finished"
  by (simp_all add: late_def)

lemma length_filter_update_le:
  "i < length xs \<Longrightarrow> (P y \<longrightarrow> P (xs ! i)) \<Longrightarrow> length (filter P (xs[i := y])) \<le> length (filter P xs)"
  by (induction xs arbitrary: i) (auto split: nat.splits)

lemma quiet_goto:
  assumes "quiet s" "\<not> tk_running s'" "tk_threads s' = (tk_threads s)[i := p]" "\<And>b. p \<noteq> StartEnter b"
  shows "quiet s'"
  using assms set_update_subset_insert [of "tk_threads s" i p] by (auto simp: quiet_def)

lemma quiet_run_thread:
  assumes q: "quiet s" and i: "i < length (tk_threads s)" and r: "run_thread s i x (tk_threads s ! i) = Some s'"
  shows "quiet s' \<and> set (tk_armed s') \<subseteq> set (tk_armed s) \<and> late_executions s' \<le> late_executions s"
proof -
  have run: "\<not> tk_running s" and ns: "\<And>b. tk_threads s ! i \<noteq> StartEnter b"
    using q i by (auto simp: quiet_def)
  have "\<exists>p. tk_threads s' = (tk_threads s)[i := p] \<and> (late p \<longrightarrow> late (tk_threads s ! i)) \<and> (\<forall>b. p \<noteq> StartEnter b)
      \<and> \<not> tk_running s' \<and> set (tk_armed s') \<subseteq> set (tk_armed s)"
    using r run ns
    by (cases "tk_threads s ! i")
      (auto simp: task_updates split: if_splits outcome.splits option.splits intro!: exI)
  then obtain p where p: "tk_threads s' = (tk_threads s)[i := p]" "late p \<longrightarrow> late (tk_threads s ! i)"
    "\<And>b. p \<noteq> StartEnter b" "\<not> tk_running s'" "set (tk_armed s') \<subseteq> set (tk_armed s)" by blast
  with quiet_goto [OF q p(4,1,3)] length_filter_update_le [OF i p(2)] show ?thesis
    by (simp add: late_executions_def)
qed

lemma quiet_step:
  assumes "quiet s" "\<And>b. l \<noteq> CallStart b" "task_step s l = Some s'"
  shows "quiet s' \<and> set (tk_armed s') \<subseteq> set (tk_armed s) \<and> late_executions s' \<le> late_executions s"
proof (cases l)
  case (Run i x)
  with assms show ?thesis using quiet_run_thread by (auto split: if_splits)
qed (use assms in \<open>auto simp: quiet_def late_executions_def spawn_def split: if_splits\<close>)

text \<open>Closing stops the task for good: once \<^verbatim>\<open>running\<close> is false and no \<^verbatim>\<open>Start\<close> is under way, then
  as long as \<^verbatim>\<open>Start\<close> is not called again no timer is armed any more, and \<^verbatim>\<open>Execute\<close> runs only in threads
  that had passed the \<^verbatim>\<open>hasClosed\<close> test before.\<close>

theorem closed_task_stays_closed:
  assumes "quiet s" "run_ops task_step s ls = Some s'" "\<forall>b. CallStart b \<notin> set ls"
  shows "\<not> tk_running s' \<and> set (tk_armed s') \<subseteq> set (tk_armed s) \<and> late_executions s' \<le> late_executions s"
  using assms
proof (induction ls arbitrary: s)
  case Nil
  then show ?case by (simp add: quiet_def)
next
  case (Cons l ls)
  then obtain t where t: "task_step s l = Some t" "run_ops task_step t ls = Some s'"
    by (auto split: option.splits)
  have "\<And>b. l \<noteq> CallStart b" using Cons.prems(3) by auto
  from quiet_step [OF Cons.prems(1) this t(1)] Cons.IH [OF _ t(2)] Cons.prems(3) show ?case by fastforce
qed

text \<open>A thread that passed the test before \<^verbatim>\<open>Close\<close> took the mutex still runs \<^verbatim>\<open>Execute\<close> afterwards.\<close>

definition close_race :: "label list" where
  "close_race = [CallStart False, Run 0 ReturnsNil, Run 0 ReturnsNil, Run 0 ReturnsNil, Run 0 ReturnsNil,
     Fire 0, Run 1 ReturnsNil, CallClose, Run 2 ReturnsNil]"

lemma closed_task_stays_closed_witness:
  "\<exists>s s'. run_ops task_step new_task close_race = Some s \<and> \<not> tk_running s \<and>
     run_ops task_step s [Run 1 ReturnsNil] = Some s' \<and> tk_threads s' ! 1 = Executing False \<and>
     late_executions s' \<le> 1 \<and> tk_armed s' = []"
proof -
  let ?s = "the (run_ops task_step new_task close_race)"
  let ?s' = "the (run_ops task_step ?s [Run 1 ReturnsNil])"
  have *: "run_ops task_step new_task close_race = Some ?s" "\<not> tk_running ?s"
    "list_all (\<lambda>p. case p of StartEnter _ \<Rightarrow> False | _ \<Rightarrow> True) (tk_threads ?s)"
    "run_ops task_step ?s [Run 1 ReturnsNil] = Some ?s'" "tk_threads ?s' ! 1 = Executing False"
    "late_executions ?s = 1" "tk_armed ?s = []"
    by code_simp+
  have "quiet ?s" using *(2,3) by (auto simp: quiet_def list_all_iff)
  from closed_task_stays_closed [OF this *(4)]
  have "set (tk_armed ?s') \<subseteq> set (tk_armed ?s)" "late_executions ?s' \<le> late_executions ?s" by simp_all
  then have "late_executions ?s' \<le> 1" "tk_armed ?s' = []" unfolding *(6,7) by simp_all
  with *(1,2,4,5) show ?thesis by blast
qed

section \<open>Two ways to go wrong\<close>

lemma stuck_step:
  assumes "task_inv s" "tk_access s = Some i" "tk_threads s ! i = SelfClose b" "task_step s l = Some s'"
  shows "tk_access s' = Some i \<and> tk_threads s' ! i = SelfClose b \<and>
     (\<forall>j < length (tk_threads s'). j \<noteq> i \<longrightarrow> \<not> in_section (tk_threads s' ! j))"
proof -
  have i: "i < length (tk_threads s)" using assms(1,2) by (auto simp: task_inv_def)
  have others: "\<not> in_section (tk_threads s ! j)" if "j < length (tk_threads s)" "j \<noteq> i" for j
    using assms(1,2) that by (auto simp: task_inv_def)
  have "task_inv s'" using task_machine.step_inv [OF assms(1,4)] .
  moreover have "tk_access s' = Some i \<and> tk_threads s' ! i = SelfClose b"
  proof (cases l)
    case (Run j x)
    with assms(2-4) others show ?thesis
      by (cases "tk_threads s ! j"; cases "j = i") (fastforce split: if_splits)+
  qed (use assms i in \<open>auto simp: spawn_def nth_append split: if_splits\<close>)
  ultimately show ?thesis by (auto simp: task_inv_def)
qed

text \<open>A task must not close itself: when \<^verbatim>\<open>Execute\<close> calls \<^verbatim>\<open>Close\<close> of its own task, the thread waits for the
  mutex that it holds itself, for ever: whatever happens afterwards, it stays where it is, the
  mutex is never released, and no thread enters the section again.\<close>

theorem self_close_deadlocks:
  assumes "run_ops task_step new_task ls = Some s" "i < length (tk_threads s)" "tk_threads s ! i = SelfClose b"
    and "run_ops task_step s ls' = Some s'"
  shows "tk_access s' = Some i \<and> tk_threads s' ! i = SelfClose b \<and>
     (\<forall>j < length (tk_threads s'). j \<noteq> i \<longrightarrow> \<not> in_section (tk_threads s' ! j))"
proof -
  have s: "task_inv s" using task_machine.run_inv [OF new_task_inv assms(1)] .
  then have "tk_access s = Some i" using assms(2,3) by (auto simp: task_inv_def)
  with s assms(3,4) show ?thesis
  proof (induction ls' arbitrary: s)
    case Nil
    then show ?case by (auto simp: task_inv_def)
  next
    case (Cons l ls')
    then obtain t where t: "task_step s l = Some t" "run_ops task_step t ls' = Some s'"
      by (auto split: option.splits)
    with Cons.IH [OF task_machine.step_inv [OF Cons.prems(1) t(1)] _ t(2)] stuck_step [OF _ _ _ t(1)] Cons.prems
    show ?case by blast
  qed
qed

lemma self_close_deadlocks_witness:
  "\<exists>s s'. run_ops task_step new_task [CallStart True, Run 0 ReturnsNil, Run 0 ReturnsNil, Run 0 ReturnsNil, Run 0 CallsClose] = Some s \<and>
     run_ops task_step s [CallClose, CallStart True] = Some s' \<and> tk_access s' = Some 0 \<and> tk_threads s' ! 0 = SelfClose True"
proof -
  let ?ls = "[CallStart True, Run 0 ReturnsNil, Run 0 ReturnsNil, Run 0 ReturnsNil, Run 0 CallsClose]"
  let ?s = "the (run_ops task_step new_task ?ls)"
  let ?s' = "the (run_ops task_step ?s [CallClose, CallStart True])"
  have *: "run_ops task_step new_task ?ls = Some ?s" "0 < length (tk_threads ?s)" "tk_threads ?s ! 0 = SelfClose True"
    "run_ops task_step ?s [CallClose, CallStart True] = Some ?s'"
    by code_simp+
  from self_close_deadlocks [OF *] *(1,4) show ?thesis by blast
qed

definition restart_race :: "label list" where
  "restart_race = close_race @ [CallStart False, Run 3 ReturnsNil, Run 3 ReturnsNil, Run 3 ReturnsNil, Run 3 ReturnsNil,
     Run 1 ReturnsNil, Run 1 ReturnsNil, Run 1 ReturnsNil]"

text \<open>Closing and starting again while a callback is between its test and the mutex leaves two chains
  of timers: both are armed, the task keeps a handle of only one of them, and so a later \<^verbatim>\<open>Close\<close> stops only one.\<close>

theorem restart_race_doubles_timer:
  "\<exists>s s'. run_ops task_step new_task restart_race = Some s \<and> length (tk_armed s) = 2 \<and> distinct (tk_armed s) \<and>
     run_ops task_step s [CallClose, Run 4 ReturnsNil] = Some s' \<and> length (tk_armed s') = 1 \<and> tk_timer s' = None"
proof -
  let ?s = "the (run_ops task_step new_task restart_race)"
  have "run_ops task_step new_task restart_race = Some ?s \<and> length (tk_armed ?s) = 2 \<and> distinct (tk_armed ?s) \<and>
    run_ops task_step ?s [CallClose, Run 4 ReturnsNil] = Some (the (run_ops task_step ?s [CallClose, Run 4 ReturnsNil])) \<and>
    length (tk_armed (the (run_ops task_step ?s [CallClose, Run 4 ReturnsNil]))) = 1 \<and>
    tk_timer (the (run_ops task_step ?s [CallClose, Run 4 ReturnsNil])) = None"
    by code_simp
  then show ?thesis by blast
qed

end
