(* ===== verification/Json5.thy ===== *)
theory Json5
  imports Prelude
begin

text \<open>
  \<^verbatim>\<open>common/json5/json5.go\<close>: the reader that blanks comments and trailing commas of the configuration
  file in place. The byte slice is a string that the loops update by index; each loop is a function
  of the slice and the index, with the distance to the end as its measure.
\<close>

definition isNL :: "char \<Rightarrow> bool" where
  "isNL c \<longleftrightarrow> c = CHR 0x0A \<or> c = CHR 0x0D"

definition isWS :: "char \<Rightarrow> bool" where
  "isWS c \<longleftrightarrow> c = CHR '' '' \<or> c = CHR 0x09 \<or> isNL c"

abbreviation blank :: char where "blank \<equiv> CHR '' ''"

function line_comment :: "string \<Rightarrow> nat \<Rightarrow> string \<times> nat" where
  "line_comment s i =
     (if i < length s \<and> \<not> isNL (s ! i) then line_comment (s[i := blank]) (i + 1) else (s, i))"
  by pat_completeness auto
termination by (relation "measure (\<lambda>(s, i). length s - i)") auto

function block_comment :: "string \<Rightarrow> nat \<Rightarrow> string \<times> nat" where
  "block_comment s i =
     (if i < length s then
        if s ! i \<noteq> CHR ''*'' then block_comment (s[i := blank]) (i + 1)
        else let s = s[i := blank]; i = i + 1 in
          if i < length s \<and> s ! i = CHR ''/'' then (s[i := blank], i)
          else block_comment s (i + 1)
      else (s, i))"
  by pat_completeness auto
termination by (relation "measure (\<lambda>(s, i). length s - i)") auto

definition consumeComment :: "string \<Rightarrow> nat \<Rightarrow> string \<times> nat" where
  "consumeComment s i =
     (case (if i < length s \<and> s ! i = CHR ''/'' then line_comment (s[i - 1 := blank]) i else (s, i)) of
        (s, i) \<Rightarrow>
          if i < length s \<and> s ! i = CHR ''*'' then block_comment ((s[i - 1 := blank])[i := blank]) i
          else (s, i))"

text \<open>The string literal that starts before index \<^term>\<open>i\<close>: the index after it.\<close>

function skip_string :: "string \<Rightarrow> nat \<Rightarrow> nat" where
  "skip_string s i =
     (if i < length s then
        if s ! i = CHR 0x22 then i + 1
        else if s ! i = CHR 0x5C then skip_string s (i + 2)
        else skip_string s (i + 1)
      else i)"
  by pat_completeness auto
termination by (relation "measure (\<lambda>(s, i). length s - i)") auto

declare line_comment.simps [simp del] block_comment.simps [simp del] skip_string.simps [simp del]

lemma line_comment_mono:
  "length (fst (line_comment s i)) = length s \<and> i \<le> snd (line_comment s i)"
proof (induction s i rule: line_comment.induct)
  case (1 s i)
  then show ?case by (auto simp: line_comment.simps [of s i])
qed

lemma block_comment_mono:
  "length (fst (block_comment s i)) = length s \<and> i \<le> snd (block_comment s i)"
proof (induction s i rule: block_comment.induct)
  case (1 s i)
  then show ?case by (auto simp: block_comment.simps [of s i] Let_def intro: Suc_leD [OF Suc_leD])
qed

lemma consumeComment_mono:
  "length (fst (consumeComment s i)) = length s \<and> i \<le> snd (consumeComment s i)"
proof -
  let ?r = "if i < length s \<and> s ! i = CHR ''/'' then line_comment (s[i - 1 := blank]) i else (s, i)"
  have "length (fst ?r) = length s" "i \<le> snd ?r" using line_comment_mono [of "s[i - 1 := blank]" i] by auto
  moreover have "length (fst (block_comment t j)) = length t" "j \<le> snd (block_comment t j)" for t j
    using block_comment_mono by simp_all
  ultimately show ?thesis
    unfolding consumeComment_def by (cases ?r) (fastforce intro: order_trans)
qed

lemma skip_string_mono: "i \<le> skip_string s i"
proof (induction s i rule: skip_string.induct)
  case (1 s i)
  then show ?case by (auto simp: skip_string.simps [of s i])
qed

text \<open>After a comma at \<^term>\<open>j\<close>: white space and comments are passed; a closing bracket blanks the comma.\<close>

function after_comma :: "string \<Rightarrow> nat \<Rightarrow> nat \<Rightarrow> string \<times> nat" where
  "after_comma s j i0 =
     (let i = i0 + 1 in
      if i \<ge> length s then (s, i)
      else if s ! i = CHR ''}'' \<or> s ! i = CHR '']'' then (s[j := blank], i)
      else if s ! i = CHR ''/'' then after_comma (fst (consumeComment s (i + 1))) j (snd (consumeComment s (i + 1)))
      else if \<not> isWS (s ! i) then (s, i)
      else after_comma s j i)"
  by pat_completeness auto
termination
proof (relation "measure (\<lambda>(s, j, i). length s - i)", goal_cases)
  case (2 s j i0 i)
  then show ?case using consumeComment_mono [of s "i + 1"]
    by (cases "consumeComment s (i + 1)") auto
qed auto

declare after_comma.simps [simp del]

lemma after_comma_mono:
  "length (fst (after_comma s j i)) = length s \<and> i < snd (after_comma s j i)"
proof (induction s j i rule: after_comma.induct)
  case (1 s j i)
  note IH = "1.IH" [OF refl]
  show ?case
    using IH consumeComment_mono [of s "i + 1 + 1"]
    by (auto simp: after_comma.simps [of s j i] Let_def)
qed

function prep_loop :: "string \<Rightarrow> nat \<Rightarrow> string" where
  "prep_loop s i =
     (if i < length s then
        if s ! i = CHR 0x22 then prep_loop s (skip_string s (i + 1))
        else if s ! i = CHR ''/'' then prep_loop (fst (consumeComment s (i + 1))) (snd (consumeComment s (i + 1)))
        else if s ! i = CHR '','' then prep_loop (fst (after_comma s i i)) (snd (after_comma s i i))
        else prep_loop s (i + 1)
      else s)"
  by pat_completeness auto
termination
proof (relation "measure (\<lambda>(s, i). length s - i)", goal_cases)
  case (2 s i)
  then show ?case using skip_string_mono [of "i + 1" s] by simp
next
  case (3 s i)
  then show ?case using consumeComment_mono [of s "i + 1"] by (cases "consumeComment s (i + 1)") auto
next
  case (4 s i)
  then show ?case using after_comma_mono [of s i i] by (cases "after_comma s i i") auto
qed auto

declare prep_loop.simps [simp del]

text \<open>\<^verbatim>\<open>prep\<close> on the bytes that \<^verbatim>\<open>io.Copy\<close> read and its error.\<close>

definition prep :: "string \<times> string option \<Rightarrow> string \<times> string option" where
  "prep r = (case r of (s, Some err) \<Rightarrow> (s, Some err) | (s, None) \<Rightarrow> (prep_loop s 0, None))"

text \<open>The reader: what \<^verbatim>\<open>io.Copy\<close> gets from the wrapped reader, and the unread rest of the cleaned
  bytes once there is one. \<^verbatim>\<open>bytes.Reader.Read\<close> fails with EOF at the end.\<close>

record trim_reader =
  tr_r :: "string \<times> string option"
  tr_br :: "string option"

definition NewTrimNodeReader :: "string \<times> string option \<Rightarrow> trim_reader" where
  "NewTrimNodeReader r = \<lparr>tr_r = r, tr_br = None\<rparr>"

definition read_bytes :: "string \<Rightarrow> nat \<Rightarrow> (string \<times> string option) \<times> string" where
  "read_bytes rest n = (if rest = [] then (([], Some ''EOF''), []) else ((take n rest, None), drop n rest))"

definition Read :: "trim_reader \<Rightarrow> nat \<Rightarrow> (string \<times> string option) \<times> trim_reader" where
  "Read st n =
     (case tr_br st of
        Some rest \<Rightarrow> (fst (read_bytes rest n), st\<lparr>tr_br := Some (snd (read_bytes rest n))\<rparr>)
      | None \<Rightarrow>
          (case prep (tr_r st) of
             (_, Some err) \<Rightarrow> (([], Some err), st)
           | (s, None) \<Rightarrow> (fst (read_bytes s n), st\<lparr>tr_br := Some (snd (read_bytes s n))\<rparr>)))"

section \<open>Cleaning only blanks bytes\<close>

definition blanks :: "string \<Rightarrow> string \<Rightarrow> bool" where
  "blanks s t \<longleftrightarrow> length t = length s \<and> (\<forall>k < length s. t ! k = s ! k \<or> t ! k = blank)"

lemma blanks_refl [simp]: "blanks s s"
  by (simp add: blanks_def)

lemma blanks_trans: "blanks s t \<Longrightarrow> blanks t u \<Longrightarrow> blanks s u"
  unfolding blanks_def by (metis (full_types))

lemma blanks_update: "blanks (s[i := blank]) t \<Longrightarrow> blanks s t"
proof -
  assume t: "blanks (s[i := blank]) t"
  have "t ! k = s ! k \<or> t ! k = blank" if "k < length s" for k
    using t that by (cases "k = i") (auto simp: blanks_def)
  with t show ?thesis by (simp add: blanks_def)
qed

lemma blanks_update_self [simp]: "blanks s (s[i := blank])"
  by (rule blanks_update) (rule blanks_refl)

lemma blanks_line: "blanks s (fst (line_comment s i))"
proof (induction s i rule: line_comment.induct)
  case (1 s i)
  then show ?case by (auto simp: line_comment.simps [of s i] intro: blanks_update [of s i])
qed

lemma blanks_block: "blanks s (fst (block_comment s i))"
proof (induction s i rule: block_comment.induct)
  case (1 s i)
  then show ?case
    by (auto simp: block_comment.simps [of s i] Let_def blanks_update [OF blanks_update_self] intro: blanks_update [of s i])
qed

lemma blanks_consume: "blanks s (fst (consumeComment s i))"
proof -
  let ?r = "if i < length s \<and> s ! i = CHR ''/'' then line_comment (s[i - 1 := blank]) i else (s, i)"
  have "blanks s (fst ?r)" using blanks_update [OF blanks_line] by simp
  moreover have "blanks t (fst (block_comment ((t[j - 1 := blank])[j := blank]) j))" for t j
    by (rule blanks_update [of t "j - 1"], rule blanks_update [of _ j], rule blanks_block)
  ultimately show ?thesis
    unfolding consumeComment_def by (cases ?r) (auto intro: blanks_trans)
qed

lemma blanks_after_comma: "blanks s (fst (after_comma s j i))"
proof (induction s j i rule: after_comma.induct)
  case (1 s j i)
  note IH = "1.IH" [OF refl]
  let ?c = "consumeComment s (i + 1 + 1)"
  have "blanks s (fst (after_comma (fst ?c) j (snd ?c)))" if "i + 1 < length s" "s ! (i + 1) = CHR ''/''"
    by (rule blanks_trans [OF blanks_consume]) (use IH(1) that in auto)
  with IH(2) show ?case
    by (auto simp: after_comma.simps [of s j i] Let_def)
qed

lemma blanks_prep_loop: "blanks s (prep_loop s i)"
proof (induction s i rule: prep_loop.induct)
  case (1 s i)
  then show ?case
    using blanks_trans [OF blanks_consume, of s "i + 1" "prep_loop (fst (consumeComment s (i + 1))) (snd (consumeComment s (i + 1)))"]
      blanks_trans [OF blanks_after_comma, of s i i "prep_loop (fst (after_comma s i i)) (snd (after_comma s i i))"]
    by (auto simp: prep_loop.simps [of s i])
qed

text \<open>Cleaning is in place: the cleaned configuration has the length of the file, and each byte is
  the original one or a blank, so positions in error messages of the JSON decoder stay valid. An error of
  the underlying reader is passed on.\<close>

theorem prep_only_blanks:
  "length (fst (prep (s, err))) = length s \<and> snd (prep (s, err)) = err \<and>
   (\<forall>k. k < length s \<longrightarrow> fst (prep (s, err)) ! k \<in> {s ! k, blank})"
  using blanks_prep_loop [of s 0] by (cases err) (auto simp: prep_def blanks_def)

lemma prep_only_blanks_witness:
  "fst (prep (''[1, // c'', None)) ! 2 = CHR '','' \<and> fst (prep (''[1, // c'', None)) ! 4 \<in> {CHR ''/'', blank}"
proof -
  have "fst (prep (''[1, // c'', None)) ! 2 = CHR '',''" by code_simp
  moreover have "(4::nat) < length ''[1, // c''" "''[1, // c'' ! 4 = CHR ''/''" by code_simp+
  ultimately show ?thesis using prep_only_blanks [of "''[1, // c''" None] by metis
qed

section \<open>Plain JSON is untouched\<close>

text \<open>No slash outside a string literal, and no comma outside one that is followed, after white space,
  by a closing bracket: a scanner by structural recursion, independent of the indices.\<close>

fun next_token :: "string \<Rightarrow> char option" where
  "next_token [] = None"
| "next_token (c # cs) = (if isWS c then next_token cs else Some c)"

fun plain :: "string \<Rightarrow> bool" and plain_string :: "string \<Rightarrow> bool" where
  "plain [] = True"
| "plain (c # cs) =
     (if c = CHR 0x22 then plain_string cs
      else if c = CHR ''/'' then False
      else if c = CHR '','' then
        next_token cs \<notin> {Some (CHR ''}''), Some (CHR '']''), Some (CHR ''/'')} \<and> plain cs
      else plain cs)"
| "plain_string [] = True"
| "plain_string (c # cs) =
     (if c = CHR 0x22 then plain cs
      else if c = CHR 0x5C then (case cs of [] \<Rightarrow> True | _ # cs' \<Rightarrow> plain_string cs')
      else plain_string cs)"

lemma plain_string_skip: "plain_string (drop i s) \<Longrightarrow> plain (drop (skip_string s i) s)"
proof (induction s i rule: skip_string.induct)
  case (1 s i)
  show ?case
  proof (cases "i < length s")
    case True
    then have d: "drop i s = s ! i # drop (i + 1) s" by (simp add: Cons_nth_drop_Suc)
    show ?thesis
    proof (cases "s ! i = CHR 0x5C")
      case esc: True
      have "plain_string (drop (i + 2) s)"
      proof (cases "i + 1 < length s")
        case True
        then have "drop (i + 1) s = s ! (i + 1) # drop (i + 2) s" by (simp add: Cons_nth_drop_Suc)
        with "1.prems" d esc show ?thesis by simp
      qed simp
      with "1.IH"(1) True esc show ?thesis by (simp add: skip_string.simps [of s i])
    next
      case False
      with "1" True d show ?thesis by (auto simp: skip_string.simps [of s i])
    qed
  qed (simp add: skip_string.simps [of s i])
qed

lemma after_comma_plain:
  "i < length s \<Longrightarrow> next_token (drop (i + 1) s) \<notin> {Some (CHR ''}''), Some (CHR '']''), Some (CHR ''/'')} \<Longrightarrow>
     plain (drop (i + 1) s) \<Longrightarrow>
     fst (after_comma s j i) = s \<and> plain (drop (snd (after_comma s j i)) s)"
proof (induction s j i rule: after_comma.induct)
  case (1 s j i)
  show ?case
  proof (cases "i + 1 < length s")
    case True
    then have d: "drop (i + 1) s = s ! (i + 1) # drop (i + 1 + 1) s" by (simp add: Cons_nth_drop_Suc)
    show ?thesis
    proof (cases "isWS (s ! (i + 1))")
      case ws: True
      then have "s ! (i + 1) \<notin> {CHR ''}'', CHR '']'', CHR ''/'', CHR '','', CHR 0x22}"
        by (auto simp: isWS_def isNL_def)
      with "1.IH"(2) [OF refl] "1.prems" True d ws show ?thesis
        by (simp add: after_comma.simps [of s j i] Let_def)
    next
      case False
      with "1.prems" True d show ?thesis by (simp add: after_comma.simps [of s j i] Let_def)
    qed
  qed (simp add: after_comma.simps [of s j i] Let_def)
qed

lemma prep_loop_plain: "plain (drop i s) \<Longrightarrow> prep_loop s i = s"
proof (induction s i rule: prep_loop.induct)
  case (1 s i)
  show ?case
  proof (cases "i < length s")
    case True
    then have d: "drop i s = s ! i # drop (i + 1) s" by (simp add: Cons_nth_drop_Suc)
    show ?thesis
    proof (cases "s ! i = CHR '',''")
      case comma: True
      then have "fst (after_comma s i i) = s \<and> plain (drop (snd (after_comma s i i)) s)"
        using "1.prems" True d by (intro after_comma_plain) simp_all
      with "1.IH"(3) True comma show ?thesis by (simp add: prep_loop.simps [of s i])
    next
      case False
      with 1 True d plain_string_skip [of "i + 1" s] show ?thesis by (auto simp: prep_loop.simps [of s i])
    qed
  qed (simp add: prep_loop.simps [of s i])
qed

text \<open>C37: A configuration without comments and trailing commas is left alone: where no slash and no comma
  before a closing bracket stands outside a string literal, nothing changes; in particular the slashes,
  commas and escaped quotes inside string literals (a URL, say) are kept.\<close>

theorem prep_keeps_plain_json:
  assumes "plain s"
  shows "prep (s, None) = (s, None)"
  using prep_loop_plain [of 0 s] assms by (simp add: prep_def)

definition demo_json :: string where
  "demo_json = ''{'' @ [CHR 0x22] @ ''a,]'' @ [CHR 0x22] @ '': ['' @ [CHR 0x22] @ ''https://x/*'' @ [CHR 0x22] @ '', 2]}''"

lemma prep_keeps_plain_json_witness: "prep (demo_json, None) = (demo_json, None)"
proof -
  have "plain demo_json" by code_simp
  then show ?thesis by (rule prep_keeps_plain_json)
qed

text \<open>
  What a block comment does with a star inside: the byte after it survives, and a comment that ends in two
  stars is not ended there, so the rest of the file is blanked as well.
\<close>

lemma block_comment_star: "fst (prep (''/*a*b*/[1]'', None)) = ''    b  [1]''"
  by code_simp

lemma block_comment_two_stars: "fst (prep (''/* a **/[1]'', None)) = ''      *    ''"
  by code_simp

end
