(* ===== verification/Traffic_Counter.thy ===== *)
theory Traffic_Counter
  imports GoMap Machine
begin

text \<open>
  \<^verbatim>\<open>common/counter\<close>: the per-user traffic counters and the connection wrappers that feed them. A
  storage is a cell of a heap, because a wrapper keeps the pointer to its user's storage after the
  counter forgot it. Atomic 64-bit additions wrap. What the wrapped connection returns is an
  argument of each wrapper's method.
\<close>

record traffic_storage =
  UpCounter :: int
  DownCounter :: int

record traffic_counter =
  tc_heap :: "traffic_storage list"
  tc_counters :: "(string, nat) gomap"

definition NewTrafficCounter :: traffic_counter where
  "NewTrafficCounter = \<lparr>tc_heap = [], tc_counters = []\<rparr>"

definition GetCounter :: "string \<Rightarrow> traffic_counter \<Rightarrow> nat \<times> traffic_counter" where
  "GetCounter i c = (case sm_load (tc_counters c) i of
     Some a \<Rightarrow> (a, c)
   | None \<Rightarrow>
       let fresh = length (tc_heap c) in
       case sm_load_or_store i fresh (tc_counters c) of
         (a, _, m) \<Rightarrow> (a, c\<lparr>tc_heap := tc_heap c @ [\<lparr>UpCounter = 0, DownCounter = 0\<rparr>], tc_counters := m\<rparr>))"

definition update_storage :: "nat \<Rightarrow> (traffic_storage \<Rightarrow> traffic_storage) \<Rightarrow> traffic_counter \<Rightarrow> traffic_counter" where
  "update_storage a f c = c\<lparr>tc_heap := (tc_heap c)[a := f (tc_heap c ! a)]\<rparr>"

definition GetUpCount :: "string \<Rightarrow> traffic_counter \<Rightarrow> int" where
  "GetUpCount i c = (case sm_load (tc_counters c) i of Some a \<Rightarrow> UpCounter (tc_heap c ! a) | None \<Rightarrow> 0)"

definition GetDownCount :: "string \<Rightarrow> traffic_counter \<Rightarrow> int" where
  "GetDownCount i c = (case sm_load (tc_counters c) i of Some a \<Rightarrow> DownCounter (tc_heap c ! a) | None \<Rightarrow> 0)"

definition Len :: "traffic_counter \<Rightarrow> int" where
  "Len c = fold (\<lambda>_ n. n + 1) (tc_counters c) 0"

definition Reset :: "string \<Rightarrow> traffic_counter \<Rightarrow> traffic_counter" where
  "Reset i c = (case sm_load (tc_counters c) i of
     Some a \<Rightarrow> update_storage a (\<lambda>s. s\<lparr>UpCounter := 0, DownCounter := 0\<rparr>) c
   | None \<Rightarrow> c)"

definition Delete :: "string \<Rightarrow> traffic_counter \<Rightarrow> traffic_counter" where
  "Delete i c = c\<lparr>tc_counters := sm_delete i (tc_counters c)\<rparr>"

definition add_up :: "int \<Rightarrow> traffic_storage \<Rightarrow> traffic_storage" where
  "add_up n s = s\<lparr>UpCounter := i64 (UpCounter s + n)\<rparr>"

definition add_down :: "int \<Rightarrow> traffic_storage \<Rightarrow> traffic_storage" where
  "add_down n s = s\<lparr>DownCounter := i64 (DownCounter s + n)\<rparr>"

definition Rx :: "string \<Rightarrow> int \<Rightarrow> traffic_counter \<Rightarrow> traffic_counter" where
  "Rx i n c = (case GetCounter i c of (a, c) \<Rightarrow> update_storage a (add_down n) c)"

definition Tx :: "string \<Rightarrow> int \<Rightarrow> traffic_counter \<Rightarrow> traffic_counter" where
  "Tx i n c = (case GetCounter i c of (a, c) \<Rightarrow> update_storage a (add_up n) c)"

section \<open>The connection wrappers\<close>

text \<open>
  One call of a wrapped connection and the counter's reaction: \<^verbatim>\<open>Read\<close> and \<^verbatim>\<open>Write\<close> get the number
  of bytes that the inner call returned (its error is passed on untouched), the buffer and packet
  methods the length of the buffer after the inner read or before the inner write, and whether
  the inner call failed.
\<close>

datatype conn_call =
    ConnRead int | ConnWrite int
  | ReadBuffer int bool | WriteBuffer int bool
  | ReadPacket int bool | WritePacket int bool
  | ReadFunc int | WriteFunc int

fun count_call :: "conn_call \<Rightarrow> traffic_storage \<Rightarrow> traffic_storage" where
  "count_call (ConnRead n) s = s\<lparr>UpCounter := n\<rparr>"
| "count_call (ConnWrite n) s = s\<lparr>DownCounter := n\<rparr>"
| "count_call (ReadBuffer n failed) s = (if failed then s else if n > 0 then add_up n s else s)"
| "count_call (WriteBuffer n failed) s = (if failed then s else if n > 0 then add_down n s else s)"
| "count_call (ReadPacket n failed) s = (if failed then s else add_up n s)"
| "count_call (WritePacket n failed) s = (if failed then s else if n > 0 then add_down n s else s)"
| "count_call (ReadFunc n) s = add_up n s"
| "count_call (WriteFunc n) s = add_down n s"

definition conn_calls :: "nat \<Rightarrow> conn_call list \<Rightarrow> traffic_counter \<Rightarrow> traffic_counter" where
  "conn_calls a calls c = fold (\<lambda>x. update_storage a (count_call x)) calls c"

section \<open>The counters refine a table of totals\<close>

datatype counter_op = GetOp string | TxOp string int | RxOp string int | ResetOp string | DeleteOp string

fun counter_step :: "traffic_counter \<Rightarrow> counter_op \<Rightarrow> traffic_counter" where
  "counter_step c (GetOp i) = snd (GetCounter i c)"
| "counter_step c (TxOp i n) = Tx i n c"
| "counter_step c (RxOp i n) = Rx i n c"
| "counter_step c (ResetOp i) = Reset i c"
| "counter_step c (DeleteOp i) = Delete i c"

text \<open>The abstract table: what each user sent and received since the last reset or deletion.\<close>

fun totals_step :: "(string \<Rightarrow> int \<times> int) \<Rightarrow> counter_op \<Rightarrow> string \<Rightarrow> int \<times> int" where
  "totals_step t (GetOp i) = t"
| "totals_step t (TxOp i n) = t(i := (i64 (fst (t i) + n), snd (t i)))"
| "totals_step t (RxOp i n) = t(i := (fst (t i), i64 (snd (t i) + n)))"
| "totals_step t (ResetOp i) = t(i := (0, 0))"
| "totals_step t (DeleteOp i) = t(i := (0, 0))"

definition totals :: "traffic_counter \<Rightarrow> string \<Rightarrow> int \<times> int" where
  "totals c i = (GetUpCount i c, GetDownCount i c)"

definition counter_inv :: "traffic_counter \<Rightarrow> bool" where
  "counter_inv c \<longleftrightarrow> sm_wf (tc_counters c) \<and>
     (\<forall>i a. sm_load (tc_counters c) i = Some a \<longrightarrow> a < length (tc_heap c)) \<and>
     (\<forall>i j a. sm_load (tc_counters c) i = Some a \<longrightarrow> sm_load (tc_counters c) j = Some a \<longrightarrow> i = j)"

lemma counter_inv_new: "counter_inv NewTrafficCounter"
  by (simp add: counter_inv_def NewTrafficCounter_def)

lemma GetCounter_inv:
  assumes "counter_inv c" "GetCounter i c = (a, c')"
  shows "counter_inv c' \<and> sm_load (tc_counters c') i = Some a \<and> a < length (tc_heap c') \<and> totals c' = totals c"
proof (cases "sm_load (tc_counters c) i")
  case (Some b)
  with assms show ?thesis by (auto simp: GetCounter_def counter_inv_def)
next
  case None
  have old: "\<And>j b. sm_load (tc_counters c) j = Some b \<Longrightarrow> b < length (tc_heap c)"
    using assms(1) by (auto simp: counter_inv_def)
  from None assms(2) have c': "tc_counters c' = sm_store i (length (tc_heap c)) (tc_counters c)"
    "tc_heap c' = tc_heap c @ [\<lparr>UpCounter = 0, DownCounter = 0\<rparr>]" "a = length (tc_heap c)"
    by (auto simp: GetCounter_def load_or_store_eq Let_def)
  have "totals c' j = totals c j" for j
    using None old [of j]
    by (auto simp: totals_def GetUpCount_def GetDownCount_def c' nth_append split: option.splits)
  moreover have "counter_inv c'"
    using assms(1) old by (auto simp: counter_inv_def c' less_SucI split: if_splits)
  ultimately show ?thesis by (simp add: c' fun_eq_iff)
qed

lemma update_storage_inv: "counter_inv c \<Longrightarrow> counter_inv (update_storage a f c)"
  by (simp add: counter_inv_def update_storage_def)

lemma totals_update:
  assumes "counter_inv c" "sm_load (tc_counters c) i = Some a"
  shows "totals (update_storage a f c) =
    (totals c)(i := (UpCounter (f (tc_heap c ! a)), DownCounter (f (tc_heap c ! a))))"
proof
  fix j
  have a: "a < length (tc_heap c)" using assms by (auto simp: counter_inv_def)
  show "totals (update_storage a f c) j =
      ((totals c)(i := (UpCounter (f (tc_heap c ! a)), DownCounter (f (tc_heap c ! a))))) j"
  proof (cases "j = i")
    case True
    with a assms(2) show ?thesis by (simp add: totals_def GetUpCount_def GetDownCount_def update_storage_def)
  next
    case False
    have "b \<noteq> a" if "sm_load (tc_counters c) j = Some b" for b
      using assms that False by (auto simp: counter_inv_def)
    with False show ?thesis
      by (cases "sm_load (tc_counters c) j") (simp_all add: totals_def GetUpCount_def GetDownCount_def update_storage_def)
  qed
qed

lemma totals_at:
  "sm_load (tc_counters c) i = Some a \<Longrightarrow> totals c i = (UpCounter (tc_heap c ! a), DownCounter (tc_heap c ! a))"
  by (simp add: totals_def GetUpCount_def GetDownCount_def)

lemma counter_step_refines:
  assumes c: "counter_inv c"
  shows "counter_inv (counter_step c x) \<and> totals (counter_step c x) = totals_step (totals c) x"
proof (cases x)
  case (GetOp i)
  with GetCounter_inv [OF c] show ?thesis by (cases "GetCounter i c") auto
next
  case (TxOp i n)
  obtain a c' where g: "GetCounter i c = (a, c')" by force
  note g' = GetCounter_inv [OF c g]
  then have "totals c' i = (UpCounter (tc_heap c' ! a), DownCounter (tc_heap c' ! a))" by (blast intro: totals_at)
  with g g' TxOp show ?thesis
    using totals_update [of c' i a "add_up n"] by (simp add: Tx_def update_storage_inv add_up_def)
next
  case (RxOp i n)
  obtain a c' where g: "GetCounter i c = (a, c')" by force
  note g' = GetCounter_inv [OF c g]
  then have "totals c' i = (UpCounter (tc_heap c' ! a), DownCounter (tc_heap c' ! a))" by (blast intro: totals_at)
  with g g' RxOp show ?thesis
    using totals_update [of c' i a "add_down n"] by (simp add: Rx_def update_storage_inv add_down_def)
next
  case (ResetOp i)
  show ?thesis
  proof (cases "sm_load (tc_counters c) i")
    case None
    then have "totals c i = (0, 0)" by (simp add: totals_def GetUpCount_def GetDownCount_def)
    with None ResetOp c show ?thesis by (simp add: Reset_def fun_upd_idem)
  next
    case (Some a)
    with ResetOp c show ?thesis by (simp add: Reset_def update_storage_inv totals_update)
  qed
next
  case (DeleteOp i)
  have "totals (Delete i c) j = ((totals c)(i := (0, 0))) j" for j
    by (simp add: totals_def GetUpCount_def GetDownCount_def Delete_def split: option.splits)
  moreover have "counter_inv (Delete i c)"
    using c by (auto simp: counter_inv_def Delete_def split: if_splits)
  ultimately show ?thesis by (simp add: DeleteOp fun_eq_iff)
qed

text \<open>C17: The traffic counters refine a table of totals: after any sequence of lookups, additions, resets
  and deletions the counts read for every user are those of the abstract table, where an addition
  changes only the total of its user and direction (wrapping at 64 bits), and a reset or a deletion sets
  only its user's totals to zero.\<close>

theorem traffic_counter_refines:
  "totals (fold (\<lambda>x c. counter_step c x) ops NewTrafficCounter) = fold (\<lambda>x t. totals_step t x) ops (\<lambda>_. (0, 0))"
proof -
  have "counter_inv (fold (\<lambda>x c. counter_step c x) ops c) \<and>
      totals (fold (\<lambda>x c. counter_step c x) ops c) = fold (\<lambda>x t. totals_step t x) ops (totals c)"
    if "counter_inv c" for c
    using that counter_step_refines by (induction ops arbitrary: c) auto
  moreover have "totals NewTrafficCounter = (\<lambda>_. (0, 0))"
    by (simp add: totals_def GetUpCount_def GetDownCount_def NewTrafficCounter_def fun_eq_iff)
  ultimately show ?thesis using counter_inv_new by metis
qed

section \<open>What the wrappers count\<close>

text \<open>The bytes a call carried from the client, when it succeeded.\<close>

fun up_bytes :: "conn_call \<Rightarrow> int" where
  "up_bytes (ConnRead n) = n"
| "up_bytes (ReadBuffer n failed) = (if failed then 0 else n)"
| "up_bytes (ReadPacket n failed) = (if failed then 0 else n)"
| "up_bytes (ReadFunc n) = n"
| "up_bytes _ = 0"

fun down_bytes :: "conn_call \<Rightarrow> int" where
  "down_bytes (ConnWrite n) = n"
| "down_bytes (WriteBuffer n failed) = (if failed then 0 else n)"
| "down_bytes (WritePacket n failed) = (if failed then 0 else n)"
| "down_bytes (WriteFunc n) = n"
| "down_bytes _ = 0"

fun buffered :: "conn_call \<Rightarrow> bool" where
  "buffered (ConnRead _) = False"
| "buffered (ConnWrite _) = False"
| "buffered (ReadBuffer n _) = (0 \<le> n)"
| "buffered (WriteBuffer n _) = (0 \<le> n)"
| "buffered (WritePacket n _) = (0 \<le> n)"
| "buffered _ = True"

lemma i64_i64_add: "i64 (i64 a + b) = i64 (a + b)"
proof -
  have "i64 (i64 a + b) = ((a + 2 ^ 63) mod 2 ^ 64 + b) mod 2 ^ 64 - 2 ^ 63" by (simp add: i64_def)
  also have "\<dots> = (a + 2 ^ 63 + b) mod 2 ^ 64 - 2 ^ 63" by (simp only: mod_add_left_eq)
  also have "\<dots> = i64 (a + b)" by (simp add: i64_def ac_simps)
  finally show ?thesis .
qed

lemma i64_i64_add2: "i64 (i64 (a + b) + c) = i64 (a + (b + c))"
  by (simp only: i64_i64_add add.assoc)

lemma count_call_up:
  "buffered x \<Longrightarrow> i64 (UpCounter (count_call x s) + r) = i64 (UpCounter s + (up_bytes x + r))"
  by (cases x) (simp_all only: count_call.simps up_bytes.simps add_up_def add_down_def buffered.simps
      traffic_storage.simps traffic_storage.update_convs i64_i64_add2 add_0 split: if_split, auto simp: i64_i64_add2)

lemma count_call_down:
  "buffered x \<Longrightarrow> i64 (DownCounter (count_call x s) + r) = i64 (DownCounter s + (down_bytes x + r))"
  by (cases x) (simp_all only: count_call.simps down_bytes.simps add_up_def add_down_def buffered.simps
      traffic_storage.simps traffic_storage.update_convs i64_i64_add2 add_0 split: if_split, auto simp: i64_i64_add2)

lemma count_calls_sum:
  "list_all buffered calls \<Longrightarrow>
     i64 (UpCounter (fold count_call calls s) + r) = i64 (UpCounter s + sum_list (map up_bytes calls) + r) \<and>
     i64 (DownCounter (fold count_call calls s) + r) = i64 (DownCounter s + sum_list (map down_bytes calls) + r)"
proof (induction calls arbitrary: s)
  case (Cons x calls)
  then have "buffered x" by simp
  from count_call_up [OF this] count_call_down [OF this] Cons show ?case
    by (simp add: add.assoc)
qed simp

lemma conn_calls_heap:
  "a < length (tc_heap c) \<Longrightarrow> tc_heap (conn_calls a calls c) = (tc_heap c)[a := fold count_call calls (tc_heap c ! a)] \<and>
     tc_counters (conn_calls a calls c) = tc_counters c"
  by (induction calls arbitrary: c) (simp_all add: conn_calls_def update_storage_def)

text \<open>The wrappers count every byte that goes through their buffer, packet and count-function paths:
  over any sequence of such calls on a user's connections the user's two counters grow by exactly the
  bytes of the successful calls (at 64 bits), and no other user's counters change.\<close>

theorem conn_counter_conserves:
  assumes "counter_inv c" "sm_load (tc_counters c) i = Some a" "list_all buffered calls"
  shows "i64 (GetUpCount i (conn_calls a calls c)) = i64 (GetUpCount i c + sum_list (map up_bytes calls)) \<and>
     i64 (GetDownCount i (conn_calls a calls c)) = i64 (GetDownCount i c + sum_list (map down_bytes calls)) \<and>
     (j \<noteq> i \<longrightarrow> totals (conn_calls a calls c) j = totals c j)"
proof -
  have a: "a < length (tc_heap c)" using assms(1,2) by (auto simp: counter_inv_def)
  note heap = conn_calls_heap [OF a, of calls]
  have "b \<noteq> a" if "j \<noteq> i" "sm_load (tc_counters c) j = Some b" for b
    using assms(1,2) that by (auto simp: counter_inv_def)
  then have "j \<noteq> i \<longrightarrow> totals (conn_calls a calls c) j = totals c j"
    by (auto simp: totals_def GetUpCount_def GetDownCount_def heap split: option.splits)
  with count_calls_sum [OF assms(3), of "tc_heap c ! a" 0] a assms(2) show ?thesis
    by (simp add: GetUpCount_def GetDownCount_def heap)
qed

lemma conn_counter_conserves_witness:
  "i64 (GetUpCount ''u'' (conn_calls 0 [ReadBuffer 5 False, ReadPacket 7 False, ReadPacket 9 True]
      (snd (GetCounter ''u'' NewTrafficCounter)))) = 12"
proof -
  let ?c = "snd (GetCounter ''u'' NewTrafficCounter)"
  have "counter_inv ?c" using GetCounter_inv [OF counter_inv_new, of "''u''" "fst (GetCounter ''u'' NewTrafficCounter)" ?c] by simp
  moreover have "sm_load (tc_counters ?c) ''u'' = Some 0" by code_simp
  moreover have "list_all buffered [ReadBuffer 5 False, ReadPacket 7 False, ReadPacket 9 True]" by simp
  moreover have "i64 (GetUpCount ''u'' ?c + sum_list (map up_bytes [ReadBuffer 5 False, ReadPacket 7 False, ReadPacket 9 True])) = 12"
    by code_simp
  ultimately show ?thesis using conn_counter_conserves by metis
qed

text \<open>The plain \<^verbatim>\<open>Read\<close> and \<^verbatim>\<open>Write\<close> of the connection wrapper overwrite instead of adding: whatever the
  counters held, and whatever other users did, after a plain read of \<open>n\<close> bytes the user's upload count is
  \<open>n\<close>, so of any sequence of plain reads only the last one is reported.\<close>

theorem plain_read_overwrites:
  assumes "a < length (tc_heap c)" "sm_load (tc_counters c) i = Some a"
  shows "GetUpCount i (conn_calls a (calls @ [ConnRead n]) c) = n \<and>
     GetDownCount i (conn_calls a (calls @ [ConnWrite n]) c) = n"
  using conn_calls_heap [OF assms(1)] assms by (simp add: GetUpCount_def GetDownCount_def)

lemma plain_read_overwrites_witness:
  "GetUpCount ''u'' (conn_calls 0 ([ConnRead 1000] @ [ConnRead 1]) (snd (GetCounter ''u'' NewTrafficCounter))) = 1"
proof -
  have "0 < length (tc_heap (snd (GetCounter ''u'' NewTrafficCounter)))"
    "sm_load (tc_counters (snd (GetCounter ''u'' NewTrafficCounter))) ''u'' = Some 0" by code_simp+
  from plain_read_overwrites [OF this] show ?thesis by blast
qed

end
