(* ===== verification/Panel_Types.thy ===== *)
theory Panel_Types
  imports Shared_Types
begin

text \<open>
  The data of the panel client: the node types of \<^verbatim>\<open>api/panel/node.go\<close>, the client state of
  \<^verbatim>\<open>api/panel/panel.go\<close>, and the HTTP responses it reads. A pointer that may be nil is an option, a
  \<^verbatim>\<open>json.RawMessage\<close> the string of its bytes, an \<^verbatim>\<open>interface{}\<close> that JSON filled a value of
  \<open>any\<close>. The JSON decoder (goccy/go-json) and the hash are parameters: a record of functions.
\<close>

text \<open>A number is kept as the integer that Go's conversion to an integer gives.\<close>

datatype any =
    AnyNil | AnyBool bool | AnyInt int | AnyFloat int | AnyString string
  | AnyStrings "string list" | AnyList "any list" | AnyMap "(string \<times> any) list"

record ech_settings =
  ec_Enabled :: bool
  ec_Config :: string
  ec_ConfigList :: string
  ec_ForceQuery :: string
  ec_QueryServerName :: string
  ec_PrivateKey :: string
  ec_ServerKeys :: string

record tls_settings =
  ts_ServerName :: string
  ts_Dest :: string
  ts_ServerPort :: string
  ts_ShortId :: string
  ts_PrivateKey :: string
  ts_Xver :: int
  ts_ECH :: ech_settings

record reality_config =
  re_Xver :: int
  re_MinClientVer :: string
  re_MaxClientVer :: string
  re_MaxTimeDiff :: string

record route =
  ro_Id :: int
  ro_Match :: any
  ro_Action :: string
  ro_ActionValue :: string

record base_config =
  bc_PushInterval :: any
  bc_PullInterval :: any

record common_node =
  cn_Host :: string
  cn_ServerPort :: int
  cn_ServerName :: string
  cn_Routes :: "route list"
  cn_BaseConfig :: "base_config option"

record vallss_node =
  va_Common :: common_node
  va_Tls :: int
  va_TlsSettings :: tls_settings
  va_TlsSettingsBack :: "tls_settings option"
  va_ECH :: ech_settings
  va_Network :: string
  va_NetworkSettings :: string
  va_NetworkSettingsBack :: string
  va_ServerName :: string
  va_Encryption :: string
  va_Decryption :: string
  va_Flow :: string
  va_RealityConfig :: reality_config

record shadowsocks_node =
  ss_Common :: common_node
  ss_Cipher :: string
  ss_ServerKey :: string

record trojan_node =
  tj_Common :: common_node
  tj_Network :: string
  tj_NetworkSettings :: string
  tj_NetworkSettingsBack :: string
  tj_TlsSettings :: tls_settings
  tj_TlsSettingsBack :: "tls_settings option"
  tj_ECH :: ech_settings

record tuic_node =
  tu_Common :: common_node
  tu_CongestionControl :: string
  tu_ZeroRTTHandshake :: bool

record anytls_node =
  at_Common :: common_node
  at_PaddingScheme :: string
  at_Tls :: int
  at_TlsSettings :: tls_settings
  at_TlsSettingsBack :: "tls_settings option"
  at_RealityConfig :: reality_config

record naive_node =
  nv_Common :: common_node
  nv_Network :: string
  nv_NetworkSettings :: string
  nv_NetworkSettingsBack :: string
  nv_Tls :: int
  nv_TlsSettings :: tls_settings
  nv_TlsSettingsBack :: "tls_settings option"

record hysteria_node =
  hy_Common :: common_node
  hy_UpMbps :: int
  hy_DownMbps :: int
  hy_Obfs :: string

record hysteria2_node =
  h2_Common :: common_node
  h2_Ignore_Client_Bandwidth :: bool
  h2_UpMbps :: int
  h2_DownMbps :: int
  h2_ObfsType :: string
  h2_ObfsPassword :: string

record dns_entry =
  dn_address :: string
  dn_domains :: "string list"

record raw_dns =
  rd_DNSMap :: "(string, dns_entry) gomap"
  rd_DNSJson :: string

record node_info =
  ni_Id :: int
  ni_Type :: string
  ni_Protocol :: string
  ni_Security :: int
  ni_PushInterval :: int
  ni_PullInterval :: int
  ni_RawDNS :: raw_dns
  ni_Rules :: rules
  ni_Config :: string
  ni_VAllss :: "vallss_node option"
  ni_Shadowsocks :: "shadowsocks_node option"
  ni_Trojan :: "trojan_node option"
  ni_Tuic :: "tuic_node option"
  ni_AnyTLS :: "anytls_node option"
  ni_Naive :: "naive_node option"
  ni_Hysteria :: "hysteria_node option"
  ni_Hysteria2 :: "hysteria2_node option"
  ni_Common :: "common_node option"
  ni_Basic :: "base_config option"

text \<open>The security types.\<close>

definition SecurityNone :: int where "SecurityNone = 0"
definition Tls :: int where "Tls = 1"
definition Reality :: int where "Reality = 2"

text \<open>A slice of users is \<^term>\<open>None\<close> when it is nil.\<close>

record user_list_body =
  ub_Users :: "user_info list option"

record panel_client =
  pc_PanelType :: string
  pc_APIHost :: string
  pc_Token :: string
  pc_NodeType :: string
  pc_NodeId :: int
  pc_nodeEtag :: string
  pc_userEtag :: string
  pc_responseBodyHash :: string
  pc_UserList :: "user_list_body option"
  pc_AliveMap :: "(int, int) gomap option"

text \<open>
  A response of the HTTP client (go-resty): its status (0 when there is no raw response), its body, its
  \<^verbatim>\<open>ETag\<close> header, whether the raw response is nil. A call returns a response that may itself be nil, and an error.
\<close>

record response =
  rs_Status :: int
  rs_Body :: string
  rs_ETag :: string
  rs_RawNil :: bool

type_synonym http_result = "response option \<times> string option"

text \<open>The decoders of the JSON library that the client calls, each giving a value or an error message.\<close>

record codec =
  cd_String :: "string \<Rightarrow> string option"
  cd_Int64 :: "string \<Rightarrow> int option"
  cd_Uint64 :: "string \<Rightarrow> int option"
  cd_FloatText :: "string \<Rightarrow> string option"
  cd_NodeInfo :: "node_info \<Rightarrow> string \<Rightarrow> string + node_info"
  cd_VAllss :: "string \<Rightarrow> string + vallss_node"
  cd_Shadowsocks :: "string \<Rightarrow> string + shadowsocks_node"
  cd_Trojan :: "string \<Rightarrow> string + trojan_node"
  cd_Tuic :: "string \<Rightarrow> string + tuic_node"
  cd_AnyTLS :: "string \<Rightarrow> string + anytls_node"
  cd_Naive :: "string \<Rightarrow> string + naive_node"
  cd_Hysteria :: "string \<Rightarrow> string + hysteria_node"
  cd_Hysteria2 :: "string \<Rightarrow> string + hysteria2_node"
  cd_UserList :: "string \<Rightarrow> string + user_list_body"

section \<open>Zero values\<close>

definition zero_common :: common_node where
  "zero_common = \<lparr>cn_Host = [], cn_ServerPort = 0, cn_ServerName = [], cn_Routes = [], cn_BaseConfig = None\<rparr>"

definition zero_node :: node_info where
  "zero_node = \<lparr>ni_Id = 0, ni_Type = [], ni_Protocol = [], ni_Security = 0, ni_PushInterval = 0,
     ni_PullInterval = 0, ni_RawDNS = \<lparr>rd_DNSMap = [], rd_DNSJson = []\<rparr>,
     ni_Rules = \<lparr>ru_Regexp = [], ru_Protocol = []\<rparr>, ni_Config = [], ni_VAllss = None,
     ni_Shadowsocks = None, ni_Trojan = None, ni_Tuic = None, ni_AnyTLS = None, ni_Naive = None,
     ni_Hysteria = None, ni_Hysteria2 = None, ni_Common = None, ni_Basic = None\<rparr>"

definition zero_ech :: ech_settings where
  "zero_ech = \<lparr>ec_Enabled = False, ec_Config = [], ec_ConfigList = [], ec_ForceQuery = [],
     ec_QueryServerName = [], ec_PrivateKey = [], ec_ServerKeys = []\<rparr>"

end
