(* ===== verification/Panel_Node.thy ===== *)
theory Panel_Node
  imports Panel_Types
begin

text \<open>
  \<^verbatim>\<open>api/panel/node.go\<close> and \<^verbatim>\<open>utils.go\<close>: decoding and caching of the node description. A method that
  may panic returns an option; inside it, an error is the left side of a sum.
\<close>

section \<open>Small helpers\<close>

fun firstTrimmedString :: "string list \<Rightarrow> string" where
  "firstTrimmedString [] = ''''"
| "firstTrimmedString (value # values) =
     (if TrimSpace value \<noteq> '''' then TrimSpace value else firstTrimmedString values)"

definition mergeECHSettings :: "ech_settings \<Rightarrow> ech_settings \<Rightarrow> ech_settings" where
  "mergeECHSettings primary fallback = primary\<lparr>
     ec_Enabled := ec_Enabled primary \<or> ec_Enabled fallback,
     ec_Config := (if ec_Config primary = '''' then ec_Config fallback else ec_Config primary),
     ec_ConfigList := (if ec_ConfigList primary = '''' then ec_ConfigList fallback else ec_ConfigList primary),
     ec_ForceQuery := (if ec_ForceQuery primary = '''' then ec_ForceQuery fallback else ec_ForceQuery primary),
     ec_QueryServerName := (if ec_QueryServerName primary = '''' then ec_QueryServerName fallback else ec_QueryServerName primary),
     ec_PrivateKey := (if ec_PrivateKey primary = '''' then ec_PrivateKey fallback else ec_PrivateKey primary),
     ec_ServerKeys := (if ec_ServerKeys primary = '''' then ec_ServerKeys fallback else ec_ServerKeys primary)\<rparr>"

text \<open>The auxiliary structs that the two custom decoders fill first.\<close>

record ech_json =
  ej_Enabled :: bool
  ej_Config :: string
  ej_ConfigList :: string
  ej_ConfigListCamel :: string
  ej_ECHConfigList :: string
  ej_ECHConfigListCamel :: string
  ej_ForceQuery :: string
  ej_ForceQueryCamel :: string
  ej_ECHForceQuery :: string
  ej_ECHForceQueryCamel :: string
  ej_QueryServerName :: string
  ej_QueryServerCamel :: string
  ej_ECHQueryServer :: string
  ej_ECHQueryCamel :: string
  ej_PrivateKey :: string
  ej_PrivateKeyCamel :: string
  ej_ECHPrivateKey :: string
  ej_ECHPrivateKeyCamel :: string
  ej_ServerKeys :: string
  ej_ServerKeysCamel :: string
  ej_ECHServerKeys :: string
  ej_ECHServerKeysCamel :: string

record tls_json =
  tj_ServerName :: string
  tj_Dest :: string
  tj_ServerPort :: string
  tj_ShortId :: string
  tj_PrivateKey :: string
  tj_Xver :: int
  tj_JsonECH :: ech_settings

definition ech_of_json :: "string + ech_json \<Rightarrow> string + ech_settings" where
  "ech_of_json r = (case r of
     Inl err \<Rightarrow> Inl err
   | Inr aux \<Rightarrow> Inr \<lparr>
       ec_Enabled = ej_Enabled aux,
       ec_Config = TrimSpace (ej_Config aux),
       ec_ConfigList = firstTrimmedString
         [ej_ConfigList aux, ej_ConfigListCamel aux, ej_ECHConfigList aux, ej_ECHConfigListCamel aux],
       ec_ForceQuery = firstTrimmedString
         [ej_ForceQuery aux, ej_ForceQueryCamel aux, ej_ECHForceQuery aux, ej_ECHForceQueryCamel aux],
       ec_QueryServerName = firstTrimmedString
         [ej_QueryServerName aux, ej_QueryServerCamel aux, ej_ECHQueryServer aux, ej_ECHQueryCamel aux],
       ec_PrivateKey = firstTrimmedString
         [ej_PrivateKey aux, ej_PrivateKeyCamel aux, ej_ECHPrivateKey aux, ej_ECHPrivateKeyCamel aux],
       ec_ServerKeys = firstTrimmedString
         [ej_ServerKeys aux, ej_ServerKeysCamel aux, ej_ECHServerKeys aux, ej_ECHServerKeysCamel aux]\<rparr>)"

definition decodeStringOrNumber :: "codec \<Rightarrow> string \<Rightarrow> string + string" where
  "decodeStringOrNumber cd raw =
     (if raw = '''' \<or> raw = ''null'' then Inr ''''
      else case cd_String cd raw of Some s \<Rightarrow> Inr (TrimSpace s)
      | None \<Rightarrow> (case cd_Int64 cd raw of Some i \<Rightarrow> Inr (Itoa i)
      | None \<Rightarrow> (case cd_Uint64 cd raw of Some u \<Rightarrow> Inr (Itoa u)
      | None \<Rightarrow> (case cd_FloatText cd raw of Some f \<Rightarrow> Inr f
      | None \<Rightarrow> Inl (''unsupported value: '' @ raw)))))"

definition tls_of_json :: "codec \<Rightarrow> string + tls_json \<Rightarrow> string + tls_settings" where
  "tls_of_json cd r = (case r of
     Inl err \<Rightarrow> Inl err
   | Inr aux \<Rightarrow>
       (case decodeStringOrNumber cd (tj_ServerPort aux) of
          Inl err \<Rightarrow> Inl (''decode tls server_port error: '' @ err)
        | Inr serverPort \<Rightarrow> Inr \<lparr>ts_ServerName = tj_ServerName aux, ts_Dest = tj_Dest aux, ts_ServerPort = serverPort,
            ts_ShortId = tj_ShortId aux, ts_PrivateKey = tj_PrivateKey aux, ts_Xver = tj_Xver aux,
            ts_ECH = tj_JsonECH aux\<rparr>))"

definition NormalizedEncryption :: "vallss_node option \<Rightarrow> string" where
  "NormalizedEncryption v = (case v of None \<Rightarrow> '''' | Some v \<Rightarrow> TrimSpace (va_Encryption v))"

definition NormalizedDecryption :: "vallss_node option \<Rightarrow> string" where
  "NormalizedDecryption v = (case v of None \<Rightarrow> '''' | Some v \<Rightarrow> TrimSpace (va_Decryption v))"

definition HasVlessOutboundEncryption :: "vallss_node option \<Rightarrow> bool" where
  "HasVlessOutboundEncryption v = (case v of None \<Rightarrow> False | Some _ \<Rightarrow> NormalizedEncryption v \<noteq> '''')"

definition HasVlessInboundDecryption :: "vallss_node option \<Rightarrow> bool" where
  "HasVlessInboundDecryption v = (case v of None \<Rightarrow> False | Some _ \<Rightarrow> NormalizedDecryption v \<noteq> '''')"

definition HasVlessEncryption :: "vallss_node option \<Rightarrow> bool" where
  "HasVlessEncryption v =
     (case v of None \<Rightarrow> False | Some _ \<Rightarrow> HasVlessOutboundEncryption v \<or> HasVlessInboundDecryption v)"

text \<open>\<^verbatim>\<open>reflect.TypeOf(nil)\<close> is a nil interface, whose \<^verbatim>\<open>Kind\<close> panics; so does \<^verbatim>\<open>Int\<close> on a value that is no integer.\<close>

definition intervalToTime :: "any \<Rightarrow> int option" where
  "intervalToTime i = (case i of
     AnyInt n \<Rightarrow> Some (i64 (n * Second))
   | AnyString s \<Rightarrow> Some (i64 (fst (Atoi s) * Second))
   | AnyFloat f \<Rightarrow> Some (i64 (f * Second))
   | _ \<Rightarrow> panic)"

fun trim_right_slash :: "string \<Rightarrow> string" where
  "trim_right_slash [] = []"
| "trim_right_slash (c # cs) = (if c = CHR ''/'' then trim_right_slash cs else c # cs)"

definition assembleURL :: "panel_client \<Rightarrow> string \<Rightarrow> string" where
  "assembleURL c path =
     rev (trim_right_slash (rev (pc_APIHost c))) @ (if \<not> HasPrefix path ''/'' then ''/'' @ path else path)"

text \<open>The error that \<^verbatim>\<open>checkResponse\<close> returns, if any; reading the status of a nil response panics.\<close>

definition checkResponse :: "panel_client \<Rightarrow> http_result \<Rightarrow> string \<Rightarrow> string option option" where
  "checkResponse c r path = (case r of
     (_, Some err) \<Rightarrow> Some (Some (''request '' @ assembleURL c path @ '' failed: '' @ err))
   | (None, None) \<Rightarrow> panic
   | (Some res, None) \<Rightarrow>
       if rs_Status res \<ge> 400
       then Some (Some (''request '' @ assembleURL c path @ '' failed: '' @ rs_Body res)) else Some None)"

section \<open>The ppanel answer\<close>

definition unwrap_error :: "string \<Rightarrow> string + 'a \<Rightarrow> string + 'a" where
  "unwrap_error msg r = (case r of Inl err \<Rightarrow> Inl (msg @ err) | Inr x \<Rightarrow> Inr x)"

text \<open>The first switch: the decoder of the protocol on the node's \<^verbatim>\<open>config\<close>; the node with the pointer it
  sets, or the error. The second switch: settings given under their older name take precedence.\<close>

definition decode_protocol :: "codec \<Rightarrow> node_info \<Rightarrow> string + node_info" where
  "decode_protocol cd node =
     (let p = ni_Protocol node; cfg = ni_Config node in
      if p = ''vmess'' \<or> p = ''vless'' then map_sum id (\<lambda>v. node\<lparr>ni_VAllss := Some v\<rparr>) (cd_VAllss cd cfg)
      else if p = ''trojan'' then map_sum id (\<lambda>v. node\<lparr>ni_Trojan := Some v\<rparr>) (cd_Trojan cd cfg)
      else if p = ''shadowsocks'' then map_sum id (\<lambda>v. node\<lparr>ni_Shadowsocks := Some v\<rparr>) (cd_Shadowsocks cd cfg)
      else if p = ''tuic'' then map_sum id (\<lambda>v. node\<lparr>ni_Tuic := Some v\<rparr>) (cd_Tuic cd cfg)
      else if p = ''hysteria2'' then map_sum id (\<lambda>v. node\<lparr>ni_Hysteria2 := Some v\<rparr>) (cd_Hysteria2 cd cfg)
      else if p = ''anytls'' then map_sum id (\<lambda>v. node\<lparr>ni_AnyTLS := Some v\<rparr>) (cd_AnyTLS cd cfg)
      else if p = ''naive'' then map_sum id (\<lambda>v. node\<lparr>ni_Naive := Some v\<rparr>) (cd_Naive cd cfg)
      else Inl (''unknown protocol:'' @ p))"

definition settle_vallss_tls :: "vallss_node \<Rightarrow> vallss_node" where
  "settle_vallss_tls v =
     (let v = (case va_TlsSettingsBack v of None \<Rightarrow> v
               | Some t \<Rightarrow> v\<lparr>va_TlsSettings := t, va_TlsSettingsBack := None\<rparr>)
      in v\<lparr>va_TlsSettings := (va_TlsSettings v)\<lparr>ts_ECH := mergeECHSettings (ts_ECH (va_TlsSettings v)) (va_ECH v)\<rparr>\<rparr>)"

definition settle_trojan :: "trojan_node \<Rightarrow> trojan_node" where
  "settle_trojan v =
     (let v = (if tj_NetworkSettingsBack v \<noteq> [] then
                 v\<lparr>tj_NetworkSettings := tj_NetworkSettingsBack v, tj_NetworkSettingsBack := []\<rparr> else v);
          v = (case tj_TlsSettingsBack v of None \<Rightarrow> v
               | Some t \<Rightarrow> v\<lparr>tj_TlsSettings := t, tj_TlsSettingsBack := None\<rparr>)
      in v\<lparr>tj_TlsSettings := (tj_TlsSettings v)\<lparr>ts_ECH := mergeECHSettings (ts_ECH (tj_TlsSettings v)) (tj_ECH v)\<rparr>\<rparr>)"

definition settle_anytls :: "anytls_node \<Rightarrow> anytls_node" where
  "settle_anytls v = (case at_TlsSettingsBack v of None \<Rightarrow> v
     | Some t \<Rightarrow> v\<lparr>at_TlsSettings := t, at_TlsSettingsBack := None\<rparr>)"

definition settle_naive :: "naive_node \<Rightarrow> naive_node" where
  "settle_naive v = (case nv_TlsSettingsBack v of None \<Rightarrow> v
     | Some t \<Rightarrow> v\<lparr>nv_TlsSettings := t, nv_TlsSettingsBack := None\<rparr>)"

definition settle_protocol :: "node_info \<Rightarrow> node_info" where
  "settle_protocol node =
     (let p = ni_Protocol node in
      if p = ''vmess'' \<or> p = ''vless'' then
        (case ni_VAllss node of None \<Rightarrow> node
         | Some v \<Rightarrow> node\<lparr>ni_VAllss := Some (settle_vallss_tls v), ni_Security := va_Tls v\<rparr>)
      else if p = ''trojan'' then
        node\<lparr>ni_Trojan := map_option settle_trojan (ni_Trojan node), ni_Security := Tls\<rparr>
      else if p = ''anytls'' then
        (case ni_AnyTLS node of None \<Rightarrow> node
         | Some v \<Rightarrow> node\<lparr>ni_AnyTLS := Some (settle_anytls v), ni_Security := at_Tls v\<rparr>)
      else if p = ''naive'' then
        (case ni_Naive node of None \<Rightarrow> node
         | Some v \<Rightarrow> node\<lparr>ni_Naive := Some (settle_naive v), ni_Security := nv_Tls v\<rparr>)
      else node)"

text \<open>From the decoded body to the node; a missing \<^verbatim>\<open>basic\<close> is a nil dereference. The second switch runs even when
  the decoder failed, on values that are dropped then.\<close>

definition node_of_ppanel :: "codec \<Rightarrow> panel_client \<Rightarrow> string \<Rightarrow> (string + node_info) option" where
  "node_of_ppanel cd c body =
     (case cd_NodeInfo cd (zero_node\<lparr>ni_Id := pc_NodeId c, ni_Type := pc_NodeType c, ni_Common := Some zero_common\<rparr>) body of
        Inl err \<Rightarrow> Some (Inl (''decode node params error: '' @ err))
      | Inr node \<Rightarrow> do {
          basic \<leftarrow> ni_Basic node;
          push \<leftarrow> intervalToTime (bc_PushInterval basic);
          pull \<leftarrow> intervalToTime (bc_PullInterval basic);
          Some (unwrap_error ''decode node config error: ''
            (map_sum id settle_protocol (decode_protocol cd
               (node\<lparr>ni_PushInterval := push, ni_PullInterval := pull, ni_Type := ni_Protocol node\<rparr>)))) })"

section \<open>The UniProxy answer\<close>

text \<open>The switch on the node type: the node with its pointer and security, and the common part.\<close>

definition settle_vallss :: "vallss_node \<Rightarrow> vallss_node" where
  "settle_vallss v = settle_vallss_tls
     (if va_NetworkSettingsBack v \<noteq> [] then
        v\<lparr>va_NetworkSettings := va_NetworkSettingsBack v, va_NetworkSettingsBack := []\<rparr> else v)"

definition decode_node_type :: "codec \<Rightarrow> string \<Rightarrow> string \<Rightarrow> node_info \<Rightarrow> (string + (node_info \<times> common_node)) option" where
  "decode_node_type cd t body node =
     (if t = ''vmess'' \<or> t = ''vless'' then Some (unwrap_error ''decode v2ray params error: ''
        (map_sum id (\<lambda>r. let rsp = settle_vallss r in
           (node\<lparr>ni_VAllss := Some rsp, ni_Security := va_Tls rsp\<rparr>, va_Common rsp)) (cd_VAllss cd body)))
      else if t = ''shadowsocks'' then Some (unwrap_error ''decode shadowsocks params error: ''
        (map_sum id (\<lambda>rsp. (node\<lparr>ni_Shadowsocks := Some rsp, ni_Security := SecurityNone\<rparr>, ss_Common rsp)) (cd_Shadowsocks cd body)))
      else if t = ''trojan'' then Some (unwrap_error ''decode trojan params error: ''
        (map_sum id (\<lambda>r. let rsp = settle_trojan r in
           (node\<lparr>ni_Trojan := Some rsp, ni_Security := Tls\<rparr>, tj_Common rsp)) (cd_Trojan cd body)))
      else if t = ''tuic'' then Some (unwrap_error ''decode tuic params error: ''
        (map_sum id (\<lambda>rsp. (node\<lparr>ni_Tuic := Some rsp, ni_Security := Tls\<rparr>, tu_Common rsp)) (cd_Tuic cd body)))
      else if t = ''anytls'' then Some (unwrap_error ''decode anytls params error: ''
        (map_sum id (\<lambda>r. let rsp = settle_anytls r in
           (node\<lparr>ni_AnyTLS := Some rsp, ni_Security := at_Tls rsp\<rparr>, at_Common rsp)) (cd_AnyTLS cd body)))
      else if t = ''naive'' then Some (unwrap_error ''decode naive params error: ''
        (map_sum id (\<lambda>r. let rsp = settle_naive r in
           (node\<lparr>ni_Naive := Some rsp, ni_Security := nv_Tls rsp\<rparr>, nv_Common rsp)) (cd_Naive cd body)))
      else if t = ''hysteria'' then Some (unwrap_error ''decode hysteria params error: ''
        (map_sum id (\<lambda>rsp. (node\<lparr>ni_Hysteria := Some rsp, ni_Security := Tls\<rparr>, hy_Common rsp)) (cd_Hysteria cd body)))
      else if t = ''hysteria2'' then Some (unwrap_error ''decode hysteria2 params error: ''
        (map_sum id (\<lambda>rsp. (node\<lparr>ni_Hysteria2 := Some rsp, ni_Security := Tls\<rparr>, h2_Common rsp)) (cd_Hysteria2 cd body)))
      else panic)"

text \<open>The type assertions on the match of a route.\<close>

fun strings_of :: "any list \<Rightarrow> string list option" where
  "strings_of [] = Some []"
| "strings_of (AnyString s # rest) = map_option (Cons s) (strings_of rest)"
| "strings_of (_ # rest) = panic"

definition route_matches :: "any \<Rightarrow> string list option" where
  "route_matches m = (case m of
     AnyString s \<Rightarrow> Some (Split (CHR '','') s)
   | AnyStrings ss \<Rightarrow> Some ss
   | AnyList xs \<Rightarrow> strings_of xs
   | _ \<Rightarrow> panic)"

fun block_matches :: "string list \<Rightarrow> rules \<Rightarrow> rules" where
  "block_matches [] r = r"
| "block_matches (v # vs) r =
     block_matches vs (if HasPrefix v ''protocol:''
       then r\<lparr>ru_Protocol := ru_Protocol r @ [TrimPrefix v ''protocol:'']\<rparr>
       else r\<lparr>ru_Regexp := ru_Regexp r @ [TrimPrefix v ''regexp:'']\<rparr>)"

definition dns_matches :: "nat \<Rightarrow> route \<Rightarrow> string list \<Rightarrow> raw_dns \<Rightarrow> raw_dns option" where
  "dns_matches i ro matchs d = (case matchs of
     [] \<Rightarrow> panic
   | m # rest \<Rightarrow>
       if m \<noteq> ''main'' then Some (d\<lparr>rd_DNSMap := sm_store (Itoa (int i))
         \<lparr>dn_address = ro_ActionValue ro, dn_domains = matchs\<rparr> (rd_DNSMap d)\<rparr>)
       else Some (d\<lparr>rd_DNSJson := Join rest ''''\<rparr>))"

fun parse_routes :: "nat \<Rightarrow> route list \<Rightarrow> rules \<Rightarrow> raw_dns \<Rightarrow> (rules \<times> raw_dns) option" where
  "parse_routes i [] r d = Some (r, d)"
| "parse_routes i (ro # ros) r d =
     (case route_matches (ro_Match ro) of
        None \<Rightarrow> panic
      | Some matchs \<Rightarrow>
          if ro_Action ro = ''block'' then parse_routes (i + 1) ros (block_matches matchs r) d
          else if ro_Action ro = ''dns'' then
            (case dns_matches i ro matchs d of None \<Rightarrow> panic | Some d' \<Rightarrow> parse_routes (i + 1) ros r d')
          else parse_routes (i + 1) ros r d)"

text \<open>The common part is cleared of routes and intervals; the node of the protocol shares it.\<close>

definition clear_common :: "common_node \<Rightarrow> common_node" where
  "clear_common cm = cm\<lparr>cn_Routes := [], cn_BaseConfig := None\<rparr>"

definition clear_shared :: "node_info \<Rightarrow> node_info" where
  "clear_shared n = n\<lparr>
     ni_VAllss := map_option (\<lambda>v. v\<lparr>va_Common := clear_common (va_Common v)\<rparr>) (ni_VAllss n),
     ni_Shadowsocks := map_option (\<lambda>v. v\<lparr>ss_Common := clear_common (ss_Common v)\<rparr>) (ni_Shadowsocks n),
     ni_Trojan := map_option (\<lambda>v. v\<lparr>tj_Common := clear_common (tj_Common v)\<rparr>) (ni_Trojan n),
     ni_Tuic := map_option (\<lambda>v. v\<lparr>tu_Common := clear_common (tu_Common v)\<rparr>) (ni_Tuic n),
     ni_AnyTLS := map_option (\<lambda>v. v\<lparr>at_Common := clear_common (at_Common v)\<rparr>) (ni_AnyTLS n),
     ni_Naive := map_option (\<lambda>v. v\<lparr>nv_Common := clear_common (nv_Common v)\<rparr>) (ni_Naive n),
     ni_Hysteria := map_option (\<lambda>v. v\<lparr>hy_Common := clear_common (hy_Common v)\<rparr>) (ni_Hysteria n),
     ni_Hysteria2 := map_option (\<lambda>v. v\<lparr>h2_Common := clear_common (h2_Common v)\<rparr>) (ni_Hysteria2 n)\<rparr>"

definition node_of_uniproxy :: "codec \<Rightarrow> panel_client \<Rightarrow> string \<Rightarrow> (string + node_info) option" where
  "node_of_uniproxy cd c body =
     (case decode_node_type cd (pc_NodeType c) body (zero_node\<lparr>ni_Id := pc_NodeId c, ni_Type := pc_NodeType c\<rparr>) of
        None \<Rightarrow> panic
      | Some (Inl err) \<Rightarrow> Some (Inl err)
      | Some (Inr (node, cm)) \<Rightarrow> do {
          (r, d) \<leftarrow> parse_routes 0 (cn_Routes cm) (ni_Rules node) (ni_RawDNS node);
          base \<leftarrow> cn_BaseConfig cm;
          push \<leftarrow> intervalToTime (bc_PushInterval base);
          pull \<leftarrow> intervalToTime (bc_PullInterval base);
          Some (Inr (clear_shared (node\<lparr>ni_Rules := r, ni_RawDNS := d, ni_PushInterval := push,
            ni_PullInterval := pull, ni_Common := Some (clear_common cm)\<rparr>))) })"

section \<open>GetNodeInfo\<close>

text \<open>
  \<^verbatim>\<open>GetNodeInfo\<close> on the server's answer to its request. A nil node without an error means unchanged. The
  two panel types differ in the path and in how the body is read.
\<close>

definition node_path :: "panel_client \<Rightarrow> string" where
  "node_path c = (if pc_PanelType c = ''ppanel'' then ''/v1/server/config'' else ''/api/v1/server/UniProxy/config'')"

definition GetNodeInfo :: "codec \<Rightarrow> (string \<Rightarrow> string) \<Rightarrow> (string \<Rightarrow> string \<Rightarrow> http_result) \<Rightarrow> panel_client \<Rightarrow>
    ((string + node_info option) \<times> panel_client) option" where
  "GetNodeInfo cd hash get c =
     (let r = get (node_path c) (pc_nodeEtag c) in
      case fst r of
        None \<Rightarrow> panic
      | Some res \<Rightarrow>
          if rs_Status res = 304 then Some (Inr None, c)
          else
            let newBodyHash = hash (rs_Body res) in
            if pc_responseBodyHash c = newBodyHash then Some (Inr None, c)
            else
              let c = c\<lparr>pc_responseBodyHash := newBodyHash, pc_nodeEtag := rs_ETag res\<rparr> in
              (case checkResponse c r (node_path c) of
                 None \<Rightarrow> panic
               | Some (Some err) \<Rightarrow> Some (Inl err, c)
               | Some None \<Rightarrow>
                   (case (if pc_PanelType c = ''ppanel'' then node_of_ppanel cd c (rs_Body res)
                          else node_of_uniproxy cd c (rs_Body res)) of
                      None \<Rightarrow> panic
                    | Some (Inl err) \<Rightarrow> Some (Inl err, c)
                    | Some (Inr node) \<Rightarrow> Some (Inr (Some node), c))))"

end
