(* ===== verification/Panel_Node_Laws.thy ===== *)
theory Panel_Node_Laws
  imports Panel_Node
begin

text \<open>
  Properties of the node description: the laws of merging ECH settings, what the routes become, and
  what the client's cache of the last answer hides.
\<close>

text \<open>Merging ECH settings, primary over fallback, is associative, keeps the settings when merged with
  themselves, and has the empty settings as its neutral element on both sides: the order in which
  three sources are merged does not matter, only their priority.\<close>

theorem mergeECHSettings_laws:
  "mergeECHSettings (mergeECHSettings a b) c = mergeECHSettings a (mergeECHSettings b c) \<and>
   mergeECHSettings a a = a \<and> mergeECHSettings zero_ech a = a \<and> mergeECHSettings a zero_ech = a"
  by (intro conjI ech_settings.equality)
    (simp_all add: mergeECHSettings_def zero_ech_def Let_def)

section \<open>Routes\<close>

definition matches_of :: "route \<Rightarrow> string list" where
  "matches_of ro = (case route_matches (ro_Match ro) of None \<Rightarrow> [] | Some ms \<Rightarrow> ms)"

definition blocked_protocols :: "route \<Rightarrow> string list" where
  "blocked_protocols ro = (if ro_Action ro = ''block'' then
     map (\<lambda>v. TrimPrefix v ''protocol:'') (filter (\<lambda>v. HasPrefix v ''protocol:'') (matches_of ro)) else [])"

definition blocked_domains :: "route \<Rightarrow> string list" where
  "blocked_domains ro = (if ro_Action ro = ''block'' then
     map (\<lambda>v. TrimPrefix v ''regexp:'') (filter (\<lambda>v. \<not> HasPrefix v ''protocol:'') (matches_of ro)) else [])"

definition route_ok :: "route \<Rightarrow> bool" where
  "route_ok ro \<longleftrightarrow> route_matches (ro_Match ro) \<noteq> None \<and> (ro_Action ro = ''dns'' \<longrightarrow> matches_of ro \<noteq> [])"

lemma block_matches_eq:
  "block_matches vs r = r\<lparr>
     ru_Protocol := ru_Protocol r @ map (\<lambda>v. TrimPrefix v ''protocol:'') (filter (\<lambda>v. HasPrefix v ''protocol:'') vs),
     ru_Regexp := ru_Regexp r @ map (\<lambda>v. TrimPrefix v ''regexp:'') (filter (\<lambda>v. \<not> HasPrefix v ''protocol:'') vs)\<rparr>"
  by (induction vs r rule: block_matches.induct) simp_all

lemma parse_routes_rules:
  "parse_routes i ros r d = Some (r', d') \<Longrightarrow>
     ru_Protocol r' = ru_Protocol r @ concat (map blocked_protocols ros) \<and>
     ru_Regexp r' = ru_Regexp r @ concat (map blocked_domains ros) \<and> list_all route_ok ros"
proof (induction ros arbitrary: i r d)
  case (Cons ro ros)
  from Cons.prems obtain ms where ms: "route_matches (ro_Match ro) = Some ms"
    by (auto split: option.splits)
  show ?case
  proof (cases "ro_Action ro = ''block''")
    case True
    with Cons.prems ms have "parse_routes (i + 1) ros (block_matches ms r) d = Some (r', d')" by simp
    from Cons.IH [OF this] True ms show ?thesis
      by (simp add: block_matches_eq blocked_protocols_def blocked_domains_def matches_of_def route_ok_def)
  next
    case False
    show ?thesis
    proof (cases "ro_Action ro = ''dns''")
      case True
      with Cons.prems ms obtain d1 where d1: "dns_matches i ro ms d = Some d1" "parse_routes (i + 1) ros r d1 = Some (r', d')"
        by (auto split: option.splits)
      then have "ms \<noteq> []" by (auto simp: dns_matches_def)
      with Cons.IH [OF d1(2)] False ms show ?thesis
        by (simp add: blocked_protocols_def blocked_domains_def matches_of_def route_ok_def)
    next
      case other: False
      with False Cons.prems ms have "parse_routes (i + 1) ros r d = Some (r', d')" by simp
      from Cons.IH [OF this] False other ms show ?thesis
        by (simp add: blocked_protocols_def blocked_domains_def matches_of_def route_ok_def)
    qed
  qed
qed simp

lemma parse_routes_total: "list_all route_ok ros \<Longrightarrow> parse_routes i ros r d \<noteq> None"
proof (induction ros arbitrary: i r d)
  case (Cons ro ros)
  then obtain ms where ms: "route_matches (ro_Match ro) = Some ms" "ro_Action ro = ''dns'' \<longrightarrow> ms \<noteq> []"
    by (auto simp: route_ok_def matches_of_def)
  have "dns_matches i ro ms d \<noteq> None" if "ms \<noteq> []"
    using that by (cases ms) (auto simp: dns_matches_def)
  with Cons ms show ?case by (auto split: option.splits)
qed simp

definition dns_route :: "route \<Rightarrow> bool" where
  "dns_route ro \<longleftrightarrow> ro_Action ro = ''dns'' \<and> hd (matches_of ro) \<noteq> ''main''"

lemma parse_routes_dns:
  "parse_routes i ros r d = Some (r', d') \<Longrightarrow>
     sm_load (rd_DNSMap d') (Itoa (int k)) =
       (if i \<le> k \<and> k < i + length ros \<and> dns_route (ros ! (k - i))
        then Some \<lparr>dn_address = ro_ActionValue (ros ! (k - i)), dn_domains = matches_of (ros ! (k - i))\<rparr>
        else sm_load (rd_DNSMap d) (Itoa (int k)))"
proof (induction ros arbitrary: i r d)
  case Nil
  then show ?case by auto
next
  case (Cons ro ros)
  from Cons.prems obtain ms where ms: "route_matches (ro_Match ro) = Some ms"
    by (auto split: option.splits)
  then have mo: "matches_of ro = ms" by (simp add: matches_of_def)
  have shift: "(i \<le> k \<and> k < i + length (ro # ros) \<and> dns_route ((ro # ros) ! (k - i))) \<longleftrightarrow>
      (k = i \<and> dns_route ro) \<or> (i + 1 \<le> k \<and> k < i + 1 + length ros \<and> dns_route (ros ! (k - (i + 1))))"
    by (cases "k = i") (auto simp: nth_Cons' Suc_le_eq)
  have at: "(ro # ros) ! (k - i) = ros ! (k - (i + 1))" if "i + 1 \<le> k" using that by (simp add: nth_Cons')
  show ?case
  proof (cases "ro_Action ro = ''dns''")
    case True
    with Cons.prems ms obtain d1 where d1: "dns_matches i ro ms d = Some d1" "parse_routes (i + 1) ros r d1 = Some (r', d')"
      by (auto split: option.splits)
    then obtain m rest where m: "ms = m # rest" by (cases ms) (auto simp: dns_matches_def)
    have "sm_load (rd_DNSMap d1) (Itoa (int k)) =
        (if k = i \<and> dns_route ro then Some \<lparr>dn_address = ro_ActionValue ro, dn_domains = matches_of ro\<rparr>
         else sm_load (rd_DNSMap d) (Itoa (int k)))"
      using d1(1) True by (auto simp: dns_matches_def m dns_route_def mo split: if_splits)
    with Cons.IH [OF d1(2)] shift at show ?thesis by auto
  next
    case False
    with Cons.prems ms obtain r1 where "parse_routes (i + 1) ros r1 d = Some (r', d')"
      by (auto split: if_splits)
    from Cons.IH [OF this] shift at False show ?thesis by (auto simp: dns_route_def)
  qed
qed

text \<open>C26: What the routes of a node become. Reading them succeeds exactly when every match is a string or a list of
  strings and every DNS route names something; otherwise the program panics. The matches of the
  blocking routes are split, in their order, into protocol rules and domain patterns by the prefix
  \<open>protocol:\<close>, each without its prefix. A DNS route that does not start with \<open>main\<close> gives the entry
  of its index, holding its server and all its matches.\<close>

theorem routes_to_rules:
  "(parse_routes 0 ros \<lparr>ru_Regexp = [], ru_Protocol = []\<rparr> \<lparr>rd_DNSMap = [], rd_DNSJson = []\<rparr> = None \<longleftrightarrow>
      \<not> list_all route_ok ros) \<and>
   (\<forall>r d. parse_routes 0 ros \<lparr>ru_Regexp = [], ru_Protocol = []\<rparr> \<lparr>rd_DNSMap = [], rd_DNSJson = []\<rparr> = Some (r, d) \<longrightarrow>
      ru_Protocol r = concat (map blocked_protocols ros) \<and> ru_Regexp r = concat (map blocked_domains ros) \<and>
      (\<forall>k. sm_load (rd_DNSMap d) (Itoa (int k)) =
         (if k < length ros \<and> dns_route (ros ! k)
          then Some \<lparr>dn_address = ro_ActionValue (ros ! k), dn_domains = matches_of (ros ! k)\<rparr> else None)))"
proof -
  let ?p = "parse_routes 0 ros \<lparr>ru_Regexp = [], ru_Protocol = []\<rparr> \<lparr>rd_DNSMap = [], rd_DNSJson = []\<rparr>"
  have "list_all route_ok ros" if "?p = Some (r, d)" for r d using parse_routes_rules [OF that] by simp
  then have "?p = None \<longleftrightarrow> \<not> list_all route_ok ros"
    using parse_routes_total [of ros 0 "\<lparr>ru_Regexp = [], ru_Protocol = []\<rparr>" "\<lparr>rd_DNSMap = [], rd_DNSJson = []\<rparr>"]
    by (cases ?p) (auto simp: split_paired_all)
  moreover have "ru_Protocol r = concat (map blocked_protocols ros) \<and> ru_Regexp r = concat (map blocked_domains ros)"
    if "?p = Some (r, d)" for r d using parse_routes_rules [OF that] by simp
  moreover have "sm_load (rd_DNSMap d) (Itoa (int k)) =
         (if k < length ros \<and> dns_route (ros ! k)
          then Some \<lparr>dn_address = ro_ActionValue (ros ! k), dn_domains = matches_of (ros ! k)\<rparr> else None)"
    if "?p = Some (r, d)" for r d k using parse_routes_dns [OF that, of k] by simp
  ultimately show ?thesis by blast
qed

definition demo_routes :: "route list" where
  "demo_routes =
     [\<lparr>ro_Id = 1, ro_Match = AnyString ''protocol:bittorrent,regexp:.*ads.*'', ro_Action = ''block'', ro_ActionValue = ''''\<rparr>,
      \<lparr>ro_Id = 2, ro_Match = AnyList [AnyString ''geosite:cn''], ro_Action = ''dns'', ro_ActionValue = ''1.1.1.1''\<rparr>]"

lemma routes_to_rules_witness:
  "\<exists>r d. parse_routes 0 demo_routes \<lparr>ru_Regexp = [], ru_Protocol = []\<rparr> \<lparr>rd_DNSMap = [], rd_DNSJson = []\<rparr> = Some (r, d) \<and>
     ru_Protocol r = [''bittorrent''] \<and> ru_Regexp r = [''.*ads.*'']"
proof -
  have "list_all route_ok demo_routes" "concat (map blocked_protocols demo_routes) = [''bittorrent'']"
    "concat (map blocked_domains demo_routes) = [''.*ads.*'']"
    by code_simp+
  with routes_to_rules [of demo_routes] show ?thesis by (metis option.exhaust surj_pair)
qed

section \<open>The cache\<close>

lemma GetNodeInfo_client:
  assumes "GetNodeInfo cd hash get c = Some (x, c')" "fst (get (node_path c) (pc_nodeEtag c)) = Some res" "rs_Status res \<noteq> 304"
  shows "pc_responseBodyHash c' = hash (rs_Body res) \<and> node_path c' = node_path c"
  using assms by (auto simp: GetNodeInfo_def Let_def node_path_def split: option.splits sum.splits if_splits)

text \<open>The cache of the node description. After any call that saw an answer (other than 304), a call whose answer
  has the same body reports "unchanged" without an error and leaves the client as it is, whatever
  the status of the second answer and whether or not the first call could use the body. So a node that
  did not change is not decoded again; but an answer that failed to decode, or an error that repeats
  with the same body, is reported as an error only once.\<close>

theorem same_body_is_unchanged:
  assumes "GetNodeInfo cd hash get c = Some (x, c')"
    and "fst (get (node_path c) (pc_nodeEtag c)) = Some res" "rs_Status res \<noteq> 304"
    and "fst (get' (node_path c') (pc_nodeEtag c')) = Some res'" "rs_Body res' = rs_Body res"
  shows "GetNodeInfo cd' hash get' c' = Some (Inr None, c')"
  using GetNodeInfo_client [OF assms(1-3)] assms(4,5) by (simp add: GetNodeInfo_def Let_def)

definition demo_client :: panel_client where
  "demo_client = \<lparr>pc_PanelType = '''', pc_APIHost = ''http://p'', pc_Token = ''t'', pc_NodeType = ''vmess'',
     pc_NodeId = 1, pc_nodeEtag = '''', pc_userEtag = '''', pc_responseBodyHash = '''', pc_UserList = None,
     pc_AliveMap = None\<rparr>"

definition refused :: "string \<Rightarrow> string \<Rightarrow> http_result" where
  "refused path etag = (Some \<lparr>rs_Status = 0, rs_Body = '''', rs_ETag = '''', rs_RawNil = True\<rparr>, Some ''refused'')"

text \<open>The panel is down: the first call says so, the second one says that nothing changed.\<close>

lemma same_body_is_unchanged_witness:
  "\<exists>err c'. GetNodeInfo undefined (\<lambda>s. CHR ''#'' # s) refused demo_client = Some (Inl err, c') \<and>
     GetNodeInfo undefined (\<lambda>s. CHR ''#'' # s) refused c' = Some (Inr None, c')"
proof -
  let ?e = "''request '' @ assembleURL demo_client ''/api/v1/server/UniProxy/config'' @ '' failed: refused''"
  let ?c = "demo_client\<lparr>pc_responseBodyHash := ''#'', pc_nodeEtag := ''''\<rparr>"
  have *: "GetNodeInfo undefined (\<lambda>s. CHR ''#'' # s) refused demo_client = Some (Inl ?e, ?c)"
    by (simp add: GetNodeInfo_def refused_def demo_client_def node_path_def checkResponse_def assembleURL_def Let_def)
  let ?r = "\<lparr>rs_Status = 0, rs_Body = '''', rs_ETag = '''', rs_RawNil = True\<rparr>"
  have "GetNodeInfo undefined (\<lambda>s. CHR ''#'' # s) refused ?c = Some (Inr None, ?c)"
    by (rule same_body_is_unchanged [OF *, where get' = refused and res = ?r and res' = ?r])
      (simp_all add: refused_def)
  with * show ?thesis by blast
qed

end
