(* ===== verification/Panel_User.thy ===== *)
theory Panel_User
  imports Panel_Node
begin

text \<open>
  \<^verbatim>\<open>api/panel/user.go\<close> and \<^verbatim>\<open>panel.go\<close>: the user list, the alive counts, the reports, and the client's
  construction. The JSON decoder is given by what it makes of a body at each target type. A report is
  a sequence of posts; the panel answers each as a function of the posts before it.
\<close>

section \<open>The alive map\<close>

text \<open>What the decoder makes of a body at the types \<^verbatim>\<open>decodeAliveMap\<close> tries; a map that stays nil is
  \<^term>\<open>None\<close>. The raw payload gives each key the bytes of its value.\<close>

record alive_codec =
  ac_Wrapped :: "string \<Rightarrow> (int, int) gomap option option"
  ac_IntMap :: "string \<Rightarrow> (int, int) gomap option"
  ac_StrMap :: "string \<Rightarrow> (string, int) gomap option"
  ac_AnyMap :: "string \<Rightarrow> (string, any) gomap option"
  ac_Payload :: "string \<Rightarrow> (string, string) gomap option"

fun alive_of_str :: "(string \<times> int) list \<Rightarrow> (int, int) gomap \<Rightarrow> (int, int) gomap" where
  "alive_of_str [] alive = alive"
| "alive_of_str ((k, v) # rest) alive =
     (case Atoi k of (uid, ok) \<Rightarrow> alive_of_str rest (if ok then sm_store uid v alive else alive))"

fun alive_of_any :: "(string \<times> any) list \<Rightarrow> (int, int) gomap \<Rightarrow> (int, int) gomap" where
  "alive_of_any [] alive = alive"
| "alive_of_any ((k, v) # rest) alive =
     (case Atoi k of (uid, ok) \<Rightarrow>
        if \<not> ok then alive_of_any rest alive
        else (case v of
            AnyFloat n \<Rightarrow> alive_of_any rest (sm_store uid n alive)
          | AnyString s \<Rightarrow> (case Atoi s of (iv, ok') \<Rightarrow> alive_of_any rest (if ok' then sm_store uid iv alive else alive))
          | _ \<Rightarrow> alive_of_any rest alive))"

text \<open>The recursion into \<open>alive\<close> and \<open>data\<close> descends into the JSON text; \<open>fuel\<close> bounds its depth.\<close>

fun decodeAliveMap :: "alive_codec \<Rightarrow> nat \<Rightarrow> string \<Rightarrow> (int, int) gomap option" where
  "decodeAliveMap ac 0 body = None"
| "decodeAliveMap ac (Suc fuel) body =
     (case ac_Wrapped ac body of
        Some (Some alive) \<Rightarrow> Some alive
      | _ \<Rightarrow>
     (case ac_IntMap ac body of
        Some (x # xs) \<Rightarrow> Some (x # xs)
      | _ \<Rightarrow>
     (case ac_StrMap ac body of
        Some (x # xs) \<Rightarrow> Some (alive_of_str (x # xs) [])
      | _ \<Rightarrow>
        let alive = (case ac_AnyMap ac body of Some (x # xs) \<Rightarrow> alive_of_any (x # xs) [] | _ \<Rightarrow> []) in
        if alive \<noteq> [] then Some alive
        else (case ac_Payload ac body of
            None \<Rightarrow> Some alive
          | Some payload \<Rightarrow>
              (case (case sm_load payload ''alive'' of
                  None \<Rightarrow> Some [] | Some raw \<Rightarrow> decodeAliveMap ac fuel raw) of
                 None \<Rightarrow> None
               | Some (x # xs) \<Rightarrow> Some (x # xs)
               | Some [] \<Rightarrow>
                   (case (case sm_load payload ''data'' of
                       None \<Rightarrow> Some [] | Some raw \<Rightarrow> decodeAliveMap ac fuel raw) of
                      None \<Rightarrow> None
                    | Some (x # xs) \<Rightarrow> Some (x # xs)
                    | Some [] \<Rightarrow> Some alive))))))"

text \<open>A value inside a JSON object is shorter than the object.\<close>

definition payload_shrinks :: "alive_codec \<Rightarrow> bool" where
  "payload_shrinks ac \<longleftrightarrow> (\<forall>body payload k raw.
     ac_Payload ac body = Some payload \<longrightarrow> sm_load payload k = Some raw \<longrightarrow> length raw < length body)"

fun fetchAliveList :: "alive_codec \<Rightarrow> (string \<Rightarrow> http_result) \<Rightarrow> string list \<Rightarrow> (int, int) gomap option" where
  "fetchAliveList ac get [] = Some []"
| "fetchAliveList ac get (path # paths) =
     (case get path of
        (Some r, None) \<Rightarrow>
          if rs_RawNil r then fetchAliveList ac get paths
          else if rs_Status r \<ge> 399 then fetchAliveList ac get paths
          else decodeAliveMap ac (Suc (length (rs_Body r))) (rs_Body r)
      | _ \<Rightarrow> fetchAliveList ac get paths)"

definition alive_paths :: "string list" where
  "alive_paths = [''/api/v1/server/UniProxy/alivelist'', ''/api/v2/server/alivelist'',
     ''/api/v1/server/alivelist'', ''/api/v2/server/alivelist'']"

text \<open>The method never returns an error. \<^term>\<open>None\<close> would be a decoding that does not end.\<close>

definition GetUserAlive :: "alive_codec \<Rightarrow> (string \<Rightarrow> http_result) \<Rightarrow> panel_client \<Rightarrow>
    ((int, int) gomap \<times> panel_client) option" where
  "GetUserAlive ac get c =
     (if pc_PanelType c = ''ppanel'' then Some ([], c\<lparr>pc_AliveMap := Some []\<rparr>)
      else (case fetchAliveList ac get alive_paths of
          None \<Rightarrow> None
        | Some alive \<Rightarrow> Some (alive, c\<lparr>pc_AliveMap := Some alive\<rparr>)))"

section \<open>The user list\<close>

definition user_path :: "panel_client \<Rightarrow> string" where
  "user_path c = (if pc_PanelType c = ''ppanel'' then ''/v1/server/user'' else ''/api/v1/server/UniProxy/user'')"

text \<open>A nil list without an error means unchanged.\<close>

definition GetUserList :: "codec \<Rightarrow> (string \<Rightarrow> string \<Rightarrow> http_result) \<Rightarrow> panel_client \<Rightarrow>
    ((string + user_info list option) \<times> panel_client) option" where
  "GetUserList cd get c =
     (let r = get (user_path c) (pc_userEtag c) in
      case fst r of
        None \<Rightarrow> Some (Inl ''received nil response or raw response'', c)
      | Some res \<Rightarrow>
          if rs_RawNil res then Some (Inl ''received nil response or raw response'', c)
          else if rs_Status res = 304 then Some (Inr None, c)
          else (case checkResponse c r (user_path c) of
              None \<Rightarrow> panic
            | Some (Some err) \<Rightarrow> Some (Inl err, c)
            | Some None \<Rightarrow>
                (case cd_UserList cd (rs_Body res) of
                   Inl err \<Rightarrow> Some (Inl (''unmarshal user list error: '' @ err), c)
                 | Inr userlist \<Rightarrow> Some (Inr (ub_Users userlist),
                     c\<lparr>pc_UserList := Some userlist, pc_userEtag := rs_ETag res\<rparr>))))"

section \<open>Reports\<close>

text \<open>The bodies that are posted.\<close>

datatype report_body =
    TrafficList "user_traffic list"
  | TrafficMap "(string, int list) gomap"
  | AliveMap "(string, string list) gomap"
  | AliveWrapped "(string, string list) gomap"
  | AliveOnline "(string, string list) gomap" "(string, int) gomap"

type_synonym post = "string \<times> report_body"
type_synonym server = "post list \<Rightarrow> post \<Rightarrow> http_result"

text \<open>One post: the error of \<^verbatim>\<open>checkResponse\<close> and the log of posts.\<close>

definition do_post :: "server \<Rightarrow> panel_client \<Rightarrow> post list \<Rightarrow> post \<Rightarrow> (string option \<times> post list) option" where
  "do_post srv c log p = map_option (\<lambda>e. (e, log @ [p])) (checkResponse c (srv log p) (fst p))"

text \<open>Posts that are tried in order until one succeeds; the last error otherwise.\<close>

fun try_posts :: "server \<Rightarrow> panel_client \<Rightarrow> string option \<Rightarrow> post list \<Rightarrow> post list \<Rightarrow> (string option \<times> post list) option" where
  "try_posts srv c lastErr log [] = Some (lastErr, log)"
| "try_posts srv c lastErr log (p # ps) =
     (case do_post srv c log p of
        None \<Rightarrow> panic
      | Some (None, log') \<Rightarrow> Some (None, log')
      | Some (Some err, log') \<Rightarrow> try_posts srv c (Some err) log' ps)"

definition traffic_key :: "user_traffic \<Rightarrow> string" where
  "traffic_key t = (if ut_Key t \<noteq> '''' then ut_Key t else Itoa (ut_UID t))"

definition traffic_map :: "user_traffic list \<Rightarrow> (string, int list) gomap" where
  "traffic_map ts = fold (\<lambda>t. sm_store (traffic_key t) [ut_Upload t, ut_Download t]) ts []"

definition push_paths :: "string list" where
  "push_paths = [''/api/v1/server/UniProxy/push'', ''/api/v2/server/push'', ''/api/v1/server/push'']"

definition ReportUserTraffic :: "server \<Rightarrow> panel_client \<Rightarrow> user_traffic list \<Rightarrow> (string option \<times> post list) option" where
  "ReportUserTraffic srv c userTraffic =
     (if pc_PanelType c = ''ppanel''
      then do_post srv c [] (''/v1/server/push'', TrafficList (map (\<lambda>t. t\<lparr>ut_Key := ''''\<rparr>) userTraffic))
      else try_posts srv c None [] (map (\<lambda>path. (path, TrafficMap (traffic_map userTraffic))) push_paths))"

definition id_payload :: "(int, string list) gomap \<Rightarrow> (string, string list) gomap" where
  "id_payload payload = fold (\<lambda>(uid, ips) m. if ips = [] then m else sm_store (Itoa uid) ips m) payload []"

definition online_payload :: "(int, string list) gomap \<Rightarrow> (string, int) gomap" where
  "online_payload payload =
     fold (\<lambda>(uid, ips) m. if ips = [] then m else sm_store (Itoa uid) (int (length ips)) m) payload []"

definition uid_to_uuid :: "panel_client \<Rightarrow> (int, string) gomap" where
  "uid_to_uuid c = (case pc_UserList c of
     None \<Rightarrow> []
   | Some l \<Rightarrow> fold (\<lambda>u m. if ui_Id u > 0 \<and> ui_Uuid u \<noteq> '''' then sm_store (ui_Id u) (ui_Uuid u) m else m)
       (case ub_Users l of None \<Rightarrow> [] | Some us \<Rightarrow> us) [])"

definition mixed_payload :: "panel_client \<Rightarrow> (int, string list) gomap \<Rightarrow> (string, string list) gomap" where
  "mixed_payload c payload =
     fold (\<lambda>(uid, ips) m. case sm_load (uid_to_uuid c) uid of None \<Rightarrow> m | Some uuid \<Rightarrow> sm_store uuid ips m)
       payload (fold (\<lambda>(k, v). sm_store k v) (id_payload payload) [])"

definition online_paths :: "string list" where
  "online_paths = [''/api/v1/server/UniProxy/alive'', ''/api/v2/server/alive'',
     ''/api/v1/server/online'', ''/api/v2/server/online'']"

text \<open>The bodies tried at one path.\<close>

definition online_bodies :: "panel_client \<Rightarrow> (int, string list) gomap \<Rightarrow> report_body list" where
  "online_bodies c payload =
     [AliveMap (id_payload payload), AliveWrapped (id_payload payload)] @
     (if length (mixed_payload c payload) \<noteq> length (id_payload payload)
      then [AliveMap (mixed_payload c payload), AliveWrapped (mixed_payload c payload)] else [])"

text \<open>The argument is a pointer that may be nil.\<close>

definition ReportNodeOnlineUsers :: "server \<Rightarrow> panel_client \<Rightarrow> (int, string list) gomap option \<Rightarrow>
    (string option \<times> post list) option" where
  "ReportNodeOnlineUsers srv c data =
     (let payload = (case data of None \<Rightarrow> [] | Some m \<Rightarrow> m) in
      if pc_PanelType c = ''ppanel'' then
        map_option (\<lambda>(e, log). (map_option (\<lambda>_. ''report online users failed on '' @ assembleURL c ''/v1/server/online'') e, log))
          (try_posts srv c None [] (map (\<lambda>b. (''/v1/server/online'', b)) (online_bodies c payload)))
      else try_posts srv c None []
        ((''/api/v2/server/report'', AliveOnline (id_payload payload) (online_payload payload)) #
         concat (map (\<lambda>path. map (\<lambda>b. (path, b)) (online_bodies c payload)) online_paths)))"

section \<open>Construction of the client\<close>

definition node_types :: "string list" where
  "node_types = [''vmess'', ''trojan'', ''shadowsocks'', ''hysteria'', ''hysteria2'', ''tuic'', ''anytls'', ''naive'', ''vless'']"

record api_config =
  api_APIHost :: string
  api_NodeID :: int
  api_Key :: string
  api_NodeType :: string
  api_Timeout :: int
  api_PanelType :: string
  api_RuleListPath :: string

text \<open>The timeout and the query parameters of the HTTP client, next to the state the code keeps itself.\<close>

record http_config =
  hc_Timeout :: int
  hc_RetryCount :: int
  hc_BaseURL :: string
  hc_QueryParams :: "(string, string) gomap"

text \<open>\<^verbatim>\<open>New\<close> also rewrites the node type in the configuration it is given.\<close>

definition NewClient :: "api_config \<Rightarrow> (string + (panel_client \<times> http_config)) \<times> api_config" where
  "NewClient c =
     (let nodeType = ToLower (api_NodeType c);
          nodeType = (if nodeType = ''v2ray'' then ''vmess'' else nodeType)
      in (if nodeType \<notin> set node_types then Inl (''unsupported Node type: '' @ nodeType)
         else Inr (
           \<lparr>pc_PanelType = api_PanelType c, pc_APIHost = api_APIHost c, pc_Token = api_Key c, pc_NodeType = nodeType,
            pc_NodeId = api_NodeID c, pc_nodeEtag = '''', pc_userEtag = '''', pc_responseBodyHash = '''',
            pc_UserList = Some \<lparr>ub_Users = None\<rparr>, pc_AliveMap = Some []\<rparr>,
           \<lparr>hc_Timeout = (if api_Timeout c > 0 then i64 (api_Timeout c * Second) else 5 * Second),
            hc_RetryCount = 3, hc_BaseURL = api_APIHost c,
            hc_QueryParams = (if api_PanelType c = ''ppanel''
              then [(''protocol'', nodeType), (''server_id'', Itoa (api_NodeID c)), (''secret_key'', api_Key c)]
              else [(''node_type'', nodeType), (''node_id'', Itoa (api_NodeID c)), (''token'', api_Key c)])\<rparr>),
         c\<lparr>api_NodeType := nodeType\<rparr>))"

end
