(* ===== verification/Panel_User_Laws.thy ===== *)
theory Panel_User_Laws
  imports Panel_User
begin

text \<open>
  Properties of the panel client's user side: decoding of the alive counts ends and keeps its
  precedence, reports stop at the first success, and the traffic report loses no user.
\<close>

section \<open>The alive counts\<close>

lemma decodeAliveMap_total:
  assumes "payload_shrinks ac"
  shows "length body < fuel \<Longrightarrow> decodeAliveMap ac fuel body \<noteq> None"
proof (induction fuel arbitrary: body)
  case (Suc fuel)
  have rec: "decodeAliveMap ac fuel raw \<noteq> None"
    if "ac_Payload ac body = Some payload" "sm_load payload k = Some raw" for payload k raw
  proof (rule Suc.IH)
    show "length raw < fuel" using assms that Suc.prems unfolding payload_shrinks_def by fastforce
  qed
  let ?alive = "case ac_AnyMap ac body of Some (x # xs) \<Rightarrow> alive_of_any (x # xs) [] | _ \<Rightarrow> []"
  have "(case (case sm_load payload k of None \<Rightarrow> Some [] | Some raw \<Rightarrow> decodeAliveMap ac fuel raw) of
      None \<Rightarrow> None | Some (x # xs) \<Rightarrow> Some (x # xs) | Some [] \<Rightarrow> F) \<noteq> None"
    if "ac_Payload ac body = Some payload" "F \<noteq> None" for payload k F
    using that rec [OF that(1), of k] by (auto split: option.splits list.splits)
  then show ?case
    by (simp add: Let_def split: option.split list.split)
qed simp

declare decodeAliveMap.simps(2) [simp del]

definition usable :: "http_result \<Rightarrow> bool" where
  "usable r \<longleftrightarrow> (case r of (Some res, None) \<Rightarrow> \<not> rs_RawNil res \<and> rs_Status res < 399 | _ \<Rightarrow> False)"

lemma usable_simps [simp]:
  "\<not> usable (None, e)" "\<not> usable (Some res, Some e')"
  "usable (Some res, None) \<longleftrightarrow> \<not> rs_RawNil res \<and> rs_Status res < 399"
  by (simp_all add: usable_def)

lemma fetchAliveList_eq:
  "fetchAliveList ac get paths = (case find (\<lambda>p. usable (get p)) paths of
     None \<Rightarrow> Some []
   | Some p \<Rightarrow> (let body = rs_Body (the (fst (get p))) in decodeAliveMap ac (Suc (length body)) body))"
proof (induction paths)
  case (Cons p paths)
  obtain a b where g: "get p = (a, b)" by force
  show ?case using Cons by (cases a; cases b) (auto simp: g Let_def)
qed simp


definition demo_alive_codec :: alive_codec where
  "demo_alive_codec = \<lparr>ac_Wrapped = (\<lambda>_. None), ac_IntMap = (\<lambda>s. if s = ''{1:2}'' then Some [(1, 2)] else None),
     ac_StrMap = (\<lambda>_. None), ac_AnyMap = (\<lambda>_. None),
     ac_Payload = (\<lambda>s. if s = ''{data:{1:2}}'' then Some [(''data'', ''{1:2}'')] else None)\<rparr>"

definition demo_get :: "string \<Rightarrow> http_result" where
  "demo_get path = (if path = ''/api/v2/server/alivelist''
     then (Some \<lparr>rs_Status = 200, rs_Body = ''{data:{1:2}}'', rs_ETag = '''', rs_RawNil = False\<rparr>, None)
     else (Some \<lparr>rs_Status = 404, rs_Body = '''', rs_ETag = '''', rs_RawNil = False\<rparr>, None))"

definition demo_panel :: "string \<Rightarrow> panel_client" where
  "demo_panel t = \<lparr>pc_PanelType = t, pc_APIHost = ''http://p'', pc_Token = ''t'', pc_NodeType = ''vmess'',
     pc_NodeId = 1, pc_nodeEtag = '''', pc_userEtag = '''', pc_responseBodyHash = '''', pc_UserList = None,
     pc_AliveMap = None\<rparr>"


section \<open>Reports\<close>

definition post_fails :: "server \<Rightarrow> panel_client \<Rightarrow> post list \<Rightarrow> post \<Rightarrow> bool" where
  "post_fails srv c log p \<longleftrightarrow> (\<exists>err. checkResponse c (srv log p) (fst p) = Some (Some err))"

text \<open>The HTTP client gives a response or an error.\<close>

definition answers :: "server \<Rightarrow> bool" where
  "answers srv \<longleftrightarrow> (\<forall>log p. srv log p \<noteq> (None, None))"

text \<open>The posts \<^term>\<open>ps\<close> were tried in order up to the \<^term>\<open>k\<close>-th, the first one that did not fail.\<close>

definition first_success :: "server \<Rightarrow> panel_client \<Rightarrow> post list \<Rightarrow> post list \<Rightarrow> nat \<Rightarrow> string option \<Rightarrow> bool" where
  "first_success srv c log ps k r \<longleftrightarrow> 0 < k \<and> k \<le> length ps \<and>
     (\<forall>i. i + 1 < k \<longrightarrow> post_fails srv c (log @ take i ps) (ps ! i)) \<and>
     (r \<noteq> None \<longleftrightarrow> post_fails srv c (log @ take (k - 1) ps) (ps ! (k - 1))) \<and>
     (r \<noteq> None \<longrightarrow> k = length ps)"

lemma do_post_answers:
  assumes "answers srv"
  obtains e where "do_post srv c log p = Some (e, log @ [p])" "e \<noteq> None \<longleftrightarrow> post_fails srv c log p"
proof -
  obtain a b where ab: "srv log p = (a, b)" by force
  have "srv log p \<noteq> (None, None)" using assms unfolding answers_def by blast
  with ab have "\<not> (a = None \<and> b = None)" by auto
  then have "\<exists>e. checkResponse c (srv log p) (fst p) = Some e"
    by (cases a; cases b) (auto simp: ab checkResponse_def)
  then obtain e where "checkResponse c (srv log p) (fst p) = Some e" by blast
  then show ?thesis by (intro that [of e]) (auto simp: do_post_def post_fails_def)
qed

lemma try_posts_first_success:
  assumes "answers srv"
  shows "ps \<noteq> [] \<Longrightarrow> \<exists>r k. try_posts srv c e log ps = Some (r, log @ take k ps) \<and> first_success srv c log ps k r"
proof (induction ps arbitrary: e log)
  case (Cons p ps)
  obtain x where x: "do_post srv c log p = Some (x, log @ [p])" "x \<noteq> None \<longleftrightarrow> post_fails srv c log p"
    using do_post_answers [OF assms] .
  show ?case
  proof (cases "x = None \<or> ps = []")
    case True
    then have "try_posts srv c e log (p # ps) = Some (x, log @ take 1 (p # ps))"
      using x(1) by (cases x) auto
    moreover have "first_success srv c log (p # ps) 1 x"
      using x(2) True by (auto simp: first_success_def)
    ultimately show ?thesis by blast
  next
    case False
    then obtain err where err: "x = Some err" by auto
    from Cons.IH False obtain r k where
      rk: "try_posts srv c (Some err) (log @ [p]) ps = Some (r, (log @ [p]) @ take k ps)"
        "first_success srv c (log @ [p]) ps k r" by blast
    have "try_posts srv c e log (p # ps) = Some (r, log @ take (Suc k) (p # ps))"
      using x(1) rk(1) err by simp
    moreover have "first_success srv c log (p # ps) (Suc k) r"
    proof -
      from rk(2) obtain j where j: "k = Suc j" by (cases k) (auto simp: first_success_def)
      from rk(2) have rest: "\<forall>i. i + 1 < k \<longrightarrow> post_fails srv c ((log @ [p]) @ take i ps) (ps ! i)"
        unfolding first_success_def by blast
      have "post_fails srv c (log @ take i (p # ps)) ((p # ps) ! i)" if "i + 1 < Suc k" for i
      proof (cases i)
        case 0
        then show ?thesis using x(2) err by simp
      next
        case (Suc n)
        then show ?thesis using rest [rule_format, of n] that by simp
      qed
      moreover have "k \<le> length ps" "r \<noteq> None \<longrightarrow> k = length ps"
        using rk(2) unfolding first_success_def by blast+
      then have "Suc k \<le> length (p # ps)" "r \<noteq> None \<longrightarrow> Suc k = length (p # ps)" by simp_all
      moreover have "r \<noteq> None \<longleftrightarrow> post_fails srv c (log @ take (Suc k - 1) (p # ps)) ((p # ps) ! (Suc k - 1))"
      proof -
        have "r \<noteq> None \<longleftrightarrow> post_fails srv c ((log @ [p]) @ take (k - 1) ps) (ps ! (k - 1))"
          using rk(2) unfolding first_success_def by blast
        then show ?thesis by (simp add: j)
      qed
      moreover have "0 < Suc k" by simp
      ultimately show ?thesis unfolding first_success_def by blast
    qed
    ultimately show ?thesis by blast
  qed
qed simp

text \<open>The report of online users is tried on the panel's known paths in a fixed order and stops at the first success:
  the posts made are a prefix of the planned ones, every post but the last of them failed, and the method returns an
  error exactly when all planned posts were made and the last one failed too.\<close>

theorem online_report_first_success:
  assumes "answers srv" "pc_PanelType c \<noteq> ''ppanel''"
  shows "\<exists>r k ps. ReportNodeOnlineUsers srv c (Some data) = Some (r, take k ps) \<and> first_success srv c [] ps k r \<and>
     ps = (''/api/v2/server/report'', AliveOnline (id_payload data) (online_payload data)) #
       concat (map (\<lambda>path. map (\<lambda>b. (path, b)) (online_bodies c data)) online_paths)"
proof -
  let ?ps = "(''/api/v2/server/report'', AliveOnline (id_payload data) (online_payload data)) #
       concat (map (\<lambda>path. map (\<lambda>b. (path, b)) (online_bodies c data)) online_paths)"
  have "ReportNodeOnlineUsers srv c (Some data) = try_posts srv c None [] ?ps"
    using assms(2) by (simp add: ReportNodeOnlineUsers_def Let_def)
  with try_posts_first_success [OF assms(1), of ?ps c None "[]"] show ?thesis by fastforce
qed

definition demo_server :: server where
  "demo_server log p = (if fst p = ''/api/v2/server/alive''
     then (Some \<lparr>rs_Status = 200, rs_Body = '''', rs_ETag = '''', rs_RawNil = False\<rparr>, None)
     else (Some \<lparr>rs_Status = 404, rs_Body = '''', rs_ETag = '''', rs_RawNil = False\<rparr>, None))"

text \<open>A panel that knows only the third path: two paths are tried in vain, the third post body succeeds.\<close>

lemma online_report_first_success_witness:
  "\<exists>log. ReportNodeOnlineUsers demo_server (demo_panel '''') (Some [(1, [''1.1.1.1''])]) = Some (None, log) \<and>
     fst (last log) = ''/api/v2/server/alive'' \<and> length log = 4 \<and> post_fails demo_server (demo_panel '''') [] (hd log)"
proof -
  let ?d = "[(1, [''1.1.1.1''])]"
  let ?log = "snd (the (ReportNodeOnlineUsers demo_server (demo_panel '''') (Some ?d)))"
  have "answers demo_server" by (simp add: answers_def demo_server_def)
  moreover have "pc_PanelType (demo_panel '''') \<noteq> ''ppanel''" by (simp add: demo_panel_def)
  ultimately obtain r k ps where r: "ReportNodeOnlineUsers demo_server (demo_panel '''') (Some ?d) = Some (r, take k ps)"
    "first_success demo_server (demo_panel '''') [] ps k r"
    using online_report_first_success [of demo_server "demo_panel ''''" ?d] by blast
  have *: "ReportNodeOnlineUsers demo_server (demo_panel '''') (Some ?d) = Some (None, ?log)"
    "fst (last ?log) = ''/api/v2/server/alive''" "length ?log = 4"
    by code_simp+
  with r have log: "?log = take k ps" by simp
  have "k \<le> length ps" using r(2) unfolding first_success_def by blast
  with log *(3) have k: "k = 4" "ps \<noteq> []" by auto
  have "\<forall>i. i + 1 < k \<longrightarrow> post_fails demo_server (demo_panel '''') ([] @ take i ps) (ps ! i)"
    using r(2) unfolding first_success_def by blast
  from this [rule_format, of 0] k(1) have "post_fails demo_server (demo_panel '''') ([] @ take 0 ps) (ps ! 0)"
    by simp
  with k have "post_fails demo_server (demo_panel '''') [] (hd ?log)"
    by (simp add: log hd_conv_nth)
  with * show ?thesis by blast
qed

lemma load_traffic_map:
  "sm_load (traffic_map ts) k = map_of (rev (map (\<lambda>t. (traffic_key t, [ut_Upload t, ut_Download t])) ts)) k"
  unfolding traffic_map_def by (simp add: sm.load_fold_store split: option.splits)

text \<open>The traffic report to a UniProxy panel: one body, tried on the three paths in order until one
  succeeds. When the users of the report have different keys, the body holds each user's upload and
  download under the user's key and nothing else, so no traffic is lost or counted twice in it.\<close>

theorem traffic_report:
  assumes "answers srv" "pc_PanelType c \<noteq> ''ppanel''" "distinct (map traffic_key ts)"
  shows "\<exists>r k m. ReportUserTraffic srv c ts = Some (r, take k (map (\<lambda>path. (path, TrafficMap m)) push_paths)) \<and>
     first_success srv c [] (map (\<lambda>path. (path, TrafficMap m)) push_paths) k r \<and>
     (\<forall>key v. sm_load m key = Some v \<longleftrightarrow> (\<exists>t \<in> set ts. key = traffic_key t \<and> v = [ut_Upload t, ut_Download t]))"
proof -
  let ?ps = "map (\<lambda>path. (path, TrafficMap (traffic_map ts))) push_paths"
  have "ReportUserTraffic srv c ts = try_posts srv c None [] ?ps"
    using assms(2) by (simp add: ReportUserTraffic_def)
  moreover have "?ps \<noteq> []" by (simp add: push_paths_def)
  ultimately obtain r k where "ReportUserTraffic srv c ts = Some (r, take k ?ps)" "first_success srv c [] ?ps k r"
    using try_posts_first_success [OF assms(1), of ?ps c None "[]"] by auto
  moreover have "sm_load (traffic_map ts) key = Some v \<longleftrightarrow>
      (\<exists>t \<in> set ts. key = traffic_key t \<and> v = [ut_Upload t, ut_Download t])" for key v
  proof -
    have "distinct (map fst (rev (map (\<lambda>t. (traffic_key t, [ut_Upload t, ut_Download t])) ts)))"
      using assms(3) by (simp add: rev_map [symmetric] comp_def)
    from map_of_eq_Some_iff [OF this] show ?thesis by (auto simp: load_traffic_map)
  qed
  ultimately show ?thesis by blast
qed

lemma traffic_report_witness:
  "\<exists>r k m. ReportUserTraffic demo_server (demo_panel '''')
       [\<lparr>ut_UID = 7, ut_Upload = 10, ut_Download = 20, ut_Key = ''''\<rparr>] =
     Some (r, take k (map (\<lambda>path. (path, TrafficMap m)) push_paths)) \<and> sm_load m ''7'' = Some [10, 20]"
proof -
  let ?t = "\<lparr>ut_UID = 7, ut_Upload = 10, ut_Download = 20, ut_Key = ''''\<rparr>"
  have key: "traffic_key ?t = ''7''" by code_simp
  have "answers demo_server" "pc_PanelType (demo_panel '''') \<noteq> ''ppanel''" "distinct (map traffic_key [?t])"
    by (simp_all add: answers_def demo_server_def demo_panel_def)
  from traffic_report [OF this] obtain r k m where m:
    "ReportUserTraffic demo_server (demo_panel '''') [?t] = Some (r, take k (map (\<lambda>path. (path, TrafficMap m)) push_paths))"
    "\<forall>key v. sm_load m key = Some v \<longleftrightarrow> (\<exists>t \<in> set [?t]. key = traffic_key t \<and> v = [ut_Upload t, ut_Download t])"
    by blast
  have "sm_load m (traffic_key ?t) = Some [10, 20]" unfolding m(2) [THEN spec, THEN spec] by simp
  with m(1) key show ?thesis by auto
qed

end
