(* ===== verification/Conf.thy ===== *)
theory Conf
  imports Json5 Panel_User
begin

text \<open>
  The configuration of \<^verbatim>\<open>conf/\<close>: its structs, their defaults, and the custom \<^verbatim>\<open>UnmarshalJSON\<close> methods. The
  JSON library's decoding into a struct that holds defaults is a parameter: it gives the struct as
  the decoder leaves it, and an error. Files and web pages are functions of their name.
\<close>

section \<open>The structs\<close>

record fallback_config_xray =
  fx_SNI :: string
  fx_Alpn :: string
  fx_Path :: string
  fx_Dest :: string
  fx_ProxyProtocolVer :: int

record xray_options =
  xo_EnableProxyProtocol :: bool
  xo_EnableDNS :: bool
  xo_DNSType :: string
  xo_EnableUot :: bool
  xo_EnableTFO :: bool
  xo_DisableIVCheck :: bool
  xo_DisableSniffing :: bool
  xo_EnableFallback :: bool
  xo_FallBackConfigs :: "fallback_config_xray list option"

definition NewXrayOptions :: xray_options where
  "NewXrayOptions =
     \<lparr>xo_EnableProxyProtocol = False, xo_EnableDNS = False, xo_DNSType = ''AsIs'', xo_EnableUot = False,
      xo_EnableTFO = False, xo_DisableIVCheck = False, xo_DisableSniffing = False,
      xo_EnableFallback = False, xo_FallBackConfigs = None\<rparr>"

record fallback =
  fb_Server :: string
  fb_ServerPort :: string

record fallback_config_sing =
  fs_FallBack :: fallback
  fs_FallBackForALPN :: "(string, fallback) gomap"

record brutal_options =
  bo_Enabled :: bool
  bo_UpMbps :: int
  bo_DownMbps :: int

record multiplex_config =
  mx_Enabled :: bool
  mx_Padding :: bool
  mx_Brutal :: brutal_options

text \<open>The domain strategy is a number of the sing-box library.\<close>

record sing_options =
  so_TCPFastOpen :: bool
  so_SniffEnabled :: bool
  so_SniffOverrideDestination :: bool
  so_EnableDNS :: bool
  so_DomainStrategy :: int
  so_FallBackConfigs :: "fallback_config_sing option"
  so_Multiplex :: "multiplex_config option"

definition NewSingOptions :: sing_options where
  "NewSingOptions =
     \<lparr>so_TCPFastOpen = False, so_SniffEnabled = True, so_SniffOverrideDestination = True,
      so_EnableDNS = False, so_DomainStrategy = 0,
      so_FallBackConfigs = Some \<lparr>fs_FallBack = \<lparr>fb_Server = [], fb_ServerPort = []\<rparr>, fs_FallBackForALPN = []\<rparr>,
      so_Multiplex = Some \<lparr>mx_Enabled = False, mx_Padding = False,
        mx_Brutal = \<lparr>bo_Enabled = False, bo_UpMbps = 0, bo_DownMbps = 0\<rparr>\<rparr>\<rparr>"

record cert_config =
  cc_CertMode :: string
  cc_RejectUnknownSni :: bool
  cc_CertDomain :: string
  cc_CertFile :: string
  cc_KeyFile :: string
  cc_Provider :: string
  cc_Email :: string
  cc_DNSEnv :: "(string, string) gomap"

definition NewCertConfig :: cert_config where
  "NewCertConfig = \<lparr>cc_CertMode = ''none'', cc_RejectUnknownSni = False, cc_CertDomain = [], cc_CertFile = [],
     cc_KeyFile = [], cc_Provider = [], cc_Email = [], cc_DNSEnv = []\<rparr>"

record options =
  op_Name :: string
  op_Core :: string
  op_CoreName :: string
  op_ListenIP :: string
  op_SendIP :: string
  op_DeviceOnlineMinTraffic :: int
  op_LimitConfig :: limit_config
  op_RawOptions :: string
  op_XrayOptions :: "xray_options option"
  op_SingOptions :: "sing_options option"
  op_Hysteria2ConfigPath :: string
  op_CertConfig :: "cert_config option"

record node_config =
  nc_ApiConfig :: api_config
  nc_Options :: options

record raw_node_config =
  rn_Include :: string
  rn_ApiRaw :: string
  rn_OptRaw :: string

record xray_log_config =
  xl_Level :: string
  xl_AccessPath :: string
  xl_ErrorPath :: string

record xray_connection_config =
  xn_Handshake :: int
  xn_ConnIdle :: int
  xn_UplinkOnly :: int
  xn_DownlinkOnly :: int
  xn_BufferSize :: int

record xray_config =
  xc_LogConfig :: "xray_log_config option"
  xc_AssetPath :: string
  xc_DnsConfigPath :: string
  xc_RouteConfigPath :: string
  xc_ConnectionConfig :: "xray_connection_config option"
  xc_InboundConfigPath :: string
  xc_OutboundConfigPath :: string

definition NewXrayConfig :: xray_config where
  "NewXrayConfig =
     \<lparr>xc_LogConfig = Some \<lparr>xl_Level = ''warning'', xl_AccessPath = [], xl_ErrorPath = []\<rparr>,
      xc_AssetPath = ''/etc/V2bX/'', xc_DnsConfigPath = [], xc_RouteConfigPath = [],
      xc_ConnectionConfig = Some \<lparr>xn_Handshake = 4, xn_ConnIdle = 30, xn_UplinkOnly = 2,
        xn_DownlinkOnly = 4, xn_BufferSize = 64\<rparr>,
      xc_InboundConfigPath = [], xc_OutboundConfigPath = []\<rparr>"

record sing_log_config =
  sl_Disabled :: bool
  sl_Level :: string
  sl_Output :: string
  sl_Timestamp :: bool

record sing_ntp_config =
  sn_Enable :: bool
  sn_Server :: string
  sn_ServerPort :: int

record sing_config =
  sc_LogConfig :: sing_log_config
  sc_NtpConfig :: sing_ntp_config
  sc_OriginalPath :: string

definition NewSingConfig :: sing_config where
  "NewSingConfig =
     \<lparr>sc_LogConfig = \<lparr>sl_Disabled = False, sl_Level = ''error'', sl_Output = [], sl_Timestamp = True\<rparr>,
      sc_NtpConfig = \<lparr>sn_Enable = False, sn_Server = ''time.apple.com'', sn_ServerPort = 0\<rparr>,
      sc_OriginalPath = []\<rparr>"

record hysteria2_log_config =
  hl_Level :: string

record hysteria2_config =
  hy_LogConfig :: hysteria2_log_config

definition NewHysteria2Config :: hysteria2_config where
  "NewHysteria2Config = \<lparr>hy_LogConfig = \<lparr>hl_Level = ''error''\<rparr>\<rparr>"

record core_config =
  cf_Type :: string
  cf_Name :: string
  cf_XrayConfig :: "xray_config option"
  cf_SingConfig :: "sing_config option"
  cf_Hysteria2Config :: "hysteria2_config option"

section \<open>Decoding\<close>

text \<open>\<^verbatim>\<open>json.Unmarshal\<close> at each type: the bytes and the struct before, the error and the struct after.\<close>

type_synonym 'a decode = "string \<Rightarrow> 'a \<Rightarrow> string option \<times> 'a"

record conf_codec =
  dc_Raw :: "raw_node_config decode"
  dc_Api :: "api_config decode"
  dc_Opt :: "options decode"
  dc_Xray :: "xray_options decode"
  dc_Sing :: "sing_options decode"
  dc_Core :: "core_config decode"
  dc_XrayConfig :: "xray_config decode"
  dc_SingConfig :: "sing_config decode"
  dc_Hysteria2Config :: "hysteria2_config decode"

definition options_UnmarshalJSON :: "conf_codec \<Rightarrow> options decode" where
  "options_UnmarshalJSON dc data op0 =
     (case dc_Opt dc data op0 of
        (Some err, o1) \<Rightarrow> (Some err, o1)
      | (None, o1) \<Rightarrow>
          if op_Core o1 = ''xray'' then
            (case dc_Xray dc data NewXrayOptions of (err, x) \<Rightarrow> (err, o1\<lparr>op_XrayOptions := Some x\<rparr>))
          else if op_Core o1 = ''sing'' then
            (case dc_Sing dc data NewSingOptions of (err, x) \<Rightarrow> (err, o1\<lparr>op_SingOptions := Some x\<rparr>))
          else if op_Core o1 = ''hysteria2'' then (None, o1\<lparr>op_RawOptions := data\<rparr>)
          else (None, o1\<lparr>op_Core := '''', op_RawOptions := data\<rparr>))"

definition core_UnmarshalJSON :: "conf_codec \<Rightarrow> core_config decode" where
  "core_UnmarshalJSON dc b c0 =
     (case dc_Core dc b c0 of
        (Some err, c) \<Rightarrow> (Some err, c)
      | (None, c) \<Rightarrow>
          if cf_Type c = ''xray'' then
            (case dc_XrayConfig dc b NewXrayConfig of (err, x) \<Rightarrow> (err, c\<lparr>cf_XrayConfig := Some x\<rparr>))
          else if cf_Type c = ''sing'' then
            (case dc_SingConfig dc b NewSingConfig of (err, x) \<Rightarrow> (err, c\<lparr>cf_SingConfig := Some x\<rparr>))
          else if cf_Type c = ''hysteria2'' then
            (case dc_Hysteria2Config dc b NewHysteria2Config of (err, x) \<Rightarrow> (err, c\<lparr>cf_Hysteria2Config := Some x\<rparr>))
          else (None, c))"

text \<open>What is read through the cleaning reader: the whole of the source, cleaned, or its error.\<close>

definition read_clean :: "string \<times> string option \<Rightarrow> string + string" where
  "read_clean r = (case prep r of (_, Some err) \<Rightarrow> Inl err | (s, None) \<Rightarrow> Inr s)"

text \<open>The source of an \<^verbatim>\<open>Include\<close>: an answer of the web or a file, each with its error, or a body that may break off.\<close>

type_synonym source = "string + (string \<times> string option)"

definition include_data :: "(string \<Rightarrow> source) \<Rightarrow> (string \<Rightarrow> source) \<Rightarrow> string \<Rightarrow> string + string" where
  "include_data http_get os_open inc =
     (let file = TrimPrefix inc '':'' in
      if file = ''http'' \<or> file = ''https'' then
        (case http_get file of
           Inl err \<Rightarrow> Inl err
         | Inr body \<Rightarrow> map_sum (\<lambda>err. ''open include file error: '' @ err) id (read_clean body))
      else
        (case os_open inc of
           Inl err \<Rightarrow> Inl (''open include file error: '' @ err)
         | Inr body \<Rightarrow> map_sum (\<lambda>err. ''open include file error: '' @ err) id (read_clean body)))"

definition default_api :: api_config where
  "default_api = \<lparr>api_APIHost = ''http://127.0.0.1'', api_NodeID = 0, api_Key = [], api_NodeType = [],
     api_Timeout = 30, api_PanelType = [], api_RuleListPath = []\<rparr>"

definition zero_limit :: limit_config where
  "zero_limit = \<lparr>lc_EnableRealtime = False, lc_SpeedLimit = 0, lc_IPLimit = 0, lc_ConnLimit = 0,
     lc_EnableIpRecorder = False, lc_IpRecorderConfig = None, lc_EnableDynamicSpeedLimit = False,
     lc_DynamicSpeedLimitConfig = None\<rparr>"

definition default_options :: options where
  "default_options = \<lparr>op_Name = [], op_Core = [], op_CoreName = [], op_ListenIP = ''0.0.0.0'',
     op_SendIP = ''0.0.0.0'', op_DeviceOnlineMinTraffic = 0, op_LimitConfig = zero_limit, op_RawOptions = [],
     op_XrayOptions = None, op_SingOptions = None, op_Hysteria2ConfigPath = [], op_CertConfig = Some NewCertConfig\<rparr>"

text \<open>The result: the error, and the configuration as far as it was filled.\<close>

definition node_decode :: "conf_codec \<Rightarrow> raw_node_config \<Rightarrow> string \<Rightarrow> node_config \<Rightarrow> string option \<times> node_config" where
  "node_decode dc rn data n =
     (case dc_Api dc (if rn_ApiRaw rn \<noteq> [] then rn_ApiRaw rn else data) default_api of
        (Some err, a) \<Rightarrow> (Some err, n\<lparr>nc_ApiConfig := a\<rparr>)
      | (None, a) \<Rightarrow>
          (case options_UnmarshalJSON dc (if rn_OptRaw rn \<noteq> [] then rn_OptRaw rn else data) default_options of
             (err, op1) \<Rightarrow> (err, n\<lparr>nc_ApiConfig := a, nc_Options := op1\<rparr>)))"

definition node_UnmarshalJSON :: "conf_codec \<Rightarrow> (string \<Rightarrow> source) \<Rightarrow> (string \<Rightarrow> source) \<Rightarrow> node_config decode" where
  "node_UnmarshalJSON dc http_get os_open data n =
     (case dc_Raw dc data \<lparr>rn_Include = [], rn_ApiRaw = [], rn_OptRaw = []\<rparr> of
        (Some err, _) \<Rightarrow> (Some err, n)
      | (None, rn) \<Rightarrow>
          if rn_Include rn = [] then node_decode dc rn data n
          else (case include_data http_get os_open (rn_Include rn) of
              Inl err \<Rightarrow> (Some err, n)
            | Inr data' \<Rightarrow>
                (case dc_Raw dc data' rn of
                   (Some err, _) \<Rightarrow> (Some (''unmarshal include file error: '' @ err), n)
                 | (None, rn') \<Rightarrow> node_decode dc rn' data' n)))"


text \<open>An \<^verbatim>\<open>Include\<close> that is a URL, anything that goes on after \<^verbatim>\<open>http\<close> or \<^verbatim>\<open>https\<close>, is never fetched: the
  web is not asked, and the result is that of opening a file with the name of the URL.\<close>

theorem url_include_is_a_file:
  assumes "inc = ''http'' @ c # rest \<or> inc = ''https'' @ c # rest" "inc \<noteq> ''https''"
  shows "include_data http_get os_open inc = include_data any_other os_open inc"
  using assms by (auto simp: include_data_def TrimPrefix_def HasPrefix_def Let_def)

lemma url_include_is_a_file_witness:
  "include_data (\<lambda>_. Inr (''{}'', None)) (\<lambda>_. Inl ''no such file'') ''http://panel/node.json'' =
     Inl ''open include file error: no such file''"
proof -
  have "include_data (\<lambda>_. Inr (''{}'', None)) (\<lambda>_. Inl ''no such file'') ''http://panel/node.json'' =
      include_data (\<lambda>_. Inl ''not asked'') (\<lambda>_. Inl ''no such file'') ''http://panel/node.json''"
    by (rule url_include_is_a_file [where c = "CHR '':''" and rest = "''//panel/node.json''"]) simp_all
  also have "\<dots> = Inl ''open include file error: no such file''" by code_simp
  finally show ?thesis .
qed

end
