(* ===== verification/Selector.thy ===== *)
theory Selector
  imports Conf
begin

text \<open>
  \<^verbatim>\<open>core/\<close>: the interface of a proxy core, the registry of core types, and the selector that spreads the
  nodes over several cores. A core is a value of some type \<open>'s\<close> and a record of its methods, which
  dispatch on that value; a method that panics gives \<^term>\<open>None\<close>. The contract of a core is a locale;
  the selector is shown to be a core whenever its members are.
\<close>

section \<open>The interface\<close>

text \<open>\<^verbatim>\<open>AddUsersParams\<close> embeds a pointer to the node.\<close>

record add_users_params =
  au_Tag :: string
  au_Users :: "user_info list"
  au_NodeInfo :: node_info

text \<open>An error is its message. \<^verbatim>\<open>Close\<close> may collect several errors; no error is the empty list. \<^verbatim>\<open>AddNode\<close> also
  gives back the options, which the caller passes by pointer.\<close>

record 's core_ops =
  co_Start :: "'s \<Rightarrow> (string option \<times> 's) option"
  co_Close :: "'s \<Rightarrow> (string list \<times> 's) option"
  co_AddNode :: "string \<Rightarrow> node_info \<Rightarrow> options \<Rightarrow> 's \<Rightarrow> ((string option \<times> options) \<times> 's) option"
  co_DelNode :: "string \<Rightarrow> 's \<Rightarrow> (string option \<times> 's) option"
  co_AddUsers :: "add_users_params \<Rightarrow> 's \<Rightarrow> ((int \<times> string option) \<times> 's) option"
  co_GetUserTraffic :: "string \<Rightarrow> string \<Rightarrow> bool \<Rightarrow> 's \<Rightarrow> ((int \<times> int) \<times> 's) option"
  co_DelUsers :: "user_info list \<Rightarrow> string \<Rightarrow> node_info \<Rightarrow> 's \<Rightarrow> (string option \<times> 's) option"
  co_Protocols :: "'s \<Rightarrow> string list"
  co_Type :: "'s \<Rightarrow> string"

text \<open>
  What a core promises about the nodes it serves, and what it leaves alone: adding a node makes it
  served, deleting one stops that, a call for one tag does not touch the other nodes, and the other
  calls change no node.
\<close>

locale core_contract =
  fixes ops :: "'s core_ops"
    and serves :: "'s \<Rightarrow> string \<Rightarrow> bool"
    and valid :: "'s \<Rightarrow> bool"
  assumes add_node: "valid s \<Longrightarrow> co_AddNode ops tag info opt s = Some ((err, opt'), s') \<Longrightarrow>
      valid s' \<and> (err = None \<longrightarrow> serves s' tag) \<and> (\<forall>t. t \<noteq> tag \<longrightarrow> serves s' t = serves s t)"
    and del_node: "valid s \<Longrightarrow> co_DelNode ops tag s = Some (err', s') \<Longrightarrow>
      valid s' \<and> (err' = None \<longrightarrow> \<not> serves s' tag) \<and> (\<forall>t. t \<noteq> tag \<longrightarrow> serves s' t = serves s t)"
    and add_users: "valid s \<Longrightarrow> co_AddUsers ops p s = Some (r, s') \<Longrightarrow> valid s' \<and> serves s' = serves s"
    and del_users: "valid s \<Longrightarrow> co_DelUsers ops users tag info s = Some (r', s') \<Longrightarrow> valid s' \<and> serves s' = serves s"
    and get_traffic: "valid s \<Longrightarrow> co_GetUserTraffic ops tag uuid reset s = Some (r'', s') \<Longrightarrow>
      valid s' \<and> serves s' = serves s"
    and start: "valid s \<Longrightarrow> co_Start ops s = Some (r', s') \<Longrightarrow> valid s' \<and> serves s' = serves s"
begin

text \<open>What a controller that moves its node from one tag to another relies on.\<close>

lemma move_node:
  assumes "valid s" "co_DelNode ops tag s = Some (None, s1)"
    and "co_AddNode ops tag' info opt s1 = Some ((None, opt'), s2)"
    and "co_AddUsers ops p s2 = Some (r, s3)"
  shows "valid s3 \<and> serves s3 tag' \<and> (tag \<noteq> tag' \<longrightarrow> \<not> serves s3 tag) \<and>
    (\<forall>t. t \<noteq> tag \<longrightarrow> t \<noteq> tag' \<longrightarrow> serves s3 t = serves s t)"
proof -
  note 1 = del_node [OF assms(1,2)]
  note 2 = add_node [OF conjunct1 [OF 1] assms(3)]
  note 3 = add_users [OF conjunct1 [OF 2] assms(4)]
  from 1 2 3 show ?thesis by auto
qed

end

section \<open>The registry of core types\<close>

text \<open>Each core's constructor, under the name it registers itself with.\<close>

type_synonym 's constructors = "(string, core_config \<Rightarrow> (string + 's) option) gomap"

definition RegisterCore :: "string \<Rightarrow> (core_config \<Rightarrow> (string + 's) option) \<Rightarrow> 's constructors \<Rightarrow> 's constructors" where
  "RegisterCore t f cores = sm_store t f cores"

definition RegisteredCore :: "'s constructors \<Rightarrow> string list" where
  "RegisteredCore cores = sm_keys cores"

section \<open>The selector\<close>

text \<open>The members by name, and the member that each node was added to. A node refers to its member by
  the name, which never changes its member.\<close>

record 's selector =
  se_cores :: "(string, 's) gomap"
  se_nodes :: "(string, string) gomap"

fun new_members :: "'s constructors \<Rightarrow> core_config list \<Rightarrow> (string, 's) gomap \<Rightarrow> (string + (string, 's) gomap) option" where
  "new_members reg [] cs = Some (Inr cs)"
| "new_members reg (t # ts) cs =
     (case sm_load reg (ToLower (cf_Type t)) of
        None \<Rightarrow> Some (Inl (''unknown core type: '' @ cf_Type t))
      | Some f \<Rightarrow>
          (case f t of
             None \<Rightarrow> panic
           | Some (Inl err) \<Rightarrow> Some (Inl err)
           | Some (Inr core1) \<Rightarrow> new_members reg ts
               (sm_store (if cf_Name t = '''' then cf_Type t else cf_Name t) core1 cs)))"

definition NewSelector :: "'s constructors \<Rightarrow> core_config list \<Rightarrow> (string + 's selector) option" where
  "NewSelector reg c = map_option (map_sum id (\<lambda>cs. \<lparr>se_cores = cs, se_nodes = []\<rparr>)) (new_members reg c [])"

datatype 's core = Single 's | Multi "'s selector"

text \<open>A negative length never occurs, so an empty configuration reaches \<^verbatim>\<open>c[0]\<close> and panics.\<close>

definition NewCore :: "'s constructors \<Rightarrow> core_config list \<Rightarrow> (string + 's core) option" where
  "NewCore reg c =
     (if int (length c) < 0 then Some (Inl ''no have vail core'')
      else if length c > 1 then map_option (map_sum id Multi) (NewSelector reg c)
      else (case c of
          [] \<Rightarrow> panic
        | c0 # _ \<Rightarrow>
            (case sm_load reg (cf_Type c0) of
               Some f \<Rightarrow> map_option (map_sum id Single) (f c0)
             | None \<Rightarrow> Some (Inl ''unknown core type''))))"

fun start_members :: "'s core_ops \<Rightarrow> (string \<times> 's) list \<Rightarrow> (string option \<times> (string \<times> 's) list) option" where
  "start_members ops [] = Some (None, [])"
| "start_members ops ((n, c) # rest) =
     (case co_Start ops c of
        None \<Rightarrow> panic
      | Some (Some err, c') \<Rightarrow> Some (Some err, (n, c') # rest)
      | Some (None, c') \<Rightarrow> map_option (\<lambda>(e, rest'). (e, (n, c') # rest')) (start_members ops rest))"

definition sel_Start :: "'s core_ops \<Rightarrow> 's selector \<Rightarrow> (string option \<times> 's selector) option" where
  "sel_Start ops s = map_option (\<lambda>(e, cs). (e, s\<lparr>se_cores := cs\<rparr>)) (start_members ops (se_cores s))"

fun close_members :: "'s core_ops \<Rightarrow> (string \<times> 's) list \<Rightarrow> (string list \<times> (string \<times> 's) list) option" where
  "close_members ops [] = Some ([], [])"
| "close_members ops ((n, c) # rest) =
     (case co_Close ops c of
        None \<Rightarrow> panic
      | Some (errs, c') \<Rightarrow> map_option (\<lambda>(es, rest'). (errs @ es, (n, c') # rest')) (close_members ops rest))"

definition sel_Close :: "'s core_ops \<Rightarrow> 's selector \<Rightarrow> (string list \<times> 's selector) option" where
  "sel_Close ops s = map_option (\<lambda>(e, cs). (e, s\<lparr>se_cores := cs\<rparr>)) (close_members ops (se_cores s))"

fun isSupported :: "string \<Rightarrow> string list \<Rightarrow> bool" where
  "isSupported protocol [] = False"
| "isSupported protocol (p # ps) = (if protocol = p then True else isSupported protocol ps)"

definition core_matches :: "'s core_ops \<Rightarrow> node_info \<Rightarrow> options \<Rightarrow> 's \<Rightarrow> bool" where
  "core_matches ops info opt c =
     (if op_Core opt = '''' then isSupported (ni_Type info) (co_Protocols ops c) else op_Core opt = co_Type ops c)"

text \<open>By name, or the last member in the range over the map whose type or protocols fit.\<close>

definition select_core :: "'s core_ops \<Rightarrow> node_info \<Rightarrow> options \<Rightarrow> (string, 's) gomap \<Rightarrow> (string \<times> 's) option" where
  "select_core ops info opt cores =
     (if op_CoreName opt \<noteq> '''' then map_option (\<lambda>c. (op_CoreName opt, c)) (sm_load cores (op_CoreName opt))
      else fold (\<lambda>(n, c) core. if core_matches ops info opt c then Some (n, c) else core) cores None)"

text \<open>Options without a core get the type of the member, and are decoded again for it.\<close>

definition decode_for :: "conf_codec \<Rightarrow> 's core_ops \<Rightarrow> options \<Rightarrow> 's \<Rightarrow> string option \<times> options" where
  "decode_for dc ops opt core =
     (if op_Core opt = '''' then
        (case options_UnmarshalJSON dc (op_RawOptions opt) (opt\<lparr>op_Core := co_Type ops core\<rparr>) of
           (Some err, o1) \<Rightarrow> (Some (''unmarshal option error: '' @ err), o1)
         | (None, o1) \<Rightarrow> (None, o1\<lparr>op_RawOptions := []\<rparr>))
      else (None, opt))"

definition sel_AddNode :: "conf_codec \<Rightarrow> 's core_ops \<Rightarrow> string \<Rightarrow> node_info \<Rightarrow> options \<Rightarrow> 's selector \<Rightarrow>
    ((string option \<times> options) \<times> 's selector) option" where
  "sel_AddNode dc ops tag info opt s =
     (case select_core ops info opt (se_cores s) of
        None \<Rightarrow> Some ((Some ''the node type is not support'', opt), s)
      | Some (n, core) \<Rightarrow>
          (case decode_for dc ops opt core of
             (Some err, o1) \<Rightarrow> Some ((Some err, o1), s)
           | (None, o1) \<Rightarrow>
               (case co_AddNode ops tag info o1 core of
                  None \<Rightarrow> panic
                | Some ((Some err, o2), core') \<Rightarrow>
                    Some ((Some err, o2), s\<lparr>se_cores := sm_store n core' (se_cores s)\<rparr>)
                | Some ((None, o2), core') \<Rightarrow>
                    Some ((None, o2), s\<lparr>se_cores := sm_store n core' (se_cores s), se_nodes := sm_store tag n (se_nodes s)\<rparr>))))"

text \<open>The member a node was added to.\<close>

definition node_core :: "'s selector \<Rightarrow> string \<Rightarrow> (string \<times> 's) option" where
  "node_core s tag = (case sm_load (se_nodes s) tag of None \<Rightarrow> None
     | Some n \<Rightarrow> map_option (\<lambda>c. (n, c)) (sm_load (se_cores s) n))"

definition put_core :: "string \<Rightarrow> 's selector \<Rightarrow> 's \<Rightarrow> 's selector" where
  "put_core n s c = s\<lparr>se_cores := sm_store n c (se_cores s)\<rparr>"

definition sel_DelNode :: "'s core_ops \<Rightarrow> string \<Rightarrow> 's selector \<Rightarrow> (string option \<times> 's selector) option" where
  "sel_DelNode ops tag s =
     (case node_core s tag of
        None \<Rightarrow> Some (Some ''the node is not have'', s)
      | Some (n, c) \<Rightarrow>
          (case co_DelNode ops tag c of
             None \<Rightarrow> panic
           | Some (Some err, c') \<Rightarrow> Some (Some err, put_core n s c')
           | Some (None, c') \<Rightarrow> Some (None, put_core n (s\<lparr>se_nodes := sm_delete tag (se_nodes s)\<rparr>) c')))"

definition sel_AddUsers :: "'s core_ops \<Rightarrow> add_users_params \<Rightarrow> 's selector \<Rightarrow> ((int \<times> string option) \<times> 's selector) option" where
  "sel_AddUsers ops p s =
     (case node_core s (au_Tag p) of
        None \<Rightarrow> Some ((0, Some ''the node is not have''), s)
      | Some (n, c) \<Rightarrow> map_option (\<lambda>(r, c'). (r, put_core n s c')) (co_AddUsers ops p c))"

definition sel_GetUserTraffic :: "'s core_ops \<Rightarrow> string \<Rightarrow> string \<Rightarrow> bool \<Rightarrow> 's selector \<Rightarrow> ((int \<times> int) \<times> 's selector) option" where
  "sel_GetUserTraffic ops tag uuid reset s =
     (case node_core s tag of
        None \<Rightarrow> Some ((0, 0), s)
      | Some (n, c) \<Rightarrow> map_option (\<lambda>(r, c'). (r, put_core n s c')) (co_GetUserTraffic ops tag uuid reset c))"

definition sel_DelUsers :: "'s core_ops \<Rightarrow> user_info list \<Rightarrow> string \<Rightarrow> node_info \<Rightarrow> 's selector \<Rightarrow> (string option \<times> 's selector) option" where
  "sel_DelUsers ops users tag info s =
     (case node_core s tag of
        None \<Rightarrow> Some (Some ''the node is not have'', s)
      | Some (n, c) \<Rightarrow> map_option (\<lambda>(r, c'). (r, put_core n s c')) (co_DelUsers ops users tag info c))"

definition sel_Protocols :: "'s core_ops \<Rightarrow> 's selector \<Rightarrow> string list" where
  "sel_Protocols ops s = fold (\<lambda>(n, c) protocols. protocols @ co_Protocols ops c) (se_cores s) []"

fun type_names :: "'s core_ops \<Rightarrow> (string \<times> 's) list \<Rightarrow> bool \<Rightarrow> string \<Rightarrow> string" where
  "type_names ops [] flag t = t"
| "type_names ops ((n, c) # rest) flag t =
     type_names ops rest True ((if flag then t @ '' '' else t) @ (if n = [] then co_Type ops c else n))"

definition sel_Type :: "'s core_ops \<Rightarrow> 's selector \<Rightarrow> string" where
  "sel_Type ops s = type_names ops (se_cores s) False ''Selector('' @ '')''"

text \<open>A selector is a core itself.\<close>

definition selector_ops :: "conf_codec \<Rightarrow> 's core_ops \<Rightarrow> 's selector core_ops" where
  "selector_ops dc ops =
     \<lparr>co_Start = sel_Start ops, co_Close = sel_Close ops, co_AddNode = sel_AddNode dc ops,
      co_DelNode = sel_DelNode ops, co_AddUsers = sel_AddUsers ops, co_GetUserTraffic = sel_GetUserTraffic ops,
      co_DelUsers = sel_DelUsers ops, co_Protocols = sel_Protocols ops, co_Type = sel_Type ops\<rparr>"

end
