(* ===== verification/Selector_Laws.thy ===== *)
theory Selector_Laws
  imports Selector
begin

text \<open>
  The selector keeps the contract of a core when its members do, and it sends the calls for a node
  to the member that the node was added to.
\<close>

definition sel_valid :: "('s \<Rightarrow> bool) \<Rightarrow> 's selector \<Rightarrow> bool" where
  "sel_valid valid s \<longleftrightarrow> sm_wf (se_cores s) \<and> (\<forall>n c. sm_load (se_cores s) n = Some c \<longrightarrow> valid c)"

definition sel_serves :: "('s \<Rightarrow> string \<Rightarrow> bool) \<Rightarrow> 's selector \<Rightarrow> string \<Rightarrow> bool" where
  "sel_serves serves s t = (case node_core s t of None \<Rightarrow> False | Some (_, c) \<Rightarrow> serves c t)"

lemma node_core_Some:
  "node_core s t = Some (n, c) \<longleftrightarrow> sm_load (se_nodes s) t = Some n \<and> sm_load (se_cores s) n = Some c"
  by (auto simp: node_core_def split: option.splits)

section \<open>The choice of the member\<close>

definition last_match :: "('s \<Rightarrow> bool) \<Rightarrow> (string \<times> 's) list \<Rightarrow> (string \<times> 's) option" where
  "last_match P cores = fold (\<lambda>(n, c) acc. if P c then Some (n, c) else acc) cores None"

lemma last_match_Some: "last_match P cores = Some (n, c) \<Longrightarrow> (n, c) \<in> set cores \<and> P c"
  by (induction cores rule: rev_induct) (auto simp: last_match_def split: if_splits)

lemma last_match_None: "last_match P cores = None \<longleftrightarrow> (\<forall>(n, c) \<in> set cores. \<not> P c)"
  by (induction cores rule: rev_induct) (auto simp: last_match_def split: if_splits)

lemma select_core_eq: "select_core ops info opt cores =
   (if op_CoreName opt \<noteq> '''' then map_option (\<lambda>c. (op_CoreName opt, c)) (sm_load cores (op_CoreName opt))
    else last_match (core_matches ops info opt) cores)"
  by (simp add: select_core_def last_match_def)

lemma select_core_load:
  "sm_wf cores \<Longrightarrow> select_core ops info opt cores = Some (n, c) \<Longrightarrow> sm_load cores n = Some c"
  by (auto simp: select_core_eq sm_load_in dest: last_match_Some split: if_splits)

lemma isSupported_iff: "isSupported p ps \<longleftrightarrow> p \<in> set ps"
  by (induction ps) auto

text \<open>The choice of the member for a node. With a core name it is the member of that name. Otherwise a
  member is found exactly if some member has the requested type or, when no type is requested,
  supports the protocol of the node, and the chosen member is such a one.\<close>

theorem select_core_choice:
  "(op_CoreName opt \<noteq> '''' \<longrightarrow>
      select_core ops info opt cores = map_option (\<lambda>c. (op_CoreName opt, c)) (sm_load cores (op_CoreName opt))) \<and>
   (op_CoreName opt = '''' \<longrightarrow>
      (select_core ops info opt cores = None \<longleftrightarrow> (\<forall>(n, c) \<in> set cores. \<not> core_matches ops info opt c)) \<and>
      (\<forall>n c. select_core ops info opt cores = Some (n, c) \<longrightarrow> (n, c) \<in> set cores \<and>
         (if op_Core opt = '''' then ni_Type info \<in> set (co_Protocols ops c) else co_Type ops c = op_Core opt)))"
  by (auto simp: select_core_eq last_match_None core_matches_def isSupported_iff
      dest!: last_match_Some split: if_splits)

section \<open>The contract\<close>

lemma sel_AddNode_cases:
  assumes "sel_AddNode dc ops tag info opt s = Some ((err, opt'), s')"
  obtains (refused) "s' = s" "err \<noteq> None"
  | (tried) n c o1 c' where "select_core ops info opt (se_cores s) = Some (n, c)"
    "decode_for dc ops opt c = (None, o1)" "co_AddNode ops tag info o1 c = Some ((err, opt'), c')"
    "s' = s\<lparr>se_cores := sm_store n c' (se_cores s),
      se_nodes := (if err = None then sm_store tag n (se_nodes s) else se_nodes s)\<rparr>"
proof (cases "select_core ops info opt (se_cores s)")
  case None
  with assms refused show ?thesis by (auto simp: sel_AddNode_def)
next
  case (Some x)
  obtain n c where x: "x = (n, c)" by force
  obtain e o1 where e: "decode_for dc ops opt c = (e, o1)" by force
  show ?thesis
  proof (cases e)
    case None
    with Some x e assms show ?thesis
      by (cases "co_AddNode ops tag info o1 c"; cases err) (auto simp: sel_AddNode_def intro!: tried split: option.splits)
  next
    case (Some err')
    with \<open>select_core _ _ _ _ = Some x\<close> x e assms show ?thesis by (auto simp: sel_AddNode_def intro: refused)
  qed
qed

context core_contract
begin

lemma start_members_keep:
  "start_members ops cs = Some (e, cs') \<Longrightarrow> \<forall>(n, c) \<in> set cs. valid c \<Longrightarrow>
    list_all2 (\<lambda>(n, c) (n', c'). n' = n \<and> valid c' \<and> serves c' = serves c) cs cs'"
proof (induction cs arbitrary: e cs')
  case (Cons x rest)
  obtain n c where x: "x = (n, c)" by force
  with Cons.prems obtain y c' where c: "co_Start ops c = Some (y, c')" by (auto split: option.splits)
  have keep: "valid c' \<and> serves c' = serves c"
    using start [OF _ c] Cons.prems(2) x by simp
  show ?case
  proof (cases y)
    case None
    with x c Cons.prems obtain e' rest' where "start_members ops rest = Some (e', rest')" "cs' = (n, c') # rest'"
      by (auto split: option.splits)
    with Cons.IH Cons.prems x keep show ?thesis by auto
  next
    case (Some err)
    with x c Cons.prems have cs': "cs' = (n, c') # rest" by simp
    have "list_all2 (\<lambda>(n, c) (n', c'). n' = n \<and> valid c' \<and> serves c' = serves c) rest rest"
      using Cons.prems(2) by (auto simp: list_all2_same)
    with cs' x keep show ?thesis by simp
  qed
qed simp

lemma kept_load:
  "list_all2 (\<lambda>(n, c) (n', c'). n' = n \<and> valid c' \<and> serves c' = serves c) cs cs' \<Longrightarrow>
   map fst cs' = map fst cs \<and>
   rel_option (\<lambda>c c'. valid c' \<and> serves c' = serves c) (sm_load cs k) (sm_load cs' k)"
  by (induction rule: list_all2_induct) (auto simp: sm_load_Cons)

lemma put_keep:
  assumes "sel_valid valid s" "node_core s tag = Some (n, c)" "valid c'" "serves c' = serves c"
  shows "sel_valid valid (put_core n s c') \<and> sel_serves serves (put_core n s c') = sel_serves serves s"
  using assms
  by (auto simp: sel_valid_def sel_serves_def put_core_def node_core_def fun_eq_iff split: option.splits)

lemma sel_start:
  assumes "sel_valid valid s" "sel_Start ops s = Some (e, s')"
  shows "sel_valid valid s' \<and> sel_serves serves s' = sel_serves serves s"
proof -
  obtain cs' where cs: "start_members ops (se_cores s) = Some (e, cs')" "s' = s\<lparr>se_cores := cs'\<rparr>"
    using assms(2) by (auto simp: sel_Start_def)
  have "\<forall>(n, c) \<in> set (se_cores s). valid c"
    using assms(1) by (auto simp: sel_valid_def sm_load_in)
  note kept = kept_load [OF start_members_keep [OF cs(1) this]]
  have "sm_wf cs'" using kept assms(1) by (simp add: sm_wf_def sel_valid_def)
  moreover have "valid c" if "sm_load cs' n = Some c" for n c
    using kept [of n] that by (cases "sm_load (se_cores s) n") auto
  moreover have "sel_serves serves s' t = sel_serves serves s t" for t
  proof (cases "sm_load (se_nodes s) t")
    case (Some n)
    then show ?thesis
      using kept [of n] by (cases "sm_load (se_cores s) n"; cases "sm_load cs' n")
        (auto simp: sel_serves_def node_core_def cs(2))
  qed (simp add: sel_serves_def node_core_def cs(2))
  ultimately show ?thesis by (auto simp: sel_valid_def cs(2))
qed

lemma sel_add:
  assumes "sel_valid valid s" "sel_AddNode dc ops tag info opt s = Some ((err, opt'), s')"
  shows "sel_valid valid s' \<and> (err = None \<longrightarrow> sel_serves serves s' tag) \<and>
    (\<forall>t. t \<noteq> tag \<longrightarrow> sel_serves serves s' t = sel_serves serves s t)"
  using assms(2)
proof (cases rule: sel_AddNode_cases)
  case refused
  with assms(1) show ?thesis by auto
next
  case (tried n c o1 c')
  note s' = tried(4)
  have c: "sm_load (se_cores s) n = Some c" "valid c"
    using select_core_load [OF _ tried(1)] assms(1) by (auto simp: sel_valid_def)
  note law = add_node [OF c(2) tried(3)]
  have "sel_serves serves s' t = sel_serves serves s t" if "t \<noteq> tag" for t
    using that law c(1) by (auto simp: s' sel_serves_def node_core_def split: option.splits)
  moreover have "sel_valid valid s'" using law assms(1) by (simp add: s' sel_valid_def)
  moreover have "err = None \<longrightarrow> sel_serves serves s' tag"
    using law by (simp add: s' sel_serves_def node_core_def)
  ultimately show ?thesis by blast
qed

lemma sel_del:
  assumes "sel_valid valid s" "sel_DelNode ops tag s = Some (err, s')"
  shows "sel_valid valid s' \<and> (err = None \<longrightarrow> \<not> sel_serves serves s' tag) \<and>
    (\<forall>t. t \<noteq> tag \<longrightarrow> sel_serves serves s' t = sel_serves serves s t)"
proof (cases "node_core s tag")
  case None
  with assms show ?thesis by (auto simp: sel_DelNode_def)
next
  case (Some x)
  then obtain n c where x: "node_core s tag = Some (n, c)" by (cases x) simp
  with assms(2) obtain c' where inner: "co_DelNode ops tag c = Some (err, c')"
    and s': "s' = s\<lparr>se_cores := sm_store n c' (se_cores s),
      se_nodes := (if err = None then sm_delete tag (se_nodes s) else se_nodes s)\<rparr>"
    by (auto simp: sel_DelNode_def put_core_def split: option.splits)
  have c: "sm_load (se_cores s) n = Some c" "valid c"
    using x assms(1) by (auto simp: node_core_Some sel_valid_def)
  note law = del_node [OF c(2) inner]
  have "sel_serves serves s' t = sel_serves serves s t" if "t \<noteq> tag" for t
    using that law c(1) by (auto simp: s' sel_serves_def node_core_def split: option.splits)
  with law c assms(1) show ?thesis
    by (auto simp: s' sel_valid_def sel_serves_def node_core_def)
qed

text \<open>The calls that change no node.\<close>

lemma sel_call:
  assumes "sel_valid valid s" "node_core s tag = Some (n, c)" "f c = Some (r, c')" "s' = put_core n s c'"
    and "valid c \<Longrightarrow> f c = Some (r, c') \<Longrightarrow> valid c' \<and> serves c' = serves c"
  shows "sel_valid valid s' \<and> sel_serves serves s' = sel_serves serves s"
proof -
  have "valid c" using assms(1,2) by (auto simp: node_core_Some sel_valid_def)
  with assms(3,5) put_keep [OF assms(1,2)] show ?thesis by (simp add: assms(4))
qed

lemma selector_contract: "core_contract (selector_ops dc ops) (sel_serves serves) (sel_valid valid)"
proof (unfold_locales, goal_cases)
  case (1 s tag info opt err opt' s')
  then show ?case using sel_add [of s] by (simp add: selector_ops_def)
next
  case (2 s tag err s')
  then show ?case using sel_del [of s] by (simp add: selector_ops_def)
next
  case (3 s p r s')
  then show ?case
    using sel_call [of s "au_Tag p" _ _ "co_AddUsers ops p" r _ s', OF _ _ _ _ add_users]
    by (auto simp: selector_ops_def sel_AddUsers_def split: option.splits)
next
  case (4 s users tag info r s')
  then show ?case
    using sel_call [of s tag _ _ "co_DelUsers ops users tag info" r _ s', OF _ _ _ _ del_users]
    by (auto simp: selector_ops_def sel_DelUsers_def split: option.splits)
next
  case (5 s tag uuid reset r s')
  then show ?case
    using sel_call [of s tag _ _ "co_GetUserTraffic ops tag uuid reset" r _ s', OF _ _ _ _ get_traffic]
    by (auto simp: selector_ops_def sel_GetUserTraffic_def split: option.splits)
next
  case (6 s r s')
  then show ?case using sel_start [of s] by (simp add: selector_ops_def)
qed

end

text \<open>A selector that was just built serves nothing.\<close>

lemma new_members_wf:
  "sm_wf cs \<Longrightarrow> \<forall>n c. sm_load cs n = Some c \<longrightarrow> valid c \<Longrightarrow>
   \<forall>t f c cfg. sm_load reg t = Some f \<longrightarrow> f cfg = Some (Inr c) \<longrightarrow> valid c \<Longrightarrow>
   new_members reg ts cs = Some (Inr cs') \<Longrightarrow> sm_wf cs' \<and> (\<forall>n c. sm_load cs' n = Some c \<longrightarrow> valid c)"
proof (induction reg ts cs rule: new_members.induct)
  case (2 reg t ts cs)
  from "2.prems"(4) obtain f c where f: "sm_load reg (ToLower (cf_Type t)) = Some f" "f t = Some (Inr c)"
    by (auto split: option.splits sum.splits)
  let ?cs = "sm_store (if cf_Name t = '''' then cf_Type t else cf_Name t) c cs"
  have "valid c" using "2.prems"(3) f by blast
  with "2.prems"(1,2) have *: "sm_wf ?cs" "\<forall>n d. sm_load ?cs n = Some d \<longrightarrow> valid d" by auto
  have "new_members reg ts ?cs = Some (Inr cs')" using "2.prems"(4) f by simp
  then show ?case by (rule "2.IH" [OF f(1,2) refl * "2.prems"(3)])
qed simp

lemma new_selector_valid:
  assumes "NewSelector reg c = Some (Inr s)"
    and "\<forall>t f x cfg. sm_load reg t = Some f \<longrightarrow> f cfg = Some (Inr x) \<longrightarrow> valid x"
  shows "sel_valid valid s \<and> (\<forall>t. \<not> sel_serves serves s t)"
proof -
  obtain y where y: "new_members reg c [] = Some y" "map_sum id (\<lambda>cs. \<lparr>se_cores = cs, se_nodes = []\<rparr>) y = Inr s"
    using assms(1) by (auto simp: NewSelector_def)
  then obtain cs where cs: "new_members reg c [] = Some (Inr cs)" "s = \<lparr>se_cores = cs, se_nodes = []\<rparr>"
    by (cases y) simp_all
  have "sm_wf cs \<and> (\<forall>n c. sm_load cs n = Some c \<longrightarrow> valid c)"
    by (rule new_members_wf [OF _ _ assms(2) cs(1)]) simp_all
  then show ?thesis by (simp add: cs(2) sel_valid_def sel_serves_def node_core_def)
qed

text \<open>Options whose JSON names an unknown core: the member that is chosen by protocol gets them without the
  part that it reads.\<close>

lemma unknown_core_undecoded:
  assumes "op_Core opt = ''''" "dc_Opt dc (op_RawOptions opt) (opt\<lparr>op_Core := co_Type ops c\<rparr>) = (None, o1)"
    and "op_Core o1 \<notin> {''xray'', ''sing'', ''hysteria2''}"
  shows "decode_for dc ops opt c = (None, o1\<lparr>op_Core := '''', op_RawOptions := []\<rparr>)"
  using assms by (simp add: decode_for_def options_UnmarshalJSON_def)

end
