(* ===== verification/Xray_Users.thy ===== *)
theory Xray_Users
  imports Selector Online_Report
begin

text \<open>
  The users of the xray core: \<^verbatim>\<open>core/xray/user.go\<close>, \<^verbatim>\<open>vmess.go\<close>, \<^verbatim>\<open>trojan.go\<close>, \<^verbatim>\<open>ss.go\<close>, \<^verbatim>\<open>online.go\<close>,
  \<^verbatim>\<open>outbound.go\<close> and \<^verbatim>\<open>vless_encryption.go\<close>. The accounts are described by the fields that the code gives the
  types of xray-core. Its user manager and its statistics are a record of functions over their own state.
  Base64 is written out, since the code decides by the length of a decoded key.
\<close>

section \<open>Base64\<close>

text \<open>The characters of the six-bit values; \<open>c62\<close> and \<open>c63\<close> are the last two of the alphabet.\<close>

definition b64_char :: "char \<Rightarrow> char \<Rightarrow> nat \<Rightarrow> char" where
  "b64_char c62 c63 n = (if n < 26 then char_of (65 + n) else if n < 52 then char_of (71 + n)
     else if n < 62 then char_of (n - 4) else if n = 62 then c62 else c63)"

definition b64_val :: "char \<Rightarrow> char \<Rightarrow> char \<Rightarrow> nat option" where
  "b64_val c62 c63 c = (let n = of_char c :: nat in
     if 65 \<le> n \<and> n \<le> 90 then Some (n - 65) else if 97 \<le> n \<and> n \<le> 122 then Some (n - 71)
     else if 48 \<le> n \<and> n \<le> 57 then Some (n + 4) else if c = c62 then Some 62
     else if c = c63 then Some 63 else None)"

fun b64_split :: "nat list \<Rightarrow> nat list" where
  "b64_split [] = []"
| "b64_split [a] = [a div 4, (a mod 4) * 16]"
| "b64_split [a, b] = [a div 4, (a mod 4) * 16 + b div 16, (b mod 16) * 4]"
| "b64_split (a # b # c # rest) =
     a div 4 # ((a mod 4) * 16 + b div 16) # ((b mod 16) * 4 + c div 64) # (c mod 64) # b64_split rest"

fun b64_join :: "nat list \<Rightarrow> nat list option" where
  "b64_join [] = Some []"
| "b64_join [a] = None"
| "b64_join [a, b] = Some [a * 4 + b div 16]"
| "b64_join [a, b, c] = Some [a * 4 + b div 16, (b mod 16) * 16 + c div 4]"
| "b64_join (a # b # c # d # rest) =
     map_option (\<lambda>bs. (a * 4 + b div 16) # ((b mod 16) * 16 + c div 4) # ((c mod 4) * 64 + d) # bs) (b64_join rest)"

text \<open>\<^verbatim>\<open>base64.StdEncoding.EncodeToString\<close>, with padding, and the unpadded encoding of \<^verbatim>\<open>RawURLEncoding\<close>.\<close>

definition StdEncoding :: "string \<Rightarrow> string" where
  "StdEncoding s = map (b64_char (CHR ''+'') (CHR ''/'')) (b64_split (map of_char s)) @
     (if length s mod 3 = 1 then ''=='' else if length s mod 3 = 2 then ''='' else '''')"

definition RawURLEncoding :: "string \<Rightarrow> string" where
  "RawURLEncoding s = map (b64_char (CHR ''-'') (CHR ''_'')) (b64_split (map of_char s))"

fun b64_vals :: "string \<Rightarrow> nat list option" where
  "b64_vals [] = Some []"
| "b64_vals (c # cs) = do { v \<leftarrow> b64_val (CHR ''-'') (CHR ''_'') c; vs \<leftarrow> b64_vals cs; Some (v # vs) }"

text \<open>\<^verbatim>\<open>base64.RawURLEncoding.DecodeString\<close>: line ends are skipped, other characters outside the alphabet and a single
  character left over are errors.\<close>

definition RawURLDecode :: "string \<Rightarrow> nat list option" where
  "RawURLDecode s =
     do { vs \<leftarrow> b64_vals (filter (\<lambda>c. c \<noteq> CHR 0x0A \<and> c \<noteq> CHR 0x0D) s); b64_join vs }"

section \<open>Vless encryption\<close>

definition vlessEncryptionPrefix :: string where "vlessEncryptionPrefix = ''mlkem768x25519plus.''"
definition vlessEncryptionInboundMode :: string where "vlessEncryptionInboundMode = ''mlkem768x25519plus.native.600s.''"
definition vlessEncryptionOutboundMode :: string where "vlessEncryptionOutboundMode = ''mlkem768x25519plus.native.0rtt.''"
definition vlessEncryptionX25519KeySize :: nat where "vlessEncryptionX25519KeySize = 32"
definition vlessEncryptionMlkemSeedSize :: nat where "vlessEncryptionMlkemSeedSize = 64"
definition vlessEncryptionMlkemCipherKeySize :: nat where "vlessEncryptionMlkemCipherKeySize = 1184"

definition isStructuredVlessEncryptionValue :: "string \<Rightarrow> bool" where
  "isStructuredVlessEncryptionValue value = HasPrefix value vlessEncryptionPrefix"

definition isRawBase64URLKey :: "string \<Rightarrow> nat list \<Rightarrow> bool" where
  "isRawBase64URLKey value expectedLens =
     (case RawURLDecode value of None \<Rightarrow> False | Some decoded \<Rightarrow> length decoded \<in> set expectedLens)"

definition resolveVlessInboundDecryption :: "vallss_node option \<Rightarrow> string" where
  "resolveVlessInboundDecryption v =
     (if v = None \<or> \<not> HasVlessInboundDecryption v then ''none''
      else let decryption = NormalizedDecryption v in
        if decryption = '''' then ''none''
        else if isStructuredVlessEncryptionValue decryption then decryption
        else if isRawBase64URLKey decryption [vlessEncryptionX25519KeySize, vlessEncryptionMlkemSeedSize]
        then vlessEncryptionInboundMode @ decryption
        else decryption)"

definition resolveVlessOutboundEncryption :: "vallss_node option \<Rightarrow> string" where
  "resolveVlessOutboundEncryption v =
     (if v = None \<or> \<not> HasVlessOutboundEncryption v then ''''
      else let encryption = NormalizedEncryption v in
        if encryption = '''' then ''''
        else if isStructuredVlessEncryptionValue encryption then encryption
        else if isRawBase64URLKey encryption [vlessEncryptionX25519KeySize, vlessEncryptionMlkemCipherKeySize]
        then vlessEncryptionOutboundMode @ encryption
        else encryption)"

section \<open>Building users\<close>

datatype ss_cipher = SS_UNKNOWN | SS_AES_128_GCM | SS_AES_256_GCM | SS_CHACHA20_POLY1305 | SS_NONE

text \<open>The accounts with the fields that are set.\<close>

datatype xray_account =
    VMessAccount string string
  | VlessAccount string string string
  | TrojanAccount string
  | SSAccount string ss_cipher
  | SS2022Account string

record xray_user =
  xu_Level :: int
  xu_Email :: string
  xu_Account :: xray_account

definition buildVmessUser :: "string \<Rightarrow> user_info \<Rightarrow> xray_user" where
  "buildVmessUser tag u = \<lparr>xu_Level = 0, xu_Email = UserTag tag (ui_Uuid u), xu_Account = VMessAccount (ui_Uuid u) ''auto''\<rparr>"

definition buildVmessUsers :: "string \<Rightarrow> user_info list \<Rightarrow> xray_user list" where
  "buildVmessUsers tag userInfo = map (buildVmessUser tag) userInfo"

definition buildVlessUser :: "string \<Rightarrow> user_info \<Rightarrow> string \<Rightarrow> string \<Rightarrow> xray_user" where
  "buildVlessUser tag u flow encryption =
     \<lparr>xu_Level = 0, xu_Email = UserTag tag (ui_Uuid u), xu_Account = VlessAccount (ui_Uuid u) encryption flow\<rparr>"

definition buildVlessUsers :: "string \<Rightarrow> user_info list \<Rightarrow> string \<Rightarrow> string \<Rightarrow> xray_user list" where
  "buildVlessUsers tag userInfo flow encryption = map (\<lambda>u. buildVlessUser tag u flow encryption) userInfo"

definition buildTrojanUser :: "string \<Rightarrow> user_info \<Rightarrow> xray_user" where
  "buildTrojanUser tag u = \<lparr>xu_Level = 0, xu_Email = UserTag tag (ui_Uuid u), xu_Account = TrojanAccount (ui_Uuid u)\<rparr>"

definition buildTrojanUsers :: "string \<Rightarrow> user_info list \<Rightarrow> xray_user list" where
  "buildTrojanUsers tag userInfo = map (buildTrojanUser tag) userInfo"

definition getCipherFromString :: "string \<Rightarrow> ss_cipher" where
  "getCipherFromString c = (let s = ToLower c in
     if s = ''aes-128-gcm'' \<or> s = ''aead_aes_128_gcm'' then SS_AES_128_GCM
     else if s = ''aes-256-gcm'' \<or> s = ''aead_aes_256_gcm'' then SS_AES_256_GCM
     else if s = ''chacha20-poly1305'' \<or> s = ''aead_chacha20_poly1305'' \<or> s = ''chacha20-ietf-poly1305''
     then SS_CHACHA20_POLY1305
     else if s = ''none'' \<or> s = ''plain'' then SS_NONE else SS_UNKNOWN)"

definition ss_key_length :: "string \<Rightarrow> nat" where
  "ss_key_length cypher =
     (if cypher = ''2022-blake3-aes-128-gcm'' then 16
      else if cypher = ''2022-blake3-aes-256-gcm'' then 32
      else if cypher = ''2022-blake3-chacha20-poly1305'' then 32 else 0)"

text \<open>Slicing a uuid that is too short panics.\<close>

definition buildSSUser :: "string \<Rightarrow> user_info \<Rightarrow> string \<Rightarrow> string \<Rightarrow> xray_user option" where
  "buildSSUser tag u cypher serverKey =
     (if serverKey = '''' then
        Some \<lparr>xu_Level = 0, xu_Email = UserTag tag (ui_Uuid u),
          xu_Account = SSAccount (ui_Uuid u) (getCipherFromString cypher)\<rparr>
      else if length (ui_Uuid u) < ss_key_length cypher then panic
      else Some \<lparr>xu_Level = 0, xu_Email = UserTag tag (ui_Uuid u),
          xu_Account = SS2022Account (StdEncoding (take (ss_key_length cypher) (ui_Uuid u)))\<rparr>)"

fun buildSSUsers :: "string \<Rightarrow> user_info list \<Rightarrow> string \<Rightarrow> string \<Rightarrow> xray_user list option" where
  "buildSSUsers tag [] cypher serverKey = Some []"
| "buildSSUsers tag (u # us) cypher serverKey =
     do { x \<leftarrow> buildSSUser tag u cypher serverKey; xs \<leftarrow> buildSSUsers tag us cypher serverKey; Some (x # xs) }"

section \<open>Users and their statistics\<close>

text \<open>The user manager of a tag, converting and adding and removing a user; the counters, by name, and the maps of
  online addresses (count and list). A statistics manager that is nil is told by \<open>sh_Nil\<close>.\<close>

record 'm xray_env =
  xe_GetUserManager :: "'m \<Rightarrow> string \<Rightarrow> string option"
  xe_ToMemoryUser :: "xray_user \<Rightarrow> string option"
  xe_AddUser :: "string \<Rightarrow> xray_user \<Rightarrow> 'm \<Rightarrow> string option \<times> 'm"
  xe_RemoveUser :: "string \<Rightarrow> string \<Rightarrow> 'm \<Rightarrow> string option \<times> 'm"
  sh_Nil :: "'m \<Rightarrow> bool"
  sh_HasCounter :: "'m \<Rightarrow> string \<Rightarrow> bool"
  sh_Value :: "string \<Rightarrow> 'm \<Rightarrow> int"
  sh_Set :: "string \<Rightarrow> int \<Rightarrow> 'm \<Rightarrow> int \<times> 'm"
  sh_UnregisterCounter :: "string \<Rightarrow> 'm \<Rightarrow> 'm"
  sh_UnregisterOnlineMap :: "string \<Rightarrow> 'm \<Rightarrow> 'm"
  sh_OnlineMap :: "'m \<Rightarrow> string \<Rightarrow> (int \<times> string list) option"

definition stat_up :: "string \<Rightarrow> string" where
  "stat_up user = ''user>>>'' @ user @ ''>>>traffic>>>uplink''"

definition stat_down :: "string \<Rightarrow> string" where
  "stat_down user = ''user>>>'' @ user @ ''>>>traffic>>>downlink''"

definition userOnlineStatName :: "string \<Rightarrow> string \<Rightarrow> string" where
  "userOnlineStatName tag uuid = ''user>>>'' @ UserTag tag uuid @ ''>>>online''"

definition inboundOnlineStatName :: "string \<Rightarrow> string" where
  "inboundOnlineStatName tag = ''inbound>>>'' @ tag @ ''>>>online''"

fun add_memory_users :: "'m xray_env \<Rightarrow> string \<Rightarrow> xray_user list \<Rightarrow> 'm \<Rightarrow> string option \<times> 'm" where
  "add_memory_users xe tag [] m = (None, m)"
| "add_memory_users xe tag (u # us) m =
     (case xe_ToMemoryUser xe u of
        Some err \<Rightarrow> (Some err, m)
      | None \<Rightarrow> (case xe_AddUser xe tag u m of (Some err, m') \<Rightarrow> (Some err, m') | (None, m') \<Rightarrow> add_memory_users xe tag us m'))"

text \<open>The users for the node's type: a panic, an error, or the users.\<close>

definition build_users :: "add_users_params \<Rightarrow> (string + xray_user list) option" where
  "build_users p =
     (let info = au_NodeInfo p; t = ni_Type info in
      if t = ''vmess'' then Some (Inr (buildVmessUsers (au_Tag p) (au_Users p)))
      else if t = ''vless'' then
        (case ni_VAllss info of
           None \<Rightarrow> panic
         | Some v \<Rightarrow> Some (Inr (buildVlessUsers (au_Tag p) (au_Users p) (va_Flow v)
             (resolveVlessOutboundEncryption (ni_VAllss info)))))
      else if t = ''trojan'' then Some (Inr (buildTrojanUsers (au_Tag p) (au_Users p)))
      else if t = ''shadowsocks'' then
        (case ni_Shadowsocks info of
           None \<Rightarrow> panic
         | Some s \<Rightarrow> map_option Inr (buildSSUsers (au_Tag p) (au_Users p) (ss_Cipher s) (ss_ServerKey s)))
      else Some (Inl (''unsupported node type: '' @ t)))"

definition xray_AddUsers :: "'m xray_env \<Rightarrow> add_users_params \<Rightarrow> 'm \<Rightarrow> ((int \<times> string option) \<times> 'm) option" where
  "xray_AddUsers xe p m =
     (case build_users p of
        None \<Rightarrow> panic
      | Some (Inl err) \<Rightarrow> Some ((0, Some err), m)
      | Some (Inr users) \<Rightarrow>
          (case xe_GetUserManager xe m (au_Tag p) of
             Some err \<Rightarrow> Some ((0, Some (''get user manager error: '' @ err)), m)
           | None \<Rightarrow>
               (case add_memory_users xe (au_Tag p) users m of
                  (Some err, m') \<Rightarrow> Some ((0, Some err), m')
                | (None, m') \<Rightarrow> Some ((int (length users), None), m'))))"

fun del_memory_users :: "'m xray_env \<Rightarrow> string \<Rightarrow> user_info list \<Rightarrow> 'm \<Rightarrow> string option \<times> 'm" where
  "del_memory_users xe tag [] m = (None, m)"
| "del_memory_users xe tag (u # us) m =
     (let user = UserTag tag (ui_Uuid u) in
      case xe_RemoveUser xe tag user m of
        (Some err, m') \<Rightarrow> (Some err, m')
      | (None, m') \<Rightarrow> del_memory_users xe tag us
          (sh_UnregisterOnlineMap xe (userOnlineStatName tag (ui_Uuid u))
            (sh_UnregisterCounter xe (stat_down user) (sh_UnregisterCounter xe (stat_up user) m'))))"

definition xray_DelUsers :: "'m xray_env \<Rightarrow> user_info list \<Rightarrow> string \<Rightarrow> 'm \<Rightarrow> string option \<times> 'm" where
  "xray_DelUsers xe users tag m =
     (case xe_GetUserManager xe m tag of
        Some err \<Rightarrow> (Some (''get user manager error: '' @ err), m)
      | None \<Rightarrow> del_memory_users xe tag users m)"

text \<open>A method call on a nil interface panics.\<close>

definition read_counter :: "'m xray_env \<Rightarrow> bool \<Rightarrow> bool \<Rightarrow> string \<Rightarrow> 'm \<Rightarrow> int \<times> 'm" where
  "read_counter xe present reset name m =
     (if present then (if reset then sh_Set xe name 0 m else (sh_Value xe name m, m)) else (0, m))"

definition xray_GetUserTraffic :: "'m xray_env \<Rightarrow> string \<Rightarrow> string \<Rightarrow> bool \<Rightarrow> 'm \<Rightarrow> ((int \<times> int) \<times> 'm) option" where
  "xray_GetUserTraffic xe tag uuid reset m =
     (if sh_Nil xe m then panic
      else
        let upName = stat_up (UserTag tag uuid); downName = stat_down (UserTag tag uuid);
            upCounter = sh_HasCounter xe m upName; downCounter = sh_HasCounter xe m downName
        in case read_counter xe upCounter reset upName m of (up, m) \<Rightarrow>
           (case read_counter xe downCounter reset downName m of (down, m) \<Rightarrow> Some ((up, down), m)))"

section \<open>Online users\<close>

fun online_ips :: "int \<Rightarrow> string list \<Rightarrow> string list \<Rightarrow> online_user list \<Rightarrow> online_user list" where
  "online_ips uid [] seen onlineUsers = onlineUsers"
| "online_ips uid (ip # ips) seen onlineUsers =
     (let ip = NormalizeIP ip in
      if ip = '''' then online_ips uid ips seen onlineUsers
      else if ip \<in> set seen then online_ips uid ips seen onlineUsers
      else online_ips uid ips (ip # seen) (onlineUsers @ [OnlineUser uid ip]))"

fun online_of_users :: "(string \<Rightarrow> (int \<times> string list) option) \<Rightarrow> string \<Rightarrow> user_info list \<Rightarrow> online_user list \<Rightarrow> online_user list" where
  "online_of_users onlineMap tag [] onlineUsers = onlineUsers"
| "online_of_users onlineMap tag (u # us) onlineUsers =
     (case onlineMap (userOnlineStatName tag (ui_Uuid u)) of
        None \<Rightarrow> online_of_users onlineMap tag us onlineUsers
      | Some (count, ips) \<Rightarrow>
          if count = 0 then online_of_users onlineMap tag us onlineUsers
          else online_of_users onlineMap tag us (online_ips (ui_Id u) ips [] onlineUsers))"

definition xray_GetOnlineUsers :: "'m xray_env \<Rightarrow> string \<Rightarrow> user_info list \<Rightarrow> 'm \<Rightarrow> string + online_user list" where
  "xray_GetOnlineUsers xe tag users m =
     (if sh_Nil xe m then Inl ''xray stats manager is not initialized''
      else Inr (sort (online_of_users (sh_OnlineMap xe m) tag users [])))"

definition xray_GetOnlineIPMap :: "'m xray_env \<Rightarrow> string \<Rightarrow> user_info list \<Rightarrow> 'm \<Rightarrow> string + (int, string list) gomap" where
  "xray_GetOnlineIPMap xe tag users m = map_sum id
     (\<lambda>us. fold (\<lambda>u data. sm_store (UID u) (map_get [] data (UID u) @ [IP u]) data) us [])
     (xray_GetOnlineUsers xe tag users m)"

section \<open>The outbound of a node\<close>

record freedom_outbound =
  fo_Protocol :: string
  fo_Tag :: string
  fo_SendThrough :: "string option"
  fo_DomainStrategy :: string

definition normalizeDomainStrategy :: "string \<Rightarrow> string" where
  "normalizeDomainStrategy input =
     (let i = ToLower (TrimSpace input) in
      if i \<in> {'''', ''useip'', ''use_ip''} then ''UseIP''
      else if i \<in> {''asis'', ''as_is'', ''as is''} then ''AsIs''
      else if i \<in> {''ipv4_only'', ''useipv4'', ''use_ipv4'', ''ipv4''} then ''UseIPv4''
      else if i \<in> {''ipv6_only'', ''useipv6'', ''use_ipv6'', ''ipv6''} then ''UseIPv6''
      else if i \<in> {''prefer_ipv4'', ''preferipv4''} then ''PreferIPv4''
      else if i \<in> {''prefer_ipv6'', ''preferipv6''} then ''PreferIPv6''
      else input)"

text \<open>The configuration that is handed to xray-core's \<^verbatim>\<open>Build\<close>; options without an xray part are a nil dereference.\<close>

definition outbound_detour :: "options \<Rightarrow> string \<Rightarrow> freedom_outbound option" where
  "outbound_detour config tag =
     (case op_XrayOptions config of
        None \<Rightarrow> panic
      | Some x \<Rightarrow> Some
          \<lparr>fo_Protocol = ''freedom'', fo_Tag = tag,
           fo_SendThrough = (if op_SendIP config \<noteq> '''' then Some (op_SendIP config) else None),
           fo_DomainStrategy = (if xo_EnableDNS x then normalizeDomainStrategy (xo_DNSType x) else ''Asis'')\<rparr>)"

definition buildOutbound :: "(freedom_outbound \<Rightarrow> string + 'h) \<Rightarrow> options \<Rightarrow> string \<Rightarrow> (string + 'h) option" where
  "buildOutbound Build config tag = map_option Build (outbound_detour config tag)"

end
