(* ===== verification/Xray_Laws.thy ===== *)
theory Xray_Laws
  imports Xray_Users
begin

text \<open>
  What the xray core's user code does: keys of vless encryption in base64, the keys of shadowsocks users,
  and the list of online users.
\<close>

section \<open>Base64 round trip\<close>

lemma b64_val_char: "n < 64 \<Longrightarrow> b64_val (CHR ''-'') (CHR ''_'') (b64_char (CHR ''-'') (CHR ''_'') n) = Some n"
  by (auto simp: b64_val_def b64_char_def Let_def of_char_of)

lemma b64_vals_map: "\<forall>n \<in> set ns. n < 64 \<Longrightarrow> b64_vals (map (b64_char (CHR ''-'') (CHR ''_'')) ns) = Some ns"
  by (induction ns) (auto simp: b64_val_char)

lemma b64_split_bound: "\<forall>b \<in> set bs. b < 256 \<Longrightarrow> \<forall>n \<in> set (b64_split bs). n < 64"
  by (induction bs rule: b64_split.induct) auto

lemma b64_parts:
  fixes a b c :: nat
  assumes "a < 256" "b < 256" "c < 256"
  shows "(a div 4) * 4 + ((a mod 4) * 16 + b div 16) div 16 = a"
    "(((a mod 4) * 16 + b div 16) mod 16) * 16 + ((b mod 16) * 4 + c div 64) div 4 = b"
    "(((b mod 16) * 4 + c div 64) mod 4) * 64 + c mod 64 = c"
proof -
  have low: "(x * 16 + y) div 16 = x" "(x * 16 + y) mod 16 = y" if "y < 16" for x y :: nat
    using that by simp_all
  have low4: "(x * 4 + y) div 4 = x" "(x * 4 + y) mod 4 = y" if "y < 4" for x y :: nat
    using that by simp_all
  have "b div 16 < 16" "c div 64 < 4" using assms by simp_all
  then show "(a div 4) * 4 + ((a mod 4) * 16 + b div 16) div 16 = a"
    "(((a mod 4) * 16 + b div 16) mod 16) * 16 + ((b mod 16) * 4 + c div 64) div 4 = b"
    "(((b mod 16) * 4 + c div 64) mod 4) * 64 + c mod 64 = c"
    by (simp_all only: low low4) simp_all
qed

lemma b64_join_split: "\<forall>b \<in> set bs. b < 256 \<Longrightarrow> b64_join (b64_split bs) = Some bs"
proof (induction bs rule: b64_split.induct)
  case (2 a)
  then show ?case using b64_parts(1) [of a 0 0] by simp
next
  case (3 a b)
  then show ?case using b64_parts(1,2) [of a b 0] by simp
next
  case (4 a b c rest)
  then show ?case using b64_parts [of a b c] by simp
qed simp

definition url_chars :: "char set" where
  "url_chars = {c. b64_val (CHR ''-'') (CHR ''_'') c \<noteq> None}"

lemma RawURLEncoding_chars: "set (RawURLEncoding s) \<subseteq> url_chars"
proof -
  have "\<forall>n \<in> set (b64_split (map of_char s)). n < 64" by (rule b64_split_bound) simp
  then show ?thesis by (auto simp: RawURLEncoding_def url_chars_def b64_val_char)
qed

lemma not_line_end: "c \<in> url_chars \<Longrightarrow> c \<noteq> CHR 0x0A \<and> c \<noteq> CHR 0x0D"
  by (auto simp: url_chars_def b64_val_def)

lemma RawURL_roundtrip: "RawURLDecode (RawURLEncoding s) = Some (map of_char s)"
proof -
  have "filter (\<lambda>c. c \<noteq> CHR 0x0A \<and> c \<noteq> CHR 0x0D) (RawURLEncoding s) = RawURLEncoding s"
    using RawURLEncoding_chars not_line_end by (intro filter_True) blast
  moreover have "\<forall>n \<in> set (b64_split (map of_char s)). n < 64" by (rule b64_split_bound) simp
  ultimately show ?thesis
    by (simp add: RawURLDecode_def RawURLEncoding_def b64_vals_map b64_join_split)
qed

text \<open>Such a key has no space at its ends, and is not a structured value.\<close>

lemma trim_left_keeps:
  assumes "\<forall>r \<in> set rs. r \<noteq> [] \<longrightarrow> hd r \<notin> A" "set s \<subseteq> A"
  shows "trim_left rs s = s"
proof -
  have "\<not> HasPrefix s r" if "r \<in> set rs" "r \<noteq> []" for r
    using assms that by (cases r; cases s) (auto simp: HasPrefix_def)
  then have "find (\<lambda>r. r \<noteq> [] \<and> HasPrefix s r) rs = None" by (auto simp: find_None_iff)
  then show ?thesis by (subst trim_left.simps) simp
qed

lemma char_of_neq: "n < 256 \<Longrightarrow> n \<noteq> of_char c \<Longrightarrow> char_of n \<noteq> c" for n :: nat
  by (metis of_char_of mod_less)

lemma b64_val_other: "n < 48 \<or> 127 < n \<Longrightarrow> n < 256 \<Longrightarrow> n \<noteq> 45 \<Longrightarrow>
    b64_val (CHR ''-'') (CHR ''_'') (char_of n) = None" for n :: nat
  using char_of_neq [of n "CHR ''-''"] char_of_neq [of n "CHR ''_''"]
  by (auto simp: b64_val_def Let_def of_char_of)

lemma url_no_space: "\<forall>r \<in> set space_runes. hd r \<notin> url_chars" "\<forall>r \<in> set (map rev space_runes). hd r \<notin> url_chars"
  by (simp_all add: space_runes_def url_chars_def b64_val_other)

lemma TrimSpace_key [simp]: "set s \<subseteq> url_chars \<Longrightarrow> TrimSpace s = s"
  using trim_left_keeps [OF _ , of space_runes url_chars s] trim_left_keeps [of "map rev space_runes" url_chars "rev s"] url_no_space
  by (simp add: TrimSpace_def)

lemma key_not_structured: "set s \<subseteq> url_chars \<Longrightarrow> \<not> isStructuredVlessEncryptionValue s"
proof
  assume s: "set s \<subseteq> url_chars" "isStructuredVlessEncryptionValue s"
  then obtain r where "s = vlessEncryptionPrefix @ r"
    by (auto simp: isStructuredVlessEncryptionValue_def HasPrefix_iff)
  with s(1) have "CHR ''.'' \<in> url_chars" by (auto simp: vlessEncryptionPrefix_def)
  then show False by (simp add: url_chars_def b64_val_def)
qed

lemma RawURLEncoding_nonempty: "s \<noteq> [] \<Longrightarrow> RawURLEncoding s \<noteq> []"
  by (cases "map of_char s :: nat list" rule: b64_split.cases) (auto simp: RawURLEncoding_def)

lemma raw_key: "isRawBase64URLKey (RawURLEncoding k) lens \<longleftrightarrow> length k \<in> set lens"
  by (simp add: isRawBase64URLKey_def RawURL_roundtrip)

lemmas key_sizes = vlessEncryptionX25519KeySize_def vlessEncryptionMlkemSeedSize_def vlessEncryptionMlkemCipherKeySize_def

lemma resolve_eq:
  "resolveVlessInboundDecryption (Some v) = (let d = TrimSpace (va_Decryption v) in
     if d = [] then ''none'' else if isStructuredVlessEncryptionValue d then d
     else if isRawBase64URLKey d [32, 64] then vlessEncryptionInboundMode @ d else d)"
  "resolveVlessOutboundEncryption (Some v) = (let d = TrimSpace (va_Encryption v) in
     if d = [] then [] else if isStructuredVlessEncryptionValue d then d
     else if isRawBase64URLKey d [32, 1184] then vlessEncryptionOutboundMode @ d else d)"
  by (simp_all add: resolveVlessInboundDecryption_def resolveVlessOutboundEncryption_def HasVlessInboundDecryption_def
      HasVlessOutboundEncryption_def NormalizedDecryption_def NormalizedEncryption_def key_sizes Let_def)

lemma modes: "vlessEncryptionInboundMode = vlessEncryptionPrefix @ ''native.600s.''"
  "vlessEncryptionOutboundMode = vlessEncryptionPrefix @ ''native.0rtt.''"
  by (simp_all add: vlessEncryptionInboundMode_def vlessEncryptionOutboundMode_def vlessEncryptionPrefix_def)

lemma resolve_key:
  assumes "k \<noteq> []"
  shows "TrimSpace (va_Decryption v) = RawURLEncoding k \<Longrightarrow> resolveVlessInboundDecryption (Some v) =
      (if length k = 32 \<or> length k = 64 then vlessEncryptionPrefix @ ''native.600s.'' @ RawURLEncoding k else RawURLEncoding k)"
    and "TrimSpace (va_Encryption v) = RawURLEncoding k \<Longrightarrow> resolveVlessOutboundEncryption (Some v) =
      (if length k = 32 \<or> length k = 1184 then vlessEncryptionPrefix @ ''native.0rtt.'' @ RawURLEncoding k else RawURLEncoding k)"
  using RawURLEncoding_nonempty [OF assms] key_not_structured [OF RawURLEncoding_chars, of k]
  by (simp_all add: resolve_eq raw_key modes)

lemma resolve_structured:
  "TrimSpace (va_Decryption v) = vlessEncryptionPrefix @ rest \<Longrightarrow>
    resolveVlessInboundDecryption (Some v) = vlessEncryptionPrefix @ rest"
proof -
  have "vlessEncryptionPrefix \<noteq> []" by (simp add: vlessEncryptionPrefix_def)
  then show "TrimSpace (va_Decryption v) = vlessEncryptionPrefix @ rest \<Longrightarrow>
      resolveVlessInboundDecryption (Some v) = vlessEncryptionPrefix @ rest"
    by (simp add: resolve_eq isStructuredVlessEncryptionValue_def)
qed

text \<open>The keys of vless encryption. A blank value (or no node) turns it off. A value that is structured already
  is used as it is. Every key of the right size, 32 or 64 bytes for the inbound and 32 or 1184 bytes for the
  outbound, written in unpadded URL base64 and possibly with spaces around it, is recognised and becomes a structured
  value with the mode in front; a key of any other size is passed on unchanged.\<close>

theorem vless_encryption_keys:
  "(TrimSpace (va_Decryption v) = '''' \<longrightarrow> resolveVlessInboundDecryption (Some v) = ''none'') \<and>
   (TrimSpace (va_Encryption v) = '''' \<longrightarrow> resolveVlessOutboundEncryption (Some v) = '''') \<and>
   (\<forall>rest. TrimSpace (va_Decryption v) = vlessEncryptionPrefix @ rest \<longrightarrow>
      resolveVlessInboundDecryption (Some v) = vlessEncryptionPrefix @ rest) \<and>
   (\<forall>k. k \<noteq> [] \<longrightarrow> TrimSpace (va_Decryption v) = RawURLEncoding k \<longrightarrow> resolveVlessInboundDecryption (Some v) =
      (if length k = 32 \<or> length k = 64 then vlessEncryptionPrefix @ ''native.600s.'' @ RawURLEncoding k else RawURLEncoding k)) \<and>
   (\<forall>k. k \<noteq> [] \<longrightarrow> TrimSpace (va_Encryption v) = RawURLEncoding k \<longrightarrow> resolveVlessOutboundEncryption (Some v) =
      (if length k = 32 \<or> length k = 1184 then vlessEncryptionPrefix @ ''native.0rtt.'' @ RawURLEncoding k else RawURLEncoding k))"
  using resolve_key resolve_structured by (simp add: resolve_eq)

section \<open>Shadowsocks users\<close>

text \<open>The keys of shadowsocks users. Building the users panics exactly if there is a server key and some uuid
  is shorter than the key of the cipher. With a server key and a cipher other than the three of
  2022, every user gets the same empty key.\<close>

theorem ss_user_keys:
  "(buildSSUsers tag users cypher serverKey = None \<longleftrightarrow>
      serverKey \<noteq> '''' \<and> \<not> list_all (\<lambda>u. ss_key_length cypher \<le> length (ui_Uuid u)) users) \<and>
   (\<forall>xs. serverKey \<noteq> '''' \<longrightarrow> buildSSUsers tag users cypher serverKey = Some xs \<longrightarrow>
      map xu_Account xs = map (\<lambda>u. SS2022Account (StdEncoding (take (ss_key_length cypher) (ui_Uuid u)))) users \<and>
      (ss_key_length cypher = 0 \<longrightarrow> list_all (\<lambda>x. xu_Account x = SS2022Account '''') xs))"
proof -
  have one: "buildSSUser tag u cypher serverKey = None \<longleftrightarrow> serverKey \<noteq> '''' \<and> length (ui_Uuid u) < ss_key_length cypher" for u
    by (simp add: buildSSUser_def)
  have acc: "xu_Account x = SS2022Account (StdEncoding (take (ss_key_length cypher) (ui_Uuid u)))"
    if "serverKey \<noteq> ''''" "buildSSUser tag u cypher serverKey = Some x" for u x
    using that by (auto simp: buildSSUser_def split: if_splits)
  have "buildSSUsers tag users cypher serverKey = None \<longleftrightarrow>
      serverKey \<noteq> '''' \<and> \<not> list_all (\<lambda>u. ss_key_length cypher \<le> length (ui_Uuid u)) users"
  proof (induction users)
    case (Cons u users)
    then show ?case using one [of u] by (cases "buildSSUser tag u cypher serverKey"; cases "buildSSUsers tag users cypher serverKey") auto
  qed simp
  moreover have "map xu_Account xs = map (\<lambda>u. SS2022Account (StdEncoding (take (ss_key_length cypher) (ui_Uuid u)))) users"
    if "serverKey \<noteq> ''''" "buildSSUsers tag users cypher serverKey = Some xs" for xs
    using that by (induction users arbitrary: xs) (auto simp: bind_eq_Some_conv acc)
  moreover have "list_all (\<lambda>x. xu_Account x = SS2022Account '''') xs"
    if "map xu_Account xs = map (\<lambda>u. SS2022Account (StdEncoding (take 0 (ui_Uuid u)))) users" for xs
    using that by (induction xs arbitrary: users) (auto simp: StdEncoding_def)
  ultimately show ?thesis by (intro conjI allI impI) simp_all
qed

section \<open>Online users\<close>

lemma set_online_ips:
  "set seen = {ip. OnlineUser uid ip \<in> set out} \<inter> set seen \<Longrightarrow>
   set (online_ips uid ips seen out) = set out \<union> {OnlineUser uid (NormalizeIP a) | a. a \<in> set ips \<and> NormalizeIP a \<noteq> ''''}"
proof (induction uid ips seen out rule: online_ips.induct)
  case (2 uid ip ips seen out)
  let ?ip = "NormalizeIP ip"
  show ?case
  proof (cases "?ip = '''' \<or> ?ip \<in> set seen")
    case True
    with 2 show ?thesis by (auto simp: Let_def)
  next
    case False
    have "set (?ip # seen) = {a. OnlineUser uid a \<in> set (out @ [OnlineUser uid ?ip])} \<inter> set (?ip # seen)"
      using "2.prems" by auto
    with 2(3) [OF refl] False show ?thesis by (auto simp: Let_def)
  qed
qed simp

definition online_of :: "(string \<Rightarrow> (int \<times> string list) option) \<Rightarrow> string \<Rightarrow> user_info \<Rightarrow> string list" where
  "online_of onlineMap tag u = (case onlineMap (userOnlineStatName tag (ui_Uuid u)) of
     None \<Rightarrow> [] | Some (n, ips) \<Rightarrow> if n = 0 then [] else ips)"

text \<open>The addresses of a user, as online users.\<close>

definition online_entries :: "(string \<Rightarrow> (int \<times> string list) option) \<Rightarrow> string \<Rightarrow> user_info \<Rightarrow> online_user set" where
  "online_entries om tag u = OnlineUser (ui_Id u) ` clean_ips (online_of om tag u)"

lemma set_online_of_users:
  "set (online_of_users om tag users out) = set out \<union> (\<Union>u \<in> set users. online_entries om tag u)"
proof (induction users arbitrary: out)
  case (Cons u us)
  show ?case
  proof (cases "om (userOnlineStatName tag (ui_Uuid u))")
    case None
    then show ?thesis by (simp add: Cons.IH online_entries_def online_of_def)
  next
    case (Some x)
    obtain n ips where x: "x = (n, ips)" by force
    have "set (online_ips (ui_Id u) ips [] out) = set out \<union> OnlineUser (ui_Id u) ` clean_ips ips"
      by (auto simp: set_online_ips clean_ips_def)
    with Some x show ?thesis
      by (cases "n = 0") (simp_all add: Cons.IH online_entries_def online_of_def Un_assoc)
  qed
qed simp

text \<open>The online users of the xray core are sorted by uid and address, and are exactly the normalised, nonempty
  addresses that the statistics hold for the users of the list.\<close>

theorem xray_online_users:
  assumes "xray_GetOnlineUsers xe tag users m = Inr us"
  shows "sorted us \<and> set us = (\<Union>u \<in> set users. online_entries (sh_OnlineMap xe m) tag u)"
  using assms by (auto simp: xray_GetOnlineUsers_def set_online_of_users split: if_splits)

section \<open>Witnesses\<close>

definition demo_vallss :: vallss_node where
  "demo_vallss = \<lparr>va_Common = zero_common, va_Tls = 0, va_TlsSettings = \<lparr>ts_ServerName = [], ts_Dest = [], ts_ServerPort = [],
     ts_ShortId = [], ts_PrivateKey = [], ts_Xver = 0, ts_ECH = zero_ech\<rparr>, va_TlsSettingsBack = None, va_ECH = zero_ech,
     va_Network = ''tcp'', va_NetworkSettings = [], va_NetworkSettingsBack = [], va_ServerName = [], va_Encryption = [],
     va_Decryption = RawURLEncoding (replicate 32 (CHR ''k'')), va_Flow = [],
     va_RealityConfig = \<lparr>re_Xver = 0, re_MinClientVer = [], re_MaxClientVer = [], re_MaxTimeDiff = []\<rparr>\<rparr>"

lemma vless_encryption_keys_witness:
  "resolveVlessInboundDecryption (Some demo_vallss) =
     vlessEncryptionPrefix @ ''native.600s.'' @ RawURLEncoding (replicate 32 (CHR ''k''))"
proof -
  have "TrimSpace (va_Decryption demo_vallss) = RawURLEncoding (replicate 32 (CHR ''k''))"
    by (simp add: demo_vallss_def RawURLEncoding_chars)
  moreover have "replicate 32 (CHR ''k'') \<noteq> []" "length (replicate 32 (CHR ''k'')) = 32" by simp_all
  ultimately show ?thesis using vless_encryption_keys [of demo_vallss] by metis
qed

definition demo_ss_users :: "user_info list" where
  "demo_ss_users = [\<lparr>ui_Id = 1, ui_Uuid = ''a'', ui_SpeedLimit = 0, ui_DeviceLimit = 0\<rparr>,
     \<lparr>ui_Id = 2, ui_Uuid = ''b'', ui_SpeedLimit = 0, ui_DeviceLimit = 0\<rparr>]"

lemma ss_user_keys_witness:
  "buildSSUsers ''n'' demo_ss_users ''2022-blake3-aes-128-gcm'' ''k'' = None \<and>
   map_option (map xu_Account) (buildSSUsers ''n'' demo_ss_users ''aes-128-gcm'' ''k'') = Some [SS2022Account '''', SS2022Account '''']"
proof -
  have "buildSSUsers ''n'' demo_ss_users ''2022-blake3-aes-128-gcm'' ''k'' = None"
    using ss_user_keys [of "''n''" demo_ss_users "''2022-blake3-aes-128-gcm''" "''k''"]
    by (simp add: demo_ss_users_def ss_key_length_def)
  moreover obtain xs where "buildSSUsers ''n'' demo_ss_users ''aes-128-gcm'' ''k'' = Some xs"
    using ss_user_keys [of "''n''" demo_ss_users "''aes-128-gcm''" "''k''"] by (auto simp: ss_key_length_def list_all_iff)
  ultimately show ?thesis
    using ss_user_keys [of "''n''" demo_ss_users "''aes-128-gcm''" "''k''"]
    by (simp add: demo_ss_users_def ss_key_length_def StdEncoding_def)
qed

definition demo_xray_env :: "unit xray_env" where
  "demo_xray_env = \<lparr>xe_GetUserManager = (\<lambda>_ _. None), xe_ToMemoryUser = (\<lambda>_. None), xe_AddUser = (\<lambda>_ _ m. (None, m)),
     xe_RemoveUser = (\<lambda>_ _ m. (None, m)), sh_Nil = (\<lambda>_. False), sh_HasCounter = (\<lambda>_ _. False), sh_Value = (\<lambda>_ _. 0),
     sh_Set = (\<lambda>_ _ m. (0, m)), sh_UnregisterCounter = (\<lambda>_ m. m), sh_UnregisterOnlineMap = (\<lambda>_ m. m),
     sh_OnlineMap = (\<lambda>_ name. if name = userOnlineStatName ''n'' ''a'' then Some (2, [''10.0.0.1'', ''::ffff:10.0.0.1'']) else None)\<rparr>"

lemma xray_online_users_witness:
  "\<exists>us. xray_GetOnlineUsers demo_xray_env ''n'' demo_ss_users () = Inr us \<and> set us = {OnlineUser 1 ''10.0.0.1''}"
proof -
  let ?us = "projr (xray_GetOnlineUsers demo_xray_env ''n'' demo_ss_users ())"
  have *: "xray_GetOnlineUsers demo_xray_env ''n'' demo_ss_users () = Inr ?us"
    by (simp add: xray_GetOnlineUsers_def demo_xray_env_def)
  have "set ?us = {OnlineUser 1 ''10.0.0.1''}"
    using xray_online_users [OF *]
    by (simp add: demo_ss_users_def online_entries_def online_of_def demo_xray_env_def userOnlineStatName_def
        UserTag_def NormalizeIP_def TrimPrefix_def HasPrefix_def)
  with * show ?thesis by blast
qed

end
