(* ===== verification/Controller.thy ===== *)
theory Controller
  imports Selector User_Diff Online_Report Panel_User
begin

text \<open>
  The controller of a node, \<^verbatim>\<open>node/controller.go\<close>, \<^verbatim>\<open>task.go\<close>, \<^verbatim>\<open>user.go\<close>, \<^verbatim>\<open>online.go\<close> and \<^verbatim>\<open>cert.go\<close>:
  one state with the controller's fields and what its pointers reach: the core, the registry of limiters
  and the panel client. Each handler runs to its end in one step. Its surroundings (the answers of the panel, the
  clock, the regular expressions, the certificate client of \<^verbatim>\<open>lego.go\<close>) are a record of functions, given
  anew to each handler. A periodic task is its interval, \<^term>\<open>None\<close> when there is none: what a task does
  over time is the theory \<open>Periodic_Task\<close>.
\<close>

section \<open>State and surroundings\<close>

record 's reporter =
  rp_GetOnlineUsers :: "string \<Rightarrow> user_info list \<Rightarrow> 's \<Rightarrow> string + online_user list"
  rp_GetOnlineIPMap :: "string \<Rightarrow> user_info list \<Rightarrow> 's \<Rightarrow> string + (int, string list) gomap"

text \<open>A core, and its second interface when it has it.\<close>

record 's core_server =
  sv_ops :: "'s core_ops"
  sv_reporter :: "'s reporter option"

record ('re, 's) controller =
  nd_server :: 's
  nd_registry :: "'re registry"
  nd_apiClient :: panel_client
  nd_tag :: string
  nd_limiter :: "nat option"
  nd_traffic :: "(string, int) gomap option"
  nd_userList :: "user_info list"
  nd_aliveMap :: "(int, int) gomap"
  nd_info :: "node_info option"
  nd_nodeInfoMonitor :: "int option"
  nd_userReport :: "int option"
  nd_renewCert :: "int option"
  nd_dynamicSpeedLimit :: "int option"
  nd_onlineIpReport :: "int option"
  nd_Options :: options

record 're ctrl_env =
  ev_now :: int
  ev_Compile :: "string \<Rightarrow> 're option"
  ev_codec :: codec
  ev_hash :: "string \<Rightarrow> string"
  ev_alive :: alive_codec
  ev_node_get :: "string \<Rightarrow> string \<Rightarrow> http_result"
  ev_user_get :: "string \<Rightarrow> string \<Rightarrow> http_result"
  ev_alive_get :: "string \<Rightarrow> http_result"
  ev_sync_alive_get :: "string \<Rightarrow> http_result"
  ev_report_online :: server
  ev_report_traffic :: server
  ev_sync_online :: server
  ev_IsExist :: "string \<Rightarrow> bool"
  ev_NewLego :: "cert_config \<Rightarrow> string option"
  ev_CreateCert :: "cert_config \<Rightarrow> string option"
  ev_SelfCert :: "string \<Rightarrow> string \<Rightarrow> string \<Rightarrow> string option"

text \<open>\<open>Hang\<close> is a handler that waits for ever, with the state it leaves behind.\<close>

datatype 'w outcome = Done 'w | Panic | Hang 'w

definition done_or_panic :: "'w option \<Rightarrow> 'w outcome" where
  "done_or_panic r = (case r of None \<Rightarrow> Panic | Some w \<Rightarrow> Done w)"

definition NewController :: "'s \<Rightarrow> 're registry \<Rightarrow> panel_client \<Rightarrow> options \<Rightarrow> ('re, 's) controller" where
  "NewController server reg api config =
     \<lparr>nd_server = server, nd_registry = reg, nd_apiClient = api, nd_tag = [], nd_limiter = None, nd_traffic = None,
      nd_userList = [], nd_aliveMap = [], nd_info = None, nd_nodeInfoMonitor = None, nd_userReport = None,
      nd_renewCert = None, nd_dynamicSpeedLimit = None, nd_onlineIpReport = None, nd_Options = config\<rparr>"

definition buildNodeTag :: "panel_client \<Rightarrow> node_info \<Rightarrow> string" where
  "buildNodeTag c node = ''['' @ pc_APIHost c @ '']-'' @ ni_Type node @ '':'' @ Itoa (ni_Id node)"

section \<open>Intervals\<close>

definition normalizedPushInterval :: "panel_client \<Rightarrow> int \<Rightarrow> int" where
  "normalizedPushInterval c interval0 =
     (let interval = (if interval0 \<le> 0 then 60 * Second else interval0) in
      if pc_PanelType c \<noteq> ''ppanel'' then
        (let interval = (if interval < 20 * Second then 20 * Second else interval) in
         if interval > 4 * Minute then 4 * Minute else interval)
      else interval)"

definition dynamicSpeedLimitEnabled :: "options \<Rightarrow> bool" where
  "dynamicSpeedLimitEnabled opt \<longleftrightarrow>
     lc_EnableDynamicSpeedLimit (op_LimitConfig opt) \<and> lc_DynamicSpeedLimitConfig (op_LimitConfig opt) \<noteq> None"

definition dynamicSpeedLimitInterval :: "options \<Rightarrow> int" where
  "dynamicSpeedLimitInterval opt =
     (case lc_DynamicSpeedLimitConfig (op_LimitConfig opt) of
        Some d \<Rightarrow> if dynamicSpeedLimitEnabled opt \<and> dy_Periodic d > 0 then i64 (dy_Periodic d * Second) else 60 * Second
      | None \<Rightarrow> 60 * Second)"

definition onlineIPSyncEnabled :: "panel_client \<Rightarrow> options \<Rightarrow> user_info list \<Rightarrow> bool" where
  "onlineIPSyncEnabled c opt users =
     (if pc_PanelType c = ''ppanel'' then False
      else if lc_EnableIpRecorder (op_LimitConfig opt) \<and>
        (case lc_IpRecorderConfig (op_LimitConfig opt) of None \<Rightarrow> False | Some r \<Rightarrow> ir_EnableIpSync r) then True
      else list_ex (\<lambda>user. ui_DeviceLimit user > 0) users)"

definition onlineIPSyncInterval :: "options \<Rightarrow> int" where
  "onlineIPSyncInterval opt =
     (case lc_IpRecorderConfig (op_LimitConfig opt) of
        Some r \<Rightarrow> if ir_Periodic r > 0 then i64 (ir_Periodic r * Second) else 30 * Second
      | None \<Rightarrow> 30 * Second)"

section \<open>The traffic record\<close>

text \<open>The map is \<^term>\<open>None\<close> when nil.\<close>

definition resetTraffic :: "('re, 's) controller \<Rightarrow> ('re, 's) controller" where
  "resetTraffic n = n\<lparr>nd_traffic := Some []\<rparr>"

definition addTraffic :: "string \<Rightarrow> int \<Rightarrow> (string, int) gomap option \<Rightarrow> (string, int) gomap option" where
  "addTraffic uuid traffic m =
     (if traffic \<le> 0 then m
      else let m' = (case m of None \<Rightarrow> [] | Some m \<Rightarrow> m) in
        Some (sm_store uuid (i64 (map_get 0 m' uuid + traffic)) m'))"

definition deleteTraffic :: "string \<Rightarrow> (string, int) gomap option \<Rightarrow> (string, int) gomap option" where
  "deleteTraffic uuid m = map_option (sm_delete uuid) m"

text \<open>The loop ranges over the map and deletes from it; each entry is visited once.\<close>

fun consume :: "int \<Rightarrow> (string \<times> int) list \<Rightarrow> string list \<times> (string, int) gomap \<Rightarrow> string list \<times> (string, int) gomap" where
  "consume threshold [] acc = acc"
| "consume threshold ((uuid, traffic) # rest) (matched, m) =
     (if traffic \<ge> threshold then consume threshold rest (matched @ [uuid], sm_delete uuid m)
      else consume threshold rest (matched, m))"

definition consumeDynamicSpeedLimitUsers :: "options \<Rightarrow> (string, int) gomap option \<Rightarrow> string list \<times> (string, int) gomap option" where
  "consumeDynamicSpeedLimitUsers opt m =
     (if \<not> dynamicSpeedLimitEnabled opt then ([], m)
      else (case lc_DynamicSpeedLimitConfig (op_LimitConfig opt) of
          None \<Rightarrow> ([], m)
        | Some d \<Rightarrow>
            if dy_Traffic d \<le> 0 then ([], m)
            else (case m of
                None \<Rightarrow> ([], m)
              | Some t \<Rightarrow> (case consume (dy_Traffic d) t ([], t) of (matched, t') \<Rightarrow> (matched, Some t')))))"

section \<open>The limiter of the controller\<close>

text \<open>A method on the limiter; it dereferences a pointer that may be nil.\<close>

definition on_limiter :: "('re limiter \<Rightarrow> 're limiter) \<Rightarrow> ('re, 's) controller \<Rightarrow> ('re, 's) controller option" where
  "on_limiter f n = (case nd_limiter n of
     None \<Rightarrow> panic | Some a \<Rightarrow> Some (n\<lparr>nd_registry := heap_update a f (nd_registry n)\<rparr>))"

fun speed_check :: "'re ctrl_env \<Rightarrow> dynamic_limit_config \<Rightarrow> string list \<Rightarrow> ('re, 's) controller \<Rightarrow> ('re, 's) controller option" where
  "speed_check ev d [] n = Some n"
| "speed_check ev d (uuid # uuids) n =
     (case on_limiter (\<lambda>l. case UpdateDynamicSpeedLimit (nd_tag n) uuid (dy_SpeedLimit d)
           (ev_now ev + i64 (dy_ExpireTime d * Minute)) l of Inl _ \<Rightarrow> l | Inr l' \<Rightarrow> l') n of
        None \<Rightarrow> panic
      | Some n' \<Rightarrow> speed_check ev d uuids n')"

definition SpeedChecker :: "'re ctrl_env \<Rightarrow> ('re, 's) controller \<Rightarrow> ('re, 's) controller option" where
  "SpeedChecker ev n =
     (if \<not> dynamicSpeedLimitEnabled (nd_Options n) then Some n
      else (case lc_DynamicSpeedLimitConfig (op_LimitConfig (nd_Options n)) of
          None \<Rightarrow> Some n
        | Some d \<Rightarrow>
            (case consumeDynamicSpeedLimitUsers (nd_Options n) (nd_traffic n) of (uuids, m) \<Rightarrow>
               speed_check ev d uuids (n\<lparr>nd_traffic := m\<rparr>))))"

section \<open>Certificates\<close>

definition requestCert :: "'re ctrl_env \<Rightarrow> options \<Rightarrow> string option option" where
  "requestCert ev opt =
     (case op_CertConfig opt of
        None \<Rightarrow> panic
      | Some cc \<Rightarrow>
          let mode = cc_CertMode cc;
              no_path = (cc_CertFile cc = '''' \<or> cc_KeyFile cc = '''');
              exists = (ev_IsExist ev (cc_CertFile cc) \<and> ev_IsExist ev (cc_KeyFile cc));
              bad = Some ''cert file path or key file path not exist''
          in Some (if mode = ''none'' \<or> mode = '''' then None
             else if mode = ''file'' then (if no_path then bad else None)
             else if mode = ''dns'' \<or> mode = ''http'' then
               (if no_path then bad else if exists then None
                else (case ev_NewLego ev cc of
                    Some err \<Rightarrow> Some (''create lego object error: '' @ err)
                  | None \<Rightarrow> map_option (\<lambda>err. ''create lego cert error: '' @ err) (ev_CreateCert ev cc)))
             else if mode = ''self'' then
               (if no_path then bad else if exists then None
                else map_option (\<lambda>err. ''generate self cert error: '' @ err)
                  (ev_SelfCert ev (cc_CertDomain cc) (cc_CertFile cc) (cc_KeyFile cc)))
             else Some (''unsupported certmode: '' @ mode)))"

section \<open>Online users\<close>

definition getOnlineUsers :: "'s core_server \<Rightarrow> ('re, 's) controller \<Rightarrow> (string + online_user list) \<times> ('re, 's) controller" where
  "getOnlineUsers sv n =
     (case sv_reporter sv of
        Some rp \<Rightarrow> (rp_GetOnlineUsers rp (nd_tag n) (nd_userList n) (nd_server n), n)
      | None \<Rightarrow>
          (case nd_limiter n of
             None \<Rightarrow> (Inr [], n)
           | Some a \<Rightarrow> (Inr (fst (GetOnlineDevice (rg_heap (nd_registry n) ! a))),
               n\<lparr>nd_registry := heap_update a (\<lambda>l. snd (GetOnlineDevice l)) (nd_registry n)\<rparr>)))"

definition getOnlineIPMap :: "'s core_server \<Rightarrow> ('re, 's) controller \<Rightarrow> string + (int, string list) gomap" where
  "getOnlineIPMap sv n =
     (case sv_reporter sv of
        Some rp \<Rightarrow> rp_GetOnlineIPMap rp (nd_tag n) (nd_userList n) (nd_server n)
      | None \<Rightarrow>
          (case nd_limiter n of
             None \<Rightarrow> Inr []
           | Some a \<Rightarrow> Inr (GetOnlineIPMap (rg_heap (nd_registry n) ! a))))"

section \<open>The report of traffic\<close>

text \<open>The loop over the users: the core after reading, and thereby resetting, each counter, the record of
  traffic, and the list to report.\<close>

fun count_users :: "'s core_ops \<Rightarrow> string \<Rightarrow> bool \<Rightarrow> user_info list \<Rightarrow> 's \<times> (string, int) gomap option \<times> user_traffic list \<Rightarrow>
    ('s \<times> (string, int) gomap option \<times> user_traffic list) option" where
  "count_users ops tag dynamic [] acc = Some acc"
| "count_users ops tag dynamic (u # us) (s, m, ts) =
     (case co_GetUserTraffic ops tag (ui_Uuid u) True s of
        None \<Rightarrow> panic
      | Some ((up, down), s') \<Rightarrow>
          if up > 0 \<or> down > 0 then
            count_users ops tag dynamic us (s', if dynamic then addTraffic (ui_Uuid u) (i64 (up + down)) m else m,
              ts @ [\<lparr>ut_UID = ui_Id u, ut_Upload = up, ut_Download = down, ut_Key = ''''\<rparr>])
          else count_users ops tag dynamic us (s', m, ts))"

text \<open>The users whose traffic is too small for their devices to be reported.\<close>

definition nocountUID :: "panel_client \<Rightarrow> options \<Rightarrow> user_traffic list \<Rightarrow> int list" where
  "nocountUID c opt ts =
     (if pc_PanelType c = ''ppanel'' \<and> op_DeviceOnlineMinTraffic opt > 0
      then map ut_UID (filter (\<lambda>t. i64 (ut_Upload t + ut_Download t) < i64 (op_DeviceOnlineMinTraffic opt * 1000)) ts)
      else [])"

text \<open>What was reported: the payload of online users, if any, the traffic, and the error of that report.\<close>

record report_log =
  rl_online :: "(int, string list) gomap option"
  rl_traffic :: "user_traffic list"
  rl_traffic_err :: "string option"

definition report_online :: "'re ctrl_env \<Rightarrow> 's core_server \<Rightarrow> user_traffic list \<Rightarrow> ('re, 's) controller \<Rightarrow>
    ((int, string list) gomap option \<times> ('re, 's) controller) option" where
  "report_online ev sv ts n =
     (case getOnlineUsers sv n of
        (Inl _, n') \<Rightarrow> Some (None, n')
      | (Inr online, n') \<Rightarrow>
          let onlineDevice = dedupeOnlineUsersByIP online;
              result = filter (\<lambda>u. UID u \<notin> set (nocountUID (nd_apiClient n) (nd_Options n) ts)) onlineDevice;
              data = buildOnlineIPPayload result
          in (case ReportNodeOnlineUsers (ev_report_online ev) (nd_apiClient n) (Some data) of
                None \<Rightarrow> panic | Some _ \<Rightarrow> Some (Some data, n')))"

text \<open>The report of the system's status has no effect on the state and its errors are only logged.\<close>

definition reportUserTrafficTask :: "'re ctrl_env \<Rightarrow> 's core_server \<Rightarrow> ('re, 's) controller \<Rightarrow>
    (report_log \<times> ('re, 's) controller) option" where
  "reportUserTrafficTask ev sv n =
     (case count_users (sv_ops sv) (nd_tag n) (dynamicSpeedLimitEnabled (nd_Options n)) (nd_userList n)
         (nd_server n, nd_traffic n, []) of
        None \<Rightarrow> panic
      | Some (s', m', ts) \<Rightarrow>
          (case report_online ev sv ts (n\<lparr>nd_server := s', nd_traffic := m'\<rparr>) of
             None \<Rightarrow> panic
           | Some (online, n') \<Rightarrow>
               if ts \<noteq> [] then
                 (case ReportUserTraffic (ev_report_traffic ev) (nd_apiClient n') ts of
                    None \<Rightarrow> panic
                  | Some (err, _) \<Rightarrow> Some (\<lparr>rl_online = online, rl_traffic = ts, rl_traffic_err = err\<rparr>, n'))
               else Some (\<lparr>rl_online = online, rl_traffic = ts, rl_traffic_err = None\<rparr>, n')))"

section \<open>Synchronising online addresses\<close>

definition syncOnlineUsersTask :: "'re ctrl_env \<Rightarrow> 's core_server \<Rightarrow> ('re, 's) controller \<Rightarrow> ('re, 's) controller option" where
  "syncOnlineUsersTask ev sv n =
     (if nd_limiter n = None then Some n
      else (case getOnlineIPMap sv n of
          Inl _ \<Rightarrow> Some n
        | Inr data0 \<Rightarrow>
            let data = buildOnlineIPMapPayload (Some (dedupeOnlineIPMapByIP (dedupeOnlineIPMapByIP data0))) in
            (case ReportNodeOnlineUsers (ev_sync_online ev) (nd_apiClient n) (Some data) of
               None \<Rightarrow> panic
             | Some _ \<Rightarrow>
                 (case GetUserAlive (ev_alive ev) (ev_sync_alive_get ev) (nd_apiClient n) of
                    None \<Rightarrow> panic
                  | Some (aliveMap, c) \<Rightarrow>
                      on_limiter (SetAliveList aliveMap) (n\<lparr>nd_apiClient := c, nd_aliveMap := aliveMap\<rparr>)))))"

text \<open>Starting the task runs it once.\<close>

definition ensureOnlineIPSyncTask :: "'re ctrl_env \<Rightarrow> 's core_server \<Rightarrow> ('re, 's) controller \<Rightarrow> ('re, 's) controller option" where
  "ensureOnlineIPSyncTask ev sv n =
     (if \<not> onlineIPSyncEnabled (nd_apiClient n) (nd_Options n) (nd_userList n) then Some (n\<lparr>nd_onlineIpReport := None\<rparr>)
      else if nd_onlineIpReport n = Some (onlineIPSyncInterval (nd_Options n)) then Some n
      else syncOnlineUsersTask ev sv (n\<lparr>nd_onlineIpReport := Some (onlineIPSyncInterval (nd_Options n))\<rparr>))"

end
