(* ===== verification/Controller_Run.thy ===== *)
theory Controller_Run
  imports Controller
begin

text \<open>
  \<^verbatim>\<open>Start\<close>, \<^verbatim>\<open>Close\<close> and the monitor of a controller (\<^verbatim>\<open>node/controller.go\<close>, \<^verbatim>\<open>task.go\<close>). The monitor runs
  inside its own periodic task, which holds its mutex while it executes: closing that task from
  within is the deadlock of \<open>Periodic_Task.self_close_deadlocks\<close>, here the outcome \<open>Hang\<close>.
\<close>

section \<open>Starting\<close>

definition cert_renewed :: "string \<Rightarrow> bool" where
  "cert_renewed mode = (mode \<notin> {''none'', '''', ''file'', ''self''})"

definition cert_task :: "node_info \<Rightarrow> ('re, 's) controller \<Rightarrow> ('re, 's) controller option" where
  "cert_task node n =
     (if ni_Security node = Tls then
        (case op_CertConfig (nd_Options n) of
           None \<Rightarrow> panic
         | Some cc \<Rightarrow> Some (if cert_renewed (cc_CertMode cc) then n\<lparr>nd_renewCert := Some (Hour * 24)\<rparr> else n))
      else Some n)"

definition speed_task :: "('re, 's) controller \<Rightarrow> ('re, 's) controller" where
  "speed_task n =
     (if dynamicSpeedLimitEnabled (nd_Options n)
      then (resetTraffic n)\<lparr>nd_dynamicSpeedLimit := Some (dynamicSpeedLimitInterval (nd_Options n))\<rparr> else n)"

text \<open>The first report is part of starting its task; the renewal of a certificate touches only files.\<close>

definition startTasks :: "'re ctrl_env \<Rightarrow> 's core_server \<Rightarrow> node_info \<Rightarrow> ('re, 's) controller \<Rightarrow> ('re, 's) controller option" where
  "startTasks ev sv node n =
     (case reportUserTrafficTask ev sv (n\<lparr>nd_nodeInfoMonitor := Some (ni_PullInterval node),
         nd_userReport := Some (normalizedPushInterval (nd_apiClient n) (ni_PushInterval node))\<rparr>) of
        None \<Rightarrow> panic
      | Some (_, n) \<Rightarrow>
          (case cert_task node n of
             None \<Rightarrow> panic
           | Some n \<Rightarrow> ensureOnlineIPSyncTask ev sv (speed_task n)))"

text \<open>The first half of \<^verbatim>\<open>Start\<close>: what is fetched from the panel; a node may be nil although there is no error.\<close>

definition fetch_start :: "'re ctrl_env \<Rightarrow> ('re, 's) controller \<Rightarrow> (string + node_info option) option \<times> ('re, 's) controller" where
  "fetch_start ev n =
     (case GetNodeInfo (ev_codec ev) (ev_hash ev) (ev_node_get ev) (nd_apiClient n) of
        None \<Rightarrow> (None, n)
      | Some (Inl err, c) \<Rightarrow> (Some (Inl (''get node info error: '' @ err)), n\<lparr>nd_apiClient := c\<rparr>)
      | Some (Inr node, c) \<Rightarrow>
          (case GetUserList (ev_codec ev) (ev_user_get ev) c of
             None \<Rightarrow> (None, n)
           | Some (Inl err, c) \<Rightarrow> (Some (Inl (''get user list error: '' @ err)), n\<lparr>nd_apiClient := c, nd_userList := []\<rparr>)
           | Some (Inr users, c) \<Rightarrow>
               let us = (case users of None \<Rightarrow> [] | Some us \<Rightarrow> us);
                   n = n\<lparr>nd_apiClient := c, nd_userList := us\<rparr>
               in if us = [] then (Some (Inl ''add users error: not have any user''), n)
                  else (case GetUserAlive (ev_alive ev) (ev_alive_get ev) c of
                      None \<Rightarrow> (None, n)
                    | Some (alive, c) \<Rightarrow> (Some (Inr node), n\<lparr>nd_apiClient := c, nd_aliveMap := alive\<rparr>))))"

text \<open>The limiter under the controller's tag; \<^term>\<open>None\<close> is a nil node or a rule that does not compile.\<close>

definition start_limiter :: "'re ctrl_env \<Rightarrow> node_info option \<Rightarrow> ('re, 's) controller \<Rightarrow> (node_info \<times> ('re, 's) controller) option" where
  "start_limiter ev node n =
     (case node of
        None \<Rightarrow> panic
      | Some node \<Rightarrow>
          let tag = (if op_Name (nd_Options n) = '''' then buildNodeTag (nd_apiClient n) node else op_Name (nd_Options n)) in
          (case AddLimiter tag (op_LimitConfig (nd_Options n)) (nd_userList n) (nd_aliveMap n) (nd_registry n) of
             (a, reg) \<Rightarrow>
               (case UpdateRule (ev_Compile ev) (ni_Rules node) (rg_heap reg ! a) of
                  None \<Rightarrow> panic
                | Some l \<Rightarrow> Some (node, n\<lparr>nd_tag := tag, nd_limiter := Some a,
                    nd_registry := heap_update a (\<lambda>_. l) reg\<rparr>))))"

text \<open>The node and its users on the core.\<close>

definition start_node :: "'re ctrl_env \<Rightarrow> 's core_server \<Rightarrow> node_info \<Rightarrow> ('re, 's) controller \<Rightarrow> (string option \<times> ('re, 's) controller) option" where
  "start_node ev sv node n =
     (case co_AddNode (sv_ops sv) (nd_tag n) node (nd_Options n) (nd_server n) of
        None \<Rightarrow> panic
      | Some ((Some err, opt), s) \<Rightarrow> Some (Some (''add new node error: '' @ err), n\<lparr>nd_server := s, nd_Options := opt\<rparr>)
      | Some ((None, opt), s) \<Rightarrow>
          (case co_AddUsers (sv_ops sv) \<lparr>au_Tag = nd_tag n, au_Users = nd_userList n, au_NodeInfo = node\<rparr> s of
             None \<Rightarrow> panic
           | Some ((_, Some err), s) \<Rightarrow> Some (Some (''add users error: '' @ err), n\<lparr>nd_server := s, nd_Options := opt\<rparr>)
           | Some ((_, None), s) \<Rightarrow>
               map_option (\<lambda>n. (None, n)) (startTasks ev sv node (n\<lparr>nd_server := s, nd_Options := opt, nd_info := Some node\<rparr>))))"

definition Start :: "'re ctrl_env \<Rightarrow> 's core_server \<Rightarrow> ('re, 's) controller \<Rightarrow> (string option \<times> ('re, 's) controller) option" where
  "Start ev sv n =
     (case fetch_start ev n of
        (None, _) \<Rightarrow> panic
      | (Some (Inl err), n) \<Rightarrow> Some (Some err, n)
      | (Some (Inr node), n) \<Rightarrow>
          (case start_limiter ev node n of
             None \<Rightarrow> panic
           | Some (node, n) \<Rightarrow>
               (case (if ni_Security node = Tls then requestCert ev (nd_Options n) else Some None) of
                  None \<Rightarrow> panic
                | Some (Some err) \<Rightarrow> Some (Some (''request cert error: '' @ err), n)
                | Some None \<Rightarrow> start_node ev sv node n)))"

text \<open>\<^verbatim>\<open>Close\<close>: a closed task is none.\<close>

definition close_tasks :: "('re, 's) controller \<Rightarrow> ('re, 's) controller" where
  "close_tasks n = n\<lparr>nd_nodeInfoMonitor := None, nd_userReport := None, nd_renewCert := None,
     nd_dynamicSpeedLimit := None, nd_onlineIpReport := None\<rparr>"

definition CloseController :: "'s core_server \<Rightarrow> ('re, 's) controller \<Rightarrow> (string option \<times> ('re, 's) controller) option" where
  "CloseController sv n =
     (case co_DelNode (sv_ops sv) (nd_tag n) (nd_server n) of
        None \<Rightarrow> panic
      | Some (err, s) \<Rightarrow> Some (map_option (\<lambda>err. ''del node error: '' @ err) err,
          (close_tasks n)\<lparr>nd_server := s, nd_registry := DeleteLimiter (nd_tag n) (nd_registry n)\<rparr>))"

section \<open>The monitor: a changed node\<close>

text \<open>The last part: the intervals. A changed pull interval makes the monitor close its own task.\<close>

definition check_intervals :: "'re ctrl_env \<Rightarrow> 's core_server \<Rightarrow> node_info \<Rightarrow> ('re, 's) controller \<Rightarrow> ('re, 's) controller outcome" where
  "check_intervals ev sv newN n =
     (case nd_nodeInfoMonitor n of
        None \<Rightarrow> Panic
      | Some pull \<Rightarrow>
          if pull \<noteq> ni_PullInterval newN \<and> ni_PullInterval newN \<noteq> 0
          then Hang (n\<lparr>nd_nodeInfoMonitor := Some (ni_PullInterval newN)\<rparr>)
          else (case nd_userReport n of
              None \<Rightarrow> Panic
            | Some push \<Rightarrow>
                let newPush = normalizedPushInterval (nd_apiClient n) (ni_PushInterval newN) in
                (case (if push \<noteq> newPush then map_option snd (reportUserTrafficTask ev sv (n\<lparr>nd_userReport := Some newPush\<rparr>))
                       else Some n) of
                   None \<Rightarrow> Panic
                 | Some n \<Rightarrow> done_or_panic (ensureOnlineIPSyncTask ev sv n))))"

text \<open>An error of \<^verbatim>\<open>DelNode\<close> or \<^verbatim>\<open>AddNode\<close> is logged with \<^verbatim>\<open>Panic\<close>; the others end the handler.\<close>

definition readd_node :: "'re ctrl_env \<Rightarrow> 's core_server \<Rightarrow> node_info \<Rightarrow> ('re, 's) controller \<Rightarrow> ('re, 's) controller outcome" where
  "readd_node ev sv newN n =
     (case co_AddNode (sv_ops sv) (nd_tag n) newN (nd_Options n) (nd_server n) of
        None \<Rightarrow> Panic
      | Some ((Some _, _), _) \<Rightarrow> Panic
      | Some ((None, opt), s) \<Rightarrow>
          (case co_AddUsers (sv_ops sv) \<lparr>au_Tag = nd_tag n, au_Users = nd_userList n, au_NodeInfo = newN\<rparr> s of
             None \<Rightarrow> Panic
           | Some ((_, Some _), s) \<Rightarrow> Done (n\<lparr>nd_server := s, nd_Options := opt\<rparr>)
           | Some ((_, None), s) \<Rightarrow> check_intervals ev sv newN (n\<lparr>nd_server := s, nd_Options := opt\<rparr>)))"

text \<open>A new limiter, only when the tag is built from the node.\<close>

definition reload_limiter :: "node_info \<Rightarrow> (int, int) gomap \<Rightarrow> ('re, 's) controller \<Rightarrow> ('re, 's) controller" where
  "reload_limiter newN newA n =
     (if op_Name (nd_Options n) = '''' then
        (let tag = buildNodeTag (nd_apiClient n) newN in
         case AddLimiter tag (op_LimitConfig (nd_Options n)) (nd_userList n) newA (DeleteLimiter tag (nd_registry n)) of
           (a, reg) \<Rightarrow> n\<lparr>nd_tag := tag, nd_registry := reg, nd_limiter := Some a\<rparr>)
      else n)"

definition reload_rules :: "'re ctrl_env \<Rightarrow> node_info \<Rightarrow> (int, int) gomap \<Rightarrow> ('re, 's) controller \<Rightarrow> ('re, 's) controller option" where
  "reload_rules ev newN newA n =
     (case nd_limiter n of
        None \<Rightarrow> panic
      | Some a \<Rightarrow>
          (case UpdateRule (ev_Compile ev) (ni_Rules newN) (SetAliveList newA (rg_heap (nd_registry n) ! a)) of
             None \<Rightarrow> panic
           | Some l \<Rightarrow> Some (n\<lparr>nd_registry := heap_update a (\<lambda>_. l) (nd_registry n)\<rparr>)))"

definition reload_node :: "'re ctrl_env \<Rightarrow> 's core_server \<Rightarrow> node_info \<Rightarrow> user_info list option \<Rightarrow> (int, int) gomap \<Rightarrow>
    ('re, 's) controller \<Rightarrow> ('re, 's) controller outcome" where
  "reload_node ev sv newN newU newA n0 =
     (let n = resetTraffic (n0\<lparr>nd_info := Some newN,
        nd_userList := (case newU of None \<Rightarrow> nd_userList n0 | Some us \<Rightarrow> us)\<rparr>) in
      case co_DelNode (sv_ops sv) (nd_tag n) (nd_server n) of
        None \<Rightarrow> Panic
      | Some (Some _, _) \<Rightarrow> Panic
      | Some (None, s) \<Rightarrow>
          (case reload_rules ev newN newA (reload_limiter newN newA (n\<lparr>nd_server := s\<rparr>)) of
             None \<Rightarrow> Panic
           | Some n \<Rightarrow>
               (case (if ni_Security newN = Tls then requestCert ev (nd_Options n) else Some None) of
                  None \<Rightarrow> Panic
                | Some (Some _) \<Rightarrow> Done n
                | Some None \<Rightarrow> readd_node ev sv newN n)))"

section \<open>The monitor: an unchanged node\<close>

text \<open>The core after the deleted and the added users; \<^term>\<open>True\<close> when both calls succeeded. The monitor runs only
  after \<^verbatim>\<open>Start\<close>, which sets the node it passes on; a missing one is taken for a panic.\<close>

definition move_users :: "'s core_ops \<Rightarrow> string \<Rightarrow> node_info \<Rightarrow> user_info list \<Rightarrow> user_info list \<Rightarrow> 's \<Rightarrow> (bool \<times> 's) option" where
  "move_users ops tag info deleted added s =
     (case (if deleted \<noteq> [] then co_DelUsers ops deleted tag info s else Some (None, s)) of
        None \<Rightarrow> panic
      | Some (Some _, s) \<Rightarrow> Some (False, s)
      | Some (None, s) \<Rightarrow>
          (case (if added \<noteq> [] then co_AddUsers ops \<lparr>au_Tag = tag, au_Users = added, au_NodeInfo = info\<rparr> s
                 else Some ((0, None), s)) of
             None \<Rightarrow> panic
           | Some ((_, err), s) \<Rightarrow> Some (err = None, s)))"

definition note_users :: "user_info list \<Rightarrow> user_info list \<Rightarrow> ('re, 's) controller \<Rightarrow> ('re, 's) controller option" where
  "note_users deleted added n =
     (if deleted = [] \<and> added = [] then Some n
      else map_option (\<lambda>n. if dynamicSpeedLimitEnabled (nd_Options n)
          then n\<lparr>nd_traffic := fold (\<lambda>u. deleteTraffic (ui_Uuid u)) deleted (nd_traffic n)\<rparr> else n)
        (on_limiter (UpdateUser (nd_tag n) added deleted) n))"

definition update_users :: "'re ctrl_env \<Rightarrow> 's core_server \<Rightarrow> user_info list option \<Rightarrow> (int, int) gomap \<Rightarrow>
    ('re, 's) controller \<Rightarrow> ('re, 's) controller option" where
  "update_users ev sv newU newA n0 =
     (case on_limiter (SetAliveList newA) n0 of
        None \<Rightarrow> panic
      | Some n \<Rightarrow>
          (case newU of
             None \<Rightarrow> Some n
           | Some [] \<Rightarrow> Some n
           | Some (u # us) \<Rightarrow>
               (case compareUserList (nd_userList n) (u # us) of
                  (deleted, added) \<Rightarrow>
                    (case nd_info n of
                       None \<Rightarrow> panic
                     | Some info \<Rightarrow>
                         (case move_users (sv_ops sv) (nd_tag n) info deleted added (nd_server n) of
                            None \<Rightarrow> panic
                          | Some (False, s) \<Rightarrow> Some (n\<lparr>nd_server := s\<rparr>)
                          | Some (True, s) \<Rightarrow>
                              (case note_users deleted added (n\<lparr>nd_server := s\<rparr>) of
                                 None \<Rightarrow> panic
                               | Some n \<Rightarrow> ensureOnlineIPSyncTask ev sv (n\<lparr>nd_userList := u # us\<rparr>)))))))"

section \<open>The monitor\<close>

definition nodeInfoMonitor :: "'re ctrl_env \<Rightarrow> 's core_server \<Rightarrow> ('re, 's) controller \<Rightarrow> ('re, 's) controller outcome" where
  "nodeInfoMonitor ev sv n =
     (case GetNodeInfo (ev_codec ev) (ev_hash ev) (ev_node_get ev) (nd_apiClient n) of
        None \<Rightarrow> Panic
      | Some (Inl _, c) \<Rightarrow> Done (n\<lparr>nd_apiClient := c\<rparr>)
      | Some (Inr newN, c) \<Rightarrow>
          (case GetUserList (ev_codec ev) (ev_user_get ev) c of
             None \<Rightarrow> Panic
           | Some (Inl _, c) \<Rightarrow> Done (n\<lparr>nd_apiClient := c\<rparr>)
           | Some (Inr newU, c) \<Rightarrow>
               (case GetUserAlive (ev_alive ev) (ev_alive_get ev) c of
                  None \<Rightarrow> Panic
                | Some (newA, c) \<Rightarrow>
                    let n = n\<lparr>nd_apiClient := c\<rparr> in
                    (case newN of
                       Some node \<Rightarrow> reload_node ev sv node newU newA n
                     | None \<Rightarrow> done_or_panic (update_users ev sv newU newA n)))))"

section \<open>Several nodes\<close>

text \<open>The controllers of a process are started one after the other, on one core and one registry; those that a
  controller of the list holds are what it saw last.\<close>

definition start_one :: "'re ctrl_env \<Rightarrow> 's core_server \<Rightarrow> api_config \<times> options \<Rightarrow> 's \<times> 're registry \<Rightarrow>
    ((string option \<times> ('re, 's) controller option) \<times> 's \<times> 're registry) option" where
  "start_one ev sv cfg w =
     (case fst (NewClient (fst cfg)) of
        Inl err \<Rightarrow> Some ((Some err, None), w)
      | Inr (c, _) \<Rightarrow>
          (case Start ev sv (NewController (fst w) (snd w) c (snd cfg)) of
             None \<Rightarrow> panic
           | Some (err, n) \<Rightarrow> Some ((map_option (\<lambda>err. ''start node controller ['' @ api_APIHost (snd (NewClient (fst cfg))) @ ''-'' @
               api_NodeType (snd (NewClient (fst cfg))) @ ''-'' @ Itoa (api_NodeID (fst cfg)) @ ''] error: '' @ err) err, Some n),
               nd_server n, nd_registry n)))"

text \<open>The list has a place for every node; it is nil until its controller is made, and stays so after an error.\<close>

fun start_nodes :: "(nat \<Rightarrow> 're ctrl_env) \<Rightarrow> 's core_server \<Rightarrow> nat \<Rightarrow> (api_config \<times> options) list \<Rightarrow> 's \<times> 're registry \<Rightarrow>
    ((string option \<times> ('re, 's) controller option list) \<times> 's \<times> 're registry) option" where
  "start_nodes ev sv i [] w = Some ((None, []), w)"
| "start_nodes ev sv i (cfg # cfgs) w =
     (case start_one (ev i) sv cfg w of
        None \<Rightarrow> panic
      | Some ((Some err, n), w) \<Rightarrow> Some ((Some err, n # replicate (length cfgs) None), w)
      | Some ((None, n), w) \<Rightarrow> map_option (\<lambda>((e, ns), w). ((e, n # ns), w)) (start_nodes ev sv (Suc i) cfgs w))"

text \<open>An error of closing a controller is a panic, and so is closing a nil one.\<close>

fun close_nodes :: "'s core_server \<Rightarrow> ('re, 's) controller option list \<Rightarrow> 's \<times> 're registry \<Rightarrow> ('s \<times> 're registry) option" where
  "close_nodes sv [] w = Some w"
| "close_nodes sv (None # ns) w = panic"
| "close_nodes sv (Some n # ns) w =
     (case CloseController sv (n\<lparr>nd_server := fst w, nd_registry := snd w\<rparr>) of
        None \<Rightarrow> panic
      | Some (Some _, _) \<Rightarrow> panic
      | Some (None, n') \<Rightarrow> close_nodes sv ns (nd_server n', nd_registry n'))"

end
