(* ===== verification/Hy2_Config.thy ===== *)
theory Hy2_Config
  imports Conf
begin

text \<open>
  \<^verbatim>\<open>core/hy2/serverConfig.go\<close> and \<^verbatim>\<open>config.go\<close>: the configuration file of the hysteria core and the server
  configuration made from it. What the hysteria and the standard libraries answer (loading a key
  pair, opening a socket, parsing ports, addresses and URLs, building an outbound) is a record of
  functions, giving an error message or a value; what they build is described by the arguments
  that it is built from.
\<close>

section \<open>The configuration file\<close>

record sc_obfs_salamander = os_Password :: string

record sc_obfs =
  ob_Type :: string
  ob_Salamander :: sc_obfs_salamander

record sc_tls =
  tl_Cert :: string
  tl_Key :: string

record sc_acme =
  ac_Domains :: "string list"
  ac_Email :: string
  ac_CA :: string
  ac_DisableHTTP :: bool
  ac_DisableTLSALPN :: bool
  ac_AltHTTPPort :: int
  ac_AltTLSALPNPort :: int
  ac_Dir :: string

record sc_quic =
  qu_InitStreamReceiveWindow :: int
  qu_MaxStreamReceiveWindow :: int
  qu_InitConnectionReceiveWindow :: int
  qu_MaxConnectionReceiveWindow :: int
  qu_MaxIdleTimeout :: int
  qu_MaxIncomingStreams :: int
  qu_DisablePathMTUDiscovery :: bool

record sc_bandwidth =
  bw_Up :: string
  bw_Down :: string

record sc_auth_http =
  ah_URL :: string
  ah_Insecure :: bool

record sc_auth =
  au_Type :: string
  au_Password :: string
  au_UserPass :: "(string, string) gomap"
  au_HTTP :: sc_auth_http
  au_Command :: string

record sc_resolver_tcp =
  rt_Addr :: string
  rt_Timeout :: int

record sc_resolver_udp =
  ru_Addr :: string
  ru_Timeout :: int

record sc_resolver_tls =
  rl_Addr :: string
  rl_Timeout :: int
  rl_SNI :: string
  rl_Insecure :: bool

record sc_resolver_https =
  rh_Addr :: string
  rh_Timeout :: int
  rh_SNI :: string
  rh_Insecure :: bool

record sc_resolver =
  rs_Type :: string
  rs_TCP :: sc_resolver_tcp
  rs_UDP :: sc_resolver_udp
  rs_TLS :: sc_resolver_tls
  rs_HTTPS :: sc_resolver_https

record sc_sniff =
  sf_Enable :: bool
  sf_Timeout :: int
  sf_RewriteDomain :: bool
  sf_TCPPorts :: string
  sf_UDPPorts :: string

record sc_acl =
  al_File :: string
  al_Inline :: "string list"
  al_GeoIP :: string
  al_GeoSite :: string
  al_GeoUpdateInterval :: int

record sc_outbound_direct =
  od_Mode :: string
  od_BindIPv4 :: string
  od_BindIPv6 :: string
  od_BindDevice :: string

record sc_outbound_socks5 =
  o5_Addr :: string
  o5_Username :: string
  o5_Password :: string

record sc_outbound_http =
  oh_URL :: string
  oh_Insecure :: bool

record sc_outbound_entry =
  oe_Name :: string
  oe_Type :: string
  oe_Direct :: sc_outbound_direct
  oe_SOCKS5 :: sc_outbound_socks5
  oe_HTTP :: sc_outbound_http

record sc_traffic_stats =
  tr_Listen :: string
  tr_Secret :: string

record sc_masq_file = mf_Dir :: string

record sc_masq_proxy =
  mp_URL :: string
  mp_RewriteHost :: bool

record sc_masq_string =
  ms_Content :: string
  ms_Headers :: "(string, string) gomap"
  ms_StatusCode :: int

record sc_masquerade =
  mq_Type :: string
  mq_File :: sc_masq_file
  mq_Proxy :: sc_masq_proxy
  mq_String :: sc_masq_string
  mq_ListenHTTP :: string
  mq_ListenHTTPS :: string
  mq_ForceHTTPS :: bool

record server_config =
  hs_Listen :: string
  hs_Obfs :: sc_obfs
  hs_TLS :: "sc_tls option"
  hs_ACME :: "sc_acme option"
  hs_QUIC :: sc_quic
  hs_Bandwidth :: sc_bandwidth
  hs_IgnoreClientBandwidth :: bool
  hs_SpeedTest :: bool
  hs_DisableUDP :: bool
  hs_UDPIdleTimeout :: int
  hs_Auth :: sc_auth
  hs_Resolver :: sc_resolver
  hs_Sniff :: sc_sniff
  hs_ACL :: sc_acl
  hs_Outbounds :: "sc_outbound_entry list"
  hs_TrafficStats :: sc_traffic_stats
  hs_Masquerade :: sc_masquerade

section \<open>What is built\<close>

datatype dual_mode = ModeAuto | Mode64 | Mode46 | Mode6 | Mode4

text \<open>An outbound as the calls that made it.\<close>

datatype outbound =
    DirectSimple dual_mode
  | DirectBindToIPs dual_mode "string option" "string option"
  | DirectBindToDevice dual_mode string
  | SOCKS5 string string string
  | HTTPProxy string bool
  | ACLFromFile string "(string \<times> outbound) list"
  | ACLFromString string "(string \<times> outbound) list"
  | SystemResolver outbound
  | ResolverTCP string int outbound
  | ResolverUDP string int outbound
  | ResolverTLS string int string bool outbound
  | ResolverDoH string int string bool outbound

record quic_config =
  qc_InitialStreamReceiveWindow :: int
  qc_MaxStreamReceiveWindow :: int
  qc_InitialConnectionReceiveWindow :: int
  qc_MaxConnectionReceiveWindow :: int
  qc_MaxIdleTimeout :: int
  qc_MaxIncomingStreams :: int
  qc_DisablePathMTUDiscovery :: bool

record bandwidth_config =
  bd_MaxTx :: int
  bd_MaxRx :: int

record sniffer =
  sn_Timeout :: int
  sn_RewriteDomain :: bool
  sn_TCPPorts :: "(int \<times> int) list option"
  sn_UDPPorts :: "(int \<times> int) list option"

datatype hy_conn = PlainConn string | SalamanderConn string string

datatype masq_handler =
    NotFoundHandler
  | FileServer string
  | ReverseProxy string bool
  | StringHandler string "(string, string) gomap" int

text \<open>The masquerade's own server: the ports it advertises and where it listens.\<close>

record masq_server =
  mt_QUICPort :: int
  mt_HTTPSPort :: int
  mt_ForceHTTPS :: bool
  mt_ListenHTTP :: string
  mt_ListenHTTPS :: string

record hy_config =
  hg_TLS :: "string \<times> string"
  hg_QUIC :: quic_config
  hg_Conn :: hy_conn
  hg_RequestHook :: "sniffer option"
  hg_Outbound :: outbound
  hg_Bandwidth :: bandwidth_config
  hg_IgnoreClientBandwidth :: bool
  hg_DisableUDP :: bool
  hg_UDPIdleTimeout :: int
  hg_Masq :: "masq_handler \<times> masq_server option"

text \<open>The answers of the libraries, and the order in which the goroutines that were started for a list of users
  get the mutex. A file that cannot be read ends the process.\<close>

record hy2_env =
  he_LoadX509KeyPair :: "string \<Rightarrow> string \<Rightarrow> string option"
  he_ResolveUDPAddr :: "string \<Rightarrow> string option"
  he_ListenUDP :: "string \<Rightarrow> string option"
  he_NewSalamander :: "string \<Rightarrow> string option"
  he_LocalAddr :: "string \<Rightarrow> string"
  he_ParsePortUnion :: "string \<Rightarrow> (int \<times> int) list option"
  he_ParseIP :: "string \<Rightarrow> string option"
  he_Outbound :: "outbound \<Rightarrow> string option"
  he_ParseURL :: "string \<Rightarrow> string option"
  he_SplitHostPort :: "string \<Rightarrow> (string \<times> string) option"
  he_ReadConfig :: "string \<Rightarrow> server_config option"
  he_NewServer :: "hy_config \<Rightarrow> string option"
  he_CloseServer :: "string \<Rightarrow> string option"
  he_Schedule :: "user_info list \<Rightarrow> user_info list"

end
