(* ===== verification/Hy2_Build.thy ===== *)
theory Hy2_Build
  imports Hy2_Config
begin

text \<open>
  \<^verbatim>\<open>core/hy2/config.go\<close>: from the configuration file and the node to the configuration of a hysteria
  server. An error is the left side of a sum; a nil dereference is \<^term>\<open>None\<close>.
\<close>

definition Megabyte :: int where "Megabyte = 1 * 1000 * 1000"

definition defaultStreamReceiveWindow :: int where "defaultStreamReceiveWindow = 8388608"
definition defaultConnReceiveWindow :: int where
  "defaultConnReceiveWindow = defaultStreamReceiveWindow * 5 div 2"
definition defaultMaxIdleTimeout :: int where "defaultMaxIdleTimeout = 30 * Second"
definition defaultMaxIncomingStreams :: int where "defaultMaxIncomingStreams = 4096"

definition getTLSConfig :: "hy2_env \<Rightarrow> options \<Rightarrow> string + string \<times> string" where
  "getTLSConfig he config =
     (case op_CertConfig config of
        None \<Rightarrow> Inl ''the CertConfig is not vail''
      | Some cc \<Rightarrow>
          if cc_CertMode cc = ''none'' \<or> cc_CertMode cc = '''' then Inl ''the CertMode cannot be none''
          else (case he_LoadX509KeyPair he (cc_CertFile cc) (cc_KeyFile cc) of
              Some err \<Rightarrow> Inl err
            | None \<Rightarrow> Inr (cc_CertFile cc, cc_KeyFile cc)))"

section \<open>QUIC\<close>

definition zero_quic :: quic_config where
  "zero_quic = \<lparr>qc_InitialStreamReceiveWindow = 0, qc_MaxStreamReceiveWindow = 0, qc_InitialConnectionReceiveWindow = 0,
     qc_MaxConnectionReceiveWindow = 0, qc_MaxIdleTimeout = 0, qc_MaxIncomingStreams = 0, qc_DisablePathMTUDiscovery = False\<rparr>"

text \<open>One block for each setting, in the order of the code.\<close>

definition quic_init_stream :: "sc_quic \<Rightarrow> quic_config \<Rightarrow> string + quic_config" where
  "quic_init_stream c q =
     (if qu_InitStreamReceiveWindow c = 0 then Inr (q\<lparr>qc_InitialStreamReceiveWindow := defaultStreamReceiveWindow\<rparr>)
      else if qu_InitStreamReceiveWindow c < 16384 then Inl ''QUICConfig.InitialStreamReceiveWindowf must be at least 16384''
      else Inr (q\<lparr>qc_InitialConnectionReceiveWindow := qu_InitConnectionReceiveWindow c\<rparr>))"

definition quic_max_stream :: "sc_quic \<Rightarrow> quic_config \<Rightarrow> string + quic_config" where
  "quic_max_stream c q =
     (if qu_MaxStreamReceiveWindow c = 0 then Inr (q\<lparr>qc_MaxStreamReceiveWindow := defaultStreamReceiveWindow\<rparr>)
      else if qu_MaxStreamReceiveWindow c < 16384 then Inl ''QUICConfig.MaxStreamReceiveWindowf must be at least 16384''
      else Inr (q\<lparr>qc_MaxStreamReceiveWindow := qu_MaxStreamReceiveWindow c\<rparr>))"

definition quic_init_conn :: "sc_quic \<Rightarrow> quic_config \<Rightarrow> string + quic_config" where
  "quic_init_conn c q =
     (if qu_InitConnectionReceiveWindow c = 0 then Inr (q\<lparr>qc_InitialConnectionReceiveWindow := defaultConnReceiveWindow\<rparr>)
      else if qu_InitConnectionReceiveWindow c < 16384 then Inl ''QUICConfig.InitialConnectionReceiveWindowf must be at least 16384''
      else Inr (q\<lparr>qc_InitialConnectionReceiveWindow := qu_InitConnectionReceiveWindow c\<rparr>))"

definition quic_max_conn :: "sc_quic \<Rightarrow> quic_config \<Rightarrow> string + quic_config" where
  "quic_max_conn c q =
     (if qu_MaxConnectionReceiveWindow c = 0 then Inr (q\<lparr>qc_MaxConnectionReceiveWindow := defaultConnReceiveWindow\<rparr>)
      else if qu_MaxConnectionReceiveWindow c < 16384 then Inl ''QUICConfig.MaxConnectionReceiveWindowf must be at least 16384''
      else Inr (q\<lparr>qc_MaxConnectionReceiveWindow := qu_MaxConnectionReceiveWindow c\<rparr>))"

definition quic_idle :: "sc_quic \<Rightarrow> quic_config \<Rightarrow> string + quic_config" where
  "quic_idle c q =
     (if qu_MaxIdleTimeout c = 0 then Inr (q\<lparr>qc_MaxIdleTimeout := defaultMaxIdleTimeout\<rparr>)
      else if qu_MaxIdleTimeout c < 4 * Second \<or> qu_MaxIdleTimeout c > 120 * Second
      then Inl ''QUICConfig.MaxIdleTimeoutf must be between 4s and 120s''
      else Inr (q\<lparr>qc_MaxIdleTimeout := qu_MaxIdleTimeout c\<rparr>))"

definition quic_streams :: "sc_quic \<Rightarrow> quic_config \<Rightarrow> string + quic_config" where
  "quic_streams c q =
     (if qu_MaxIncomingStreams c = 0 then Inr (q\<lparr>qc_MaxIncomingStreams := defaultMaxIncomingStreams\<rparr>)
      else if qu_MaxIncomingStreams c < 8 then Inl ''QUICConfig.MaxIncomingStreamsf must be at least 8''
      else Inr (q\<lparr>qc_MaxIncomingStreams := qu_MaxIncomingStreams c\<rparr>))"

definition and_then :: "string + 'a \<Rightarrow> ('a \<Rightarrow> string + 'b) \<Rightarrow> string + 'b" where
  "and_then r f = (case r of Inl err \<Rightarrow> Inl err | Inr x \<Rightarrow> f x)"

lemma and_then_simps [simp]: "and_then (Inl err) f = Inl err" "and_then (Inr x) f = f x"
  by (simp_all add: and_then_def)

definition getQUICConfig :: "server_config \<Rightarrow> string + quic_config" where
  "getQUICConfig config =
     (let c = hs_QUIC config in
      and_then (quic_init_stream c zero_quic) (\<lambda>q.
      and_then (quic_max_stream c q) (\<lambda>q.
      and_then (quic_init_conn c q) (\<lambda>q.
      and_then (quic_max_conn c q) (\<lambda>q.
      and_then (quic_idle c q) (\<lambda>q.
      and_then (quic_streams c q) (\<lambda>q.
        Inr (q\<lparr>qc_DisablePathMTUDiscovery := False\<rparr>))))))))"

section \<open>Socket, bandwidth, request hook\<close>

definition formatAddress :: "string \<Rightarrow> int \<Rightarrow> string" where
  "formatAddress ip port =
     (if Contains ip '':'' then ''['' @ ip @ '']:'' @ Itoa port else ip @ '':'' @ Itoa port)"

definition getConn :: "hy2_env \<Rightarrow> node_info \<Rightarrow> options \<Rightarrow> (string + hy_conn) option" where
  "getConn he info config =
     (case ni_Common info of
        None \<Rightarrow> panic
      | Some cm \<Rightarrow>
          let addr = formatAddress (op_ListenIP config) (cn_ServerPort cm) in
          (case he_ResolveUDPAddr he addr of
             Some err \<Rightarrow> Some (Inl err)
           | None \<Rightarrow>
               (case he_ListenUDP he addr of
                  Some err \<Rightarrow> Some (Inl err)
                | None \<Rightarrow>
                    (case ni_Hysteria2 info of
                       None \<Rightarrow> panic
                     | Some h2 \<Rightarrow>
                         let t = ToLower (h2_ObfsType h2) in
                         Some (if t = '''' \<or> t = ''plain'' then Inr (PlainConn addr)
                          else if t = ''salamander'' then
                            (case he_NewSalamander he (h2_ObfsPassword h2) of
                               Some err \<Rightarrow> Inl err
                             | None \<Rightarrow> Inr (SalamanderConn addr (h2_ObfsPassword h2)))
                          else Inl ''unsupported obfuscation type'')))))"

definition getBandwidthConfig :: "hysteria2_node \<Rightarrow> bandwidth_config" where
  "getBandwidthConfig h =
     \<lparr>bd_MaxTx = (if h2_UpMbps h \<noteq> 0 then u64 (go_div (i64 (h2_UpMbps h * Megabyte)) 8) else 0),
      bd_MaxRx = (if h2_DownMbps h \<noteq> 0 then u64 (go_div (i64 (h2_DownMbps h * Megabyte)) 8) else 0)\<rparr>"

definition parse_ports :: "hy2_env \<Rightarrow> string \<Rightarrow> string \<Rightarrow> string + (int \<times> int) list option" where
  "parse_ports he err s =
     (if s = '''' then Inr None
      else (case he_ParsePortUnion he s of None \<Rightarrow> Inl err | Some u \<Rightarrow> Inr (Some u)))"

definition getRequestHook :: "hy2_env \<Rightarrow> server_config \<Rightarrow> string + sniffer option" where
  "getRequestHook he c =
     (if sf_Enable (hs_Sniff c) then
        and_then (parse_ports he ''sniff.tcpPorts: invalid port union'' (sf_TCPPorts (hs_Sniff c))) (\<lambda>tcp.
        and_then (parse_ports he ''sniff.udpPorts: invalid port union'' (sf_UDPPorts (hs_Sniff c))) (\<lambda>udp.
          Inr (Some \<lparr>sn_Timeout = sf_Timeout (hs_Sniff c), sn_RewriteDomain = sf_RewriteDomain (hs_Sniff c),
            sn_TCPPorts = tcp, sn_UDPPorts = udp\<rparr>)))
      else Inr None)"

section \<open>Outbounds\<close>

text \<open>A constructor of the library may fail.\<close>

definition built :: "hy2_env \<Rightarrow> outbound \<Rightarrow> string + outbound" where
  "built he ob = (case he_Outbound he ob of Some err \<Rightarrow> Inl err | None \<Rightarrow> Inr ob)"

definition direct_mode :: "string \<Rightarrow> dual_mode option" where
  "direct_mode s = (let m = ToLower s in
     if m = '''' \<or> m = ''auto'' then Some ModeAuto else if m = ''64'' then Some Mode64
     else if m = ''46'' then Some Mode46 else if m = ''6'' then Some Mode6
     else if m = ''4'' then Some Mode4 else None)"

definition serverConfigOutboundDirectToOutbound :: "hy2_env \<Rightarrow> sc_outbound_direct \<Rightarrow> string + outbound" where
  "serverConfigOutboundDirectToOutbound he c =
     (case direct_mode (od_Mode c) of
        None \<Rightarrow> Inl ''outbounds.direct.mode unsupported mode''
      | Some mode \<Rightarrow>
          let bindIP = (od_BindIPv4 c \<noteq> [] \<or> od_BindIPv6 c \<noteq> []); bindDevice = (od_BindDevice c \<noteq> []) in
          if bindIP \<and> bindDevice then Inl ''outbounds.direct cannot bind both IP and device''
          else if bindIP then
            (let ip4 = he_ParseIP he (od_BindIPv4 c); ip6 = he_ParseIP he (od_BindIPv6 c) in
             if od_BindIPv4 c \<noteq> [] \<and> ip4 = None then Inl ''outbounds.direct.bindIPv4 invalid IPv4 address''
             else if od_BindIPv6 c \<noteq> [] \<and> ip6 = None then Inl ''outbounds.direct.bindIPv6 invalid IPv6 address''
             else built he (DirectBindToIPs mode ip4 ip6))
          else if bindDevice then built he (DirectBindToDevice mode (od_BindDevice c))
          else Inr (DirectSimple mode))"

definition serverConfigOutboundSOCKS5ToOutbound :: "sc_outbound_socks5 \<Rightarrow> string + outbound" where
  "serverConfigOutboundSOCKS5ToOutbound c =
     (if o5_Addr c = '''' then Inl ''outbounds.socks5.addr empty socks5 address''
      else Inr (SOCKS5 (o5_Addr c) (o5_Username c) (o5_Password c)))"

definition serverConfigOutboundHTTPToOutbound :: "hy2_env \<Rightarrow> sc_outbound_http \<Rightarrow> string + outbound" where
  "serverConfigOutboundHTTPToOutbound he c =
     (if oh_URL c = '''' then Inl ''outbounds.http.url empty http address''
      else built he (HTTPProxy (oh_URL c) (oh_Insecure c)))"

definition outbound_entry :: "hy2_env \<Rightarrow> sc_outbound_entry \<Rightarrow> string + string \<times> outbound" where
  "outbound_entry he entry =
     (if oe_Name entry = '''' then Inl ''empty outbound name''
      else let t = ToLower (oe_Type entry) in
        map_sum id (\<lambda>ob. (oe_Name entry, ob))
          (if t = ''direct'' then serverConfigOutboundDirectToOutbound he (oe_Direct entry)
           else if t = ''socks5'' then serverConfigOutboundSOCKS5ToOutbound (oe_SOCKS5 entry)
           else if t = ''http'' then serverConfigOutboundHTTPToOutbound he (oe_HTTP entry)
           else Inl ''outbounds.type unsupported outbound type''))"

fun outbound_entries :: "hy2_env \<Rightarrow> sc_outbound_entry list \<Rightarrow> string + (string \<times> outbound) list" where
  "outbound_entries he [] = Inr []"
| "outbound_entries he (e # es) =
     and_then (outbound_entry he e) (\<lambda>x. and_then (outbound_entries he es) (\<lambda>xs. Inr (x # xs)))"

definition configured_outbounds :: "hy2_env \<Rightarrow> server_config \<Rightarrow> string + (string \<times> outbound) list" where
  "configured_outbounds he c =
     (if hs_Outbounds c = [] then Inr [(''default'', DirectSimple ModeAuto)]
      else outbound_entries he (hs_Outbounds c))"

text \<open>The outbound behind the rules, and whether there are rules.\<close>

definition acl_outbound :: "hy2_env \<Rightarrow> sc_acl \<Rightarrow> (string \<times> outbound) list \<Rightarrow> string + outbound \<times> bool" where
  "acl_outbound he acl obs =
     (if al_File acl \<noteq> '''' \<and> al_Inline acl \<noteq> [] then Inl ''cannot set both acl.file and acl.inline''
      else if al_File acl \<noteq> '''' then map_sum id (\<lambda>ob. (ob, True)) (built he (ACLFromFile (al_File acl) obs))
      else if al_Inline acl \<noteq> [] then
        map_sum id (\<lambda>ob. (ob, True)) (built he (ACLFromString (Join (al_Inline acl) [CHR 0x0A]) obs))
      else Inr (snd (hd obs), False))"

definition put_resolver :: "sc_resolver \<Rightarrow> bool \<Rightarrow> outbound \<Rightarrow> string + outbound" where
  "put_resolver r hasACL uOb =
     (let t = ToLower (rs_Type r) in
      if t = '''' \<or> t = ''system'' then Inr (if hasACL then SystemResolver uOb else uOb)
      else if t = ''tcp'' then
        (if rt_Addr (rs_TCP r) = '''' then Inl ''empty resolver address''
         else Inr (ResolverTCP (rt_Addr (rs_TCP r)) (rt_Timeout (rs_TCP r)) uOb))
      else if t = ''udp'' then
        (if ru_Addr (rs_UDP r) = '''' then Inl ''empty resolver address''
         else Inr (ResolverUDP (ru_Addr (rs_UDP r)) (ru_Timeout (rs_UDP r)) uOb))
      else if t = ''tls'' \<or> t = ''tcp-tls'' then
        (if rl_Addr (rs_TLS r) = '''' then Inl ''empty resolver address''
         else Inr (ResolverTLS (rl_Addr (rs_TLS r)) (rl_Timeout (rs_TLS r)) (rl_SNI (rs_TLS r)) (rl_Insecure (rs_TLS r)) uOb))
      else if t = ''https'' \<or> t = ''http'' then
        (if rh_Addr (rs_HTTPS r) = '''' then Inl ''empty resolver address''
         else Inr (ResolverDoH (rh_Addr (rs_HTTPS r)) (rh_Timeout (rs_HTTPS r)) (rh_SNI (rs_HTTPS r)) (rh_Insecure (rs_HTTPS r)) uOb))
      else Inl ''unsupported resolver type'')"

definition getOutboundConfig :: "hy2_env \<Rightarrow> server_config \<Rightarrow> string + outbound" where
  "getOutboundConfig he c =
     and_then (configured_outbounds he c) (\<lambda>obs.
     and_then (acl_outbound he (hs_ACL c) obs) (\<lambda>(uOb, hasACL).
       put_resolver (hs_Resolver c) hasACL uOb))"

section \<open>Masquerade\<close>

definition extractPortFromAddr :: "hy2_env \<Rightarrow> string \<Rightarrow> int" where
  "extractPortFromAddr he addr =
     (case he_SplitHostPort he addr of
        None \<Rightarrow> 0
      | Some (_, portStr) \<Rightarrow> (case Atoi portStr of (port, ok) \<Rightarrow> if ok then port else 0))"

text \<open>The status that the string handler answers with.\<close>

definition string_status :: "int \<Rightarrow> int" where
  "string_status code = (if code \<noteq> 0 then code else 200)"

definition masq_string :: "sc_masq_string \<Rightarrow> string + masq_handler" where
  "masq_string s =
     (if ms_Content s = '''' then Inl ''masquerade.string.content empty string content''
      else if ms_StatusCode s \<noteq> 0 \<and> (ms_StatusCode s < 200 \<or> ms_StatusCode s > 599 \<or> ms_StatusCode s = 233)
      then Inl ''masquerade.string.statusCode invalid status code (must be 200-599, except 233)''
      else Inr (StringHandler (ms_Content s) (ms_Headers s) (string_status (ms_StatusCode s))))"

definition masq_of :: "hy2_env \<Rightarrow> sc_masquerade \<Rightarrow> string + masq_handler" where
  "masq_of he m =
     (let t = ToLower (mq_Type m) in
      if t = '''' \<or> t = ''404'' then Inr NotFoundHandler
      else if t = ''file'' then
        (if mf_Dir (mq_File m) = '''' then Inl ''masquerade.file.dir empty file directory''
         else Inr (FileServer (mf_Dir (mq_File m))))
      else if t = ''proxy'' then
        (if mp_URL (mq_Proxy m) = '''' then Inl ''masquerade.proxy.url empty proxy url''
         else (case he_ParseURL he (mp_URL (mq_Proxy m)) of
             Some err \<Rightarrow> Inl (''masquerade.proxy.url '' @ err)
           | None \<Rightarrow> Inr (ReverseProxy (mp_URL (mq_Proxy m)) (mp_RewriteHost (mq_Proxy m)))))
      else if t = ''string'' then masq_string (mq_String m)
      else Inl ''masquerade.type unsupported masquerade type'')"

fun conn_addr :: "hy_conn \<Rightarrow> string" where
  "conn_addr (PlainConn addr) = addr"
| "conn_addr (SalamanderConn addr _) = addr"

definition masq_tcp :: "hy2_env \<Rightarrow> hy_conn \<Rightarrow> sc_masquerade \<Rightarrow> string + masq_server option" where
  "masq_tcp he conn m =
     (if mq_ListenHTTP m \<noteq> '''' \<or> mq_ListenHTTPS m \<noteq> '''' then
        (if mq_ListenHTTP m \<noteq> '''' \<and> mq_ListenHTTPS m = ''''
         then Inl ''masquerade.listenHTTPS having only HTTP server without HTTPS is not supported''
         else Inr (Some \<lparr>mt_QUICPort = extractPortFromAddr he (he_LocalAddr he (conn_addr conn)),
           mt_HTTPSPort = extractPortFromAddr he (mq_ListenHTTPS m), mt_ForceHTTPS = mq_ForceHTTPS m,
           mt_ListenHTTP = mq_ListenHTTP m, mt_ListenHTTPS = mq_ListenHTTPS m\<rparr>))
      else Inr None)"

definition getMasqHandler :: "hy2_env \<Rightarrow> hy_conn \<Rightarrow> server_config \<Rightarrow> string + masq_handler \<times> masq_server option" where
  "getMasqHandler he conn c =
     and_then (masq_of he (hs_Masquerade c)) (\<lambda>h.
     and_then (masq_tcp he conn (hs_Masquerade c)) (\<lambda>s. Inr (h, s)))"

section \<open>The whole configuration\<close>

definition getHyConfig :: "hy2_env \<Rightarrow> node_info \<Rightarrow> options \<Rightarrow> server_config \<Rightarrow> (string + hy_config) option" where
  "getHyConfig he info config c =
     (case getTLSConfig he config of
        Inl err \<Rightarrow> Some (Inl err)
      | Inr tls \<Rightarrow>
     (case getQUICConfig c of
        Inl err \<Rightarrow> Some (Inl err)
      | Inr quic \<Rightarrow>
     (case getConn he info config of
        None \<Rightarrow> panic
      | Some (Inl err) \<Rightarrow> Some (Inl err)
      | Some (Inr conn) \<Rightarrow>
     (case ni_Hysteria2 info of
        None \<Rightarrow> panic
      | Some h2 \<Rightarrow> Some (
          and_then (getRequestHook he c) (\<lambda>hook.
          and_then (getOutboundConfig he c) (\<lambda>outbound.
          and_then (getMasqHandler he conn c) (\<lambda>masq. Inr
            \<lparr>hg_TLS = tls, hg_QUIC = quic, hg_Conn = conn, hg_RequestHook = hook, hg_Outbound = outbound,
             hg_Bandwidth = getBandwidthConfig h2, hg_IgnoreClientBandwidth = h2_Ignore_Client_Bandwidth h2,
             hg_DisableUDP = hs_DisableUDP c, hg_UDPIdleTimeout = hs_UDPIdleTimeout c, hg_Masq = masq\<rparr>))))))))"

end
