(* ===== verification/Hy2_Core.thy ===== *)
theory Hy2_Core
  imports Hy2_Build Selector_Laws Limiter Traffic_Counter
begin

text \<open>
  The hysteria core: \<^verbatim>\<open>core/hy2/hy2.go\<close>, \<^verbatim>\<open>node.go\<close>, \<^verbatim>\<open>user.go\<close>, the traffic hook of \<^verbatim>\<open>hook.go\<close> and the request
  hooks of \<^verbatim>\<open>logger.go\<close>. All nodes of the core share one table of users. The answers of the libraries
  may differ from call to call: they are indexed by the number of calls before.
\<close>

record hook_server =
  hk_Tag :: string
  hk_Counter :: "(string, traffic_counter) gomap"

text \<open>A node: its server by what it was built from, and its traffic hook.\<close>

record hysteria2_srv =
  hn_Tag :: string
  hn_Hy2server :: hy_config
  hn_TrafficLogger :: hook_server

record hysteria2 =
  hz_Hy2nodes :: "(string, hysteria2_srv) gomap"
  hz_usersMap :: "(string, int) gomap"
  hz_calls :: nat

section \<open>The core and its nodes\<close>

definition log_levels :: "string list" where
  "log_levels = [''debug'', ''info'', ''warn'', ''error'']"

definition log_formats :: "string list" where
  "log_formats = [''console'', ''json'']"

text \<open>The logger's level and encoding; building it (zap) may fail.\<close>

definition initLogger :: "(string \<Rightarrow> string \<Rightarrow> string option) \<Rightarrow> string \<Rightarrow> string \<Rightarrow> string + string \<times> string" where
  "initLogger build logLevel logFormat =
     (if ToLower logLevel \<notin> set log_levels then Inl (''unsupported log level: '' @ logLevel)
      else if ToLower logFormat \<notin> set log_formats then Inl (''unsupported log format: '' @ logFormat)
      else (case build (ToLower logLevel) (ToLower logFormat) of
          Some err \<Rightarrow> Inl (''failed to initialize logger: '' @ err)
        | None \<Rightarrow> Inr (ToLower logLevel, ToLower logFormat)))"

definition NewHysteria2 :: "(string \<Rightarrow> string \<Rightarrow> string option) \<Rightarrow> core_config \<Rightarrow> (string + hysteria2) option" where
  "NewHysteria2 build c =
     (case cf_Hysteria2Config c of
        None \<Rightarrow> panic
      | Some hc \<Rightarrow>
          let loglever = (if hl_Level (hy_LogConfig hc) \<noteq> '''' then hl_Level (hy_LogConfig hc) else ''error'')
          in Some (map_sum id (\<lambda>_. \<lparr>hz_Hy2nodes = [], hz_usersMap = [], hz_calls = 0\<rparr>)
               (initLogger build loglever ''console'')))"

definition zero_server_config :: server_config where
  "zero_server_config = \<lparr>hs_Listen = [], hs_Obfs = \<lparr>ob_Type = [], ob_Salamander = \<lparr>os_Password = []\<rparr>\<rparr>,
     hs_TLS = None, hs_ACME = None,
     hs_QUIC = \<lparr>qu_InitStreamReceiveWindow = 0, qu_MaxStreamReceiveWindow = 0, qu_InitConnectionReceiveWindow = 0,
       qu_MaxConnectionReceiveWindow = 0, qu_MaxIdleTimeout = 0, qu_MaxIncomingStreams = 0, qu_DisablePathMTUDiscovery = False\<rparr>,
     hs_Bandwidth = \<lparr>bw_Up = [], bw_Down = []\<rparr>, hs_IgnoreClientBandwidth = False, hs_SpeedTest = False,
     hs_DisableUDP = False, hs_UDPIdleTimeout = 0,
     hs_Auth = \<lparr>au_Type = [], au_Password = [], au_UserPass = [], au_HTTP = \<lparr>ah_URL = [], ah_Insecure = False\<rparr>, au_Command = []\<rparr>,
     hs_Resolver = \<lparr>rs_Type = [], rs_TCP = \<lparr>rt_Addr = [], rt_Timeout = 0\<rparr>, rs_UDP = \<lparr>ru_Addr = [], ru_Timeout = 0\<rparr>,
       rs_TLS = \<lparr>rl_Addr = [], rl_Timeout = 0, rl_SNI = [], rl_Insecure = False\<rparr>,
       rs_HTTPS = \<lparr>rh_Addr = [], rh_Timeout = 0, rh_SNI = [], rh_Insecure = False\<rparr>\<rparr>,
     hs_Sniff = \<lparr>sf_Enable = False, sf_Timeout = 0, sf_RewriteDomain = False, sf_TCPPorts = [], sf_UDPPorts = []\<rparr>,
     hs_ACL = \<lparr>al_File = [], al_Inline = [], al_GeoIP = [], al_GeoSite = [], al_GeoUpdateInterval = 0\<rparr>,
     hs_Outbounds = [], hs_TrafficStats = \<lparr>tr_Listen = [], tr_Secret = []\<rparr>,
     hs_Masquerade = \<lparr>mq_Type = [], mq_File = \<lparr>mf_Dir = []\<rparr>, mq_Proxy = \<lparr>mp_URL = [], mp_RewriteHost = False\<rparr>,
       mq_String = \<lparr>ms_Content = [], ms_Headers = [], ms_StatusCode = 0\<rparr>, mq_ListenHTTP = [], mq_ListenHTTPS = [],
       mq_ForceHTTPS = False\<rparr>\<rparr>"

text \<open>Reading the file is \<^verbatim>\<open>Fatal\<close> when it fails: the process ends, here \<^term>\<open>None\<close>.\<close>

definition hy_AddNode :: "(nat \<Rightarrow> hy2_env) \<Rightarrow> string \<Rightarrow> node_info \<Rightarrow> options \<Rightarrow> hysteria2 \<Rightarrow>
    ((string option \<times> options) \<times> hysteria2) option" where
  "hy_AddNode env tag info config h =
     (let he = env (hz_calls h); h = h\<lparr>hz_calls := Suc (hz_calls h)\<rparr> in
      case (if op_Hysteria2ConfigPath config \<noteq> [] then he_ReadConfig he (op_Hysteria2ConfigPath config)
            else Some zero_server_config) of
        None \<Rightarrow> panic
      | Some c \<Rightarrow>
          (case getHyConfig he info config c of
             None \<Rightarrow> panic
           | Some (Inl err) \<Rightarrow> Some ((Some err, config), h)
           | Some (Inr hyconfig) \<Rightarrow>
               (case he_NewServer he hyconfig of
                  Some err \<Rightarrow> Some ((Some err, config), h)
                | None \<Rightarrow> Some ((None, config), h\<lparr>hz_Hy2nodes := sm_store tag
                    \<lparr>hn_Tag = tag, hn_Hy2server = hyconfig, hn_TrafficLogger = \<lparr>hk_Tag = tag, hk_Counter = []\<rparr>\<rparr>
                    (hz_Hy2nodes h)\<rparr>))))"

text \<open>The node of an unknown tag is the zero value, whose server is a nil interface.\<close>

definition hy_DelNode :: "(nat \<Rightarrow> hy2_env) \<Rightarrow> string \<Rightarrow> hysteria2 \<Rightarrow> (string option \<times> hysteria2) option" where
  "hy_DelNode env tag h =
     (let he = env (hz_calls h); h = h\<lparr>hz_calls := Suc (hz_calls h)\<rparr> in
      case sm_load (hz_Hy2nodes h) tag of
        None \<Rightarrow> panic
      | Some n \<Rightarrow>
          (case he_CloseServer he tag of
             Some err \<Rightarrow> Some (Some err, h)
           | None \<Rightarrow> Some (None, h\<lparr>hz_Hy2nodes := sm_delete tag (hz_Hy2nodes h)\<rparr>)))"

fun close_servers :: "hy2_env \<Rightarrow> (string \<times> hysteria2_srv) list \<Rightarrow> string list" where
  "close_servers he [] = []"
| "close_servers he ((tag, n) # rest) = (case he_CloseServer he tag of Some err \<Rightarrow> [err] | None \<Rightarrow> close_servers he rest)"

definition hy_Close :: "(nat \<Rightarrow> hy2_env) \<Rightarrow> hysteria2 \<Rightarrow> (string list \<times> hysteria2) option" where
  "hy_Close env h =
     Some (close_servers (env (hz_calls h)) (hz_Hy2nodes h), h\<lparr>hz_calls := Suc (hz_calls h)\<rparr>)"

section \<open>Users\<close>

definition Authenticate :: "hysteria2 \<Rightarrow> string \<Rightarrow> bool \<times> string" where
  "Authenticate h auth = (case sm_load (hz_usersMap h) auth of Some _ \<Rightarrow> (True, auth) | None \<Rightarrow> (False, ''''))"

definition hy_AddUsers :: "(nat \<Rightarrow> hy2_env) \<Rightarrow> add_users_params \<Rightarrow> hysteria2 \<Rightarrow> ((int \<times> string option) \<times> hysteria2) option" where
  "hy_AddUsers env p h =
     (let he = env (hz_calls h) in
      Some ((int (length (au_Users p)), None), h\<lparr>hz_calls := Suc (hz_calls h),
        hz_usersMap := fold (\<lambda>u. sm_store (ui_Uuid u) (ui_Id u)) (he_Schedule he (au_Users p)) (hz_usersMap h)\<rparr>))"

definition hy_DelUsers :: "(nat \<Rightarrow> hy2_env) \<Rightarrow> user_info list \<Rightarrow> string \<Rightarrow> node_info \<Rightarrow> hysteria2 \<Rightarrow> (string option \<times> hysteria2) option" where
  "hy_DelUsers env users tag info h =
     (let he = env (hz_calls h) in
      Some (None, h\<lparr>hz_calls := Suc (hz_calls h),
        hz_usersMap := fold (\<lambda>u. sm_delete (ui_Uuid u)) (he_Schedule he users) (hz_usersMap h)\<rparr>))"

definition hy_GetUserTraffic :: "string \<Rightarrow> string \<Rightarrow> bool \<Rightarrow> hysteria2 \<Rightarrow> ((int \<times> int) \<times> hysteria2) option" where
  "hy_GetUserTraffic tag uuid reset h =
     (case sm_load (hz_Hy2nodes h) tag of
        None \<Rightarrow> panic
      | Some n \<Rightarrow>
          (case sm_load (hk_Counter (hn_TrafficLogger n)) tag of
             None \<Rightarrow> Some ((0, 0), h)
           | Some c \<Rightarrow> Some ((GetUpCount uuid c, GetDownCount uuid c),
               if reset then h\<lparr>hz_Hy2nodes := sm_store tag
                   (n\<lparr>hn_TrafficLogger := (hn_TrafficLogger n)
                     \<lparr>hk_Counter := sm_store tag (Reset uuid c) (hk_Counter (hn_TrafficLogger n))\<rparr>\<rparr>) (hz_Hy2nodes h)\<rparr>
               else h)))"

definition hy2_ops :: "(nat \<Rightarrow> hy2_env) \<Rightarrow> hysteria2 core_ops" where
  "hy2_ops env =
     \<lparr>co_Start = (\<lambda>h. Some (None, h)), co_Close = hy_Close env, co_AddNode = hy_AddNode env,
      co_DelNode = hy_DelNode env, co_AddUsers = hy_AddUsers env, co_GetUserTraffic = hy_GetUserTraffic,
      co_DelUsers = hy_DelUsers env, co_Protocols = (\<lambda>h. [''hysteria2'']), co_Type = (\<lambda>h. ''hysteria2'')\<rparr>"

section \<open>The hooks\<close>

text \<open>The address types of package \<^verbatim>\<open>net\<close>, with the text of their IP; of another type only its network.\<close>

datatype net_addr = TCPAddr string | UDPAddr string | IPAddr string | OtherAddr string

fun extractIPFromAddr :: "net_addr \<Rightarrow> string" where
  "extractIPFromAddr (TCPAddr ip) = ip"
| "extractIPFromAddr (UDPAddr ip) = ip"
| "extractIPFromAddr (IPAddr ip) = ip"
| "extractIPFromAddr (OtherAddr _) = ''''"

fun network :: "net_addr \<Rightarrow> string" where
  "network (TCPAddr _) = ''tcp''"
| "network (UDPAddr _) = ''udp''"
| "network (IPAddr _) = ''ip''"
| "network (OtherAddr n) = n"

definition set_over_limit :: "string \<Rightarrow> bool \<Rightarrow> 're limiter \<Rightarrow> 're limiter" where
  "set_over_limit taguuid b l =
     (case sm_load (UserLimitInfo l) taguuid of
        Some u \<Rightarrow> l\<lparr>UserLimitInfo := sm_store taguuid (u\<lparr>li_OverLimit := b\<rparr>) (UserLimitInfo l)\<rparr>
      | None \<Rightarrow> l)"

text \<open>\<^verbatim>\<open>Connect\<close>, \<^verbatim>\<open>TCPRequest\<close> and \<^verbatim>\<open>UDPRequest\<close> differ only in what they log.\<close>

definition check_request :: "int \<Rightarrow> string \<Rightarrow> net_addr \<Rightarrow> string \<Rightarrow> 're registry \<Rightarrow> 're registry option" where
  "check_request now tag addr uuid r =
     (case GetLimiter r tag of
        Inl _ \<Rightarrow> panic
      | Inr a \<Rightarrow>
          (case CheckLimit (rg_heap r ! a) now (UserTag tag uuid) (extractIPFromAddr addr) (network addr = ''tcp'') True of
             None \<Rightarrow> panic
           | Some ((_, rejected), l) \<Rightarrow> Some (heap_update a (\<lambda>_. set_over_limit (UserTag tag uuid) rejected l) r)))"

definition Connect :: "int \<Rightarrow> string \<Rightarrow> net_addr \<Rightarrow> string \<Rightarrow> 're registry \<Rightarrow> 're registry option" where
  "Connect now tag addr uuid r = check_request now tag addr uuid r"

definition TCPRequest :: "int \<Rightarrow> string \<Rightarrow> net_addr \<Rightarrow> string \<Rightarrow> 're registry \<Rightarrow> 're registry option" where
  "TCPRequest now tag addr uuid r = check_request now tag addr uuid r"

definition UDPRequest :: "int \<Rightarrow> string \<Rightarrow> net_addr \<Rightarrow> string \<Rightarrow> 're registry \<Rightarrow> 're registry option" where
  "UDPRequest now tag addr uuid r = check_request now tag addr uuid r"

text \<open>Whether the client may go on, the hook and the registry; the byte counts are unsigned.\<close>

definition LogTraffic :: "string \<Rightarrow> int \<Rightarrow> int \<Rightarrow> hook_server \<Rightarrow> 're registry \<Rightarrow> bool \<times> hook_server \<times> 're registry" where
  "LogTraffic i tx rx hk r =
     (let tag = hk_Tag hk;
          count = (let c = (case sm_load (hk_Counter hk) tag of Some c \<Rightarrow> c | None \<Rightarrow> NewTrafficCounter)
                   in (True, hk\<lparr>hk_Counter := sm_store tag (Tx i (i64 tx) (Rx i (i64 rx) c)) (hk_Counter hk)\<rparr>, r))
      in case GetLimiter r tag of
           Inl _ \<Rightarrow> (False, hk, r)
         | Inr a \<Rightarrow>
             (case sm_load (UserLimitInfo (rg_heap r ! a)) (UserTag tag i) of
                Some u \<Rightarrow>
                  if li_OverLimit u then (False, hk, heap_update a (set_over_limit (UserTag tag i) False) r)
                  else count
              | None \<Rightarrow> count))"

end
