(* ===== verification/Hy2_Laws.thy ===== *)
theory Hy2_Laws
  imports Hy2_Core Limiter_Online
begin

text \<open>
  What the hysteria core does: the bounds of its QUIC settings, its contract as a core, who may
  connect, how a rejected request cuts a client off, and how traffic is counted.
\<close>

section \<open>QUIC settings\<close>

definition within :: "int \<Rightarrow> int \<Rightarrow> bool" where
  "within low x \<longleftrightarrow> x = 0 \<or> low \<le> x"

definition or_default :: "int \<Rightarrow> int \<Rightarrow> int" where
  "or_default d x = (if x = 0 then d else x)"

definition quic_ok :: "sc_quic \<Rightarrow> bool" where
  "quic_ok c \<longleftrightarrow> within 16384 (qu_InitStreamReceiveWindow c) \<and> within 16384 (qu_MaxStreamReceiveWindow c) \<and>
     within 16384 (qu_InitConnectionReceiveWindow c) \<and> within 16384 (qu_MaxConnectionReceiveWindow c) \<and>
     within (4 * Second) (qu_MaxIdleTimeout c) \<and> qu_MaxIdleTimeout c \<le> 120 * Second \<and>
     within 8 (qu_MaxIncomingStreams c)"


section \<open>The contract\<close>

definition hy_serves :: "hysteria2 \<Rightarrow> string \<Rightarrow> bool" where
  "hy_serves h tag \<longleftrightarrow> sm_load (hz_Hy2nodes h) tag \<noteq> None"

interpretation hy2: core_contract "hy2_ops env" hy_serves "\<lambda>_. True" for env
proof (unfold_locales, goal_cases)
  case (1 s tag info opt err opt' s')
  then show ?case
    by (auto simp: hy2_ops_def hy_AddNode_def hy_serves_def Let_def split: option.splits sum.splits if_splits)
next
  case (2 s tag err s')
  then show ?case
    by (auto simp: hy2_ops_def hy_DelNode_def hy_serves_def Let_def split: option.splits)
next
  case (5 s tag uuid reset r s')
  then show ?case
    by (cases reset) (auto simp: hy2_ops_def hy_GetUserTraffic_def hy_serves_def fun_eq_iff split: option.splits if_splits)
qed (auto simp: hy2_ops_def hy_AddUsers_def hy_DelUsers_def hy_serves_def Let_def fun_eq_iff)

text \<open>C10: A selector is a core: if the members keep the contract of a core (adding a node makes it served,
  deleting it stops that, calls for one tag leave the others alone, the other calls change no node),
  then so does the selector over them, whatever the choice of members.\<close>

theorem selector_is_core:
  assumes "core_contract ops serves valid"
  shows "core_contract (selector_ops dc ops) (sel_serves serves) (sel_valid valid)"
  using assms by (rule core_contract.selector_contract)

lemma selector_is_core_witness:
  "\<forall>dc env. core_contract (selector_ops dc (hy2_ops env)) (sel_serves hy_serves) (sel_valid (\<lambda>_. True))"
  using selector_is_core hy2.core_contract_axioms by blast

section \<open>Who may connect\<close>

definition fair_schedule :: "(nat \<Rightarrow> hy2_env) \<Rightarrow> bool" where
  "fair_schedule env \<longleftrightarrow> (\<forall>i us. set (he_Schedule (env i) us) = set us)"

lemma auth_iff: "fst (Authenticate h a) \<longleftrightarrow> sm_load (hz_usersMap h) a \<noteq> None"
  by (simp add: Authenticate_def split: option.splits)

lemma auth_add:
  assumes "fair_schedule env" "hy_AddUsers env p h = Some (r, h')"
  shows "fst (Authenticate h' a) \<longleftrightarrow> a \<in> ui_Uuid ` set (au_Users p) \<or> fst (Authenticate h a)"
proof -
  let ?us = "he_Schedule (env (hz_calls h)) (au_Users p)"
  have "map_of (rev (map (\<lambda>u. (ui_Uuid u, ui_Id u)) ?us)) a = None \<longleftrightarrow> a \<notin> ui_Uuid ` set ?us"
    by (auto simp: map_of_eq_None_iff image_iff)
  moreover have "set ?us = set (au_Users p)" using assms(1) by (simp add: fair_schedule_def)
  ultimately show ?thesis
    using assms(2) by (auto simp: hy_AddUsers_def Let_def auth_iff sm.load_fold_store split: option.splits)
qed

lemma auth_del:
  assumes "fair_schedule env" "hy_DelUsers env us tag info h = Some (r, h')"
  shows "fst (Authenticate h' a) \<longleftrightarrow> fst (Authenticate h a) \<and> a \<notin> ui_Uuid ` set us"
  using assms by (auto simp: hy_DelUsers_def Let_def auth_iff sm.load_fold_delete fair_schedule_def split: if_splits)

lemma auth_node:
  "hy_DelNode env tag h = Some (e, h') \<Longrightarrow> Authenticate h' a = Authenticate h a"
  "hy_AddNode env tag info config h = Some (x, h') \<Longrightarrow> Authenticate h' a = Authenticate h a"
  by (auto simp: hy_DelNode_def hy_AddNode_def Authenticate_def Let_def split: option.splits sum.splits if_splits)

text \<open>Who may connect to the hysteria core, in whatever order its goroutines run. The users that are added may
  connect and the deleted ones may not; but the table belongs to all nodes and the node's
  deletion leaves it alone, so after a reload (the node deleted, added again, and the new users added) everybody who
  could connect before still can, also the users that the panel has removed.\<close>

theorem hy2_users:
  assumes "fair_schedule env"
  shows "(\<forall>p r h h'. hy_AddUsers env p h = Some (r, h') \<longrightarrow>
      (fst (Authenticate h' a) \<longleftrightarrow> a \<in> ui_Uuid ` set (au_Users p) \<or> fst (Authenticate h a))) \<and>
    (\<forall>users tag info e h h'. hy_DelUsers env users tag info h = Some (e, h') \<longrightarrow>
      (fst (Authenticate h' a) \<longleftrightarrow> fst (Authenticate h a) \<and> a \<notin> ui_Uuid ` set users)) \<and>
    (\<forall>tag tag' info config p e x r h h1 h2 h3. hy_DelNode env tag h = Some (e, h1) \<longrightarrow>
      hy_AddNode env tag' info config h1 = Some (x, h2) \<longrightarrow> hy_AddUsers env p h2 = Some (r, h3) \<longrightarrow>
      fst (Authenticate h a) \<longrightarrow> fst (Authenticate h3 a))"
proof (intro conjI allI impI)
  fix tag tag' info config p e x r h h1 h2 h3
  assume "hy_DelNode env tag h = Some (e, h1)" "hy_AddNode env tag' info config h1 = Some (x, h2)"
    "hy_AddUsers env p h2 = Some (r, h3)" "fst (Authenticate h a)"
  then show "fst (Authenticate h3 a)" using auth_node auth_add [OF assms] by metis
qed (use auth_add [OF assms] auth_del [OF assms] in blast)+

definition demo_env :: "nat \<Rightarrow> hy2_env" where
  "demo_env i = \<lparr>he_LoadX509KeyPair = (\<lambda>_ _. None), he_ResolveUDPAddr = (\<lambda>_. None), he_ListenUDP = (\<lambda>_. None),
     he_NewSalamander = (\<lambda>_. None), he_LocalAddr = id, he_ParsePortUnion = (\<lambda>_. None), he_ParseIP = (\<lambda>_. None),
     he_Outbound = (\<lambda>_. None), he_ParseURL = (\<lambda>_. None), he_SplitHostPort = (\<lambda>_. None), he_ReadConfig = (\<lambda>_. None),
     he_NewServer = (\<lambda>_. None), he_CloseServer = (\<lambda>_. None), he_Schedule = rev\<rparr>"

definition demo_hy_user :: user_info where
  "demo_hy_user = \<lparr>ui_Id = 7, ui_Uuid = ''u'', ui_SpeedLimit = 0, ui_DeviceLimit = 0\<rparr>"

definition demo_hy_node :: node_info where
  "demo_hy_node = zero_node\<lparr>ni_Type := ''hysteria2'', ni_Common := Some zero_common,
     ni_Hysteria2 := Some \<lparr>h2_Common = zero_common, h2_Ignore_Client_Bandwidth = False, h2_UpMbps = 0, h2_DownMbps = 0,
       h2_ObfsType = [], h2_ObfsPassword = []\<rparr>\<rparr>"

definition demo_hy_options :: options where
  "demo_hy_options = default_options\<lparr>op_Core := ''hysteria2'',
     op_CertConfig := Some (NewCertConfig\<lparr>cc_CertMode := ''file''\<rparr>)\<rparr>"

definition demo_hy_start :: hysteria2 where
  "demo_hy_start = \<lparr>hz_Hy2nodes = [], hz_usersMap = [(''u'', 7)], hz_calls = 0\<rparr>"

definition demo_hy :: hysteria2 where
  "demo_hy = snd (the (hy_AddNode demo_env ''n'' demo_hy_node demo_hy_options demo_hy_start))"

lemma hy2_users_witness:
  "\<exists>h1 h2 h3. hy_DelNode demo_env ''n'' demo_hy = Some (None, h1) \<and>
     hy_AddNode demo_env ''n'' demo_hy_node demo_hy_options h1 = Some ((None, demo_hy_options), h2) \<and>
     hy_AddUsers demo_env \<lparr>au_Tag = ''n'', au_Users = [], au_NodeInfo = demo_hy_node\<rparr> h2 = Some ((0, None), h3) \<and>
     fst (Authenticate h3 ''u'')"
proof -
  let ?h1 = "snd (the (hy_DelNode demo_env ''n'' demo_hy))"
  let ?h2 = "snd (the (hy_AddNode demo_env ''n'' demo_hy_node demo_hy_options ?h1))"
  let ?h3 = "snd (the (hy_AddUsers demo_env \<lparr>au_Tag = ''n'', au_Users = [], au_NodeInfo = demo_hy_node\<rparr> ?h2))"
  have fair: "fair_schedule demo_env" by (simp add: fair_schedule_def demo_env_def)
  have *: "hy_DelNode demo_env ''n'' demo_hy = Some (None, ?h1)"
    "hy_AddNode demo_env ''n'' demo_hy_node demo_hy_options ?h1 = Some ((None, demo_hy_options), ?h2)"
    "hy_AddUsers demo_env \<lparr>au_Tag = ''n'', au_Users = [], au_NodeInfo = demo_hy_node\<rparr> ?h2 = Some ((0, None), ?h3)"
    "fst (Authenticate demo_hy ''u'')"
    by code_simp+
  then have "fst (Authenticate ?h3 ''u'')" using hy2_users [OF fair, of "''u''"] by blast
  with * show ?thesis by blast
qed

section \<open>Traffic\<close>

definition counters_ok :: "hook_server \<Rightarrow> bool" where
  "counters_ok hk \<longleftrightarrow> (\<forall>t c. sm_load (hk_Counter hk) t = Some c \<longrightarrow> counter_inv c)"

definition hook_counter :: "hook_server \<Rightarrow> traffic_counter" where
  "hook_counter hk = (case sm_load (hk_Counter hk) (hk_Tag hk) of Some c \<Rightarrow> c | None \<Rightarrow> NewTrafficCounter)"

lemma hook_counter_inv: "counters_ok hk \<Longrightarrow> counter_inv (hook_counter hk)"
  by (auto simp: counters_ok_def hook_counter_def counter_inv_new split: option.splits)

lemma totals_logged:
  assumes "counter_inv c"
  shows "totals (Tx i n (Rx i m c)) = (totals c)(i := (i64 (fst (totals c i) + n), i64 (snd (totals c i) + m)))"
    and "counter_inv (Tx i n (Rx i m c))"
  using counter_step_refines [OF assms, of "RxOp i m"] counter_step_refines [of "Rx i m c" "TxOp i n"] by simp_all

lemma LogTraffic_counted:
  "LogTraffic i tx rx hk r = (True, hk', r') \<Longrightarrow> r' = r \<and> hk' = hk\<lparr>hk_Counter :=
     sm_store (hk_Tag hk) (Tx i (i64 tx) (Rx i (i64 rx) (hook_counter hk))) (hk_Counter hk)\<rparr>"
  by (auto simp: LogTraffic_def hook_counter_def Let_def split: sum.splits option.splits if_splits)

text \<open>Traffic that the hook counted is what the core reports: after a counted call the user's totals are those
  before plus the call's bytes (as 64-bit numbers), the other users' totals are unchanged, and reading with a reset
  leaves zero for this user only.\<close>

theorem hy2_traffic:
  assumes "sm_load (hz_Hy2nodes h) tag = Some n" "hk_Tag (hn_TrafficLogger n) = tag" "counters_ok (hn_TrafficLogger n)"
    and "LogTraffic uuid tx rx (hn_TrafficLogger n) r = (True, hk', r')"
    and "h' = h\<lparr>hz_Hy2nodes := sm_store tag (n\<lparr>hn_TrafficLogger := hk'\<rparr>) (hz_Hy2nodes h)\<rparr>"
    and "hy_GetUserTraffic tag uuid False h = Some ((up, down), h)"
  shows "\<exists>h''. hy_GetUserTraffic tag uuid True h' = Some ((i64 (up + i64 tx), i64 (down + i64 rx)), h'') \<and>
    hy_GetUserTraffic tag uuid False h'' = Some ((0, 0), h'') \<and>
    (v \<noteq> uuid \<longrightarrow> map_option fst (hy_GetUserTraffic tag v False h'') = map_option fst (hy_GetUserTraffic tag v False h))"
proof -
  let ?hk = "hn_TrafficLogger n"
  let ?c = "hook_counter ?hk"
  let ?c' = "Tx uuid (i64 tx) (Rx uuid (i64 rx) ?c)"
  let ?c'' = "Reset uuid ?c'"
  note inv = hook_counter_inv [OF assms(3)]
  have read: "map_option fst (hy_GetUserTraffic tag w False h) = Some (totals ?c w)" for w
    using assms(1,2)
    by (auto simp: hy_GetUserTraffic_def hook_counter_def totals_def GetUpCount_def GetDownCount_def
        NewTrafficCounter_def split: option.splits)
  from read [of uuid] assms(6) have now: "totals ?c uuid = (up, down)" by simp
  have hk': "sm_load (hk_Counter hk') tag = Some ?c'"
    using LogTraffic_counted [OF assms(4)] assms(2) by simp
  have c': "totals ?c' = (totals ?c)(uuid := (i64 (up + i64 tx), i64 (down + i64 rx)))"
    using totals_logged(1) [OF inv] now by simp
  have c'': "totals ?c'' = (totals ?c')(uuid := (0, 0))"
    using counter_step_refines [OF totals_logged(2) [OF inv], where x = "ResetOp uuid"] by simp
  let ?h'' = "h'\<lparr>hz_Hy2nodes := sm_store tag (n\<lparr>hn_TrafficLogger := hk'\<lparr>hk_Counter := sm_store tag ?c'' (hk_Counter hk')\<rparr>\<rparr>) (hz_Hy2nodes h')\<rparr>"
  have at: "(GetUpCount w ?c', GetDownCount w ?c') = totals ?c' w" "(GetUpCount w ?c'', GetDownCount w ?c'') = totals ?c'' w" for w
    by (simp_all add: totals_def)
  have "hy_GetUserTraffic tag uuid True h' = Some (totals ?c' uuid, ?h'')"
    using hk' by (simp add: hy_GetUserTraffic_def assms(5) at)
  moreover have "hy_GetUserTraffic tag w False ?h'' = Some (totals ?c'' w, ?h'')" for w
    by (simp add: hy_GetUserTraffic_def at)
  ultimately show ?thesis using read [of v] by (auto simp: c' c'')
qed

lemma hy2_traffic_witness:
  "\<exists>h'' h'. hy_GetUserTraffic ''n'' ''u'' True h' = Some ((30, 40), h'') \<and>
     hy_GetUserTraffic ''n'' ''u'' False h'' = Some ((0, 0), h'')"
proof -
  let ?n = "the (sm_load (hz_Hy2nodes demo_hy) ''n'')"
  let ?r = "snd (AddLimiter ''n'' demo_limits [] [] empty_registry)"
  let ?hk = "fst (snd (LogTraffic ''u'' 30 40 (hn_TrafficLogger ?n) ?r))"
  let ?r' = "snd (snd (LogTraffic ''u'' 30 40 (hn_TrafficLogger ?n) ?r))"
  have *: "sm_load (hz_Hy2nodes demo_hy) ''n'' = Some ?n" "hk_Tag (hn_TrafficLogger ?n) = ''n''"
    "hk_Counter (hn_TrafficLogger ?n) = []"
    "LogTraffic ''u'' 30 40 (hn_TrafficLogger ?n) ?r = (True, ?hk, ?r')"
    "hy_GetUserTraffic ''n'' ''u'' False demo_hy = Some ((0, 0), demo_hy)"
    "i64 (0 + i64 30) = 30" "i64 (0 + i64 40) = 40"
    by code_simp+
  have "counters_ok (hn_TrafficLogger ?n)" by (simp add: counters_ok_def *(3))
  from hy2_traffic [OF *(1,2) this *(4) refl *(5)] show ?thesis unfolding *(6,7) by blast
qed

section \<open>Requests over the limit\<close>

lemma GetLimiter_heap_update [simp]: "GetLimiter (heap_update a f r) tag = GetLimiter r tag"
  by (simp add: GetLimiter_def heap_update_def)

lemma heap_update_at: "a < length (rg_heap r) \<Longrightarrow> rg_heap (heap_update a f r) ! a = f (rg_heap r ! a)"
  by (simp add: heap_update_def)

text \<open>A request over the limit. If the limiter still knows the user, the next traffic of that client is
  refused, once: the refusal takes the mark away and the traffic after it is let through and counted
  (so that only a further refused request cuts the client off). If the limiter does not know the
  user, the request is refused, but nothing is marked, and the traffic goes through.\<close>

theorem rejection_cuts_once:
  assumes "GetLimiter r tag = Inr a" "a < length (rg_heap r)" "hk_Tag hk = tag"
    and "CheckLimit (rg_heap r ! a) now (UserTag tag uuid) (extractIPFromAddr addr) (network addr = ''tcp'') True =
      Some ((b, True), l)"
    and "TCPRequest now tag addr uuid r = Some r'"
  shows "if sm_load (UserLimitInfo l) (UserTag tag uuid) = None then fst (LogTraffic uuid tx rx hk r')
    else \<exists>r''. LogTraffic uuid tx rx hk r' = (False, hk, r'') \<and>
      (\<forall>hk' n m. hk_Tag hk' = tag \<longrightarrow> fst (LogTraffic uuid n m hk' r''))"
proof -
  let ?t = "UserTag tag uuid"
  have r': "r' = heap_update a (\<lambda>_. set_over_limit ?t True l) r"
    using assms by (simp add: TCPRequest_def check_request_def)
  then have at: "rg_heap r' ! a = set_over_limit ?t True l" "a < length (rg_heap r')"
    using assms(2) by (simp_all add: heap_update_def)
  have get: "GetLimiter r' tag = Inr a" using assms(1) by (simp add: r')
  show ?thesis
  proof (cases "sm_load (UserLimitInfo l) ?t")
    case None
    then show ?thesis using assms(3) get by (simp add: LogTraffic_def at(1) set_over_limit_def)
  next
    case (Some u)
    let ?r'' = "heap_update a (set_over_limit ?t False) r'"
    have "LogTraffic uuid tx rx hk r' = (False, hk, ?r'')"
      using assms(3) get Some by (simp add: LogTraffic_def at(1) set_over_limit_def)
    moreover have "fst (LogTraffic uuid n m hk' ?r'')" if "hk_Tag hk' = tag" for hk' n m
      using that get Some at by (simp add: LogTraffic_def heap_update_at set_over_limit_def)
    ultimately show ?thesis using Some by auto
  qed
qed

lemma rejection_cuts_once_witness:
  "\<exists>r'. TCPRequest 0 ''a'' (TCPAddr ''1.2.3.4'') ''x'' demo_registry = Some r' \<and>
     fst (LogTraffic ''x'' 1 1 \<lparr>hk_Tag = ''a'', hk_Counter = []\<rparr> r')"
proof -
  let ?c = "CheckLimit (rg_heap demo_registry ! 0) 0 (UserTag ''a'' ''x'')
    (extractIPFromAddr (TCPAddr ''1.2.3.4'')) (network (TCPAddr ''1.2.3.4'') = ''tcp'') True"
  let ?l = "snd (the ?c)"
  let ?r' = "the (TCPRequest 0 ''a'' (TCPAddr ''1.2.3.4'') ''x'' demo_registry)"
  have *: "GetLimiter demo_registry ''a'' = Inr 0" "0 < length (rg_heap demo_registry)" "?c = Some ((None, True), ?l)"
    "TCPRequest 0 ''a'' (TCPAddr ''1.2.3.4'') ''x'' demo_registry = Some ?r'"
    "sm_load (UserLimitInfo ?l) (UserTag ''a'' ''x'') = None"
    by code_simp+
  from rejection_cuts_once [OF *(1,2) _ *(3,4), where hk = "\<lparr>hk_Tag = ''a'', hk_Counter = []\<rparr>" and tx = 1 and rx = 1] *(4,5)
  show ?thesis by auto
qed

section \<open>Routing\<close>


definition demo_selector :: "hysteria2 selector" where
  "demo_selector = \<lparr>se_cores = [(''hysteria2'', demo_hy_start)], se_nodes = []\<rparr>"

definition demo_conf_codec :: conf_codec where
  "demo_conf_codec = \<lparr>dc_Raw = (\<lambda>_ x. (None, x)), dc_Api = (\<lambda>_ x. (None, x)), dc_Opt = (\<lambda>_ x. (None, x)),
     dc_Xray = (\<lambda>_ x. (None, x)), dc_Sing = (\<lambda>_ x. (None, x)), dc_Core = (\<lambda>_ x. (None, x)),
     dc_XrayConfig = (\<lambda>_ x. (None, x)), dc_SingConfig = (\<lambda>_ x. (None, x)), dc_Hysteria2Config = (\<lambda>_ x. (None, x))\<rparr>"


end
