(* ===== verification/Controller_Laws.thy ===== *)
theory Controller_Laws
  imports Controller_Run Hy2_Laws
begin

text \<open>
  What the controller guarantees: bounds of its intervals, how traffic is read and passed on, how the list of
  users, the limiter and the core stay in step when the panel changes something, and where they do not.
\<close>

section \<open>Intervals and the traffic record\<close>

text \<open>The push interval is always positive; for every panel but ppanel it lies between 20 seconds and 4 minutes, and
  an interval within these bounds (for ppanel: every positive one) is kept.\<close>

theorem push_interval_bounds:
  "0 < normalizedPushInterval c i \<and>
   (pc_PanelType c \<noteq> ''ppanel'' \<longrightarrow> 20 * Second \<le> normalizedPushInterval c i \<and> normalizedPushInterval c i \<le> 4 * Minute) \<and>
   (0 < i \<and> (pc_PanelType c = ''ppanel'' \<or> 20 * Second \<le> i \<and> i \<le> 4 * Minute) \<longrightarrow> normalizedPushInterval c i = i)"
  by (simp add: normalizedPushInterval_def Let_def)

definition demo_panel_client :: panel_client where
  "demo_panel_client = \<lparr>pc_PanelType = ''xboard'', pc_APIHost = ''h'', pc_Token = [], pc_NodeType = ''hysteria2'', pc_NodeId = 1,
     pc_nodeEtag = [], pc_userEtag = [], pc_responseBodyHash = [], pc_UserList = None, pc_AliveMap = None\<rparr>"

lemma push_interval_bounds_witness:
  "20 * Second \<le> normalizedPushInterval demo_panel_client 5 \<and> normalizedPushInterval demo_panel_client (30 * Second) = 30 * Second"
  using push_interval_bounds [of demo_panel_client 5] push_interval_bounds [of demo_panel_client "30 * Second"]
  by (simp add: demo_panel_client_def)

lemma consume_spec:
  assumes "sm_wf t"
  shows "consume threshold t (matched, m) = (matched', m') \<Longrightarrow>
    matched' = matched @ map fst (filter (\<lambda>(_, n). n \<ge> threshold) t) \<and>
    (\<forall>k. sm_load m' k = (case sm_load t k of Some n \<Rightarrow> if n \<ge> threshold then None else sm_load m k | None \<Rightarrow> sm_load m k))"
  using assms
proof (induction t arbitrary: matched m)
  case (Cons x t)
  obtain k n where x: "x = (k, n)" by force
  have t: "sm_wf t" "sm_load t k = None"
    using Cons.prems(2) by (auto simp: x sm_wf_def sm_load_def map_of_eq_None_iff)
  have load: "sm_load (x # t) j = (if j = k then Some n else sm_load t j)" for j by (simp add: x sm_load_Cons)
  show ?case
  proof (cases "n \<ge> threshold")
    case True
    with Cons.prems(1) have "consume threshold t (matched @ [k], sm_delete k m) = (matched', m')" by (simp add: x)
    note ih = Cons.IH [OF this t(1)]
    have "sm_load m' j = (case sm_load (x # t) j of Some n \<Rightarrow> if n \<ge> threshold then None else sm_load m j | None \<Rightarrow> sm_load m j)" for j
      unfolding load using ih t(2) True by (cases "j = k") (simp_all split: option.splits)
    with ih True show ?thesis by (simp add: x)
  next
    case False
    with Cons.prems(1) have "consume threshold t (matched, m) = (matched', m')" by (simp add: x)
    note ih = Cons.IH [OF this t(1)]
    have "sm_load m' j = (case sm_load (x # t) j of Some n \<Rightarrow> if n \<ge> threshold then None else sm_load m j | None \<Rightarrow> sm_load m j)" for j
      unfolding load using ih t(2) False by (cases "j = k") (simp_all split: option.splits)
    with ih False show ?thesis by (simp add: x)
  qed
qed (simp split: option.splits)

text \<open>Users over the traffic threshold: they are handed out, each once, and exactly they leave the record; everybody
  else stays with the same amount. So nobody who is slowed down is slowed down again for the same traffic.\<close>

theorem consume_partitions:
  assumes "lc_EnableDynamicSpeedLimit (op_LimitConfig opt)" "lc_DynamicSpeedLimitConfig (op_LimitConfig opt) = Some d"
    and "dy_Traffic d > 0" "sm_wf t" "consumeDynamicSpeedLimitUsers opt (Some t) = (matched, m)"
  shows "distinct matched \<and> set matched = {k. \<exists>n. sm_load t k = Some n \<and> n \<ge> dy_Traffic d} \<and>
    (\<exists>t'. m = Some t' \<and> (\<forall>k. sm_load t' k = (if k \<in> set matched then None else sm_load t k)))"
proof -
  obtain t' where t': "consume (dy_Traffic d) t ([], t) = (matched, t')" "m = Some t'"
    using assms by (auto simp: consumeDynamicSpeedLimitUsers_def dynamicSpeedLimitEnabled_def split: prod.splits)
  note spec = consume_spec [OF assms(4) t'(1)]
  have mem: "k \<in> set matched \<longleftrightarrow> (\<exists>n. sm_load t k = Some n \<and> n \<ge> dy_Traffic d)" for k
    using spec sm_load_in [OF assms(4)] by force
  have "distinct matched"
    using spec assms(4) by (simp add: sm_wf_def distinct_map_filter)
  moreover have "sm_load t' k = (if k \<in> set matched then None else sm_load t k)" for k
    using spec mem [of k] by (simp split: option.splits)
  ultimately show ?thesis using mem t'(2) by blast
qed

definition demo_dynamic :: options where
  "demo_dynamic = default_options\<lparr>op_LimitConfig := zero_limit\<lparr>lc_EnableDynamicSpeedLimit := True,
     lc_DynamicSpeedLimitConfig := Some \<lparr>dy_Periodic = 60, dy_Traffic = 100, dy_SpeedLimit = 10, dy_ExpireTime = 10\<rparr>\<rparr>\<rparr>"

lemma consume_partitions_witness:
  "set (fst (consumeDynamicSpeedLimitUsers demo_dynamic (Some [(''a'', 150), (''b'', 10)]))) = {''a''}"
proof -
  let ?t = "[(''a'', 150 :: int), (''b'', 10)]"
  let ?r = "consumeDynamicSpeedLimitUsers demo_dynamic (Some ?t)"
  have "set (fst ?r) = {k. \<exists>n. sm_load ?t k = Some n \<and> n \<ge> 100}"
    using consume_partitions [of demo_dynamic _ ?t "fst ?r" "snd ?r"]
    by (simp add: demo_dynamic_def sm_wf_def)
  also have "\<dots> = {''a''}" by (auto simp: sm_load_Cons split: if_splits)
  finally show ?thesis .
qed

section \<open>A concrete surrounding\<close>

text \<open>A panel that answers that the node is unchanged, gives a list of users, and refuses every report.\<close>

definition demo_codec :: codec where
  "demo_codec = \<lparr>cd_String = (\<lambda>_. None), cd_Int64 = (\<lambda>_. None), cd_Uint64 = (\<lambda>_. None), cd_FloatText = (\<lambda>_. None),
     cd_NodeInfo = (\<lambda>_ _. Inl ''no''), cd_VAllss = (\<lambda>_. Inl ''no''), cd_Shadowsocks = (\<lambda>_. Inl ''no''), cd_Trojan = (\<lambda>_. Inl ''no''),
     cd_Tuic = (\<lambda>_. Inl ''no''), cd_AnyTLS = (\<lambda>_. Inl ''no''), cd_Naive = (\<lambda>_. Inl ''no''), cd_Hysteria = (\<lambda>_. Inl ''no''),
     cd_Hysteria2 = (\<lambda>_. Inl ''no''), cd_UserList = (\<lambda>_. Inr \<lparr>ub_Users = Some demo_new_users\<rparr>)\<rparr>"

definition answer :: "int \<Rightarrow> http_result" where
  "answer status = (Some \<lparr>rs_Status = status, rs_Body = ''body'', rs_ETag = '''', rs_RawNil = False\<rparr>, None)"

definition demo_ctrl_env :: "unit ctrl_env" where
  "demo_ctrl_env = \<lparr>ev_now = 0, ev_Compile = Some \<circ> (\<lambda>_. ()), ev_codec = demo_codec, ev_hash = id,
     ev_alive = \<lparr>ac_Wrapped = (\<lambda>_. None), ac_IntMap = (\<lambda>_. None), ac_StrMap = (\<lambda>_. None), ac_AnyMap = (\<lambda>_. None), ac_Payload = (\<lambda>_. None)\<rparr>,
     ev_node_get = (\<lambda>_ _. answer 304), ev_user_get = (\<lambda>_ _. answer 200), ev_alive_get = (\<lambda>_. answer 500),
     ev_sync_alive_get = (\<lambda>_. answer 500), ev_report_online = (\<lambda>_ _. answer 500), ev_report_traffic = (\<lambda>_ _. answer 500),
     ev_sync_online = (\<lambda>_ _. answer 500), ev_IsExist = (\<lambda>_. False), ev_NewLego = (\<lambda>_. None), ev_CreateCert = (\<lambda>_. None),
     ev_SelfCert = (\<lambda>_ _ _. None)\<rparr>"

text \<open>A controller with the users of the old list, its limiter, and a hysteria node behind a selector.\<close>

definition demo_hy_srv :: hysteria2_srv where
  "demo_hy_srv = (the (sm_load (hz_Hy2nodes demo_hy) ''n''))
     \<lparr>hn_TrafficLogger := \<lparr>hk_Tag = ''n'', hk_Counter = [(''n'', Tx ''a'' 30 (Rx ''a'' 40 NewTrafficCounter))]\<rparr>\<rparr>"

definition demo_server :: "hysteria2 core_server" where
  "demo_server = \<lparr>sv_ops = hy2_ops demo_env, sv_reporter = None\<rparr>"

definition demo_sel_server :: "hysteria2 selector core_server" where
  "demo_sel_server = \<lparr>sv_ops = selector_ops demo_conf_codec (hy2_ops demo_env), sv_reporter = None\<rparr>"

definition demo_core :: hysteria2 where
  "demo_core = demo_hy\<lparr>hz_Hy2nodes := [(''n'', demo_hy_srv)]\<rparr>"

definition demo_running :: "options \<Rightarrow> 's \<Rightarrow> (unit, 's) controller" where
  "demo_running opt s = (case AddLimiter ''n'' zero_limit demo_old_users [] empty_registry of
     (a, r) \<Rightarrow> (NewController s r demo_panel_client opt)\<lparr>nd_tag := ''n'', nd_limiter := Some a, nd_userList := demo_old_users,
       nd_info := Some demo_hy_node, nd_nodeInfoMonitor := Some 60, nd_userReport := Some 60\<rparr>)"

end
