(* ===== verification/Traffic_Report.thy ===== *)
theory Traffic_Report
  imports Controller_Laws
begin

text \<open>
  The periodic report of traffic (\<^verbatim>\<open>node/user.go\<close>): what it reads of the core, what it passes on and what it
  leaves behind. The contract of a core that meters traffic is a locale; the hysteria core provides it, and so does
  a selector over members that do.
\<close>

definition moved :: "(int \<times> int) \<Rightarrow> bool" where
  "moved m \<longleftrightarrow> fst m > 0 \<or> snd m > 0"

text \<open>For a table of meters by uuid: the users with traffic, their reports, and the record of traffic.\<close>

definition movers :: "(string \<Rightarrow> int \<times> int) \<Rightarrow> user_info list \<Rightarrow> user_info list" where
  "movers f us = filter (\<lambda>u. moved (f (ui_Uuid u))) us"

definition reports :: "(string \<Rightarrow> int \<times> int) \<Rightarrow> user_info list \<Rightarrow> user_traffic list" where
  "reports f us = map (\<lambda>u. \<lparr>ut_UID = ui_Id u, ut_Upload = fst (f (ui_Uuid u)), ut_Download = snd (f (ui_Uuid u)),
     ut_Key = ''''\<rparr>) (movers f us)"

definition note_traffic :: "(string \<Rightarrow> int \<times> int) \<Rightarrow> user_info list \<Rightarrow> (string, int) gomap option \<Rightarrow> (string, int) gomap option" where
  "note_traffic f us m =
     fold (\<lambda>u. addTraffic (ui_Uuid u) (i64 (fst (f (ui_Uuid u)) + snd (f (ui_Uuid u))))) (movers f us) m"

lemma movers_cong:
  assumes "\<And>u. u \<in> set us \<Longrightarrow> f (ui_Uuid u) = g (ui_Uuid u)"
  shows "movers f us = movers g us" "reports f us = reports g us" "note_traffic f us m = note_traffic g us m"
proof -
  show movers: "movers f us = movers g us"
    unfolding movers_def by (rule filter_cong) (simp_all add: assms)
  have "u \<in> set us" if "u \<in> set (movers g us)" for u using that by (simp add: movers_def)
  then show "reports f us = reports g us" "note_traffic f us m = note_traffic g us m"
    by (auto simp: reports_def note_traffic_def movers assms intro!: fold_cong)
qed

lemma movers_Cons [simp]:
  "reports f (u # us) = (if moved (f (ui_Uuid u)) then \<lparr>ut_UID = ui_Id u, ut_Upload = fst (f (ui_Uuid u)),
     ut_Download = snd (f (ui_Uuid u)), ut_Key = ''''\<rparr> # reports f us else reports f us)"
  "note_traffic f (u # us) m = note_traffic f us (if moved (f (ui_Uuid u))
     then addTraffic (ui_Uuid u) (i64 (fst (f (ui_Uuid u)) + snd (f (ui_Uuid u)))) m else m)"
  by (simp_all add: reports_def note_traffic_def movers_def)

lemma movers_Nil [simp]: "reports f [] = []" "note_traffic f [] m = m"
  by (simp_all add: reports_def note_traffic_def movers_def)

lemma reports_zero: "(\<And>u. u \<in> set us \<Longrightarrow> f (ui_Uuid u) = (0, 0)) \<Longrightarrow> reports f us = []"
  by (simp add: reports_def movers_def moved_def filter_empty_conv)

text \<open>Reporting who is online changes at most the limiter.\<close>

lemma report_online_frame:
  "report_online ev sv ts n = Some (data, n') \<Longrightarrow> \<exists>r. n' = n\<lparr>nd_registry := r\<rparr>"
proof -
  have "\<exists>r. snd (getOnlineUsers sv n) = n\<lparr>nd_registry := r\<rparr>"
    by (auto simp: getOnlineUsers_def split: option.splits intro: exI [of _ "nd_registry n"])
  then show "report_online ev sv ts n = Some (data, n') \<Longrightarrow> \<exists>r. n' = n\<lparr>nd_registry := r\<rparr>"
    by (auto simp: report_online_def Let_def split: option.splits prod.splits sum.splits)
qed

text \<open>A selector passes the calls on to the member of the node; a node it does not know has no traffic.\<close>

definition sel_metered :: "('s \<Rightarrow> string \<Rightarrow> bool) \<Rightarrow> 's selector \<Rightarrow> string \<Rightarrow> bool" where
  "sel_metered metered s tag = (case node_core s tag of None \<Rightarrow> True | Some (_, c) \<Rightarrow> metered c tag)"

definition sel_meter :: "('s \<Rightarrow> string \<Rightarrow> string \<Rightarrow> int \<times> int) \<Rightarrow> 's selector \<Rightarrow> string \<Rightarrow> string \<Rightarrow> int \<times> int" where
  "sel_meter meter s tag = (case node_core s tag of None \<Rightarrow> (\<lambda>_. (0, 0)) | Some (_, c) \<Rightarrow> meter c tag)"

text \<open>Reading with a reset gives the meter of the user and sets it, and no other, to zero.\<close>

locale traffic_meter =
  fixes ops :: "'s core_ops"
    and metered :: "'s \<Rightarrow> string \<Rightarrow> bool"
    and meter :: "'s \<Rightarrow> string \<Rightarrow> string \<Rightarrow> int \<times> int"
  assumes read: "metered s tag \<Longrightarrow> \<exists>s'. co_GetUserTraffic ops tag uuid True s = Some (meter s tag uuid, s') \<and>
      metered s' tag \<and> meter s' tag = (meter s tag)(uuid := (0, 0))"
begin

lemma count:
  assumes "metered s tag" "distinct (map ui_Uuid us)"
  shows "\<exists>s'. count_users ops tag d us (s, m, ts) =
      Some (s', (if d then note_traffic (meter s tag) us m else m), ts @ reports (meter s tag) us) \<and>
    metered s' tag \<and> meter s' tag = (\<lambda>k. if k \<in> ui_Uuid ` set us then (0, 0) else meter s tag k)"
  using assms
proof (induction us arbitrary: s m ts)
  case (Cons u us)
  obtain s1 where s1: "co_GetUserTraffic ops tag (ui_Uuid u) True s = Some (meter s tag (ui_Uuid u), s1)"
    "metered s1 tag" "meter s1 tag = (meter s tag)(ui_Uuid u := (0, 0))"
    using read [OF Cons.prems(1)] by blast
  obtain up down where m: "meter s tag (ui_Uuid u) = (up, down)" by force
  have "ui_Uuid v \<noteq> ui_Uuid u" if "v \<in> set us" for v
    using Cons.prems(2) that by (metis distinct.simps(2) image_eqI list.simps(9) set_map)
  then have same: "meter s1 tag (ui_Uuid v) = meter s tag (ui_Uuid v)" if "v \<in> set us" for v
    using that by (simp add: s1(3))
  have cong: "reports (meter s1 tag) us = reports (meter s tag) us"
    "note_traffic (meter s1 tag) us x = note_traffic (meter s tag) us x" for x
    by (rule movers_cong; simp add: same)+
  have "distinct (map ui_Uuid us)" using Cons.prems(2) by simp
  note ih = Cons.IH [OF s1(2) this, unfolded cong]
  show ?case
  proof (cases "moved (up, down)")
    case True
    let ?m = "if d then addTraffic (ui_Uuid u) (i64 (up + down)) m else m"
    let ?t = "\<lparr>ut_UID = ui_Id u, ut_Upload = up, ut_Download = down, ut_Key = []\<rparr>"
    obtain s' where "count_users ops tag d us (s1, ?m, ts @ [?t]) =
        Some (s', (if d then note_traffic (meter s tag) us ?m else ?m), (ts @ [?t]) @ reports (meter s tag) us)"
      "metered s' tag" "meter s' tag = (\<lambda>k. if k \<in> ui_Uuid ` set us then (0, 0) else meter s1 tag k)"
      using ih [where m = ?m and ts = "ts @ [?t]"] by blast
    with True show ?thesis by (auto simp: s1(1,3) m moved_def)
  next
    case False
    obtain s' where "count_users ops tag d us (s1, m, ts) =
        Some (s', (if d then note_traffic (meter s tag) us m else m), ts @ reports (meter s tag) us)"
      "metered s' tag" "meter s' tag = (\<lambda>k. if k \<in> ui_Uuid ` set us then (0, 0) else meter s1 tag k)"
      using ih [where m = m and ts = ts] by blast
    with False show ?thesis by (auto simp: s1(1,3) m moved_def)
  qed
qed auto

text \<open>What a run of the task reports does not depend on whether the panel takes it; a second run reports nothing.\<close>

lemma report_task:
  assumes "metered (nd_server n) (nd_tag n)" "distinct (map ui_Uuid (nd_userList n))" "sv_ops sv = ops"
    and "reportUserTrafficTask ev sv n = Some (log, n')"
  shows "rl_traffic log = reports (meter (nd_server n) (nd_tag n)) (nd_userList n) \<and>
    nd_tag n' = nd_tag n \<and> nd_userList n' = nd_userList n \<and> metered (nd_server n') (nd_tag n) \<and>
    meter (nd_server n') (nd_tag n) =
      (\<lambda>k. if k \<in> ui_Uuid ` set (nd_userList n) then (0, 0) else meter (nd_server n) (nd_tag n) k)"
proof -
  obtain s' m' where c: "count_users ops (nd_tag n) (dynamicSpeedLimitEnabled (nd_Options n)) (nd_userList n)
      (nd_server n, nd_traffic n, []) = Some (s', m', reports (meter (nd_server n) (nd_tag n)) (nd_userList n))"
    "metered s' (nd_tag n)" "meter s' (nd_tag n) =
      (\<lambda>k. if k \<in> ui_Uuid ` set (nd_userList n) then (0, 0) else meter (nd_server n) (nd_tag n) k)"
    using count [OF assms(1,2), of _ "nd_traffic n" "[]"] by fastforce
  with assms(3,4) show ?thesis
    by (auto simp: reportUserTrafficTask_def split: option.splits prod.splits if_splits
        dest!: report_online_frame)
qed

lemma selector_meter: "traffic_meter (selector_ops dc ops) (sel_metered metered) (sel_meter meter)"
proof (unfold_locales, goal_cases)
  case (1 s tag uuid)
  show ?case
  proof (cases "node_core s tag")
    case None
    then show ?thesis by (auto simp: selector_ops_def sel_GetUserTraffic_def sel_metered_def sel_meter_def)
  next
    case (Some x)
    obtain n c where x: "node_core s tag = Some (n, c)" using Some by (cases x) auto
    with 1 have "metered c tag" by (simp add: sel_metered_def)
    from read [OF this, of uuid] obtain c' where
      "co_GetUserTraffic ops tag uuid True c = Some (meter c tag uuid, c')" "metered c' tag"
      "meter c' tag = (meter c tag)(uuid := (0, 0))" by blast
    moreover from x have "node_core (put_core n s c') tag = Some (n, c')"
      by (simp add: node_core_Some put_core_def)
    ultimately show ?thesis using x
      by (auto simp: selector_ops_def sel_GetUserTraffic_def sel_metered_def sel_meter_def)
  qed
qed

end

section \<open>The hysteria core\<close>

definition hy_metered :: "hysteria2 \<Rightarrow> string \<Rightarrow> bool" where
  "hy_metered h tag = (case sm_load (hz_Hy2nodes h) tag of None \<Rightarrow> False
     | Some n \<Rightarrow> hk_Tag (hn_TrafficLogger n) = tag \<and> counters_ok (hn_TrafficLogger n))"

definition hy_meter :: "hysteria2 \<Rightarrow> string \<Rightarrow> string \<Rightarrow> int \<times> int" where
  "hy_meter h tag = (case sm_load (hz_Hy2nodes h) tag of None \<Rightarrow> (\<lambda>_. (0, 0))
     | Some n \<Rightarrow> totals (hook_counter (hn_TrafficLogger n)))"

interpretation hy_traffic: traffic_meter "hy2_ops env" hy_metered hy_meter for env
proof (unfold_locales, goal_cases)
  case (1 h tag uuid)
  then obtain n where n: "sm_load (hz_Hy2nodes h) tag = Some n" "hk_Tag (hn_TrafficLogger n) = tag"
    "counters_ok (hn_TrafficLogger n)" by (auto simp: hy_metered_def split: option.splits)
  let ?hk = "hn_TrafficLogger n"
  show ?case
  proof (cases "sm_load (hk_Counter ?hk) tag")
    case None
    then have "hook_counter ?hk = NewTrafficCounter" using n(2) by (simp add: hook_counter_def)
    moreover have "totals NewTrafficCounter = (\<lambda>_. (0, 0))"
      by (auto simp: fun_eq_iff totals_def GetUpCount_def GetDownCount_def NewTrafficCounter_def)
    ultimately show ?thesis using n None
      by (auto simp: hy2_ops_def hy_GetUserTraffic_def hy_meter_def hy_metered_def)
  next
    case (Some c)
    have c: "hook_counter ?hk = c" "counter_inv c"
      using Some n by (auto simp: hook_counter_def counters_ok_def)
    have "totals (Reset uuid c) = (totals c)(uuid := (0, 0))" "counter_inv (Reset uuid c)"
      using counter_step_refines [OF c(2), of "ResetOp uuid"] by simp_all
    then show ?thesis using n Some c
      by (auto simp: hy2_ops_def hy_GetUserTraffic_def hy_meter_def hy_metered_def hook_counter_def counters_ok_def
          totals_def fun_eq_iff)
  qed
qed

interpretation sel_traffic: traffic_meter "selector_ops dc (hy2_ops env)" "sel_metered hy_metered" "sel_meter hy_meter"
  for dc env by (rule hy_traffic.selector_meter)

text \<open>C6: One run of the report task over hysteria nodes behind a selector: it reports, in the order of the user
  list, exactly the users with traffic since the last run, with that traffic, and sets the counters of all listed users
  to zero, whatever the panel answers. So when the panel refuses the report this traffic is lost: the next run, without
  new traffic, reports nothing.\<close>

theorem traffic_read_once:
  assumes "sel_metered hy_metered (nd_server n) (nd_tag n)" "distinct (map ui_Uuid (nd_userList n))"
    and "sv_ops sv = selector_ops dc (hy2_ops env)"
    and "reportUserTrafficTask ev sv n = Some (log, n')"
    and "reportUserTrafficTask ev' sv n' = Some (log', n'')"
  shows "rl_traffic log = reports (sel_meter hy_meter (nd_server n) (nd_tag n)) (nd_userList n) \<and>
    (\<forall>k. sel_meter hy_meter (nd_server n') (nd_tag n) k =
       (if k \<in> ui_Uuid ` set (nd_userList n) then (0, 0) else sel_meter hy_meter (nd_server n) (nd_tag n) k)) \<and>
    rl_traffic log' = []"
proof -
  note 1 = sel_traffic.report_task [OF assms(1-4)]
  then have "sel_metered hy_metered (nd_server n') (nd_tag n')" "distinct (map ui_Uuid (nd_userList n'))"
    using assms(2) by simp_all
  note 2 = sel_traffic.report_task [OF this assms(3,5)]
  from 1 have "reports (sel_meter hy_meter (nd_server n') (nd_tag n')) (nd_userList n') = []"
    by (intro reports_zero) simp
  with 1 2 show ?thesis by simp
qed

lemma traffic_read_once_witness:
  "\<exists>log log' n' n''. reportUserTrafficTask demo_ctrl_env demo_sel_server
       (demo_running default_options \<lparr>se_cores = [(''hysteria2'', demo_core)], se_nodes = [(''n'', ''hysteria2'')]\<rparr>) = Some (log, n') \<and>
     reportUserTrafficTask demo_ctrl_env demo_sel_server n' = Some (log', n'') \<and>
     rl_traffic log = [\<lparr>ut_UID = 1, ut_Upload = 30, ut_Download = 40, ut_Key = ''''\<rparr>] \<and> rl_traffic_err log \<noteq> None \<and>
     rl_traffic log' = []"
proof -
  let ?n = "demo_running default_options \<lparr>se_cores = [(''hysteria2'', demo_core)], se_nodes = [(''n'', ''hysteria2'')]\<rparr>"
  let ?r = "the (reportUserTrafficTask demo_ctrl_env demo_sel_server ?n)"
  let ?r' = "the (reportUserTrafficTask demo_ctrl_env demo_sel_server (snd ?r))"
  have runs: "reportUserTrafficTask demo_ctrl_env demo_sel_server ?n = Some (fst ?r, snd ?r)"
    "reportUserTrafficTask demo_ctrl_env demo_sel_server (snd ?r) = Some (fst ?r', snd ?r')"
    "rl_traffic_err (fst ?r) \<noteq> None"
    "reports (sel_meter hy_meter (nd_server ?n) (nd_tag ?n)) (nd_userList ?n) =
      [\<lparr>ut_UID = 1, ut_Upload = 30, ut_Download = 40, ut_Key = ''''\<rparr>]"
    by code_simp+
  have ok: "counters_ok (hn_TrafficLogger demo_hy_srv)"
    using totals_logged(2) [OF counter_inv_new, of "''a''" 30 40]
    by (auto simp: counters_ok_def demo_hy_srv_def sm_load_Cons split: if_splits)
  have n: "nd_server ?n = \<lparr>se_cores = [(''hysteria2'', demo_core)], se_nodes = [(''n'', ''hysteria2'')]\<rparr>" "nd_tag ?n = ''n''"
    "distinct (map ui_Uuid (nd_userList ?n))"
    by (simp_all add: demo_running_def AddLimiter_def Let_def NewController_def demo_old_users_def)
  have "hy_metered demo_core ''n''"
    using ok by (simp add: hy_metered_def demo_core_def sm_load_Cons) (simp add: demo_hy_srv_def)
  then have "sel_metered hy_metered (nd_server ?n) (nd_tag ?n)"
    unfolding n by (simp add: sel_metered_def node_core_def sm_load_Cons)
  note once = traffic_read_once [OF this n(3) _ runs(1,2), of demo_conf_codec demo_env, unfolded runs(4)]
  have "sv_ops demo_sel_server = selector_ops demo_conf_codec (hy2_ops demo_env)" by (simp add: demo_sel_server_def)
  from once [OF this] runs(1-3) show ?thesis by blast
qed

end
