(* ===== verification/Node_Sync.thy ===== *)
theory Node_Sync
  imports Controller_Laws Limiter_Check
begin

text \<open>
  The monitor of a node (\<^verbatim>\<open>nodeInfoMonitor\<close> in \<^verbatim>\<open>node/task.go\<close>) and what it keeps: the limiter of the
  controller holds the controller's list of users, whatever the panel and the core answer, as long as the node has no
  name of its own; with a name, the limiter stays behind when the node changes.
\<close>

section \<open>Handlers that change no user\<close>

definition same_table :: "'re limiter \<Rightarrow> 're limiter \<Rightarrow> bool" where
  "same_table l l' \<longleftrightarrow> UserLimitInfo l' = UserLimitInfo l \<and> UUIDtoUID l' = UUIDtoUID l"

definition users_kept :: "('re, 's) controller \<Rightarrow> ('re, 's) controller \<Rightarrow> bool" where
  "users_kept n n' \<longleftrightarrow> nd_tag n' = nd_tag n \<and> nd_userList n' = nd_userList n \<and> nd_limiter n' = nd_limiter n \<and>
     length (rg_heap (nd_registry n')) = length (rg_heap (nd_registry n)) \<and>
     (\<forall>a < length (rg_heap (nd_registry n)). same_table (rg_heap (nd_registry n) ! a) (rg_heap (nd_registry n') ! a))"

lemma users_kept_refl [simp]: "users_kept n n"
  by (simp add: users_kept_def same_table_def)

lemma users_kept_trans: "users_kept n1 n2 \<Longrightarrow> users_kept n2 n3 \<Longrightarrow> users_kept n1 n3"
  by (auto simp: users_kept_def same_table_def)

lemma users_kept_fields [simp]:
  "users_kept n (n'\<lparr>nd_server := s\<rparr>) = users_kept n n'"
  "users_kept n (n'\<lparr>nd_apiClient := c\<rparr>) = users_kept n n'"
  "users_kept n (n'\<lparr>nd_traffic := m\<rparr>) = users_kept n n'"
  "users_kept n (n'\<lparr>nd_aliveMap := al\<rparr>) = users_kept n n'"
  "users_kept n (n'\<lparr>nd_info := i\<rparr>) = users_kept n n'"
  "users_kept n (n'\<lparr>nd_nodeInfoMonitor := p\<rparr>) = users_kept n n'"
  "users_kept n (n'\<lparr>nd_userReport := p\<rparr>) = users_kept n n'"
  "users_kept n (n'\<lparr>nd_onlineIpReport := p\<rparr>) = users_kept n n'"
  "users_kept n (n'\<lparr>nd_Options := opt\<rparr>) = users_kept n n'"
  "users_kept n (n'\<lparr>nd_renewCert := p\<rparr>) = users_kept n n'"
  "users_kept n (n'\<lparr>nd_dynamicSpeedLimit := p\<rparr>) = users_kept n n'"
  "users_kept n (resetTraffic n') = users_kept n n'"
  "users_kept (n\<lparr>nd_server := s\<rparr>) n' = users_kept n n'"
  "users_kept (n\<lparr>nd_apiClient := c\<rparr>) n' = users_kept n n'"
  "users_kept (n\<lparr>nd_traffic := m\<rparr>) n' = users_kept n n'"
  "users_kept (n\<lparr>nd_aliveMap := al\<rparr>) n' = users_kept n n'"
  "users_kept (n\<lparr>nd_userReport := p\<rparr>) n' = users_kept n n'"
  "users_kept (n\<lparr>nd_onlineIpReport := p\<rparr>) n' = users_kept n n'"
  "users_kept (n\<lparr>nd_Options := opt\<rparr>) n' = users_kept n n'"
  "users_kept (n\<lparr>nd_info := i\<rparr>) n' = users_kept n n'"
  "users_kept (n\<lparr>nd_nodeInfoMonitor := p\<rparr>) n' = users_kept n n'"
  by (simp_all add: users_kept_def resetTraffic_def)

lemma same_table_refl [simp]: "same_table l l" by (simp add: same_table_def)

lemma same_table_trans: "same_table l l' \<Longrightarrow> same_table l' l'' \<Longrightarrow> same_table l l''" by (simp add: same_table_def)

lemma same_table_nth: "same_table (xs ! a) l \<Longrightarrow> same_table (xs ! b) (xs[a := l] ! b)"
  by (cases "a < length xs"; cases "a = b") (simp_all add: list_update_beyond)

lemma users_kept_store:
  assumes "same_table (rg_heap (nd_registry n') ! a) (f (rg_heap (nd_registry n') ! a))" "users_kept n n'"
  shows "users_kept n (n'\<lparr>nd_registry := heap_update a f (nd_registry n')\<rparr>)"
  using assms(2) same_table_nth [of _ a, OF assms(1)]
  by (auto simp: users_kept_def heap_update_def intro: same_table_trans)

lemma users_kept_update [intro]:
  "(\<And>l. same_table l (f l)) \<Longrightarrow> users_kept n n' \<Longrightarrow> users_kept n (n'\<lparr>nd_registry := heap_update a f (nd_registry n')\<rparr>)"
  by (rule users_kept_store)

lemma rotate_online_uids [simp]: "UUIDtoUID (rotate_online m l) = UUIDtoUID l"
  by (induction m l rule: rotate_online.induct) simp_all

lemma same_table_ops [simp]:
  "same_table l (SetAliveList m l)" "same_table l (snd (GetOnlineDevice l))"
  "UpdateRule Compile r l' = Some l'' \<Longrightarrow> same_table l l'' = same_table l l'"
  by (auto simp: same_table_def GetOnlineDevice_def UpdateRule_def split: Option.bind_splits)

lemma on_limiter_kept:
  "(\<And>l. same_table l (f l)) \<Longrightarrow> on_limiter f n = Some n' \<Longrightarrow> users_kept n n'"
  by (auto simp: on_limiter_def split: option.splits)

lemma report_kept:
  assumes "reportUserTrafficTask ev sv n = Some (log, n')"
  shows "users_kept n n'"
proof -
  have online: "users_kept m (snd (getOnlineUsers sv m))" for m :: "('a, 'b) controller"
    by (auto simp: getOnlineUsers_def split: option.splits)
  have "users_kept m m'" if "report_online ev sv ts m = Some (d, m')" for m m' :: "('a, 'b) controller" and ts d
    using that online [of m] by (auto simp: report_online_def Let_def split: prod.splits sum.splits option.splits)
  with assms show ?thesis
    by (fastforce simp: reportUserTrafficTask_def split: option.splits prod.splits if_splits)
qed

lemma sync_kept: "syncOnlineUsersTask ev sv n = Some n' \<Longrightarrow> users_kept n n'"
  by (auto simp: syncOnlineUsersTask_def Let_def split: if_splits sum.splits option.splits prod.splits
      dest: on_limiter_kept [rotated])

lemma ensure_kept: "ensureOnlineIPSyncTask ev sv n = Some n' \<Longrightarrow> users_kept n n'"
  by (auto simp: ensureOnlineIPSyncTask_def split: if_splits dest: sync_kept)

text \<open>The states in which a handler ends or stops.\<close>

definition ends :: "'w outcome \<Rightarrow> 'w \<Rightarrow> bool" where
  "ends r w \<longleftrightarrow> r = Done w \<or> r = Hang w"

lemma ends_simps [simp]:
  "ends (Done w) w' = (w' = w)" "ends (Hang w) w' = (w' = w)" "\<not> ends Panic w"
  "ends (done_or_panic r) w = (r = Some w)"
  by (auto simp: ends_def done_or_panic_def split: option.splits)

lemma intervals_kept: "ends (check_intervals ev sv newN n) n' \<Longrightarrow> users_kept n n'"
  by (fastforce simp: check_intervals_def Let_def split: option.splits if_splits
      dest: ensure_kept report_kept intro: users_kept_trans)

lemma readd_kept: "ends (readd_node ev sv newN n) n' \<Longrightarrow> users_kept n n'"
  by (auto simp: readd_node_def split: option.splits prod.splits dest!: intervals_kept)

section \<open>The limiter holds the users\<close>

definition in_sync :: "('re, 's) controller \<Rightarrow> bool" where
  "in_sync n \<longleftrightarrow> distinct (map ui_Uuid (nd_userList n)) \<and> (case nd_limiter n of None \<Rightarrow> False
     | Some a \<Rightarrow> a < length (rg_heap (nd_registry n)) \<and> tracks_users (nd_tag n) (nd_userList n) (rg_heap (nd_registry n) ! a))"

lemma tracks_same_table: "same_table l l' \<Longrightarrow> tracks_users tag us l' = tracks_users tag us l"
  by (simp add: same_table_def tracks_users_def)

lemma tracks_None:
  assumes "tracks_users tag us l"
  shows "sm_load (UserLimitInfo l) (UserTag tag k) = None \<longleftrightarrow> k \<notin> ui_Uuid ` set us"
proof -
  have "map_option panel_view (sm_load (UserLimitInfo l) (UserTag tag k)) = user_table user_view us k"
    using assms by (simp add: tracks_users_def)
  then show ?thesis using user_table_None [of user_view us k] by (metis map_option_is_None)
qed

lemma in_sync_kept: "users_kept n n' \<Longrightarrow> in_sync n \<Longrightarrow> in_sync n'"
  by (auto simp: in_sync_def users_kept_def tracks_same_table split: option.splits)

lemma in_sync_fields [simp]:
  "in_sync (n\<lparr>nd_server := s\<rparr>) = in_sync n" "in_sync (n\<lparr>nd_apiClient := c\<rparr>) = in_sync n"
  by (simp_all add: in_sync_def split: option.splits)

text \<open>No list of the panel names a uuid twice.\<close>

definition distinct_lists :: "codec \<Rightarrow> bool" where
  "distinct_lists cd \<longleftrightarrow> (\<forall>s b us. cd_UserList cd s = Inr b \<longrightarrow> ub_Users b = Some us \<longrightarrow> distinct (map ui_Uuid us))"

lemma GetUserList_distinct:
  "distinct_lists cd \<Longrightarrow> GetUserList cd get c = Some (Inr (Some us), c') \<Longrightarrow> distinct (map ui_Uuid us)"
  by (auto simp: GetUserList_def Let_def distinct_lists_def split: option.splits sum.splits if_splits)

lemma reload_limiter_sync:
  assumes "op_Name (nd_Options n) = ''''" "distinct (map ui_Uuid (nd_userList n))"
  shows "in_sync (reload_limiter newN newA n)"
  using assms by (simp add: reload_limiter_def in_sync_def AddLimiter_def DeleteLimiter_def Let_def tracks_new)

lemma reload_rules_kept: "reload_rules ev newN newA n = Some n' \<Longrightarrow> users_kept n n'"
proof -
  assume "reload_rules ev newN newA n = Some n'"
  then obtain a l where a: "UpdateRule (ev_Compile ev) (ni_Rules newN) (SetAliveList newA (rg_heap (nd_registry n) ! a)) = Some l"
    "n' = n\<lparr>nd_registry := heap_update a (\<lambda>_. l) (nd_registry n)\<rparr>"
    by (auto simp: reload_rules_def split: option.splits)
  then have "same_table (rg_heap (nd_registry n) ! a) l" by simp
  then show "users_kept n n'" unfolding a(2) by (intro users_kept_store) simp_all
qed

lemma reload_sync:
  assumes "ends (reload_node ev sv newN newU newA n) n'" "op_Name (nd_Options n) = ''''"
    and "distinct (map ui_Uuid (nd_userList n))" "\<And>us. newU = Some us \<Longrightarrow> distinct (map ui_Uuid us)"
  shows "in_sync n'"
proof -
  let ?n1 = "resetTraffic (n\<lparr>nd_info := Some newN, nd_userList := (case newU of None \<Rightarrow> nd_userList n | Some us \<Rightarrow> us)\<rparr>)"
  obtain s n2 where n2: "reload_rules ev newN newA (reload_limiter newN newA (?n1\<lparr>nd_server := s\<rparr>)) = Some n2"
    and n': "n' = n2 \<or> ends (readd_node ev sv newN n2) n'"
    using assms(1) by (auto simp: reload_node_def Let_def split: option.splits prod.splits if_splits)
  have "in_sync (reload_limiter newN newA (?n1\<lparr>nd_server := s\<rparr>))"
    using assms(2-4) by (intro reload_limiter_sync) (simp_all add: resetTraffic_def split: option.splits)
  then have "in_sync n2" using reload_rules_kept [OF n2] in_sync_kept by blast
  with n' show ?thesis using readd_kept in_sync_kept by blast
qed

lemma note_users_sync:
  assumes "in_sync n" "distinct (map ui_Uuid us)" "compareUserList (nd_userList n) us = (deleted, added)"
    and "note_users deleted added n = Some n'"
  shows "in_sync (n'\<lparr>nd_userList := us\<rparr>)"
proof -
  obtain a where a: "nd_limiter n = Some a" "a < length (rg_heap (nd_registry n))"
    "tracks_users (nd_tag n) (nd_userList n) (rg_heap (nd_registry n) ! a)" "distinct (map ui_Uuid (nd_userList n))"
    using assms(1) by (auto simp: in_sync_def split: option.splits)
  note tracks = UpdateUser_tracks [OF a(3,4) assms(2,3)]
  show ?thesis
  proof (cases "deleted = [] \<and> added = []")
    case True
    with tracks assms(2,4) a(1,2) show ?thesis by (simp add: note_users_def in_sync_def UpdateUser_def)
  next
    case False
    then obtain n1 where n1: "n1 = n\<lparr>nd_registry := heap_update a (UpdateUser (nd_tag n) added deleted) (nd_registry n)\<rparr>"
      and n': "n' = n1 \<or> (\<exists>m. n' = n1\<lparr>nd_traffic := m\<rparr>)"
      using assms(4) a(1) by (auto simp: note_users_def on_limiter_def split: if_splits)
    then show ?thesis using tracks assms(2) a(1,2) by (auto simp: in_sync_def heap_update_def)
  qed
qed

lemma update_sync:
  assumes "update_users ev sv newU newA n = Some n'" "in_sync n"
    and "\<And>us. newU = Some us \<Longrightarrow> distinct (map ui_Uuid us)"
  shows "in_sync n'"
proof -
  obtain n1 where n1: "on_limiter (SetAliveList newA) n = Some n1"
    using assms(1) by (auto simp: update_users_def split: option.splits)
  then have sync: "in_sync n1" using on_limiter_kept [OF _ n1] assms(2) in_sync_kept by auto
  show ?thesis
  proof (cases "newU = None \<or> newU = Some []")
    case True
    with assms(1) n1 sync show ?thesis by (auto simp: update_users_def)
  next
    case False
    then obtain us where us: "newU = Some us" "us \<noteq> []" by auto
    then obtain u us' where "us = u # us'" by (cases us) auto
    obtain deleted added where d: "compareUserList (nd_userList n1) us = (deleted, added)" by force
    consider s where "n' = n1\<lparr>nd_server := s\<rparr>"
      | s n2 where "note_users deleted added (n1\<lparr>nd_server := s\<rparr>) = Some n2"
        "ensureOnlineIPSyncTask ev sv (n2\<lparr>nd_userList := us\<rparr>) = Some n'"
      using assms(1) n1 us d \<open>us = u # us'\<close>
      by (auto simp: update_users_def split: option.splits prod.splits bool.splits)
    then show ?thesis
    proof cases
      case 1
      with sync show ?thesis by simp
    next
      case (2 s n2)
      have "in_sync (n2\<lparr>nd_userList := us\<rparr>)"
        by (rule note_users_sync [OF _ assms(3) [OF us(1)] _ 2(1)]) (simp_all add: sync d)
      then show ?thesis using ensure_kept [OF 2(2)] in_sync_kept by blast
    qed
  qed
qed

text \<open>The three ways a run of the monitor ends.\<close>

lemma monitor_cases [consumes 1, case_names failed reload update]:
  assumes "ends (nodeInfoMonitor ev sv n) n'"
  obtains c where "n' = n\<lparr>nd_apiClient := c\<rparr>"
    | c c1 c2 node newU newA where "GetNodeInfo (ev_codec ev) (ev_hash ev) (ev_node_get ev) (nd_apiClient n) = Some (Inr (Some node), c1)"
      "GetUserList (ev_codec ev) (ev_user_get ev) c1 = Some (Inr newU, c2)"
      "ends (reload_node ev sv node newU newA (n\<lparr>nd_apiClient := c\<rparr>)) n'"
    | c c1 c2 newU newA where "GetUserList (ev_codec ev) (ev_user_get ev) c1 = Some (Inr newU, c2)"
      "update_users ev sv newU newA (n\<lparr>nd_apiClient := c\<rparr>) = Some n'"
  using assms by (auto simp: nodeInfoMonitor_def Let_def split: option.splits prod.splits sum.splits)

text \<open>Invariant: the limiter of a controller whose node has no name of its own holds exactly the controller's
  users (uid and limits of each uuid). Every run of the monitor that ends, or hangs, keeps it, for any core and any
  answers of the panel whose user lists name no uuid twice; errors of the core included, since the
  list and the limiter are then both left as they were.\<close>

theorem monitor_keeps_users_in_sync:
  assumes "in_sync n" "op_Name (nd_Options n) = ''''" "distinct_lists (ev_codec ev)"
    and "ends (nodeInfoMonitor ev sv n) n'"
  shows "in_sync n'"
  using assms(4)
proof (cases rule: monitor_cases)
  case (failed c)
  with assms(1) show ?thesis by simp
next
  case (reload c c1 c2 node newU newA)
  show ?thesis using assms(1,2) reload(2) GetUserList_distinct [OF assms(3)]
    by (intro reload_sync [OF reload(3)]) (auto simp: in_sync_def)
next
  case (update c c1 c2 newU newA)
  show ?thesis using assms(1) update(1) GetUserList_distinct [OF assms(3)]
    by (intro update_sync [OF update(2)]) auto
qed

lemma demo_running_sync: "in_sync (demo_running opt s)"
  by (simp add: demo_running_def AddLimiter_def Let_def empty_registry_def NewController_def in_sync_def tracks_new
      demo_old_users_def)

lemma monitor_keeps_users_in_sync_witness:
  "\<exists>n'. nodeInfoMonitor demo_ctrl_env demo_server (demo_running default_options demo_core) = Done n' \<and>
     nd_userList n' = demo_new_users \<and> in_sync n'"
proof -
  let ?n = "demo_running default_options demo_core"
  let ?n' = "case nodeInfoMonitor demo_ctrl_env demo_server ?n of Done n' \<Rightarrow> n' | _ \<Rightarrow> ?n"
  have run: "nodeInfoMonitor demo_ctrl_env demo_server ?n = Done ?n'" "nd_userList ?n' = demo_new_users"
    "op_Name (nd_Options ?n) = ''''"
    by code_simp+
  have "distinct_lists (ev_codec demo_ctrl_env)"
    by (simp add: distinct_lists_def demo_ctrl_env_def demo_codec_def) (auto simp: demo_new_users_def)
  from monitor_keeps_users_in_sync [OF demo_running_sync run(3) this, of demo_server ?n'] run(1)
  have "in_sync ?n'" by (simp add: ends_def)
  with run(1,2) show ?thesis by blast
qed

section \<open>A node with a name\<close>

lemma reload_named:
  assumes "ends (reload_node ev sv newN newU newA n) n'" "op_Name (nd_Options n) \<noteq> ''''"
  shows "users_kept (n\<lparr>nd_userList := (case newU of None \<Rightarrow> nd_userList n | Some us \<Rightarrow> us)\<rparr>) n'"
proof -
  let ?n0 = "n\<lparr>nd_userList := (case newU of None \<Rightarrow> nd_userList n | Some us \<Rightarrow> us)\<rparr>"
  let ?n1 = "resetTraffic (n\<lparr>nd_info := Some newN, nd_userList := (case newU of None \<Rightarrow> nd_userList n | Some us \<Rightarrow> us)\<rparr>)"
  obtain s n2 where n2: "reload_rules ev newN newA (?n1\<lparr>nd_server := s\<rparr>) = Some n2"
    and n': "n' = n2 \<or> ends (readd_node ev sv newN n2) n'"
    using assms by (auto simp: reload_node_def reload_limiter_def resetTraffic_def Let_def split: option.splits prod.splits if_splits)
  have "users_kept ?n0 (?n1\<lparr>nd_server := s\<rparr>)" by (simp add: users_kept_def resetTraffic_def)
  then have "users_kept ?n0 n2" using reload_rules_kept [OF n2] by (rule users_kept_trans)
  with n' show ?thesis using readd_kept users_kept_trans by blast
qed

lemma CheckLimit_unknown:
  assumes "sm_load (UserLimitInfo l) t = None" "CheckLimit l now t ip tcp b = Some ((bucket, rejected), l')"
  shows "rejected"
  using assms by (auto simp: CheckLimit_def load_user_limit_def Let_def split: option.splits prod.splits if_splits)

text \<open>A node that has a name of its own in the configuration: when the panel changes the node and its users
  in the same period, the controller takes the new list, but its limiter is not told. Every connection of a user
  who is new in that list is refused, and the next, unchanged, period does not mend it, because the difference
  is taken to the list the controller holds.\<close>

theorem named_node_reload_stale_limiter:
  assumes "in_sync n" "op_Name (nd_Options n) \<noteq> ''''"
    and "GetNodeInfo (ev_codec ev) (ev_hash ev) (ev_node_get ev) (nd_apiClient n) = Some (Inr (Some node), c1)"
    and "GetUserList (ev_codec ev) (ev_user_get ev) c1 = Some (Inr (Some us), c2)"
    and "ends (nodeInfoMonitor ev sv n) n'"
    and "u \<in> set us" "ui_Uuid u \<notin> ui_Uuid ` set (nd_userList n)"
  shows "nd_userList n' = us \<and> \<not> in_sync n' \<and> (\<exists>a. nd_limiter n' = Some a \<and>
    (\<forall>now ip tcp b bucket rejected l. CheckLimit (rg_heap (nd_registry n') ! a) now (UserTag (nd_tag n') (ui_Uuid u)) ip tcp b =
      Some ((bucket, rejected), l) \<longrightarrow> rejected))"
proof -
  obtain c newA where "ends (reload_node ev sv node (Some us) newA (n\<lparr>nd_apiClient := c\<rparr>)) n'"
    using assms(3-5) by (auto simp: nodeInfoMonitor_def Let_def split: option.splits prod.splits)
  from reload_named [OF this] assms(2) have kept: "users_kept (n\<lparr>nd_apiClient := c, nd_userList := us\<rparr>) n'" by simp
  obtain a where a: "nd_limiter n = Some a" "a < length (rg_heap (nd_registry n))"
    "tracks_users (nd_tag n) (nd_userList n) (rg_heap (nd_registry n) ! a)"
    using assms(1) by (auto simp: in_sync_def split: option.splits)
  have n': "nd_userList n' = us" "nd_limiter n' = Some a" "nd_tag n' = nd_tag n"
    and same: "same_table (rg_heap (nd_registry n) ! a) (rg_heap (nd_registry n') ! a)"
    using kept a(1,2) by (auto simp: users_kept_def)
  have "tracks_users (nd_tag n) (nd_userList n) (rg_heap (nd_registry n') ! a)"
    using a(3) tracks_same_table [OF same] by simp
  then have none: "sm_load (UserLimitInfo (rg_heap (nd_registry n') ! a)) (UserTag (nd_tag n) (ui_Uuid u)) = None"
    using assms(7) by (simp add: tracks_None)
  then have "\<not> tracks_users (nd_tag n) us (rg_heap (nd_registry n') ! a)" using assms(6) by (auto simp: tracks_None)
  then have "\<not> in_sync n'" by (simp add: in_sync_def n')
  with n' none show ?thesis using CheckLimit_unknown by metis
qed

text \<open>A panel that describes a changed node.\<close>

definition demo_change_env :: "unit ctrl_env" where
  "demo_change_env = demo_ctrl_env\<lparr>ev_node_get := (\<lambda>_ _. answer 200),
     ev_codec := demo_codec\<lparr>cd_Hysteria2 := (\<lambda>_. Inr \<lparr>h2_Common = zero_common\<lparr>cn_BaseConfig :=
         Some \<lparr>bc_PushInterval = AnyFloat 60, bc_PullInterval = AnyFloat 60\<rparr>\<rparr>, h2_Ignore_Client_Bandwidth = False,
       h2_UpMbps = 0, h2_DownMbps = 0, h2_ObfsType = [], h2_ObfsPassword = []\<rparr>)\<rparr>\<rparr>"

definition demo_named_options :: options where
  "demo_named_options = demo_hy_options\<lparr>op_Name := ''n'',
     op_CertConfig := Some (NewCertConfig\<lparr>cc_CertMode := ''file'', cc_CertFile := ''c'', cc_KeyFile := ''k''\<rparr>)\<rparr>"

lemma named_node_reload_stale_limiter_witness:
  "\<exists>n'. ends (nodeInfoMonitor demo_change_env demo_server (demo_running demo_named_options demo_core)) n' \<and>
     nd_userList n' = demo_new_users \<and> \<not> in_sync n'"
proof -
  let ?n = "demo_running demo_named_options demo_core"
  let ?n' = "case nodeInfoMonitor demo_change_env demo_server ?n of Hang n' \<Rightarrow> n' | _ \<Rightarrow> ?n"
  let ?g = "the (GetNodeInfo (ev_codec demo_change_env) (ev_hash demo_change_env) (ev_node_get demo_change_env) (nd_apiClient ?n))"
  let ?node = "case fst ?g of Inr x \<Rightarrow> the x"
  let ?u = "the (GetUserList (ev_codec demo_change_env) (ev_user_get demo_change_env) (snd ?g))"
  have run: "nodeInfoMonitor demo_change_env demo_server ?n = Hang ?n'" by code_simp
  have facts: "GetNodeInfo (ev_codec demo_change_env) (ev_hash demo_change_env) (ev_node_get demo_change_env) (nd_apiClient ?n) =
      Some (Inr (Some ?node), snd ?g)"
    "GetUserList (ev_codec demo_change_env) (ev_user_get demo_change_env) (snd ?g) = Some (Inr (Some demo_new_users), snd ?u)"
    "op_Name (nd_Options ?n) \<noteq> ''''"
    by code_simp+
  have new: "demo_new_users ! 1 \<in> set demo_new_users" "ui_Uuid (demo_new_users ! 1) \<notin> ui_Uuid ` set (nd_userList ?n)"
    by code_simp+
  have ends: "ends (nodeInfoMonitor demo_change_env demo_server ?n) ?n'" unfolding ends_def by (rule disjI2, rule run)
  note main = named_node_reload_stale_limiter [OF demo_running_sync facts(3,1,2) ends new]
  show ?thesis by (intro exI conjI, rule ends, rule conjunct1 [OF main], rule conjunct1 [OF conjunct2 [OF main]])
qed

section \<open>A changed pull interval\<close>

lemma reload_limiter_frame:
  "nd_nodeInfoMonitor (reload_limiter newN newA m) = nd_nodeInfoMonitor m \<and>
   nd_userReport (reload_limiter newN newA m) = nd_userReport m \<and> nd_Options (reload_limiter newN newA m) = nd_Options m"
  by (simp add: reload_limiter_def Let_def split: prod.splits)

lemma reload_rules_frame:
  "reload_rules ev newN newA m = Some m' \<Longrightarrow>
   nd_nodeInfoMonitor m' = nd_nodeInfoMonitor m \<and> nd_userReport m' = nd_userReport m \<and> nd_Options m' = nd_Options m"
  by (auto simp: reload_rules_def split: option.splits)

lemma reload_stages [case_names panic stage]:
  obtains "reload_node ev sv newN newU newA n = Panic"
  | m m' where "nd_nodeInfoMonitor m = nd_nodeInfoMonitor n" "nd_userReport m = nd_userReport n" "nd_Options m = nd_Options n"
      "reload_rules ev newN newA (reload_limiter newN newA m) = Some m'"
      "reload_node ev sv newN newU newA n = (case (if ni_Security newN = Tls then requestCert ev (nd_Options m') else Some None) of
         None \<Rightarrow> Panic | Some (Some _) \<Rightarrow> Done m' | Some None \<Rightarrow> readd_node ev sv newN m')"
proof (cases "co_DelNode (sv_ops sv) (nd_tag n) (nd_server n)")
  case None
  then show ?thesis by (intro that(1)) (simp add: reload_node_def Let_def resetTraffic_def)
next
  case (Some x)
  obtain err s where x: "x = (err, s)" by force
  let ?m = "resetTraffic (n\<lparr>nd_info := Some newN, nd_userList := (case newU of None \<Rightarrow> nd_userList n | Some us \<Rightarrow> us)\<rparr>)\<lparr>nd_server := s\<rparr>"
  show ?thesis
  proof (cases "err = None \<and> reload_rules ev newN newA (reload_limiter newN newA ?m) \<noteq> None")
    case True
    then obtain m' where m': "reload_rules ev newN newA (reload_limiter newN newA ?m) = Some m'" by auto
    show ?thesis by (rule that(2) [OF _ _ _ m']) (use Some x True m' in \<open>simp_all add: reload_node_def Let_def resetTraffic_def\<close>)
  next
    case False
    with Some x show ?thesis
      by (intro that(1)) (auto simp: reload_node_def Let_def resetTraffic_def split: option.splits)
  qed
qed



end
