(* ===== verification/Node_Start.thy ===== *)
theory Node_Start
  imports Node_Sync Traffic_Report
begin

text \<open>
  Starting a controller (\<^verbatim>\<open>Start\<close> in \<^verbatim>\<open>node/controller.go\<close>): it establishes what the monitor keeps, and puts the
  node and its users on the core.
\<close>

lemma count_users_inv:
  assumes "\<And>s uuid r s'. P s \<Longrightarrow> co_GetUserTraffic ops tag uuid True s = Some (r, s') \<Longrightarrow> P s'"
  shows "count_users ops tag d us acc = Some (s', m', ts') \<Longrightarrow> P (fst acc) \<Longrightarrow> P s'"
proof (induction us arbitrary: acc)
  case (Cons u us)
  obtain s m ts where acc: "acc = (s, m, ts)" by (cases acc)
  then obtain r s1 acc' where "co_GetUserTraffic ops tag (ui_Uuid u) True s = Some (r, s1)"
    "count_users ops tag d us acc' = Some (s', m', ts')" "fst acc' = s1"
    using Cons.prems(1) by (auto split: option.splits prod.splits if_splits)
  with Cons.IH Cons.prems(2) assms acc show ?case by (metis fst_conv)
qed auto

lemma report_server:
  assumes "reportUserTrafficTask ev sv n = Some (log, n')" "P (nd_server n)"
    and "\<And>s uuid r s'. P s \<Longrightarrow> co_GetUserTraffic (sv_ops sv) (nd_tag n) uuid True s = Some (r, s') \<Longrightarrow> P s'"
  shows "P (nd_server n')"
proof -
  obtain s' m' ts where c: "count_users (sv_ops sv) (nd_tag n) (dynamicSpeedLimitEnabled (nd_Options n)) (nd_userList n)
      (nd_server n, nd_traffic n, []) = Some (s', m', ts)" and s': "nd_server n' = s'"
    using assms(1)
    by (auto simp: reportUserTrafficTask_def split: option.splits prod.splits if_splits dest!: report_online_frame)
  show ?thesis using count_users_inv [of P, OF assms(3) c] assms(2) s' by simp
qed

lemma on_limiter_server: "on_limiter f n = Some n' \<Longrightarrow> nd_server n' = nd_server n"
  by (auto simp: on_limiter_def split: option.splits)

lemma ensure_server: "ensureOnlineIPSyncTask ev sv n = Some n' \<Longrightarrow> nd_server n' = nd_server n"
  by (auto simp: ensureOnlineIPSyncTask_def syncOnlineUsersTask_def Let_def split: if_splits sum.splits option.splits prod.splits
      dest!: on_limiter_server)

lemma task_frames [simp]:
  "users_kept n (speed_task n)" "nd_server (speed_task n) = nd_server n"
  "cert_task node n = Some n' \<Longrightarrow> users_kept n n'" "cert_task node n = Some n' \<Longrightarrow> nd_server n' = nd_server n"
  by (auto simp: speed_task_def cert_task_def resetTraffic_def split: if_splits option.splits)

lemma startTasks_frame:
  assumes "startTasks ev sv node n = Some n'" "P (nd_server n)"
    and "\<And>s uuid r s'. P s \<Longrightarrow> co_GetUserTraffic (sv_ops sv) (nd_tag n) uuid True s = Some (r, s') \<Longrightarrow> P s'"
  shows "users_kept n n' \<and> P (nd_server n')"
proof -
  obtain log n2 n3 where n2: "reportUserTrafficTask ev sv (n\<lparr>nd_nodeInfoMonitor := Some (ni_PullInterval node),
      nd_userReport := Some (normalizedPushInterval (nd_apiClient n) (ni_PushInterval node))\<rparr>) = Some (log, n2)"
    and n3: "cert_task node n2 = Some n3" and n': "ensureOnlineIPSyncTask ev sv (speed_task n3) = Some n'"
    using assms(1) by (auto simp: startTasks_def split: option.splits)
  have "users_kept n n2" using report_kept [OF n2] by simp
  then have "users_kept n n'" using n3 ensure_kept [OF n'] task_frames(1,3) users_kept_trans by blast
  moreover have "P (nd_server n2)"
    by (rule report_server [OF n2]) (use assms(2,3) in auto)
  ultimately show ?thesis using ensure_server [OF n'] task_frames(4) [OF n3] by simp
qed

lemma fetch_start_spec:
  assumes "fetch_start ev n = (Some (Inr node), n')" "distinct_lists (ev_codec ev)"
  shows "nd_userList n' \<noteq> [] \<and> distinct (map ui_Uuid (nd_userList n')) \<and> nd_Options n' = nd_Options n"
  using assms GetUserList_distinct [OF assms(2)]
  by (auto simp: fetch_start_def Let_def split: option.splits prod.splits sum.splits if_splits)

lemma start_limiter_spec:
  assumes "start_limiter ev node n = Some (node', n')" "distinct (map ui_Uuid (nd_userList n))"
  shows "in_sync n' \<and> nd_userList n' = nd_userList n \<and> nd_Options n' = nd_Options n \<and>
    nd_tag n' = (if op_Name (nd_Options n) = '''' then buildNodeTag (nd_apiClient n) node' else op_Name (nd_Options n))"
proof -
  obtain nd tag where node: "node = Some nd" "node' = nd"
    "tag = (if op_Name (nd_Options n) = '''' then buildNodeTag (nd_apiClient n) nd else op_Name (nd_Options n))"
    using assms(1) by (auto simp: start_limiter_def Let_def split: option.splits prod.splits)
  let ?l = "NewLimiter tag (op_LimitConfig (nd_Options n)) (nd_userList n) (nd_aliveMap n) :: 'a limiter"
  obtain l where l: "UpdateRule (ev_Compile ev) (ni_Rules nd) ?l = Some l"
    using assms(1) node by (auto simp: start_limiter_def Let_def AddLimiter_def split: option.splits)
  then have "same_table ?l l" by simp
  then have "tracks_users tag (nd_userList n) l" using tracks_same_table tracks_new by blast
  with assms node l show ?thesis
    by (auto simp: start_limiter_def Let_def AddLimiter_def heap_update_def in_sync_def split: option.splits)
qed



end
