(* ===== verification/Xray_Sniffer.thy ===== *)
theory Xray_Sniffer
  imports GoMap
begin

text \<open>
  Sniffing the protocol of a connection: \<^verbatim>\<open>core/xray/app/dispatcher/sniffer.go\<close>, \<^verbatim>\<open>fakednssniffer.go\<close> and the
  cached reader and the sniffing loop of \<^verbatim>\<open>default.go\<close>. The recognisers of xray-core and its fake DNS engine are
  parameters; a recogniser gives a protocol and a domain, or an error. An address is the text of its IP or a domain.
\<close>

section \<open>Addresses and results\<close>

datatype net_network = NetUnknown | NetTCP | NetUDP | NetUnix

datatype address = AddrIP string | AddrDomain string

record destination =
  de_Network :: net_network
  de_Address :: address
  de_Port :: int

datatype sniff_result =
    PlainSniffed string string
  | FakeDNSSniffResult string
  | DNSThenOthersSniffResult string string
  | CompositeResult sniff_result sniff_result

fun sr_Protocol :: "sniff_result \<Rightarrow> string" where
  "sr_Protocol (PlainSniffed protocol domain) = protocol"
| "sr_Protocol (FakeDNSSniffResult domain) = ''fakedns''"
| "sr_Protocol (DNSThenOthersSniffResult domain protocol) = ''fakedns+others''"
| "sr_Protocol (CompositeResult d p) = sr_Protocol p"

fun sr_Domain :: "sniff_result \<Rightarrow> string" where
  "sr_Domain (PlainSniffed protocol domain) = domain"
| "sr_Domain (FakeDNSSniffResult domain) = domain"
| "sr_Domain (DNSThenOthersSniffResult domain protocol) = domain"
| "sr_Domain (CompositeResult d p) = sr_Domain d"

text \<open>The optional interfaces: \<^term>\<open>None\<close> when the result does not implement them.\<close>

fun ProtocolForDomainResult :: "sniff_result \<Rightarrow> string option" where
  "ProtocolForDomainResult (CompositeResult d p) = Some (sr_Protocol d)"
| "ProtocolForDomainResult _ = None"

fun IsProtoSubsetOf :: "sniff_result \<Rightarrow> string \<Rightarrow> bool option" where
  "IsProtoSubsetOf (DNSThenOthersSniffResult domain protocol) name = Some (HasPrefix name protocol)"
| "IsProtoSubsetOf _ name = None"

datatype sniff_error = ErrNoClue | ErrUnknownContent | ErrSniffingTimeout | ErrContext string | ErrRead string | ErrOther string

section \<open>The sniffers\<close>

datatype sniffer_fn = SniffHTTP | SniffTLS | SniffBittorrent | SniffQUIC | SniffUTP | FakeDNSSniffer | FakeDNSThenOthers

record protocol_sniffer =
  ps_fn :: sniffer_fn
  ps_metadata :: bool
  ps_network :: net_network

text \<open>The second method is of a further interface that an engine may not implement.\<close>

record fake_dns =
  fd_GetDomainFromFakeDNS :: "address \<Rightarrow> string"
  fd_IsIPInIPPool :: "(address \<Rightarrow> bool) option"

record sniff_env =
  sn_recognise :: "sniffer_fn \<Rightarrow> string \<Rightarrow> sniff_error + string \<times> string"
  sn_fdns :: "fake_dns option"
  sn_NewCap :: nat
  sn_SizedCap :: "nat \<Rightarrow> nat"
  sn_Done :: "nat \<Rightarrow> string option"

definition content_sniffers :: "protocol_sniffer list" where
  "content_sniffers =
     [\<lparr>ps_fn = SniffHTTP, ps_metadata = False, ps_network = NetTCP\<rparr>,
      \<lparr>ps_fn = SniffTLS, ps_metadata = False, ps_network = NetTCP\<rparr>,
      \<lparr>ps_fn = SniffBittorrent, ps_metadata = False, ps_network = NetTCP\<rparr>,
      \<lparr>ps_fn = SniffQUIC, ps_metadata = False, ps_network = NetUDP\<rparr>,
      \<lparr>ps_fn = SniffUTP, ps_metadata = False, ps_network = NetUDP\<rparr>]"

text \<open>The two sniffers of the fake DNS leave their network at the zero value.\<close>

definition newFakeDNSSniffer :: "sniff_env \<Rightarrow> protocol_sniffer option" where
  "newFakeDNSSniffer se = (if sn_fdns se = None then None
     else Some \<lparr>ps_fn = FakeDNSSniffer, ps_metadata = True, ps_network = NetUnknown\<rparr>)"

definition newFakeDNSThenOthers :: protocol_sniffer where
  "newFakeDNSThenOthers = \<lparr>ps_fn = FakeDNSThenOthers, ps_metadata = False, ps_network = NetUnknown\<rparr>"

definition NewSniffer :: "sniff_env \<Rightarrow> protocol_sniffer list" where
  "NewSniffer se = (case newFakeDNSSniffer se of
     None \<Rightarrow> content_sniffers
   | Some sniffer \<Rightarrow> newFakeDNSThenOthers # content_sniffers @ [sniffer])"

text \<open>The result of the fake DNS sniffer, and whether the address is in the pool of the engine, if that is known.\<close>

definition fakedns_sniff :: "fake_dns \<Rightarrow> destination \<Rightarrow> (sniff_error + sniff_result) \<times> bool option" where
  "fakedns_sniff fd target =
     (let domain = (if de_Network target = NetTCP \<or> de_Network target = NetUDP
        then fd_GetDomainFromFakeDNS fd (de_Address target) else '''')
      in if domain \<noteq> '''' then (Inr (FakeDNSSniffResult domain), None)
         else (Inl ErrNoClue, map_option (\<lambda>inPool. inPool (de_Address target)) (fd_IsIPInIPPool fd)))"

fun first_recognised :: "sniff_env \<Rightarrow> string \<Rightarrow> protocol_sniffer list \<Rightarrow> (string \<times> string) option" where
  "first_recognised se payload [] = None"
| "first_recognised se payload (v # vs) =
     (case sn_recognise se (ps_fn v) payload of
        Inr r \<Rightarrow> Some r
      | Inl _ \<Rightarrow> first_recognised se payload vs)"

text \<open>One sniffer; the payload is \<^term>\<open>None\<close> when nil. Without an engine the last two are never made.\<close>

definition run_sniffer :: "sniff_env \<Rightarrow> destination \<Rightarrow> string option \<Rightarrow> protocol_sniffer \<Rightarrow> sniff_error + sniff_result" where
  "run_sniffer se target payload si =
     (case (ps_fn si, sn_fdns se) of
        (FakeDNSSniffer, Some fd) \<Rightarrow> fst (fakedns_sniff fd target)
      | (FakeDNSThenOthers, Some fd) \<Rightarrow>
          (case fakedns_sniff fd target of
             (Inr r, _) \<Rightarrow> Inr r
           | (Inl _, Some True) \<Rightarrow>
               (case Option.bind payload (\<lambda>b. first_recognised se b content_sniffers) of
                  Some (protocol, domain) \<Rightarrow> Inr (DNSThenOthersSniffResult domain protocol)
                | None \<Rightarrow> Inl ErrNoClue)
           | _ \<Rightarrow> Inl ErrNoClue)
      | (f, _) \<Rightarrow> map_sum id (\<lambda>(protocol, domain). PlainSniffed protocol domain)
          (sn_recognise se f (case payload of None \<Rightarrow> '''' | Some b \<Rightarrow> b)))"

section \<open>Sniff and SniffMetadata\<close>

fun sniff_scan :: "(protocol_sniffer \<Rightarrow> sniff_error + sniff_result) \<Rightarrow> net_network \<Rightarrow> protocol_sniffer list \<Rightarrow>
    protocol_sniffer list \<Rightarrow> sniff_result option \<times> protocol_sniffer list" where
  "sniff_scan run net [] pending = (None, pending)"
| "sniff_scan run net (si # rest) pending =
     (if ps_metadata si \<or> ps_network si \<noteq> net then sniff_scan run net rest pending
      else (case run si of
          Inl ErrNoClue \<Rightarrow> sniff_scan run net rest (pending @ [si])
        | Inr r \<Rightarrow> (Some r, pending)
        | Inl _ \<Rightarrow> sniff_scan run net rest pending))"

fun metadata_scan :: "(protocol_sniffer \<Rightarrow> sniff_error + sniff_result) \<Rightarrow> protocol_sniffer list \<Rightarrow>
    protocol_sniffer list \<Rightarrow> sniff_result option \<times> protocol_sniffer list" where
  "metadata_scan run [] pending = (None, pending)"
| "metadata_scan run (si # rest) pending =
     (if \<not> ps_metadata si then metadata_scan run rest (pending @ [si])
      else (case run si of
          Inl ErrNoClue \<Rightarrow> metadata_scan run rest (pending @ [si])
        | Inr r \<Rightarrow> (Some r, pending)
        | Inl _ \<Rightarrow> metadata_scan run rest pending))"

text \<open>The outcome and the sniffers that are left.\<close>

definition after_scan :: "protocol_sniffer list \<Rightarrow> sniff_result option \<times> protocol_sniffer list \<Rightarrow>
    (sniff_error + sniff_result) \<times> protocol_sniffer list" where
  "after_scan ss r = (case r of
     (Some result, _) \<Rightarrow> (Inr result, ss)
   | (None, []) \<Rightarrow> (Inl ErrUnknownContent, ss)
   | (None, pending) \<Rightarrow> (Inl ErrNoClue, pending))"

definition Sniff :: "sniff_env \<Rightarrow> destination \<Rightarrow> string \<Rightarrow> net_network \<Rightarrow> protocol_sniffer list \<Rightarrow>
    (sniff_error + sniff_result) \<times> protocol_sniffer list" where
  "Sniff se target payload net ss = after_scan ss (sniff_scan (run_sniffer se target (Some payload)) net ss [])"

definition SniffMetadata :: "sniff_env \<Rightarrow> destination \<Rightarrow> protocol_sniffer list \<Rightarrow>
    (sniff_error + sniff_result) \<times> protocol_sniffer list" where
  "SniffMetadata se target ss = after_scan ss (metadata_scan (run_sniffer se target None) ss [])"

section \<open>The cached reader\<close>

text \<open>
  The reader below is the list of what its calls give, data or an error; at the end of the list it is at its end for
  good. The cache is \<^term>\<open>None\<close> when nil. A buffer is its bytes and its capacity.
\<close>

datatype read = Chunk string | ReadErr string

record cached_reader =
  cr_reader :: "read list"
  cr_cache :: "string option"

record buffer =
  bu_data :: string
  bu_cap :: nat

definition next_read :: "read list \<Rightarrow> read \<times> read list" where
  "next_read rs = (case rs of [] \<Rightarrow> (ReadErr ''EOF'', []) | r # rs \<Rightarrow> (r, rs))"

definition merge_cache :: "string option \<Rightarrow> string \<Rightarrow> string option" where
  "merge_cache cache mb = (if mb \<noteq> [] then Some ((case cache of None \<Rightarrow> [] | Some c \<Rightarrow> c) @ mb) else cache)"

definition Cache :: "sniff_env \<Rightarrow> buffer \<Rightarrow> cached_reader \<Rightarrow> string option \<times> buffer \<times> cached_reader" where
  "Cache se b r =
     (case next_read (cr_reader r) of
        (ReadErr err, rs) \<Rightarrow> (Some err, b, r\<lparr>cr_reader := rs\<rparr>)
      | (Chunk mb, rs) \<Rightarrow>
          let cache = merge_cache (cr_cache r) mb;
              data = (case cache of None \<Rightarrow> [] | Some c \<Rightarrow> c);
              cap = (if length data \<le> bu_cap b then bu_cap b else sn_SizedCap se (length data))
          in (None, \<lparr>bu_data = data, bu_cap = cap\<rparr>, \<lparr>cr_reader = rs, cr_cache = cache\<rparr>))"

definition readInternal :: "cached_reader \<Rightarrow> string option \<times> cached_reader" where
  "readInternal r = (case cr_cache r of
     Some (c # cs) \<Rightarrow> (Some (c # cs), r\<lparr>cr_cache := None\<rparr>)
   | _ \<Rightarrow> (None, r))"

text \<open>\<^verbatim>\<open>ReadMultiBuffer\<close> and \<^verbatim>\<open>ReadMultiBufferTimeout\<close>, which differ in how the reader below is called.\<close>

definition ReadMultiBuffer :: "cached_reader \<Rightarrow> read \<times> cached_reader" where
  "ReadMultiBuffer r = (case readInternal r of
     (Some mb, r') \<Rightarrow> (Chunk mb, r')
   | (None, r') \<Rightarrow> (case next_read (cr_reader r') of (x, rs) \<Rightarrow> (x, r'\<lparr>cr_reader := rs\<rparr>)))"

definition newCachedReader :: "read list \<Rightarrow> cached_reader" where
  "newCachedReader rs = \<lparr>cr_reader = rs, cr_cache = None\<rparr>"

text \<open>The interrupted reader below gives nothing more.\<close>

definition InterruptReader :: "cached_reader \<Rightarrow> cached_reader" where
  "InterruptReader r = \<lparr>cr_reader = [], cr_cache = map_option (\<lambda>_. []) (cr_cache r)\<rparr>"

section \<open>The sniffing loop\<close>

text \<open>The first argument counts down the attempts that are left of two; \<open>k\<close> numbers the looks at the context.\<close>

fun content_loop :: "nat \<Rightarrow> nat \<Rightarrow> sniff_env \<Rightarrow> destination \<Rightarrow> net_network \<Rightarrow> protocol_sniffer list \<Rightarrow> buffer \<Rightarrow> cached_reader \<Rightarrow>
    (sniff_error + sniff_result) \<times> cached_reader" where
  "content_loop 0 k se target net ss payload r =
     ((case sn_Done se k of Some err \<Rightarrow> Inl (ErrContext err) | None \<Rightarrow> Inl ErrSniffingTimeout), r)"
| "content_loop (Suc left) k se target net ss payload r =
     (case sn_Done se k of
        Some err \<Rightarrow> (Inl (ErrContext err), r)
      | None \<Rightarrow>
          (case Cache se payload r of
             (Some err, _, r) \<Rightarrow> (Inl (ErrRead err), r)
           | (None, payload, r) \<Rightarrow>
               (case (if bu_data payload \<noteq> [] then Sniff se target (bu_data payload) net ss else (Inl ErrNoClue, ss)) of
                  (outcome, ss') \<Rightarrow>
                    if outcome \<noteq> Inl ErrNoClue then (outcome, r)
                    else if length (bu_data payload) = bu_cap payload then (Inl ErrUnknownContent, r)
                    else content_loop left (Suc k) se target net ss' payload r)))"

definition sniffer :: "sniff_env \<Rightarrow> bool \<Rightarrow> net_network \<Rightarrow> destination \<Rightarrow> cached_reader \<Rightarrow>
    (sniff_error + sniff_result) \<times> cached_reader" where
  "sniffer se metadataOnly net target r =
     (case SniffMetadata se target (NewSniffer se) of
        (meta, ss) \<Rightarrow>
          if metadataOnly then (meta, r)
          else (case content_loop 2 0 se target net ss \<lparr>bu_data = [], bu_cap = sn_NewCap se\<rparr> r of
              (content, r) \<Rightarrow>
                (case (content, meta) of
                   (Inl _, Inr m) \<Rightarrow> (Inr m, r)
                 | (Inr c, Inr m) \<Rightarrow> (Inr (CompositeResult m c), r)
                 | _ \<Rightarrow> (content, r))))"

end
