(* ===== verification/Xray_Dispatcher.thy ===== *)
theory Xray_Dispatcher
  imports Xray_Sniffer Limiter
begin

text \<open>
  The dispatcher of the xray core, \<^verbatim>\<open>core/xray/app/dispatcher/default.go\<close> and \<^verbatim>\<open>stats.go\<close>, with the rate-limited
  streams of \<^verbatim>\<open>common/rate\<close>: who gets a link, how it is limited and metered, where a connection is routed
  and which rule stops it. The managers of xray-core (policies, counters, router, outbound handlers) are a record of
  functions; a stream is the pipe or link it ends in and the wrappers around it, outermost first.
\<close>

section \<open>Sessions and streams\<close>

record memory_user =
  mu_Email :: string
  mu_Level :: int

record session_inbound =
  sb_Tag :: string
  sb_Source :: destination
  sb_User :: "memory_user option"

record outbound_session =
  ob_OriginalTarget :: destination
  ob_Target :: destination
  ob_RouteTarget :: "destination option"

datatype stream_end = UplinkPipe | DownlinkPipe | GivenLink

datatype stream_wrapper = RateLimited bucket | SizeStat string | TimeoutWrapper "string option" | CachedReader

record stream =
  sr_end :: stream_end
  sr_wrappers :: "stream_wrapper list"

record link =
  lk_Reader :: stream
  lk_Writer :: stream

definition wrap :: "stream_wrapper \<Rightarrow> stream \<Rightarrow> stream" where
  "wrap w s = s\<lparr>sr_wrappers := w # sr_wrappers s\<rparr>"

section \<open>Rate-limited streams\<close>

text \<open>What a write or read of data takes from the bucket. The plain connection pays for its buffer, in both
  directions; the stream reader for what came, if anything.\<close>

definition rate_write :: "bucket \<Rightarrow> string \<Rightarrow> (bucket \<times> int) list" where
  "rate_write l mb = [(l, int (length mb))]"

definition rate_read :: "bucket option \<Rightarrow> string option \<Rightarrow> (bucket \<times> int) list" where
  "rate_read l mb = (case (mb, l) of (Some mb, Some l) \<Rightarrow> [(l, int (length mb))] | _ \<Rightarrow> [])"

definition rate_conn_Read :: "bucket \<Rightarrow> nat \<Rightarrow> string \<Rightarrow> (bucket \<times> int) list" where
  "rate_conn_Read l buffer got = [(l, int buffer)]"

text \<open>A write through a stream: the counters it adds to and the buckets it waits for, in order, before the data goes on.\<close>

fun write_effects :: "stream_wrapper list \<Rightarrow> string \<Rightarrow> (string \<times> int) list \<times> (bucket \<times> int) list" where
  "write_effects [] mb = ([], [])"
| "write_effects (SizeStat c # ws) mb = (case write_effects ws mb of (cs, bs) \<Rightarrow> ((c, int (length mb)) # cs, bs))"
| "write_effects (RateLimited l # ws) mb = (case write_effects ws mb of (cs, bs) \<Rightarrow> (cs, rate_write l mb @ bs))"
| "write_effects (_ # ws) mb = write_effects ws mb"

section \<open>Surroundings\<close>

record user_policy =
  po_UserUplink :: bool
  po_UserDownlink :: bool
  po_UserOnline :: bool

record ('re, 'h) dispatch_env =
  dp_ForLevel :: "int \<Rightarrow> user_policy"
  dp_NoStats :: bool
  dp_HasCounter :: "string \<Rightarrow> bool"
  dp_HasOnlineMap :: "string \<Rightarrow> bool"
  dp_Compile :: "string \<Rightarrow> 're option"
  dp_MatchString :: "'re \<Rightarrow> string \<Rightarrow> bool"
  dp_ParseAddress :: "string \<Rightarrow> address"
  dp_Forced :: string
  dp_HasRouter :: bool
  dp_PickRoute :: "outbound_session \<Rightarrow> string option"
  dp_GetHandler :: "string \<Rightarrow> 'h option"
  dp_DefaultHandler :: "'h option"
  dp_HandlerTag :: "'h \<Rightarrow> string"

text \<open>The state that outlives a connection: the limiters and the addresses added to each online map, latest first.\<close>

record 're dispatch_world =
  dw_registry :: "'re registry"
  dw_online :: "(string \<times> string) list"

definition sourceIPString :: "session_inbound option \<Rightarrow> string" where
  "sourceIPString inbound = (case inbound of
     None \<Rightarrow> ''''
   | Some i \<Rightarrow> (case de_Address (sb_Source i) of AddrIP ip \<Rightarrow> ip | AddrDomain d \<Rightarrow> d))"

definition emailOnlineStatName :: "string \<Rightarrow> string" where
  "emailOnlineStatName email = ''user>>>'' @ email @ ''>>>online''"

definition tagOnlineStatName :: "string \<Rightarrow> string" where
  "tagOnlineStatName tag = ''inbound>>>'' @ tag @ ''>>>online''"

definition recordOnlineStats :: "('re, 'h) dispatch_env \<Rightarrow> session_inbound option \<Rightarrow> memory_user option \<Rightarrow> bool \<Rightarrow>
    're dispatch_world \<Rightarrow> 're dispatch_world" where
  "recordOnlineStats de inbound user enableUserOnline w =
     (case (inbound, user) of
        (Some i, Some u) \<Rightarrow>
          let userIP = sourceIPString inbound;
              add = (\<lambda>b name w. if b \<and> dp_HasOnlineMap de name then w\<lparr>dw_online := (name, userIP) # dw_online w\<rparr> else w)
          in if dp_NoStats de \<or> userIP = '''' then w
             else add (sb_Tag i \<noteq> '''') (tagOnlineStatName (sb_Tag i)) (add enableUserOnline (emailOnlineStatName (mu_Email u)) w)
      | _ \<Rightarrow> w)"

section \<open>The link of a connection\<close>

definition uplink_counter :: "memory_user \<Rightarrow> string" where
  "uplink_counter u = ''user>>>'' @ mu_Email u @ ''>>>traffic>>>uplink''"

definition downlink_counter :: "memory_user \<Rightarrow> string" where
  "downlink_counter u = ''user>>>'' @ mu_Email u @ ''>>>traffic>>>downlink''"

text \<open>The user whose limits apply.\<close>

definition limited_user :: "session_inbound option \<Rightarrow> memory_user option" where
  "limited_user inbound = (case inbound of
     None \<Rightarrow> None
   | Some i \<Rightarrow> (case sb_User i of Some u \<Rightarrow> if mu_Email u \<noteq> '''' then Some u else None | None \<Rightarrow> None))"

text \<open>The limiter of the inbound's tag and the verdict on the user: an error, with both ends of the link closed, or the
  limiter and the bucket.\<close>

definition admit :: "int \<Rightarrow> session_inbound \<Rightarrow> memory_user \<Rightarrow> net_network \<Rightarrow> 're registry \<Rightarrow>
    ((string + (nat \<times> bucket option)) \<times> 're registry) option" where
  "admit now i user net r =
     (case GetLimiter r (sb_Tag i) of
        Inl err \<Rightarrow> Some (Inl (''get limiter '' @ sb_Tag i @ '' error: '' @ err), r)
      | Inr a \<Rightarrow>
          (case CheckLimit (rg_heap r ! a) now (mu_Email user) (sourceIPString (Some i)) (net = NetTCP)
              (de_Network (sb_Source i) = NetTCP) of
             None \<Rightarrow> panic
           | Some ((b, reject), l) \<Rightarrow> Some (
               if reject then Inl (''Limited '' @ mu_Email user @ '' by conn or ip'') else Inr (a, b),
               heap_update a (\<lambda>_. l) r)))"

definition stat_if :: "('re, 'h) dispatch_env \<Rightarrow> bool \<Rightarrow> string \<Rightarrow> stream \<Rightarrow> stream" where
  "stat_if de enabled name s = (if enabled \<and> dp_HasCounter de name then wrap (SizeStat name) s else s)"

definition rate_if :: "bucket option \<Rightarrow> stream \<Rightarrow> stream" where
  "rate_if b s = (case b of None \<Rightarrow> s | Some l \<Rightarrow> wrap (RateLimited l) s)"

definition pipe :: "stream_end \<Rightarrow> stream" where
  "pipe e = \<lparr>sr_end = e, sr_wrappers = []\<rparr>"

definition getLink :: "('re, 'h) dispatch_env \<Rightarrow> int \<Rightarrow> session_inbound option \<Rightarrow> net_network \<Rightarrow> 're dispatch_world \<Rightarrow>
    ((string + (link \<times> link \<times> nat option)) \<times> 're dispatch_world) option" where
  "getLink de now inbound net w =
     (let inLink = \<lparr>lk_Reader = pipe DownlinkPipe, lk_Writer = pipe UplinkPipe\<rparr>;
          outLink = \<lparr>lk_Reader = pipe UplinkPipe, lk_Writer = pipe DownlinkPipe\<rparr>
      in case (inbound, limited_user inbound) of
           (Some i, Some user) \<Rightarrow>
             (case admit now i user net (dw_registry w) of
                None \<Rightarrow> panic
              | Some (Inl err, r) \<Rightarrow> Some (Inl err, w\<lparr>dw_registry := r\<rparr>)
              | Some (Inr (a, b), r) \<Rightarrow>
                  let p = dp_ForLevel de (mu_Level user)
                  in Some (Inr
                      (inLink\<lparr>lk_Writer := stat_if de (po_UserUplink p) (uplink_counter user) (rate_if b (lk_Writer inLink))\<rparr>,
                       outLink\<lparr>lk_Writer := stat_if de (po_UserDownlink p) (downlink_counter user) (rate_if b (lk_Writer outLink))\<rparr>,
                       Some a),
                    recordOnlineStats de inbound (Some user) (po_UserOnline p) (w\<lparr>dw_registry := r\<rparr>)))
         | _ \<Rightarrow> Some (Inr (inLink, outLink, None), w))"

text \<open>The reader of a given link counts below its timeout wrapper; the rate limit is inside it.\<close>

definition wrapLink :: "('re, 'h) dispatch_env \<Rightarrow> int \<Rightarrow> session_inbound option \<Rightarrow> link option \<Rightarrow> net_network \<Rightarrow> 're dispatch_world \<Rightarrow>
    ((string + (link \<times> nat option)) \<times> 're dispatch_world) option" where
  "wrapLink de now inbound link net w =
     (case link of
        None \<Rightarrow> Some (Inl ''nil transport link'', w)
      | Some link \<Rightarrow>
          (case (inbound, limited_user inbound) of
             (Some i, Some user) \<Rightarrow>
               (case admit now i user net (dw_registry w) of
                  None \<Rightarrow> panic
                | Some (Inl err, r) \<Rightarrow> Some (Inl err, w\<lparr>dw_registry := r\<rparr>)
                | Some (Inr (a, b), r) \<Rightarrow>
                    let p = dp_ForLevel de (mu_Level user);
                        up = (if po_UserUplink p \<and> dp_HasCounter de (uplink_counter user) then Some (uplink_counter user) else None)
                    in Some (Inr
                        (\<lparr>lk_Reader = wrap (TimeoutWrapper up) (rate_if b (lk_Reader link)),
                          lk_Writer = stat_if de (po_UserDownlink p) (downlink_counter user) (rate_if b (lk_Writer link))\<rparr>, Some a),
                      recordOnlineStats de inbound (Some user) (po_UserOnline p) (w\<lparr>dw_registry := r\<rparr>)))
           | _ \<Rightarrow> Some (Inr (link\<lparr>lk_Reader := wrap (TimeoutWrapper None) (lk_Reader link)\<rparr>, None), w)))"

section \<open>Overriding the destination\<close>

record sniffing_request =
  sq_Enabled :: bool
  sq_MetadataOnly :: bool
  sq_RouteOnly :: bool
  sq_Override :: "string list"
  sq_Exclude :: "string list"

fun excluded :: "('re, 'h) dispatch_env \<Rightarrow> string \<Rightarrow> string list \<Rightarrow> bool" where
  "excluded de domain [] = False"
| "excluded de domain (d # ds) =
     (if HasPrefix d ''regexp:'' then
        (case dp_Compile de (drop 7 d) of
           None \<Rightarrow> excluded de domain ds
         | Some re \<Rightarrow> if dp_MatchString de re domain then True else excluded de domain ds)
      else if ToLower domain = d then True
      else excluded de domain ds)"

definition domain_protocol :: "sniff_result \<Rightarrow> string" where
  "domain_protocol result = (case ProtocolForDomainResult result of Some p \<Rightarrow> p | None \<Rightarrow> sr_Protocol result)"

definition in_fake_pool :: "sniff_env \<Rightarrow> address \<Rightarrow> bool" where
  "in_fake_pool se addr = (case (addr, Option.bind (sn_fdns se) fd_IsIPInIPPool) of
     (AddrIP _, Some inPool) \<Rightarrow> inPool addr | _ \<Rightarrow> False)"

fun overrides :: "sniff_env \<Rightarrow> sniff_result \<Rightarrow> string \<Rightarrow> address \<Rightarrow> string list \<Rightarrow> bool" where
  "overrides se result protocol addr [] = False"
| "overrides se result protocol addr (p # ps) =
     (if HasPrefix protocol p \<or> HasPrefix p protocol then True
      else if protocol \<noteq> ''bittorrent'' \<and> p = ''fakedns'' \<and> in_fake_pool se addr then True
      else if IsProtoSubsetOf result p = Some True then True
      else overrides se result protocol addr ps)"

definition shouldOverride :: "('re, 'h) dispatch_env \<Rightarrow> sniff_env \<Rightarrow> sniff_result \<Rightarrow> sniffing_request \<Rightarrow> destination \<Rightarrow> bool" where
  "shouldOverride de se result request dest =
     (if sr_Domain result = '''' then False
      else if excluded de (sr_Domain result) (sq_Exclude request) then False
      else overrides se result (domain_protocol result) (de_Address dest) (sq_Override request))"

text \<open>What sniffing makes of the destination, the outbound session and the protocol of the content.\<close>

definition apply_sniff :: "('re, 'h) dispatch_env \<Rightarrow> sniff_env \<Rightarrow> sniffing_request \<Rightarrow> sniff_error + sniff_result \<Rightarrow>
    string \<Rightarrow> destination \<times> outbound_session \<Rightarrow> string \<times> destination \<times> outbound_session" where
  "apply_sniff de se request outcome content_protocol dob =
     (case outcome of
        Inl _ \<Rightarrow> (content_protocol, dob)
      | Inr result \<Rightarrow> (sr_Protocol result,
          (case dob of (dest, ob) \<Rightarrow>
             if shouldOverride de se result request dest then
               let dest' = dest\<lparr>de_Address := dp_ParseAddress de (sr_Domain result)\<rparr>;
                   protocol = domain_protocol result;
                   isFakeIP = in_fake_pool se (de_Address (ob_Target ob))
               in (dest', if sq_RouteOnly request \<and> protocol \<noteq> ''fakedns'' \<and> protocol \<noteq> ''fakedns+others'' \<and> \<not> isFakeIP
                   then ob\<lparr>ob_RouteTarget := Some dest'\<rparr> else ob\<lparr>ob_Target := dest'\<rparr>)
             else (dest, ob))))"

section \<open>Routing\<close>

datatype 'h verdict =
    RejectedByDomain string | RejectedByProtocol string | NoDetour string | NoHandler | Dispatched 'h "string option"

text \<open>The limiter whose rules apply; reading the user of a missing inbound panics.\<close>

definition rule_limiter :: "session_inbound option \<Rightarrow> nat option \<Rightarrow> 're registry \<Rightarrow> nat option option" where
  "rule_limiter inbound l r = (case inbound of
     None \<Rightarrow> panic
   | Some i \<Rightarrow> Some (if sb_User i = None then None
       else (case l of Some a \<Rightarrow> Some a
         | None \<Rightarrow> (case GetLimiter r (sb_Tag i) of Inl _ \<Rightarrow> None | Inr a \<Rightarrow> Some a))))"

definition dest_string :: "destination \<Rightarrow> string" where
  "dest_string d = (case de_Address d of AddrDomain s \<Rightarrow> s | AddrIP s \<Rightarrow> s)"

definition rule_verdict :: "('re, 'h) dispatch_env \<Rightarrow> 're limiter \<Rightarrow> destination \<Rightarrow> string \<Rightarrow> 'h verdict option" where
  "rule_verdict de l dest protocol =
     (if CheckDomainRule (dp_MatchString de) (DomainRules l) (dest_string dest) then Some (RejectedByDomain (dest_string dest))
      else if protocol \<noteq> '''' \<and> CheckProtocolRule (ProtocolRules l) protocol then Some (RejectedByProtocol protocol)
      else None)"

text \<open>The handler and how it was found: 1 forced, 2 by the router, 0 otherwise.\<close>

definition pick_handler :: "('re, 'h) dispatch_env \<Rightarrow> outbound_session \<Rightarrow> 'h option \<times> nat" where
  "pick_handler de ob =
     (if dp_HasRouter de then
        (case dp_PickRoute de ob of
           Some outTag \<Rightarrow> (case dp_GetHandler de outTag of Some h \<Rightarrow> (Some h, 2) | None \<Rightarrow> (None, 0))
         | None \<Rightarrow> (None, 0))
      else (None, 0))"

definition detour :: "string \<Rightarrow> string \<Rightarrow> nat \<Rightarrow> string option" where
  "detour tag inTag isPickRoute =
     (if tag = '''' then None
      else Some (if inTag = '''' then tag
        else if isPickRoute = 1 then inTag @ '' ==> '' @ tag
        else if isPickRoute = 2 then inTag @ '' -> '' @ tag
        else inTag @ '' >> '' @ tag))"

definition route_verdict :: "('re, 'h) dispatch_env \<Rightarrow> string \<Rightarrow> outbound_session \<Rightarrow> 'h verdict" where
  "route_verdict de inTag ob =
     (if dp_Forced de \<noteq> '''' then
        (case dp_GetHandler de (dp_Forced de) of
           Some h \<Rightarrow> Dispatched h (detour (dp_HandlerTag de h) inTag 1)
         | None \<Rightarrow> NoDetour (dp_Forced de))
      else (case pick_handler de ob of (h, pick) \<Rightarrow>
          (case (case h of Some h \<Rightarrow> Some h | None \<Rightarrow>
                  (case dp_GetHandler de inTag of Some h \<Rightarrow> Some h | None \<Rightarrow> dp_DefaultHandler de)) of
             None \<Rightarrow> NoHandler
           | Some h \<Rightarrow> Dispatched h (detour (dp_HandlerTag de h) inTag pick))))"

text \<open>The tag of the routing context is that of the inbound.\<close>

definition routedDispatch :: "('re, 'h) dispatch_env \<Rightarrow> session_inbound option \<Rightarrow> outbound_session \<Rightarrow> destination \<Rightarrow> nat option \<Rightarrow> string \<Rightarrow>
    're registry \<Rightarrow> 'h verdict option" where
  "routedDispatch de inbound ob dest l protocol r =
     (case rule_limiter inbound l r of
        None \<Rightarrow> panic
      | Some a \<Rightarrow>
          (case (case a of None \<Rightarrow> None | Some a \<Rightarrow> rule_verdict de (rg_heap r ! a) dest protocol) of
             Some v \<Rightarrow> Some v
           | None \<Rightarrow> Some (route_verdict de (case inbound of None \<Rightarrow> '''' | Some i \<Rightarrow> sb_Tag i) ob)))"

text \<open>What is deferred to the end of the connection, however it was routed.\<close>

definition connection_end :: "session_inbound option \<Rightarrow> destination \<Rightarrow> nat option \<Rightarrow> 're registry \<Rightarrow> 're registry option" where
  "connection_end inbound dest l r =
     (case (l, limited_user inbound) of
        (Some a, Some user) \<Rightarrow>
          if de_Network dest = NetTCP then
            map_option (\<lambda>c. heap_update a (\<lambda>l. l\<lparr>ConnLimiter := c\<rparr>) r)
              (DelConnCount (ConnLimiter (rg_heap r ! a)) (mu_Email user) (sourceIPString inbound))
          else Some r
      | _ \<Rightarrow> Some r)"

section \<open>Dispatch\<close>

text \<open>The session after the first lines of both methods; an invalid destination is a panic or an error.\<close>

definition new_outbound :: "destination \<Rightarrow> outbound_session \<Rightarrow> outbound_session" where
  "new_outbound dest ob = ob\<lparr>ob_OriginalTarget := dest, ob_Target := dest\<rparr>"

definition dest_valid :: "destination \<Rightarrow> bool" where
  "dest_valid d \<longleftrightarrow> de_Network d \<noteq> NetUnknown"

text \<open>The common end of the two methods: sniffing the reader, when enabled, and routing. Sniffing needs the target of the session.\<close>

definition sniff_and_route :: "('re, 'h) dispatch_env \<Rightarrow> sniff_env \<Rightarrow> sniffing_request \<Rightarrow> string \<Rightarrow> session_inbound option \<Rightarrow> outbound_session \<Rightarrow>
    destination \<Rightarrow> nat option \<Rightarrow> read list \<Rightarrow> 're registry \<Rightarrow>
    ('h verdict \<times> outbound_session \<times> destination \<times> cached_reader) option" where
  "sniff_and_route de se request content_protocol inbound ob dest l input r =
     (if \<not> sq_Enabled request then
        map_option (\<lambda>v. (v, ob, dest, newCachedReader input)) (routedDispatch de inbound ob dest l '''' r)
      else
        (case sniffer se (sq_MetadataOnly request) (de_Network dest) (ob_Target ob) (newCachedReader input) of
           (outcome, reader) \<Rightarrow>
             (case apply_sniff de se request outcome content_protocol (dest, ob) of
                (protocol, dest', ob') \<Rightarrow>
                  map_option (\<lambda>v. (v, ob', dest', reader)) (routedDispatch de inbound ob' dest' l protocol r))))"

text \<open>\<^verbatim>\<open>Dispatch\<close> gives the inbound link at once and goes on in a goroutine, here run to its end; the input is what
  the uplink will give. \<^verbatim>\<open>DispatchLink\<close> works on a given link.\<close>

definition Dispatch :: "('re, 'h) dispatch_env \<Rightarrow> sniff_env \<Rightarrow> int \<Rightarrow> session_inbound option \<Rightarrow> outbound_session \<Rightarrow> sniffing_request \<Rightarrow> string \<Rightarrow>
    destination \<Rightarrow> read list \<Rightarrow> 're dispatch_world \<Rightarrow>
    ((string + link \<times> 'h verdict \<times> outbound_session \<times> destination \<times> cached_reader) \<times> 're dispatch_world) option" where
  "Dispatch de se now inbound ob0 request content_protocol dest input w =
     (if \<not> dest_valid dest then panic
      else (case getLink de now inbound (de_Network dest) w of
          None \<Rightarrow> panic
        | Some (Inl err, w) \<Rightarrow> Some (Inl err, w)
        | Some (Inr (inLink, outLink, l), w) \<Rightarrow>
            map_option (\<lambda>x. (Inr (inLink, x), w))
              (sniff_and_route de se request content_protocol inbound (new_outbound dest ob0) dest l input (dw_registry w))))"

definition DispatchLink :: "('re, 'h) dispatch_env \<Rightarrow> sniff_env \<Rightarrow> int \<Rightarrow> session_inbound option \<Rightarrow> outbound_session \<Rightarrow> sniffing_request \<Rightarrow> string \<Rightarrow>
    destination \<Rightarrow> link option \<Rightarrow> read list \<Rightarrow> 're dispatch_world \<Rightarrow>
    ((string + 'h verdict \<times> outbound_session \<times> destination \<times> cached_reader) \<times> 're dispatch_world) option" where
  "DispatchLink de se now inbound ob0 request content_protocol dest link input w =
     (if \<not> dest_valid dest then Some (Inl ''Dispatcher: Invalid destination.'', w)
      else (case wrapLink de now inbound link (de_Network dest) w of
          None \<Rightarrow> panic
        | Some (Inl err, w) \<Rightarrow> Some (Inl err, w)
        | Some (Inr (link, l), w) \<Rightarrow>
            map_option (\<lambda>x. (Inr x, w))
              (sniff_and_route de se request content_protocol inbound (new_outbound dest ob0) dest l input (dw_registry w))))"

end
