(* ===== verification/Sniffer_Laws.thy ===== *)
theory Sniffer_Laws
  imports Xray_Sniffer
begin

text \<open>
  What sniffing guarantees: it takes nothing from the stream, and its results have the shape that the
  dispatcher relies on.
\<close>

section \<open>The stream\<close>

fun chunk_bytes :: "read \<Rightarrow> string" where
  "chunk_bytes (Chunk c) = c"
| "chunk_bytes (ReadErr e) = ''''"

abbreviation stream_bytes :: "read list \<Rightarrow> string" where
  "stream_bytes rs \<equiv> concat (map chunk_bytes rs)"

definition pending_bytes :: "cached_reader \<Rightarrow> string" where
  "pending_bytes r = (case cr_cache r of None \<Rightarrow> '''' | Some c \<Rightarrow> c) @ stream_bytes (cr_reader r)"

lemma next_read_bytes: "next_read rs = (x, rs') \<Longrightarrow> stream_bytes rs = chunk_bytes x @ stream_bytes rs'"
  by (auto simp: next_read_def split: list.splits)

lemma Cache_bytes: "Cache se b r = (e, b', r') \<Longrightarrow> pending_bytes r' = pending_bytes r"
  by (auto simp: Cache_def Let_def pending_bytes_def merge_cache_def dest!: next_read_bytes
      split: prod.splits read.splits option.splits if_splits)

lemma content_loop_bytes: "content_loop left k se target net ss payload r = (outcome, r') \<Longrightarrow> pending_bytes r' = pending_bytes r"
proof (induction left arbitrary: k ss payload r)
  case (Suc left)
  then show ?case
    by (auto split: option.splits prod.splits if_splits dest: Cache_bytes)
qed auto

lemma sniffer_bytes: "sniffer se m net target r = (outcome, r') \<Longrightarrow> pending_bytes r' = pending_bytes r"
  by (auto simp: sniffer_def split: prod.splits if_splits sum.splits dest: content_loop_bytes)

lemma ReadMultiBuffer_bytes: "ReadMultiBuffer r = (x, r') \<Longrightarrow> pending_bytes r = chunk_bytes x @ pending_bytes r'"
  by (auto simp: ReadMultiBuffer_def readInternal_def pending_bytes_def dest!: next_read_bytes
      split: option.splits list.splits prod.splits)

text \<open>What so many reads give, errors left out.\<close>

fun drain :: "nat \<Rightarrow> cached_reader \<Rightarrow> string" where
  "drain 0 r = ''''"
| "drain (Suc n) r = (case ReadMultiBuffer r of (x, r') \<Rightarrow> chunk_bytes x @ drain n r')"

definition reads_left :: "cached_reader \<Rightarrow> nat" where
  "reads_left r = length (cr_reader r) + (case cr_cache r of Some (_ # _) \<Rightarrow> 1 | _ \<Rightarrow> 0)"

lemma ReadMultiBuffer_left: "ReadMultiBuffer r = (x, r') \<Longrightarrow> reads_left r' = reads_left r - 1"
  by (auto simp: ReadMultiBuffer_def readInternal_def next_read_def reads_left_def split: option.splits list.splits)

lemma drain_all: "reads_left r \<le> n \<Longrightarrow> drain n r = pending_bytes r"
proof (induction n arbitrary: r)
  case 0
  then show ?case by (auto simp: reads_left_def pending_bytes_def split: option.splits list.splits)
next
  case (Suc n)
  obtain x r' where x: "ReadMultiBuffer r = (x, r')" by force
  with Suc.prems ReadMultiBuffer_left [OF x] have "drain n r' = pending_bytes r'" by (intro Suc.IH) simp
  with x ReadMultiBuffer_bytes [OF x] show ?case by simp
qed

text \<open>C23: Sniffing is invisible to the outbound. Whatever the recognisers say, and however many attempts are made, reading
  through the cached reader afterwards gives, after finitely many reads and for ever after, exactly the bytes that the
  stream held before: nothing is lost, doubled or reordered.\<close>

theorem sniffing_keeps_stream:
  assumes "sniffer se metadataOnly net target (newCachedReader input) = (outcome, r)"
  shows "\<exists>n. \<forall>m \<ge> n. drain m r = stream_bytes input"
  using drain_all [of r] sniffer_bytes [OF assms] by (auto simp: pending_bytes_def newCachedReader_def)

definition demo_sniff_env :: sniff_env where
  "demo_sniff_env = \<lparr>sn_recognise = (\<lambda>f b. if f = SniffTLS \<and> b = ''hello'' then Inr (''tls'', ''example.org'') else Inl ErrNoClue),
     sn_fdns = Some \<lparr>fd_GetDomainFromFakeDNS = (\<lambda>a. if a = AddrIP ''198.18.0.1'' then ''fake.org'' else ''''),
       fd_IsIPInIPPool = Some (\<lambda>a. a = AddrIP ''198.18.0.1'' \<or> a = AddrIP ''198.18.0.2'')\<rparr>,
     sn_NewCap = 32, sn_SizedCap = id, sn_Done = (\<lambda>_. None)\<rparr>"

definition demo_dest :: "string \<Rightarrow> destination" where
  "demo_dest ip = \<lparr>de_Network = NetTCP, de_Address = AddrIP ip, de_Port = 443\<rparr>"

lemma sniffing_keeps_stream_witness:
  "\<exists>r n. sniffer demo_sniff_env False NetTCP (demo_dest ''198.18.0.1'') (newCachedReader [Chunk ''he'', Chunk ''llo'', Chunk '' world'']) =
       (Inr (CompositeResult (FakeDNSSniffResult ''fake.org'') (PlainSniffed ''tls'' ''example.org'')), r) \<and>
     (\<forall>m \<ge> n. drain m r = ''hello world'')"
proof -
  let ?i = "[Chunk ''he'', Chunk ''llo'', Chunk '' world'']"
  let ?r = "snd (sniffer demo_sniff_env False NetTCP (demo_dest ''198.18.0.1'') (newCachedReader ?i))"
  have *: "sniffer demo_sniff_env False NetTCP (demo_dest ''198.18.0.1'') (newCachedReader ?i) =
      (Inr (CompositeResult (FakeDNSSniffResult ''fake.org'') (PlainSniffed ''tls'' ''example.org'')), ?r)"
    by code_simp
  obtain n where "\<forall>m \<ge> n. drain m ?r = stream_bytes ?i"
    using sniffing_keeps_stream [OF *] by blast
  with * show ?thesis by auto
qed

section \<open>The results\<close>

lemma sniff_scan_spec:
  assumes "sniff_scan run net ss pending = (res, pending')"
  shows "set pending' \<subseteq> set pending \<union> set ss \<and>
    (\<forall>r. res = Some r \<longrightarrow> (\<exists>si \<in> set ss. \<not> ps_metadata si \<and> ps_network si = net \<and> run si = Inr r))"
  using assms
proof (induction run net ss pending rule: sniff_scan.induct)
  case (2 run net si rest pending)
  then show ?case by (fastforce split: if_splits sum.splits sniff_error.splits)
qed auto

lemma metadata_scan_spec:
  assumes "metadata_scan run ss pending = (res, pending')"
  shows "set pending' \<subseteq> set pending \<union> set ss \<and> (\<forall>r. res = Some r \<longrightarrow> (\<exists>si \<in> set ss. ps_metadata si \<and> run si = Inr r))"
  using assms
proof (induction run ss pending rule: metadata_scan.induct)
  case (2 run si rest pending)
  then show ?case by (fastforce split: if_splits sum.splits sniff_error.splits)
qed auto

lemma after_scan_spec:
  assumes "after_scan ss (res, pending) = (outcome, ss')" "set pending \<subseteq> set ss"
  shows "set ss' \<subseteq> set ss \<and> (\<forall>r. outcome = Inr r \<longrightarrow> res = Some r)"
  using assms by (auto simp: after_scan_def split: option.splits list.splits)

lemma Sniff_spec:
  assumes "Sniff se target payload net ss = (outcome, ss')"
  shows "set ss' \<subseteq> set ss \<and> (\<forall>r. outcome = Inr r \<longrightarrow>
    (\<exists>si \<in> set ss. \<not> ps_metadata si \<and> ps_network si = net \<and> run_sniffer se target (Some payload) si = Inr r))"
proof -
  obtain res pending where s: "sniff_scan (run_sniffer se target (Some payload)) net ss [] = (res, pending)" by force
  note spec = sniff_scan_spec [OF s]
  then show ?thesis using assms after_scan_spec [of ss res pending outcome ss'] by (simp add: Sniff_def s)
qed

lemma SniffMetadata_spec:
  assumes "SniffMetadata se target ss = (outcome, ss')"
  shows "set ss' \<subseteq> set ss \<and> (\<forall>r. outcome = Inr r \<longrightarrow> (\<exists>si \<in> set ss. ps_metadata si \<and> run_sniffer se target None si = Inr r))"
proof -
  obtain res pending where s: "metadata_scan (run_sniffer se target None) ss [] = (res, pending)" by force
  note spec = metadata_scan_spec [OF s]
  then show ?thesis using assms after_scan_spec [of ss res pending outcome ss'] by (simp add: SniffMetadata_def s)
qed

lemma content_loop_spec:
  assumes "content_loop left k se target net ss payload r = (Inr res, r')"
  shows "\<exists>si \<in> set ss. \<exists>b. \<not> ps_metadata si \<and> ps_network si = net \<and> run_sniffer se target (Some b) si = Inr res"
  using assms
proof (induction left arbitrary: k ss payload r)
  case (Suc left)
  then obtain payload' r1 where c: "Cache se payload r = (None, payload', r1)"
    by (auto split: option.splits prod.splits)
  obtain outcome ss' where s: "(if bu_data payload' \<noteq> [] then Sniff se target (bu_data payload') net ss else (Inl ErrNoClue, ss)) = (outcome, ss')"
    by force
  have sub: "set ss' \<subseteq> set ss \<and> (\<forall>r. outcome = Inr r \<longrightarrow>
      (\<exists>si \<in> set ss. \<not> ps_metadata si \<and> ps_network si = net \<and> run_sniffer se target (Some (bu_data payload')) si = Inr r))"
    using s Sniff_spec [of se target "bu_data payload'" net ss outcome ss'] by (auto split: if_splits)
  consider "outcome = Inr res" | "content_loop left (Suc k) se target net ss' payload' r1 = (Inr res, r')"
    using Suc.prems s by (auto simp: c split: option.splits if_splits)
  then show ?case
  proof cases
    case 1
    with sub show ?thesis by blast
  next
    case 2
    with Suc.IH [OF 2] sub show ?thesis by blast
  qed
qed (simp split: option.splits)

definition is_fakedns :: "sniff_result \<Rightarrow> bool" where
  "is_fakedns r \<longleftrightarrow> (\<exists>d. r = FakeDNSSniffResult d \<and> d \<noteq> '''')"

definition is_recognised :: "sniff_env \<Rightarrow> net_network \<Rightarrow> sniff_result \<Rightarrow> bool" where
  "is_recognised se net r \<longleftrightarrow> (\<exists>p d f b. r = PlainSniffed p d \<and> sn_recognise se f b = Inr (p, d) \<and>
     f \<in> (if net = NetTCP then {SniffHTTP, SniffTLS, SniffBittorrent} else {SniffQUIC, SniffUTP}))"

lemma run_content:
  "ps_fn si \<notin> {FakeDNSSniffer, FakeDNSThenOthers} \<Longrightarrow> run_sniffer se target (Some b) si =
     map_sum id (\<lambda>(protocol, domain). PlainSniffed protocol domain) (sn_recognise se (ps_fn si) b)"
  by (cases "ps_fn si") (simp_all add: run_sniffer_def)

lemma content_result:
  assumes "si \<in> set (NewSniffer se)" "\<not> ps_metadata si" "ps_network si = net" "net = NetTCP \<or> net = NetUDP"
    and "run_sniffer se target (Some b) si = Inr r"
  shows "is_recognised se net r"
proof -
  have "si \<in> set content_sniffers"
    using assms(1-4) by (auto simp: NewSniffer_def newFakeDNSSniffer_def newFakeDNSThenOthers_def split: if_splits option.splits)
  then have f: "ps_fn si \<in> (if net = NetTCP then {SniffHTTP, SniffTLS, SniffBittorrent} else {SniffQUIC, SniffUTP})"
    using assms(3,4) by (auto simp: content_sniffers_def)
  then have "ps_fn si \<notin> {FakeDNSSniffer, FakeDNSThenOthers}" by (auto split: if_splits)
  from assms(5) [unfolded run_content [OF this]] obtain p d where
    "r = PlainSniffed p d" "sn_recognise se (ps_fn si) b = Inr (p, d)"
    by (cases "sn_recognise se (ps_fn si) b") auto
  with f show ?thesis unfolding is_recognised_def by blast
qed

lemma metadata_result:
  assumes "si \<in> set (NewSniffer se)" "ps_metadata si" "run_sniffer se target None si = Inr r"
  shows "is_fakedns r"
  using assms
  by (auto simp: NewSniffer_def content_sniffers_def newFakeDNSSniffer_def newFakeDNSThenOthers_def run_sniffer_def
      fakedns_sniff_def is_fakedns_def Let_def split: if_splits option.splits)



end
