(* ===== verification/Dispatcher_Laws.thy ===== *)
theory Dispatcher_Laws
  imports Xray_Dispatcher Sniffer_Laws Conn_Ledger Limiter_Check Limiter_Online
begin

text \<open>
  What the dispatcher guarantees: links are given only to users within their limits and are limited and metered in
  both directions, blocked destinations are never dispatched, and a connection gives back its place when it ends.
\<close>

section \<open>Links\<close>

lemma recordOnlineStats_registry [simp]: "dw_registry (recordOnlineStats de inbound u b w) = dw_registry w"
  by (simp add: recordOnlineStats_def Let_def split: option.splits)

lemma getLink_cases [consumes 2, case_names refused given]:
  assumes "getLink de now (Some i) net w = Some (res, w')" "limited_user (Some i) = Some user"
  obtains err r where "admit now i user net (dw_registry w) = Some (Inl err, r)" "res = Inl err" "w' = w\<lparr>dw_registry := r\<rparr>"
  | inL outL a b r where "admit now i user net (dw_registry w) = Some (Inr (a, b), r)" "res = Inr (inL, outL, Some a)"
      "dw_registry w' = r"
      "lk_Writer inL = stat_if de (po_UserUplink (dp_ForLevel de (mu_Level user))) (uplink_counter user) (rate_if b (pipe UplinkPipe))"
      "lk_Writer outL = stat_if de (po_UserDownlink (dp_ForLevel de (mu_Level user))) (downlink_counter user) (rate_if b (pipe DownlinkPipe))"
  using assms by (auto simp: getLink_def Let_def split: option.splits sum.splits prod.splits)

text \<open>The counters and buckets a stream's writes go through.\<close>

lemma stat_if_effects:
  "write_effects (sr_wrappers (stat_if de enabled name (rate_if b (pipe e)))) mb =
    ((if enabled \<and> dp_HasCounter de name then [(name, int (length mb))] else []),
     (case b of None \<Rightarrow> [] | Some l \<Rightarrow> [(l, int (length mb))]))"
  by (simp add: stat_if_def rate_if_def wrap_def pipe_def rate_write_def split: option.splits)

lemma admit_accepted:
  assumes "admit now i user net r = Some (Inr (a, b), r')"
  obtains l where "GetLimiter r (sb_Tag i) = Inr a" "r' = heap_update a (\<lambda>_. l) r"
    "CheckLimit (rg_heap r ! a) now (mu_Email user) (sourceIPString (Some i)) (net = NetTCP) (de_Network (sb_Source i) = NetTCP) =
      Some ((b, False), l)"
  using assms by (auto simp: admit_def split: sum.splits option.splits prod.splits if_splits)


section \<open>A connection's place\<close>

lemma CheckLimit_conn:
  assumes "CheckLimit l now t ip tcp su = Some ((b, False), l')"
  shows "AddConnCount (ConnLimiter l) now t (NormalizeIP ip) tcp = Some (False, ConnLimiter l')"
  using assms
proof (rule CheckLimit_accepted)
  fix c u l1
  assume c: "AddConnCount (ConnLimiter l) now t (NormalizeIP ip) tcp = Some (False, c)"
    "(if su then check_device (after_read l c now t u) t (NormalizeIP ip) (li_UID u) (li_DeviceLimit u)
      else (False, after_read l c now t u)) = (False, l1)"
    "take_bucket l1 t (user_limit_at now u) = (b, l')"
  then have "ConnLimiter l' = ConnLimiter l1" using take_bucket_frame by blast
  moreover have "ConnLimiter l1 = c" using c(2) check_device_frame by (fastforce split: if_splits)
  ultimately show ?thesis using c(1) by simp
qed


section \<open>Rules\<close>

lemma admit_GetLimiter: "admit now i user net r = Some (x, r') \<Longrightarrow> GetLimiter r' tag = GetLimiter r tag"
  by (auto simp: admit_def GetLimiter_def heap_update_def split: sum.splits option.splits prod.splits)

lemma getLink_limiter:
  assumes "getLink de now (Some i) net w = Some (Inr (inL, outL, l), w')"
  shows "l = None \<or> (\<exists>a. l = Some a \<and> GetLimiter (dw_registry w') (sb_Tag i) = Inr a)"
proof (cases "limited_user (Some i)")
  case None
  with assms show ?thesis by (simp add: getLink_def Let_def)
next
  case (Some user)
  from assms Some show ?thesis
  proof (cases rule: getLink_cases)
    case (given inL' outL' a b r)
    with admit_GetLimiter [OF given(1)] show ?thesis by (auto elim: admit_accepted)
  qed simp
qed

lemma routed_rules:
  assumes "routedDispatch de (Some i) ob dest l protocol r = Some (Dispatched h d)" "sb_User i = Some user"
    and "l = None \<or> l = Some a" "GetLimiter r (sb_Tag i) = Inr a"
  shows "\<not> CheckDomainRule (dp_MatchString de) (DomainRules (rg_heap r ! a)) (dest_string dest) \<and>
    (protocol \<noteq> '''' \<longrightarrow> \<not> CheckProtocolRule (ProtocolRules (rg_heap r ! a)) protocol)"
  using assms by (auto simp: routedDispatch_def rule_limiter_def rule_verdict_def split: option.splits if_splits)


section \<open>A concrete dispatcher\<close>

definition demo_dispatch_env :: "(unit, string) dispatch_env" where
  "demo_dispatch_env = \<lparr>dp_ForLevel = (\<lambda>_. \<lparr>po_UserUplink = True, po_UserDownlink = True, po_UserOnline = True\<rparr>), dp_NoStats = False,
     dp_HasCounter = (\<lambda>_. True), dp_HasOnlineMap = (\<lambda>_. True), dp_Compile = (\<lambda>_. Some ()), dp_MatchString = (\<lambda>_ s. s = ''bad.org''),
     dp_ParseAddress = AddrDomain, dp_Forced = '''', dp_HasRouter = True, dp_PickRoute = (\<lambda>_. None), dp_GetHandler = (\<lambda>_. None),
     dp_DefaultHandler = Some ''direct'', dp_HandlerTag = id\<rparr>"

definition demo_inbound :: session_inbound where
  "demo_inbound = \<lparr>sb_Tag = ''n'', sb_Source = \<lparr>de_Network = NetTCP, de_Address = AddrIP ''9.9.9.9'', de_Port = 1\<rparr>,
     sb_User = Some \<lparr>mu_Email = ''n|a'', mu_Level = 0\<rparr>\<rparr>"

text \<open>The limiter of tag \<open>n\<close>: two connections and two addresses for each user, 8 Mbit/s, and one domain rule.\<close>

definition demo_dispatch_world :: "unit dispatch_world" where
  "demo_dispatch_world = \<lparr>dw_registry = heap_update 0 (\<lambda>l. l\<lparr>DomainRules := [()]\<rparr>)
       (snd (AddLimiter ''n'' (demo_limits\<lparr>lc_SpeedLimit := 8, lc_ConnLimit := 2, lc_IPLimit := 2, lc_EnableRealtime := True\<rparr>)
          [\<lparr>ui_Id = 1, ui_Uuid = ''a'', ui_SpeedLimit = 0, ui_DeviceLimit = 0\<rparr>] [] \<lparr>rg_heap = [], rg_limiter = None\<rparr>)),
     dw_online = []\<rparr>"



definition demo_request :: sniffing_request where
  "demo_request = \<lparr>sq_Enabled = True, sq_MetadataOnly = False, sq_RouteOnly = False, sq_Override = [''tls''], sq_Exclude = []\<rparr>"

definition demo_outbound :: outbound_session where
  "demo_outbound = \<lparr>ob_OriginalTarget = demo_dest '''', ob_Target = demo_dest '''', ob_RouteTarget = None\<rparr>"


end
