(* ===== verification/Go_Std.thy ===== *)
theory Go_Std
  imports GoMap
begin

text \<open>
  What the builders of node configurations use of Go's standard library: host and port strings of package
  \<^verbatim>\<open>net\<close>, splitting and comparing of package \<^verbatim>\<open>strings\<close>, hexadecimal text, and files.
\<close>

section \<open>Hosts and ports\<close>

definition addr_error :: "string \<Rightarrow> string \<Rightarrow> string" where
  "addr_error addr why = (if addr = '''' then why else ''address '' @ addr @ '': '' @ why)"

text \<open>\<^verbatim>\<open>net.SplitHostPort\<close>: the last colon divides; a host in brackets may hold colons itself.\<close>

definition before_last :: "char \<Rightarrow> string \<Rightarrow> string" where
  "before_last c s = rev (tl (dropWhile (\<lambda>x. x \<noteq> c) (rev s)))"

definition after_last :: "char \<Rightarrow> string \<Rightarrow> string" where
  "after_last c s = rev (takeWhile (\<lambda>x. x \<noteq> c) (rev s))"

definition SplitHostPort :: "string \<Rightarrow> string + (string \<times> string)" where
  "SplitHostPort hostport =
     (let err = (\<lambda>why. Inl (addr_error hostport why));
          missing = ''missing port in address''; toomany = ''too many colons in address'';
          port = after_last (CHR '':'') hostport
      in if CHR '':'' \<notin> set hostport then err missing
         else if hd hostport = CHR ''['' then
           (if CHR '']'' \<notin> set hostport then err ''missing ']' in address''
            else
              let host = takeWhile (\<lambda>c. c \<noteq> CHR '']'') (tl hostport);
                  rest = drop (length host + 2) hostport
              in if rest = [] then err missing
                 else if rest \<noteq> CHR '':'' # port then
                   (if hd rest = CHR '':'' then err toomany else err missing)
                 else if CHR ''['' \<in> set (tl hostport) then err ''unexpected '[' in address''
                 else if CHR '']'' \<in> set rest then err ''unexpected ']' in address''
                 else Inr (host, port))
         else
           let host = before_last (CHR '':'') hostport
           in if CHR '':'' \<in> set host then err toomany
              else if CHR ''['' \<in> set hostport then err ''unexpected '[' in address''
              else if CHR '']'' \<in> set hostport then err ''unexpected ']' in address''
              else Inr (host, port))"

definition JoinHostPort :: "string \<Rightarrow> string \<Rightarrow> string" where
  "JoinHostPort host port =
     (if CHR '':'' \<in> set host then ''['' @ host @ '']:'' @ port else host @ '':'' @ port)"

lemma after_last_append: "c \<notin> set b \<Longrightarrow> after_last c (a @ c # b) = b"
  by (auto simp: after_last_def takeWhile_append intro!: takeWhile_eq_all_conv [THEN iffD2])

lemma before_last_append: "c \<notin> set b \<Longrightarrow> before_last c (a @ c # b) = a"
  by (auto simp: before_last_def dropWhile_append)

text \<open>Both directions of the round trip: a joined address is split again, for hosts and ports without brackets.\<close>

lemma SplitHostPort_JoinHostPort:
  assumes "set host \<inter> {CHR ''['', CHR '']''} = {}" "set port \<inter> {CHR '':'', CHR ''['', CHR '']''} = {}"
  shows "SplitHostPort (JoinHostPort host port) = Inr (host, port)"
proof (cases "CHR '':'' \<in> set host")
  case True
  have host: "takeWhile (\<lambda>c. c \<noteq> CHR '']'') (host @ CHR '']'' # CHR '':'' # port) = host"
    using assms(1) by (auto simp: takeWhile_append intro!: takeWhile_eq_all_conv [THEN iffD2])
  have port: "after_last (CHR '':'') (CHR ''['' # host @ CHR '']'' # CHR '':'' # port) = port"
    using after_last_append [of "CHR '':''" port "CHR ''['' # host @ [CHR '']'']"] assms(2) by simp
  show ?thesis using True assms
    by (auto simp: SplitHostPort_def JoinHostPort_def Let_def host port)
next
  case False
  have "hd (host @ CHR '':'' # port) \<noteq> CHR ''[''"
    using assms(1) by (cases host) auto
  with False assms show ?thesis
    by (auto simp: SplitHostPort_def JoinHostPort_def Let_def after_last_append before_last_append)
qed

lemma SplitHostPort_host_nonempty_port:
  "SplitHostPort s = Inr (host, port) \<Longrightarrow> CHR '':'' \<in> set s \<and> CHR '':'' \<notin> set port"
  by (auto simp: SplitHostPort_def Let_def after_last_def split: if_splits dest: set_takeWhileD)

text \<open>\<^verbatim>\<open>strconv.ParseUint(s, 10, 16)\<close>: a value, or \<^term>\<open>None\<close> for an error.\<close>

definition ParseUint16 :: "string \<Rightarrow> int option" where
  "ParseUint16 s = (if s \<noteq> [] \<and> list_all is_digit s \<and> digits_val s < 65536 then Some (int (digits_val s)) else None)"

section \<open>Strings\<close>

text \<open>\<^verbatim>\<open>strings.FieldsFunc\<close> for separators of one byte, and \<^verbatim>\<open>strings.Cut\<close> at one byte.\<close>

fun split_by :: "(char \<Rightarrow> bool) \<Rightarrow> string \<Rightarrow> string list" where
  "split_by f [] = [[]]"
| "split_by f (c # cs) =
     (if f c then [] # split_by f cs else (case split_by f cs of [] \<Rightarrow> [[c]] | w # ws \<Rightarrow> (c # w) # ws))"

definition FieldsFunc :: "(char \<Rightarrow> bool) \<Rightarrow> string \<Rightarrow> string list" where
  "FieldsFunc f s = filter (\<lambda>w. w \<noteq> []) (split_by f s)"

lemma split_by_nonempty [simp]: "split_by f s \<noteq> []"
  by (cases s) (simp_all split: list.split)

lemma split_by_fields: "\<forall>w \<in> set (split_by f s). \<forall>c \<in> set w. \<not> f c"
proof (induction s)
  case (Cons c cs)
  then show ?case by (cases "split_by f cs") auto
qed simp

lemma FieldsFunc_fields: "w \<in> set (FieldsFunc f s) \<Longrightarrow> w \<noteq> [] \<and> (\<forall>c \<in> set w. \<not> f c)"
  using split_by_fields by (auto simp: FieldsFunc_def)

definition Cut :: "char \<Rightarrow> string \<Rightarrow> (string \<times> string) option" where
  "Cut sep s = (if sep \<in> set s then Some (takeWhile (\<lambda>c. c \<noteq> sep) s, tl (dropWhile (\<lambda>c. c \<noteq> sep) s)) else None)"

text \<open>
  \<^verbatim>\<open>strings.EqualFold\<close> with a text of ASCII letters: two other runes fold to such letters, the long s (bytes
  197 191) and the Kelvin sign (226 132 170).
\<close>

fun fold_runes :: "string \<Rightarrow> string" where
  "fold_runes (a # b # c # cs) =
     (if a = CHR 0xC5 \<and> b = CHR 0xBF then CHR ''s'' # fold_runes (c # cs)
      else if a = CHR 0xE2 \<and> b = CHR 0x84 \<and> c = CHR 0xAA then CHR ''k'' # fold_runes cs
      else lower_char a # fold_runes (b # c # cs))"
| "fold_runes [a, b] = (if a = CHR 0xC5 \<and> b = CHR 0xBF then ''s'' else [lower_char a, lower_char b])"
| "fold_runes [a] = [lower_char a]"
| "fold_runes [] = []"

definition EqualFold :: "string \<Rightarrow> string \<Rightarrow> bool" where
  "EqualFold s t = (fold_runes s = fold_runes t)"

definition hex_digit :: "nat \<Rightarrow> char" where
  "hex_digit n = (if n < 10 then char_of (48 + n) else char_of (87 + n))"

text \<open>\<^verbatim>\<open>hex.EncodeToString\<close>.\<close>

definition hex_encode :: "nat list \<Rightarrow> string" where
  "hex_encode bs = concat (map (\<lambda>b. [hex_digit (b div 16 mod 16), hex_digit (b mod 16)]) bs)"

lemma length_hex_encode [simp]: "length (hex_encode bs) = 2 * length bs"
  by (induction bs) (simp_all add: hex_encode_def)

section \<open>Files\<close>

text \<open>
  The environment variables and the files of the process. A path may answer with a fault when it is read or
  written, for instance for want of permission; \<^verbatim>\<open>os.WriteFile\<close> creates a missing file.
\<close>

record host =
  ho_Env :: "(string, string) gomap"
  ho_Files :: "(string, string) gomap"
  ho_ReadFault :: "string \<Rightarrow> string option"
  ho_WriteFault :: "string \<Rightarrow> string option"

definition Getenv :: "string \<Rightarrow> host \<Rightarrow> string" where
  "Getenv k h = map_get [] (ho_Env h) k"

definition Setenv :: "string \<Rightarrow> string \<Rightarrow> host \<Rightarrow> host" where
  "Setenv k v h = h\<lparr>ho_Env := sm_store k v (ho_Env h)\<rparr>"

definition no_such_file :: "string \<Rightarrow> string" where
  "no_such_file p = ''open '' @ p @ '': no such file or directory''"

definition ReadFile :: "string \<Rightarrow> host \<Rightarrow> string + string" where
  "ReadFile p h =
     (case ho_ReadFault h p of
        Some e \<Rightarrow> Inl e
      | None \<Rightarrow> (case sm_load (ho_Files h) p of None \<Rightarrow> Inl (no_such_file p) | Some c \<Rightarrow> Inr c))"

definition Truncate :: "string \<Rightarrow> host \<Rightarrow> string option \<times> host" where
  "Truncate p h =
     (case ho_WriteFault h p of
        Some e \<Rightarrow> (Some e, h)
      | None \<Rightarrow> (case sm_load (ho_Files h) p of
            None \<Rightarrow> (Some (no_such_file p), h)
          | Some _ \<Rightarrow> (None, h\<lparr>ho_Files := sm_store p [] (ho_Files h)\<rparr>)))"

definition WriteFile :: "string \<Rightarrow> string \<Rightarrow> host \<Rightarrow> string option \<times> host" where
  "WriteFile p c h =
     (case ho_WriteFault h p of
        Some e \<Rightarrow> (Some e, h)
      | None \<Rightarrow> if p = [] then (Some (no_such_file p), h) else (None, h\<lparr>ho_Files := sm_store p c (ho_Files h)\<rparr>))"

end
