(* ===== verification/Xray_Inbound.thy ===== *)
theory Xray_Inbound
  imports Xray_Users Go_Std
begin

text \<open>
  \<^verbatim>\<open>core/xray/inbound.go\<close>: the inbound of a node, from the node and the options to the configuration that
  xray-core builds it from. The configuration structs of xray-core are described by the fields that the code sets
  or reads; a struct that is decoded from JSON is described by that text. The decoders, the encoders and \<^verbatim>\<open>Build\<close>
  are parameters. A nil dereference is \<^term>\<open>None\<close>, an error the left side of a sum.
\<close>

section \<open>The configuration structs\<close>

text \<open>A transport: the text it was decoded from, if any, and whether it accepts the proxy protocol, if the code says.\<close>

record transport =
  tr_Source :: "string option"
  tr_AcceptProxyProtocol :: "bool option"

record socket_config =
  sk_AcceptProxyProtocol :: bool
  sk_TFO :: bool

record xray_tls =
  xt_CertFile :: string
  xt_KeyFile :: string
  xt_OcspStapling :: int
  xt_RejectUnknownSNI :: bool
  xt_ECHServerKeys :: string

record reality_inbound =
  ri_Dest :: string
  ri_Xver :: int
  ri_ServerNames :: "string list"
  ri_PrivateKey :: string
  ri_MinClientVer :: string
  ri_MaxClientVer :: string
  ri_MaxTimeDiff :: int
  ri_ShortIds :: "string list"

record stream_setting =
  sg_Network :: string
  sg_TCP :: "transport option"
  sg_WS :: "transport option"
  sg_GRPC :: "transport option"
  sg_HTTPUpgrade :: "transport option"
  sg_SplitHTTP :: "transport option"
  sg_Socket :: "socket_config option"
  sg_Security :: string
  sg_TLS :: "xray_tls option"
  sg_REALITY :: "reality_inbound option"

definition new_stream :: "string \<Rightarrow> stream_setting" where
  "new_stream network = \<lparr>sg_Network = network, sg_TCP = None, sg_WS = None, sg_GRPC = None, sg_HTTPUpgrade = None,
     sg_SplitHTTP = None, sg_Socket = None, sg_Security = [], sg_TLS = None, sg_REALITY = None\<rparr>"

text \<open>A fallback of vless or trojan, its destination as JSON text.\<close>

record inbound_fallback =
  if_Name :: string
  if_Alpn :: string
  if_Path :: string
  if_Dest :: string
  if_Xver :: int

record ss_settings =
  st_Cipher :: string
  st_Password :: string
  st_Users :: "(string \<times> string) list"
  st_NetworkList :: "string list"
  st_IVCheck :: bool

text \<open>What the protocol's settings are encoded from.\<close>

datatype inbound_settings =
    VLessSettings string "inbound_fallback list"
  | VMessSettings
  | TrojanSettings "inbound_fallback list"
  | RawSettings string
  | SSSettings ss_settings

record inbound_detour =
  id_Protocol :: string
  id_Settings :: "inbound_settings option"
  id_StreamSetting :: "stream_setting option"
  id_PortRange :: "int \<times> int"
  id_ListenOn :: string
  id_SniffingEnabled :: bool
  id_DestOverride :: "string list"
  id_Tag :: string

definition empty_detour :: inbound_detour where
  "empty_detour = \<lparr>id_Protocol = [], id_Settings = None, id_StreamSetting = None, id_PortRange = (0, 0), id_ListenOn = [],
     id_SniffingEnabled = False, id_DestOverride = [], id_Tag = []\<rparr>"

text \<open>
  The parameters: decoding a transport of a network (\<^term>\<open>Inr False\<close> for the text \<^verbatim>\<open>null\<close>, which leaves the pointer
  nil), decoding and encoding a value of any type, an error of encoding settings, encoding a string, random bytes, and
  the nanoseconds of a duration (zero for a text that is none).
\<close>

record 'c inbound_env =
  ie_Transport :: "string \<Rightarrow> string \<Rightarrow> string + bool"
  ie_DecodeAny :: "string \<Rightarrow> any option"
  ie_EncodeAny :: "any \<Rightarrow> string option"
  ie_SettingsError :: "inbound_settings \<Rightarrow> string option"
  ie_String :: "string \<Rightarrow> string + string"
  ie_Rand :: "string + nat list"
  ie_ParseDuration :: "string \<Rightarrow> int"
  ie_Build :: "inbound_detour \<Rightarrow> string + 'c"

section \<open>Settings of the XHTTP transport\<close>

fun pickHeaderString :: "(string, any) gomap \<Rightarrow> string list \<Rightarrow> string" where
  "pickHeaderString m [] = []"
| "pickHeaderString m (k # ks) =
     (case sm_load m k of Some (AnyString s) \<Rightarrow> TrimSpace s | _ \<Rightarrow> pickHeaderString m ks)"

text \<open>One item of an array of headers: an object with a name and a value, or a text with a colon.\<close>

definition add_header :: "any \<Rightarrow> (string, any) gomap \<Rightarrow> (string, any) gomap" where
  "add_header item headers =
     (case item of
        AnyMap h \<Rightarrow>
          (let k = pickHeaderString h [''name'', ''key'', ''header'']
           in if k = [] then headers
              else sm_store k (AnyString (pickHeaderString h [''value'', ''val'', ''v''])) headers)
      | AnyString h \<Rightarrow>
          (case Cut (CHR '':'') h of
             None \<Rightarrow> headers
           | Some (k, v) \<Rightarrow>
               (let k = TrimSpace k in if k = [] then headers else sm_store k (AnyString (TrimSpace v)) headers))
      | _ \<Rightarrow> headers)"

definition headersArrayToMap :: "any list \<Rightarrow> (string, any) gomap" where
  "headersArrayToMap arr = fold add_header arr []"

definition object_keys :: "string list" where
  "object_keys = [''sockopt'', ''tlssettings'', ''xhttpsettings'', ''downloadsettings'', ''xmux'']"

definition fix_entry :: "string \<Rightarrow> any \<Rightarrow> any" where
  "fix_entry k v =
     (let l = ToLower k in
      case v of
        AnyList arr \<Rightarrow> if l = ''headers'' then AnyMap (headersArrayToMap arr)
          else if l \<in> set object_keys then AnyMap [] else v
      | _ \<Rightarrow> v)"

lemma size_entry: "(k, v) \<in> set t \<Longrightarrow> size (v :: any) < Suc (size_list (size_prod (\<lambda>_. 0) size) t)"
  by (induction t) auto

lemma size_item: "v \<in> set t \<Longrightarrow> size (v :: any) < Suc (size_list size t)"
  by (induction t) auto

function normalizeXHTTPValue :: "any \<Rightarrow> any" where
  "normalizeXHTTPValue (AnyMap t) = AnyMap (map (\<lambda>(k, child). (k, fix_entry k (normalizeXHTTPValue child))) t)"
| "normalizeXHTTPValue (AnyList t) = AnyList (map normalizeXHTTPValue t)"
| "normalizeXHTTPValue AnyNil = AnyNil"
| "normalizeXHTTPValue (AnyBool b) = AnyBool b"
| "normalizeXHTTPValue (AnyInt i) = AnyInt i"
| "normalizeXHTTPValue (AnyFloat i) = AnyFloat i"
| "normalizeXHTTPValue (AnyString s) = AnyString s"
| "normalizeXHTTPValue (AnyStrings ss) = AnyStrings ss"
  by pat_completeness auto

termination
  by (relation "measure size") (auto simp: size_entry size_item)

definition without_download :: "any \<Rightarrow> any" where
  "without_download v = (case v of AnyMap extra \<Rightarrow> AnyMap (sm_delete ''downloadSettings'' extra) | _ \<Rightarrow> v)"

definition normalizeXHTTPModeCompat :: "any \<Rightarrow> any" where
  "normalizeXHTTPModeCompat v =
     (case v of
        AnyMap obj \<Rightarrow>
          (let mode = (case sm_load obj ''mode'' of Some (AnyString m) \<Rightarrow> m | _ \<Rightarrow> [])
           in if EqualFold (TrimSpace mode) ''stream-one'' then
                (let obj = sm_delete ''downloadSettings'' obj
                 in case sm_load obj ''extra'' of
                      Some extraAny \<Rightarrow> AnyMap (sm_store ''extra'' (without_download extraAny) obj)
                    | None \<Rightarrow> AnyMap obj)
              else AnyMap obj)
      | _ \<Rightarrow> v)"

definition normalizeXHTTPSettings :: "'c inbound_env \<Rightarrow> string \<Rightarrow> string" where
  "normalizeXHTTPSettings ie raw =
     (if raw = [] then raw
      else (case ie_DecodeAny ie raw of
          None \<Rightarrow> raw
        | Some payload \<Rightarrow>
            (case ie_EncodeAny ie (normalizeXHTTPModeCompat (normalizeXHTTPValue payload)) of
               None \<Rightarrow> raw
             | Some normalized \<Rightarrow> normalized)))"

section \<open>Fallbacks\<close>

text \<open>A nil slice of fallbacks is \<^term>\<open>None\<close>. Vless and trojan build the same fields.\<close>

fun build_fallbacks :: "(string \<Rightarrow> string + string) \<Rightarrow> fallback_config_xray list \<Rightarrow> string + inbound_fallback list" where
  "build_fallbacks enc [] = Inr []"
| "build_fallbacks enc (c # cs) =
     (if fx_Dest c = '''' then Inl ''dest is required for fallback fialed''
      else (case enc (fx_Dest c) of
          Inl err \<Rightarrow> Inl (''marshal dest  config fialed: '' @ err)
        | Inr dest \<Rightarrow> map_sum id (\<lambda>fs. \<lparr>if_Name = fx_SNI c, if_Alpn = fx_Alpn c, if_Path = fx_Path c, if_Dest = dest,
              if_Xver = fx_ProxyProtocolVer c\<rparr> # fs) (build_fallbacks enc cs)))"

definition buildVlessFallbacks :: "'c inbound_env \<Rightarrow> fallback_config_xray list option \<Rightarrow> string + inbound_fallback list" where
  "buildVlessFallbacks ie fallbackConfigs =
     (case fallbackConfigs of None \<Rightarrow> Inl ''you must provide FallBackConfigs'' | Some cs \<Rightarrow> build_fallbacks (ie_String ie) cs)"

definition buildTrojanFallbacks :: "'c inbound_env \<Rightarrow> fallback_config_xray list option \<Rightarrow> string + inbound_fallback list" where
  "buildTrojanFallbacks ie fallbackConfigs =
     (case fallbackConfigs of None \<Rightarrow> Inl ''you must provide FallBackConfigs'' | Some cs \<Rightarrow> build_fallbacks (ie_String ie) cs)"

section \<open>The protocols\<close>

text \<open>Decoding the settings of a network into its place in the stream settings.\<close>

definition load_transport ::
    "'c inbound_env \<Rightarrow> string \<Rightarrow> string \<Rightarrow> (transport option \<Rightarrow> stream_setting) \<Rightarrow> string + stream_setting" where
  "load_transport ie name raw put =
     (case ie_Transport ie name raw of
        Inl err \<Rightarrow> Inl (''unmarshal '' @ name @ '' settings error: '' @ err)
      | Inr present \<Rightarrow> Inr (put (if present then Some \<lparr>tr_Source = Some raw, tr_AcceptProxyProtocol = None\<rparr> else None)))"

definition invalid_network :: string where "invalid_network = ''the network type is not vail''"

definition v2ray_stream :: "'c inbound_env \<Rightarrow> string \<Rightarrow> string \<Rightarrow> string + stream_setting" where
  "v2ray_stream ie network raw =
     (let s = new_stream network in
      if network = ''tcp'' then load_transport ie network raw (\<lambda>t. s\<lparr>sg_TCP := t\<rparr>)
      else if network = ''ws'' then load_transport ie network raw (\<lambda>t. s\<lparr>sg_WS := t\<rparr>)
      else if network = ''grpc'' then load_transport ie network raw (\<lambda>t. s\<lparr>sg_GRPC := t\<rparr>)
      else if network = ''httpupgrade'' then load_transport ie network raw (\<lambda>t. s\<lparr>sg_HTTPUpgrade := t\<rparr>)
      else if network = ''splithttp'' \<or> network = ''xhttp'' then
        load_transport ie ''xhttp'' (normalizeXHTTPSettings ie raw) (\<lambda>t. s\<lparr>sg_SplitHTTP := t\<rparr>)
      else Inl invalid_network)"

definition trojan_stream :: "'c inbound_env \<Rightarrow> string \<Rightarrow> string \<Rightarrow> string + stream_setting" where
  "trojan_stream ie network raw =
     (let s = new_stream network in
      if network = ''tcp'' then load_transport ie network raw (\<lambda>t. s\<lparr>sg_TCP := t\<rparr>)
      else if network = ''ws'' then load_transport ie network raw (\<lambda>t. s\<lparr>sg_WS := t\<rparr>)
      else if network = ''grpc'' then load_transport ie network raw (\<lambda>t. s\<lparr>sg_GRPC := t\<rparr>)
      else Inl invalid_network)"

definition put_settings :: "'c inbound_env \<Rightarrow> string \<Rightarrow> inbound_settings \<Rightarrow> inbound_detour \<Rightarrow> string + inbound_detour" where
  "put_settings ie what st d =
     (case ie_SettingsError ie st of
        Some err \<Rightarrow> Inl (''marshal '' @ what @ '' error: '' @ err)
      | None \<Rightarrow> Inr (d\<lparr>id_Settings := Some st\<rparr>))"

definition vallss_settings ::
    "'c inbound_env \<Rightarrow> options \<Rightarrow> node_info \<Rightarrow> inbound_detour \<Rightarrow> (string + inbound_detour) option" where
  "vallss_settings ie config nodeInfo inbound =
     (if ni_Type nodeInfo = ''vless'' then
        (let d0 = resolveVlessInboundDecryption (ni_VAllss nodeInfo);
             decryption = (if d0 = '''' then ''none'' else d0);
             inbound = inbound\<lparr>id_Protocol := ''vless''\<rparr>
         in case op_XrayOptions config of
              None \<Rightarrow> panic
            | Some x \<Rightarrow>
                if xo_EnableFallback x then
                  (case buildVlessFallbacks ie (xo_FallBackConfigs x) of
                     Inl err \<Rightarrow> Some (Inl err)
                   | Inr fs \<Rightarrow> Some (put_settings ie ''vless fallback config'' (VLessSettings decryption fs) inbound))
                else Some (put_settings ie ''vless config'' (VLessSettings decryption []) inbound))
      else Some (put_settings ie ''vmess settings'' VMessSettings (inbound\<lparr>id_Protocol := ''vmess''\<rparr>)))"

text \<open>Without network settings the stream settings stay nil.\<close>

definition buildV2ray :: "'c inbound_env \<Rightarrow> options \<Rightarrow> node_info \<Rightarrow> inbound_detour \<Rightarrow> (string + inbound_detour) option" where
  "buildV2ray ie config nodeInfo inbound =
     (case vallss_settings ie config nodeInfo inbound of
        None \<Rightarrow> panic
      | Some (Inl err) \<Rightarrow> Some (Inl err)
      | Some (Inr d) \<Rightarrow>
          (case ni_VAllss nodeInfo of
             None \<Rightarrow> panic
           | Some v \<Rightarrow>
               if va_NetworkSettings v = [] then Some (Inr d)
               else Some (map_sum id (\<lambda>s. d\<lparr>id_StreamSetting := Some s\<rparr>)
                 (v2ray_stream ie (va_Network v) (va_NetworkSettings v)))))"

definition trojan_network :: "trojan_node \<Rightarrow> string" where
  "trojan_network v = (if tj_Network v = '''' then ''tcp'' else tj_Network v)"

definition buildTrojan :: "'c inbound_env \<Rightarrow> options \<Rightarrow> node_info \<Rightarrow> inbound_detour \<Rightarrow> (string + inbound_detour) option" where
  "buildTrojan ie config nodeInfo inbound =
     (case op_XrayOptions config of
        None \<Rightarrow> panic
      | Some x \<Rightarrow>
          (let inbound = inbound\<lparr>id_Protocol := ''trojan''\<rparr>;
               settled =
                 (if xo_EnableFallback x then
                    (case buildTrojanFallbacks ie (xo_FallBackConfigs x) of
                       Inl err \<Rightarrow> Inl err
                     | Inr fs \<Rightarrow> put_settings ie ''trojan fallback config'' (TrojanSettings fs) inbound)
                  else Inr (inbound\<lparr>id_Settings := Some (RawSettings ''{}'')\<rparr>))
           in case settled of
                Inl err \<Rightarrow> Some (Inl err)
              | Inr d \<Rightarrow>
                  (case ni_Trojan nodeInfo of
                     None \<Rightarrow> panic
                   | Some v \<Rightarrow> Some (map_sum id (\<lambda>s. d\<lparr>id_StreamSetting := Some s\<rparr>)
                       (trojan_stream ie (trojan_network v) (tj_NetworkSettings v))))))"

text \<open>The default user of a shadowsocks inbound has a random password, of which nobody is told.\<close>

definition buildShadowsocks :: "'c inbound_env \<Rightarrow> options \<Rightarrow> node_info \<Rightarrow> inbound_detour \<Rightarrow> (string + inbound_detour) option" where
  "buildShadowsocks ie config nodeInfo inbound =
     (case ni_Shadowsocks nodeInfo of
        None \<Rightarrow> panic
      | Some s \<Rightarrow>
          (case ie_Rand ie of
             Inl err \<Rightarrow> Some (Inl (''generate random password error: '' @ err))
           | Inr p \<Rightarrow>
               (case op_XrayOptions config of
                  None \<Rightarrow> panic
                | Some x \<Rightarrow>
                    (let keyed = ss_ServerKey s \<noteq> '''';
                         user = (if keyed then ('''', StdEncoding (hex_encode p)) else (ss_Cipher s, hex_encode p));
                         settings = \<lparr>st_Cipher = ss_Cipher s, st_Password = (if keyed then ss_ServerKey s else ''''),
                           st_Users = [user], st_NetworkList = [''tcp'', ''udp''], st_IVCheck = \<not> xo_DisableIVCheck x\<rparr>
                     in Some (put_settings ie ''shadowsocks settings'' (SSSettings settings)
                          (inbound\<lparr>id_Protocol := ''shadowsocks'', id_StreamSetting := Some (new_stream ''tcp'')\<rparr>))))))"

section \<open>Security\<close>

definition getInboundECHSettings :: "node_info option \<Rightarrow> ech_settings" where
  "getInboundECHSettings nodeInfo =
     (case nodeInfo of
        None \<Rightarrow> zero_ech
      | Some n \<Rightarrow>
          if ni_Type n = ''vmess'' \<or> ni_Type n = ''vless'' then
            (case ni_VAllss n of Some v \<Rightarrow> ts_ECH (va_TlsSettings v) | None \<Rightarrow> zero_ech)
          else if ni_Type n = ''trojan'' then
            (case ni_Trojan n of Some v \<Rightarrow> ts_ECH (tj_TlsSettings v) | None \<Rightarrow> zero_ech)
          else zero_ech)"

definition getInboundECHServerKeys :: "node_info option \<Rightarrow> string" where
  "getInboundECHServerKeys nodeInfo =
     (let ech = getInboundECHSettings nodeInfo in
      if \<not> ec_Enabled ech then ''''
      else if TrimSpace (ec_ServerKeys ech) \<noteq> '''' then TrimSpace (ec_ServerKeys ech)
      else TrimSpace (ec_PrivateKey ech))"

definition splitAndFilter :: "string \<Rightarrow> string list" where
  "splitAndFilter input =
     filter (\<lambda>p. p \<noteq> '''') (map TrimSpace
       (FieldsFunc (\<lambda>r. r = CHR '','' \<or> r = CHR '';'' \<or> r = CHR '' '' \<or> r = CHR 0x09) input))"

text \<open>The error messages, which begin with the UTF-8 bytes of four Chinese characters.\<close>

definition reality_lacks :: "string \<Rightarrow> string" where
  "reality_lacks what = ''reality '' @ map char_of [233, 133, 141, 231, 189, 174, 231, 188, 186, 229, 176, 145 :: nat] @ what"

definition reality_lacks_domain :: string where
  "reality_lacks_domain = reality_lacks (map char_of [231, 155, 174, 230, 160, 135, 229, 159, 159, 229, 144, 141 :: nat])"

text \<open>A path or an abstract socket is a destination without a port.\<close>

definition is_socket_path :: "string \<Rightarrow> bool" where
  "is_socket_path dest = (HasPrefix dest ''/'' \<or> HasPrefix dest ''@'')"

definition reality_dest :: "tls_settings \<Rightarrow> string option" where
  "reality_dest ts =
     (let dest = TrimSpace (ts_Dest ts);
          serverPort = (if TrimSpace (ts_ServerPort ts) = '''' then ''443'' else TrimSpace (ts_ServerPort ts));
          dest = (if dest = '''' then TrimSpace (ts_ServerName ts) else dest)
      in if dest = '''' then None
         else if is_socket_path dest then Some dest
         else (case SplitHostPort dest of Inl _ \<Rightarrow> Some (JoinHostPort dest serverPort) | Inr _ \<Rightarrow> Some dest))"

definition reality_names :: "tls_settings \<Rightarrow> string \<Rightarrow> string list" where
  "reality_names ts dest =
     (let serverNames = splitAndFilter (TrimSpace (ts_ServerName ts)) in
      if serverNames = [] \<and> \<not> is_socket_path dest then
        (case SplitHostPort dest of Inr (h, _) \<Rightarrow> [h] | Inl _ \<Rightarrow> serverNames)
      else serverNames)"

definition build_reality :: "'c inbound_env \<Rightarrow> vallss_node \<Rightarrow> string + reality_inbound" where
  "build_reality ie v =
     (let ts = va_TlsSettings v; rc = va_RealityConfig v in
      case reality_dest ts of
        None \<Rightarrow> Inl reality_lacks_domain
      | Some dest \<Rightarrow>
          (case ie_String ie dest of
             Inl err \<Rightarrow> Inl (''marshal reality dest error: '' @ err)
           | Inr d \<Rightarrow>
               (let serverNames = reality_names ts dest; shortIDs = splitAndFilter (ts_ShortId ts) in
                if serverNames = [] then Inl (reality_lacks ('' server_name''))
                else if shortIDs = [] then Inl (reality_lacks ('' short_id''))
                else Inr \<lparr>ri_Dest = d, ri_Xver = (if ts_Xver ts = 0 then re_Xver rc else ts_Xver ts),
                  ri_ServerNames = serverNames, ri_PrivateKey = ts_PrivateKey ts,
                  ri_MinClientVer = re_MinClientVer rc, ri_MaxClientVer = re_MaxClientVer rc,
                  ri_MaxTimeDiff = u64 (go_div (ie_ParseDuration ie (re_MaxTimeDiff rc)) 1000),
                  ri_ShortIds = shortIDs\<rparr>)))"

definition tls_part :: "cert_config \<Rightarrow> node_info \<Rightarrow> stream_setting \<Rightarrow> stream_setting" where
  "tls_part cert nodeInfo s =
     s\<lparr>sg_Security := ''tls'',
       sg_TLS := Some \<lparr>xt_CertFile = cc_CertFile cert, xt_KeyFile = cc_KeyFile cert, xt_OcspStapling = 3600,
         xt_RejectUnknownSNI = cc_RejectUnknownSni cert, xt_ECHServerKeys = getInboundECHServerKeys (Some nodeInfo)\<rparr>\<rparr>"

definition apply_security :: "'c inbound_env \<Rightarrow> options \<Rightarrow> node_info \<Rightarrow> stream_setting \<Rightarrow> (string + stream_setting) option" where
  "apply_security ie option1 nodeInfo s =
     (if ni_Security nodeInfo = Tls then
        (case op_CertConfig option1 of
           None \<Rightarrow> Some (Inl ''the CertConfig is not vail'')
         | Some cert \<Rightarrow>
             if cc_CertMode cert = ''none'' \<or> cc_CertMode cert = '''' then Some (Inr s)
             else Some (Inr (tls_part cert nodeInfo s)))
      else if ni_Security nodeInfo = Reality then
        (case ni_VAllss nodeInfo of
           None \<Rightarrow> panic
         | Some v \<Rightarrow> Some (map_sum id (\<lambda>r. s\<lparr>sg_Security := ''reality'', sg_REALITY := Some r\<rparr>) (build_reality ie v)))
      else Some (Inr s))"

section \<open>The inbound\<close>

definition with_accept :: "bool \<Rightarrow> transport option \<Rightarrow> transport option" where
  "with_accept accept t =
     (case t of
        Some tr \<Rightarrow> Some (tr\<lparr>tr_AcceptProxyProtocol := Some accept\<rparr>)
      | None \<Rightarrow> Some \<lparr>tr_Source = None, tr_AcceptProxyProtocol = Some accept\<rparr>)"

definition accept_proxy :: "string \<Rightarrow> xray_options \<Rightarrow> stream_setting \<Rightarrow> stream_setting" where
  "accept_proxy network x s =
     (if network = ''tcp'' then s\<lparr>sg_TCP := with_accept (xo_EnableProxyProtocol x) (sg_TCP s)\<rparr>
      else if network = ''ws'' then s\<lparr>sg_WS := with_accept (xo_EnableProxyProtocol x) (sg_WS s)\<rparr>
      else s\<lparr>sg_Socket := Some \<lparr>sk_AcceptProxyProtocol = xo_EnableProxyProtocol x, sk_TFO = xo_EnableTFO x\<rparr>\<rparr>)"

text \<open>The protocol's part and the network; a nil node of the type panics when its network is read, even after an error.\<close>

definition protocol_part :: "'c inbound_env \<Rightarrow> options \<Rightarrow> node_info \<Rightarrow> (string + inbound_detour \<times> string) option" where
  "protocol_part ie option1 nodeInfo =
     (let t = ni_Type nodeInfo in
      if t = ''vmess'' \<or> t = ''vless'' then
        (case (buildV2ray ie option1 nodeInfo empty_detour, ni_VAllss nodeInfo) of
           (Some r, Some v) \<Rightarrow> Some (map_sum id (\<lambda>d. (d, va_Network v)) r)
         | _ \<Rightarrow> panic)
      else if t = ''trojan'' then
        (case (buildTrojan ie option1 nodeInfo empty_detour, ni_Trojan nodeInfo) of
           (Some r, Some v) \<Rightarrow> Some (map_sum id (\<lambda>d. (d, trojan_network v)) r)
         | _ \<Rightarrow> panic)
      else if t = ''shadowsocks'' then
        map_option (map_sum id (\<lambda>d. (d, ''tcp''))) (buildShadowsocks ie option1 nodeInfo empty_detour)
      else Some (Inl (''unsupported node type: '' @ t @ '', Only support: V2ray, Trojan, Shadowsocks'')))"

definition u32 :: "int \<Rightarrow> int" where "u32 n = n mod 2 ^ 32"

definition listen_part :: "options \<Rightarrow> xray_options \<Rightarrow> common_node \<Rightarrow> inbound_detour \<Rightarrow> inbound_detour" where
  "listen_part option1 x c d =
     d\<lparr>id_PortRange := (u32 (cn_ServerPort c), u32 (cn_ServerPort c)), id_ListenOn := op_ListenIP option1,
       id_SniffingEnabled := \<not> xo_DisableSniffing x, id_DestOverride := [''http'', ''tls'']\<rparr>"

definition inbound_of :: "'c inbound_env \<Rightarrow> options \<Rightarrow> node_info \<Rightarrow> string \<Rightarrow> (string + inbound_detour) option" where
  "inbound_of ie option1 nodeInfo tag =
     (case protocol_part ie option1 nodeInfo of
        None \<Rightarrow> panic
      | Some (Inl err) \<Rightarrow> Some (Inl err)
      | Some (Inr (d, network)) \<Rightarrow>
          (case (ni_Common nodeInfo, op_XrayOptions option1, id_StreamSetting d) of
             (Some c, Some x, Some s) \<Rightarrow>
               map_option (map_sum id (\<lambda>s'. (listen_part option1 x c d)\<lparr>id_StreamSetting := Some s', id_Tag := tag\<rparr>))
                 (apply_security ie option1 nodeInfo (accept_proxy network x s))
           | _ \<Rightarrow> panic))"

definition buildInbound :: "'c inbound_env \<Rightarrow> options \<Rightarrow> node_info \<Rightarrow> string \<Rightarrow> (string + 'c) option" where
  "buildInbound ie option1 nodeInfo tag =
     (case inbound_of ie option1 nodeInfo tag of
        None \<Rightarrow> panic
      | Some (Inl err) \<Rightarrow> Some (Inl err)
      | Some (Inr d) \<Rightarrow> Some (ie_Build ie d))"

end
