(* ===== verification/Xray_Node.thy ===== *)
theory Xray_Node
  imports Xray_Inbound
begin

text \<open>
  The xray core itself: \<^verbatim>\<open>core/xray/xray.go\<close> (construction, start and close), \<^verbatim>\<open>dns.go\<close> (the DNS file that all nodes
  share) and \<^verbatim>\<open>node.go\<close> (adding and deleting a node), with the methods of the other files put together to a core. The
  server of xray-core with its managers is a state of type \<open>'m\<close> and a record of functions.
\<close>

section \<open>The DNS file\<close>

datatype dns_server = NamedServer string | DnsServer string "string list" "int option"

record dns_config =
  dc_Servers :: "dns_server list"
  dc_Tag :: string

text \<open>
  The JSON library and the DNS configuration of xray-core: indenting and encoding, the error of decoding a text, and the
  error of building what a text decodes to, as far as it does.
\<close>

record dns_codec =
  dn_Indent :: "string \<Rightarrow> string + string"
  dn_Marshal :: "dns_config \<Rightarrow> string + string"
  dn_DecodeError :: "string \<Rightarrow> string option"
  dn_BuildError :: "string \<Rightarrow> string option"

text \<open>The error variable of the inner block hides the outer one: of the errors after \<^verbatim>\<open>Build\<close> none is returned, and an
  error of decoding only when the file was written all the same.\<close>

definition saveDnsConfig :: "dns_codec \<Rightarrow> string \<Rightarrow> string \<Rightarrow> host \<Rightarrow> string option \<times> host" where
  "saveDnsConfig dn dns dnsPath h =
     (case ReadFile dnsPath h of
        Inl err \<Rightarrow> (Some err, h)
      | Inr currentData \<Rightarrow>
          if currentData = dns then (None, h)
          else (case dn_BuildError dn dns of
              Some err \<Rightarrow> (Some err, h)
            | None \<Rightarrow> (dn_DecodeError dn dns, snd (WriteFile dnsPath dns (snd (Truncate dnsPath h))))))"

definition dns_server_of :: "dns_entry \<Rightarrow> string + dns_server" where
  "dns_server_of value =
     (let address = dn_address value in
      if Contains address '':'' \<and> \<not> Contains address ''/'' then
        map_sum id (\<lambda>(hostname, port).
            DnsServer hostname (dn_domains value) (Some (case ParseUint16 port of Some p \<Rightarrow> p | None \<Rightarrow> 0)))
          (SplitHostPort address)
      else Inr (DnsServer address (dn_domains value) None))"

fun dns_servers :: "dns_entry list \<Rightarrow> dns_server list \<Rightarrow> string + dns_server list" where
  "dns_servers [] servers = Inr servers"
| "dns_servers (value # rest) servers =
     (case dns_server_of value of Inl err \<Rightarrow> Inl err | Inr s \<Rightarrow> dns_servers rest (servers @ [s]))"

text \<open>
  The servers come in the order in which the map of the routes is visited. With servers from the routes the error of
  saving is lost, because \<^verbatim>\<open>err\<close> is declared anew in that block. (The addresses are split in the entries of the node
  itself, which nobody reads again.)
\<close>

definition updateDNSConfig :: "dns_codec \<Rightarrow> node_info \<Rightarrow> host \<Rightarrow> string option \<times> host" where
  "updateDNSConfig dn node h =
     (let dnsPath = Getenv ''XRAY_DNS_PATH'' h; raw = ni_RawDNS node in
      if rd_DNSJson raw \<noteq> [] then
        (case dn_Indent dn (rd_DNSJson raw) of Inl err \<Rightarrow> (Some err, h) | Inr pretty \<Rightarrow> saveDnsConfig dn pretty dnsPath h)
      else if rd_DNSMap raw \<noteq> [] then
        (case dns_servers (map snd (rd_DNSMap raw)) [NamedServer ''1.1.1.1'', NamedServer ''localhost''] of
           Inl err \<Rightarrow> (Some err, h)
         | Inr servers \<Rightarrow>
             (case dn_Marshal dn \<lparr>dc_Servers = servers, dc_Tag = ''dns_inbound''\<rparr> of
                Inl err \<Rightarrow> (Some err, h)
              | Inr json \<Rightarrow> (None, snd (saveDnsConfig dn json dnsPath h))))
      else (None, h))"

section \<open>Nodes\<close>

text \<open>
  The server: its user functions, the builders' parameters, creating an object from a configuration (which should be
  a handler), and the inbound and outbound managers.
\<close>

record ('m, 'c, 'h) xray_server =
  xs_Users :: "'m xray_env"
  xs_Inbound :: "'c inbound_env"
  xs_Dns :: dns_codec
  xs_BuildOutbound :: "freedom_outbound \<Rightarrow> string + 'c"
  xs_CreateObject :: "'c \<Rightarrow> 'm \<Rightarrow> string + 'h"
  xs_IsInbound :: "'h \<Rightarrow> bool"
  xs_IsOutbound :: "'h \<Rightarrow> bool"
  xs_AddInbound :: "'h \<Rightarrow> 'm \<Rightarrow> string option \<times> 'm"
  xs_AddOutbound :: "'h \<Rightarrow> 'm \<Rightarrow> string option \<times> 'm"
  xs_RemoveInbound :: "string \<Rightarrow> 'm \<Rightarrow> string option \<times> 'm"
  xs_RemoveOutbound :: "string \<Rightarrow> 'm \<Rightarrow> string option \<times> 'm"
  xs_StartServer :: "'m \<Rightarrow> string option \<times> 'm"
  xs_CloseServer :: "'m \<Rightarrow> string option \<times> 'm"

text \<open>The core: its server, whether its managers are set (by \<^verbatim>\<open>Start\<close>), and the process it runs in.\<close>

record 'm xray =
  xy_Server :: 'm
  xy_Ready :: bool
  xy_Host :: host

definition not_a_handler :: string where "not_a_handler = ''not an InboundHandler: %!s(<nil>)''"

definition addInbound :: "('m, 'c, 'h) xray_server \<Rightarrow> 'c \<Rightarrow> 'm xray \<Rightarrow> (string option \<times> 'm xray) option" where
  "addInbound xs config s =
     (case xs_CreateObject xs config (xy_Server s) of
        Inl err \<Rightarrow> Some (Some err, s)
      | Inr handler \<Rightarrow>
          if \<not> xs_IsInbound xs handler then Some (Some not_a_handler, s)
          else if \<not> xy_Ready s then panic
          else (case xs_AddInbound xs handler (xy_Server s) of (err, m) \<Rightarrow> Some (err, s\<lparr>xy_Server := m\<rparr>)))"

definition addOutbound :: "('m, 'c, 'h) xray_server \<Rightarrow> 'c \<Rightarrow> 'm xray \<Rightarrow> (string option \<times> 'm xray) option" where
  "addOutbound xs config s =
     (case xs_CreateObject xs config (xy_Server s) of
        Inl err \<Rightarrow> Some (Some err, s)
      | Inr handler \<Rightarrow>
          if \<not> xs_IsOutbound xs handler then Some (Some not_a_handler, s)
          else if \<not> xy_Ready s then panic
          else (case xs_AddOutbound xs handler (xy_Server s) of (err, m) \<Rightarrow> Some (err, s\<lparr>xy_Server := m\<rparr>)))"

definition xray_AddNode ::
    "('m, 'c, 'h) xray_server \<Rightarrow> string \<Rightarrow> node_info \<Rightarrow> options \<Rightarrow> 'm xray \<Rightarrow> (string option \<times> 'm xray) option" where
  "xray_AddNode xs tag info config s =
     (case updateDNSConfig (xs_Dns xs) info (xy_Host s) of
        (Some err, h) \<Rightarrow> Some (Some (''build dns error: '' @ err), s\<lparr>xy_Host := h\<rparr>)
      | (None, h) \<Rightarrow>
          (let s = s\<lparr>xy_Host := h\<rparr> in
           case buildInbound (xs_Inbound xs) config info tag of
             None \<Rightarrow> panic
           | Some (Inl err) \<Rightarrow> Some (Some (''build inbound error: '' @ err), s)
           | Some (Inr inboundConfig) \<Rightarrow>
               (case addInbound xs inboundConfig s of
                  None \<Rightarrow> panic
                | Some (Some err, s) \<Rightarrow> Some (Some (''add inbound error: '' @ err), s)
                | Some (None, s) \<Rightarrow>
                    (case buildOutbound (xs_BuildOutbound xs) config tag of
                       None \<Rightarrow> panic
                     | Some (Inl err) \<Rightarrow> Some (Some (''build outbound error: '' @ err), s)
                     | Some (Inr outBoundConfig) \<Rightarrow>
                         (case addOutbound xs outBoundConfig s of
                            None \<Rightarrow> panic
                          | Some (Some err, s) \<Rightarrow> Some (Some (''add outbound error: '' @ err), s)
                          | Some (None, s) \<Rightarrow> Some (None, s))))))"

definition removeInbound :: "('m, 'c, 'h) xray_server \<Rightarrow> string \<Rightarrow> 'm xray \<Rightarrow> string option \<times> 'm xray" where
  "removeInbound xs tag s = (case xs_RemoveInbound xs tag (xy_Server s) of (err, m) \<Rightarrow> (err, s\<lparr>xy_Server := m\<rparr>))"

definition removeOutbound :: "('m, 'c, 'h) xray_server \<Rightarrow> string \<Rightarrow> 'm xray \<Rightarrow> string option \<times> 'm xray" where
  "removeOutbound xs tag s = (case xs_RemoveOutbound xs tag (xy_Server s) of (err, m) \<Rightarrow> (err, s\<lparr>xy_Server := m\<rparr>))"

definition xray_DelNode :: "('m, 'c, 'h) xray_server \<Rightarrow> string \<Rightarrow> 'm xray \<Rightarrow> (string option \<times> 'm xray) option" where
  "xray_DelNode xs tag s =
     (if \<not> xy_Ready s then panic
      else
        let s = s\<lparr>xy_Server := sh_UnregisterOnlineMap (xs_Users xs) (inboundOnlineStatName tag) (xy_Server s)\<rparr>
        in case removeInbound xs tag s of
             (Some err, s) \<Rightarrow> Some (Some (''remove in error: '' @ err), s)
           | (None, s) \<Rightarrow>
               (case removeOutbound xs tag s of
                  (Some err, s) \<Rightarrow> Some (Some (''remove out error: '' @ err), s)
                | (None, s) \<Rightarrow> Some (None, s)))"

section \<open>The core\<close>

definition xray_Start :: "('m, 'c, 'h) xray_server \<Rightarrow> 'm xray \<Rightarrow> (string option \<times> 'm xray) option" where
  "xray_Start xs s =
     (case xs_StartServer xs (xy_Server s) of
        (Some err, m) \<Rightarrow> Some (Some err, s\<lparr>xy_Server := m\<rparr>)
      | (None, m) \<Rightarrow> Some (None, s\<lparr>xy_Server := m, xy_Ready := True\<rparr>))"

definition xray_Close :: "('m, 'c, 'h) xray_server \<Rightarrow> 'm xray \<Rightarrow> (string list \<times> 'm xray) option" where
  "xray_Close xs s =
     (case xs_CloseServer xs (xy_Server s) of
        (err, m) \<Rightarrow> Some (case err of Some e \<Rightarrow> [e] | None \<Rightarrow> [], s\<lparr>xy_Server := m, xy_Ready := False\<rparr>))"

definition xray_Protocols :: "'m xray \<Rightarrow> string list" where
  "xray_Protocols s = [''vmess'', ''vless'', ''shadowsocks'', ''trojan'']"

definition xray_Type :: "'m xray \<Rightarrow> string" where
  "xray_Type s = ''xray''"

text \<open>The methods on users work on the server's managers, which are nil before \<^verbatim>\<open>Start\<close> and after \<^verbatim>\<open>Close\<close>.\<close>

definition on_server :: "'m xray \<Rightarrow> ('r \<times> 'm) option \<Rightarrow> ('r \<times> 'm xray) option" where
  "on_server s r = map_option (\<lambda>(x, m). (x, s\<lparr>xy_Server := m\<rparr>)) r"

definition core_AddUsers :: "('m, 'c, 'h) xray_server \<Rightarrow> add_users_params \<Rightarrow> 'm xray \<Rightarrow> ((int \<times> string option) \<times> 'm xray) option" where
  "core_AddUsers xs p s =
     (if xy_Ready s then on_server s (xray_AddUsers (xs_Users xs) p (xy_Server s))
      else (case build_users p of Some (Inl err) \<Rightarrow> Some ((0, Some err), s) | _ \<Rightarrow> panic))"

definition core_DelUsers ::
    "('m, 'c, 'h) xray_server \<Rightarrow> user_info list \<Rightarrow> string \<Rightarrow> node_info \<Rightarrow> 'm xray \<Rightarrow> (string option \<times> 'm xray) option" where
  "core_DelUsers xs users tag info s =
     (if xy_Ready s then on_server s (Some (xray_DelUsers (xs_Users xs) users tag (xy_Server s))) else panic)"

definition core_GetUserTraffic ::
    "('m, 'c, 'h) xray_server \<Rightarrow> string \<Rightarrow> string \<Rightarrow> bool \<Rightarrow> 'm xray \<Rightarrow> ((int \<times> int) \<times> 'm xray) option" where
  "core_GetUserTraffic xs tag uuid reset s =
     on_server s (xray_GetUserTraffic ((xs_Users xs)\<lparr>sh_Nil := \<lambda>_. \<not> xy_Ready s\<rparr>) tag uuid reset (xy_Server s))"

definition xray_ops :: "('m, 'c, 'h) xray_server \<Rightarrow> 'm xray core_ops" where
  "xray_ops xs =
     \<lparr>co_Start = xray_Start xs, co_Close = xray_Close xs,
      co_AddNode = (\<lambda>tag info config s. map_option (\<lambda>(err, s). ((err, config), s)) (xray_AddNode xs tag info config s)),
      co_DelNode = xray_DelNode xs, co_AddUsers = core_AddUsers xs, co_GetUserTraffic = core_GetUserTraffic xs,
      co_DelUsers = core_DelUsers xs, co_Protocols = xray_Protocols, co_Type = xray_Type\<rparr>"

end
