(* ===== verification/Xray_Instance.thy ===== *)
theory Xray_Instance
  imports Xray_Node
begin

text \<open>
  The construction of the xray instance, \<^verbatim>\<open>New\<close> and \<^verbatim>\<open>getCore\<close> of \<^verbatim>\<open>core/xray/xray.go\<close>: the configuration that
  xray-core is given, and the warning about routes to outbounds that are not configured. A fatal log entry panics.
\<close>

section \<open>Routes without an outbound\<close>

definition collectConfiguredOutboundTags :: "string list \<Rightarrow> (string, unit) gomap" where
  "collectConfiguredOutboundTags configTags =
     fold (\<lambda>t tags. let tag = TrimSpace t in if tag = '''' then tags else sm_store tag () tags) configTags []"

text \<open>The tag of a rule is what decoding the rule gives, \<^term>\<open>None\<close> for an error.\<close>

definition collectMissingRouteOutboundTags ::
    "(string \<Rightarrow> string option) \<Rightarrow> string list \<Rightarrow> (string, unit) gomap \<Rightarrow> (string, unit) gomap" where
  "collectMissingRouteOutboundTags ruleTag ruleList definedTags =
     fold (\<lambda>rawRule missing.
       case ruleTag rawRule of
         None \<Rightarrow> missing
       | Some t \<Rightarrow>
           (let tag = TrimSpace t in
            if tag = '''' then missing
            else if sm_load definedTags tag \<noteq> None then missing
            else sm_store tag () missing)) ruleList []"

text \<open>A warning: the routes' source, the missing tags and the outbounds' source.\<close>

type_synonym route_warning = "string \<times> string list \<times> string"

definition validateRouteOutboundReferences ::
    "(string \<Rightarrow> string option) \<Rightarrow> string \<Rightarrow> string list option \<Rightarrow> string \<Rightarrow> string list \<Rightarrow> route_warning option" where
  "validateRouteOutboundReferences ruleTag routeConfigPath ruleList outboundConfigPath configTags =
     (case ruleList of
        None \<Rightarrow> None
      | Some rules \<Rightarrow>
          if rules = [] then None
          else
            let missingTags = collectMissingRouteOutboundTags ruleTag rules (collectConfiguredOutboundTags configTags)
            in if missingTags = [] then None
               else Some (if TrimSpace routeConfigPath = '''' then ''RouteConfigPath'' else routeConfigPath,
                 sort (sm_keys missingTags),
                 if TrimSpace outboundConfigPath = '''' then ''OutboundConfigPath'' else outboundConfigPath))"

fun collect_tags :: "string list \<Rightarrow> string list \<Rightarrow> string list \<Rightarrow> string list" where
  "collect_tags [] seen tags = tags"
| "collect_tags (t # ts) seen tags =
     (let tag = TrimSpace t in
      if tag = '''' then collect_tags ts seen tags
      else if tag \<in> set seen then collect_tags ts seen tags
      else collect_tags ts (tag # seen) (tags @ [tag]))"

definition collectRouteOutboundTags :: "string list option \<Rightarrow> string list" where
  "collectRouteOutboundTags routeTags = (case routeTags of None \<Rightarrow> [] | Some ts \<Rightarrow> sort (collect_tags ts [] []))"

section \<open>The instance\<close>

record xray_policy =
  xp_StatsUserUplink :: bool
  xp_StatsUserDownlink :: bool
  xp_StatsUserOnline :: bool
  xp_Handshake :: int
  xp_ConnectionIdle :: int
  xp_UplinkOnly :: int
  xp_DownlinkOnly :: int
  xp_BufferSize :: int

definition parseConnectionConfig :: "xray_connection_config \<Rightarrow> xray_policy" where
  "parseConnectionConfig c =
     \<lparr>xp_StatsUserUplink = True, xp_StatsUserDownlink = True, xp_StatsUserOnline = True,
      xp_Handshake = xn_Handshake c, xp_ConnectionIdle = xn_ConnIdle c, xp_UplinkOnly = xn_UplinkOnly c,
      xp_DownlinkOnly = xn_DownlinkOnly c, xp_BufferSize = xn_BufferSize c\<rparr>"

text \<open>The configuration handed to \<^verbatim>\<open>core.New\<close>; DNS and routing are the text they were built from, \<^term>\<open>None\<close> for the
  empty configuration.\<close>

record 'c xray_instance =
  xi_Log :: xray_log_config
  xi_Policy :: "(int \<times> xray_policy) list"
  xi_Dns :: "string option"
  xi_Route :: "string option"
  xi_Inbound :: "'c list"
  xi_Outbound :: "'c list"

text \<open>The decoders and builders of xray-core: an error of decoding, the rules of a routing configuration, the inbounds and
  outbounds of a file, the tag of an outbound.\<close>

record ('i, 'o, 'c, 'm) instance_env =
  gc_DnsDecodeError :: "string \<Rightarrow> string option"
  gc_DnsBuildError :: "string option \<Rightarrow> string option"
  gc_DecodeRoute :: "string \<Rightarrow> string + string list"
  gc_RouteBuildError :: "string option \<Rightarrow> string option"
  gc_DecodeInbounds :: "string \<Rightarrow> string + 'i list"
  gc_BuildInbound :: "'i \<Rightarrow> string + 'c"
  gc_DecodeOutbounds :: "string \<Rightarrow> string + 'o list"
  gc_BuildOutbound :: "'o \<Rightarrow> string + 'c"
  gc_OutboundTag :: "'o \<Rightarrow> string"
  gc_RuleTag :: "string \<Rightarrow> string option"
  gc_New :: "'c xray_instance \<Rightarrow> string + 'm"

text \<open>The DNS part and the process with the path that the nodes will use; a file that can not be read or decoded is ignored.\<close>

definition dns_part :: "('i, 'o, 'c, 'm) instance_env \<Rightarrow> string \<Rightarrow> host \<Rightarrow> string option \<times> host" where
  "dns_part gc path h =
     (let h = Setenv ''XRAY_DNS_PATH'' '''' h in
      if path = '''' then (None, h)
      else (case ReadFile path h of
              Inl _ \<Rightarrow> None
            | Inr data \<Rightarrow> if gc_DnsDecodeError gc data = None then Some data else None,
            Setenv ''XRAY_DNS_PATH'' path h))"

text \<open>The contents of a file that must be readable when it is configured.\<close>

definition required_file :: "string \<Rightarrow> host \<Rightarrow> string option option" where
  "required_file path h =
     (if path = '''' then Some None else (case ReadFile path h of Inl _ \<Rightarrow> panic | Inr data \<Rightarrow> Some (Some data)))"

definition decoded_list :: "(string \<Rightarrow> string + 'a list) \<Rightarrow> string option \<Rightarrow> 'a list option" where
  "decoded_list dec data =
     (case data of None \<Rightarrow> Some [] | Some d \<Rightarrow> (case dec d of Inl _ \<Rightarrow> panic | Inr xs \<Rightarrow> Some xs))"

fun build_all :: "('a \<Rightarrow> string + 'c) \<Rightarrow> 'a list \<Rightarrow> 'c list option" where
  "build_all build [] = Some []"
| "build_all build (x # xs) =
     (case build x of
        Inl _ \<Rightarrow> panic
      | Inr y \<Rightarrow> (case build_all build xs of None \<Rightarrow> panic | Some ys \<Rightarrow> Some (y # ys)))"

text \<open>The error of building the policy is dropped.\<close>

definition getCore ::
    "('i, 'o, 'c, 'm) instance_env \<Rightarrow> xray_config \<Rightarrow> host \<Rightarrow> ('m \<times> route_warning option \<times> host) option" where
  "getCore gc c h0 =
     do { let h = Setenv ''XRAY_LOCATION_ASSET'' (xc_AssetPath c) h0;
          logConfig \<leftarrow> xc_LogConfig c;
          let (dns, h) = dns_part gc (xc_DnsConfigPath c) h;
          (if gc_DnsBuildError gc dns = None then Some () else panic);
          route \<leftarrow> required_file (xc_RouteConfigPath c) h;
          rules \<leftarrow> decoded_list (gc_DecodeRoute gc) route;
          (if gc_RouteBuildError gc route = None then Some () else panic);
          inFile \<leftarrow> required_file (xc_InboundConfigPath c) h;
          inConfigs \<leftarrow> decoded_list (gc_DecodeInbounds gc) inFile;
          inBoundConfig \<leftarrow> build_all (gc_BuildInbound gc) inConfigs;
          outFile \<leftarrow> required_file (xc_OutboundConfigPath c) h;
          outConfigs \<leftarrow> decoded_list (gc_DecodeOutbounds gc) outFile;
          outBoundConfig \<leftarrow> build_all (gc_BuildOutbound gc) outConfigs;
          let warning = validateRouteOutboundReferences (gc_RuleTag gc) (xc_RouteConfigPath c) (Some rules)
            (xc_OutboundConfigPath c) (map (gc_OutboundTag gc) outConfigs);
          connection \<leftarrow> xc_ConnectionConfig c;
          (case gc_New gc \<lparr>xi_Log = logConfig, xi_Policy = [(0, parseConnectionConfig connection)], xi_Dns = dns, xi_Route = route,
               xi_Inbound = inBoundConfig, xi_Outbound = outBoundConfig\<rparr> of
             Inl _ \<Rightarrow> panic
           | Inr server \<Rightarrow> Some (server, warning, h)) }"

text \<open>The constructor that the core registers; a configuration without an xray part is a nil dereference.\<close>

definition xray_New ::
    "('i, 'o, 'c, 'm) instance_env \<Rightarrow> core_config \<Rightarrow> host \<Rightarrow> (string + 'm xray) option" where
  "xray_New gc c h =
     do { x \<leftarrow> cf_XrayConfig c;
          (server, _, h) \<leftarrow> getCore gc x h;
          Some (Inr \<lparr>xy_Server = server, xy_Ready = False, xy_Host = h\<rparr>) }"

end
