(* ===== verification/Inbound_Laws.thy ===== *)
theory Inbound_Laws
  imports Xray_Inbound Xray_Laws
begin

text \<open>
  What the inbound builder guarantees: the normal form of XHTTP settings, the shape of a TLS and a REALITY inbound,
  and when it panics.
\<close>

section \<open>XHTTP settings\<close>

text \<open>An entry is normal when it is no list in a place where xray-core expects an object.\<close>

definition entry_normal :: "string \<Rightarrow> any \<Rightarrow> bool" where
  "entry_normal k v = (case v of AnyList _ \<Rightarrow> ToLower k \<notin> set (''headers'' # object_keys) | _ \<Rightarrow> True)"

function xhttp_normal :: "any \<Rightarrow> bool" where
  "xhttp_normal (AnyMap t) = list_all (\<lambda>(k, v). entry_normal k v \<and> xhttp_normal v) t"
| "xhttp_normal (AnyList t) = list_all xhttp_normal t"
| "xhttp_normal AnyNil = True"
| "xhttp_normal (AnyBool b) = True"
| "xhttp_normal (AnyInt i) = True"
| "xhttp_normal (AnyFloat i) = True"
| "xhttp_normal (AnyString s) = True"
| "xhttp_normal (AnyStrings ss) = True"
  by pat_completeness auto
termination
  by (relation "measure size") (auto simp: size_entry size_item)

definition stream_one :: "any \<Rightarrow> bool" where
  "stream_one v = (case v of AnyMap obj \<Rightarrow>
     (case sm_load obj ''mode'' of Some (AnyString m) \<Rightarrow> EqualFold (TrimSpace m) ''stream-one'' | _ \<Rightarrow> False) | _ \<Rightarrow> False)"

definition has_download :: "any \<Rightarrow> bool" where
  "has_download v = (case v of AnyMap obj \<Rightarrow> sm_load obj ''downloadSettings'' \<noteq> None | _ \<Rightarrow> False)"

definition any_entry :: "string \<Rightarrow> any \<Rightarrow> any" where
  "any_entry k v = (case v of AnyMap obj \<Rightarrow> map_get AnyNil obj k | _ \<Rightarrow> AnyNil)"

lemma add_header_normal:
  "xhttp_normal (AnyMap hs) \<Longrightarrow> xhttp_normal (AnyMap (add_header item hs))"
proof -
  assume hs: "xhttp_normal (AnyMap hs)"
  have store: "xhttp_normal (AnyMap (sm_store k (AnyString s) hs))" for k s
    using hs by (induction hs) (auto simp: sm_store_def entry_normal_def)
  show ?thesis
    using hs store by (auto simp: add_header_def Let_def simp del: xhttp_normal.simps split: any.split option.split prod.split)
qed

lemma headers_normal: "xhttp_normal (AnyMap (headersArrayToMap arr))"
proof -
  have "xhttp_normal (AnyMap hs) \<Longrightarrow> xhttp_normal (AnyMap (fold add_header arr hs))" for hs
    by (induction arr arbitrary: hs) (simp_all add: add_header_normal del: xhttp_normal.simps)
  then show ?thesis by (simp add: headersArrayToMap_def)
qed

lemma empty_normal: "xhttp_normal (AnyMap [])"
  by simp

lemma fix_entry_normal:
  "xhttp_normal v \<Longrightarrow> entry_normal k (fix_entry k v) \<and> xhttp_normal (fix_entry k v)"
  using headers_normal empty_normal
  by (cases v) (auto simp: fix_entry_def entry_normal_def Let_def simp del: xhttp_normal.simps(1))

lemma fix_entry_id: "entry_normal k v \<Longrightarrow> fix_entry k v = v"
  by (cases v) (auto simp: fix_entry_def entry_normal_def Let_def)

lemma normalize_normal: "xhttp_normal (normalizeXHTTPValue v)"
proof (induction v rule: normalizeXHTTPValue.induct)
  case (1 t)
  then have "xhttp_normal (normalizeXHTTPValue b)" if "(a, b) \<in> set t" for a b
    using that by blast
  with fix_entry_normal show ?case by (auto simp: list_all_iff)
qed (simp_all add: list_all_iff)

lemma normalize_id: "xhttp_normal v \<Longrightarrow> normalizeXHTTPValue v = v"
  by (induction v rule: normalizeXHTTPValue.induct)
    (auto simp: list_all_iff fix_entry_id intro!: map_idI)

lemma delete_normal: "xhttp_normal (AnyMap t) \<Longrightarrow> xhttp_normal (AnyMap (sm_delete k t))"
  by (auto simp: sm_delete_def list_all_iff AList.delete_eq)

lemma load_normal: "xhttp_normal (AnyMap t) \<Longrightarrow> sm_load t k = Some v \<Longrightarrow> entry_normal k v \<and> xhttp_normal v"
  by (auto simp: list_all_iff dest!: sm_load_inD)

lemma store_normal:
  "xhttp_normal (AnyMap t) \<Longrightarrow> xhttp_normal v \<Longrightarrow> entry_normal k v \<Longrightarrow> xhttp_normal (AnyMap (sm_store k v t))"
  by (induction t) (auto simp: sm_store_def)

lemma without_download_normal: "xhttp_normal v \<Longrightarrow> xhttp_normal (without_download v)"
  by (cases v) (auto simp: without_download_def delete_normal simp del: xhttp_normal.simps)

lemma entry_normal_extra: "entry_normal ''extra'' v"
  by (cases v) (simp_all add: entry_normal_def object_keys_def ToLower_def lower_char_def Let_def)

lemma not_stream_one_empty: "\<not> EqualFold [] ''stream-one''"
  by (simp add: EqualFold_def)

lemma compat_map:
  "normalizeXHTTPModeCompat (AnyMap obj) =
     (if stream_one (AnyMap obj) then
        (case sm_load obj ''extra'' of
           Some e \<Rightarrow> AnyMap (sm_store ''extra'' (without_download e) (sm_delete ''downloadSettings'' obj))
         | None \<Rightarrow> AnyMap (sm_delete ''downloadSettings'' obj))
      else AnyMap obj)"
  by (auto simp: normalizeXHTTPModeCompat_def stream_one_def Let_def not_stream_one_empty split: option.splits any.splits)

lemma compat_other: "\<not> stream_one v \<Longrightarrow> normalizeXHTTPModeCompat v = v"
  by (cases v) (auto simp: compat_map, simp_all add: normalizeXHTTPModeCompat_def)

lemma compat_normal:
  assumes "xhttp_normal v" shows "xhttp_normal (normalizeXHTTPModeCompat v)"
proof (cases "stream_one v")
  case True
  then obtain obj where v: "v = AnyMap obj" by (cases v) (simp_all add: stream_one_def)
  have del: "xhttp_normal (AnyMap (sm_delete ''downloadSettings'' obj))"
    using assms unfolding v by (rule delete_normal)
  have "xhttp_normal e" if "sm_load obj ''extra'' = Some e" for e
    using load_normal [OF assms [unfolded v] that] by simp
  then show ?thesis
    using del True unfolding v
    by (auto simp: compat_map intro!: store_normal without_download_normal entry_normal_extra
      simp del: xhttp_normal.simps split: option.split)
qed (simp add: compat_other assms)

lemma compat_stream_one: "stream_one (normalizeXHTTPModeCompat v) = stream_one v"
  by (cases v) (auto simp: compat_map stream_one_def split: option.split, simp_all add: normalizeXHTTPModeCompat_def)

lemma compat_no_download:
  assumes "stream_one v"
  shows "\<not> has_download (normalizeXHTTPModeCompat v)"
    and "\<not> has_download (any_entry ''extra'' (normalizeXHTTPModeCompat v))"
proof -
  from assms obtain obj where v: "v = AnyMap obj" by (cases v) (simp_all add: stream_one_def)
  show "\<not> has_download (normalizeXHTTPModeCompat v)"
    using assms by (auto simp: v compat_map has_download_def split: option.split)
  show "\<not> has_download (any_entry ''extra'' (normalizeXHTTPModeCompat v))"
    using assms by (auto simp: v compat_map has_download_def any_entry_def map_get_def without_download_def
      split: option.split any.split)
qed

lemma delete_absent: "sm_load m k = None \<Longrightarrow> sm_delete k m = m"
  by (induction m) (auto simp: sm_delete_def sm_load_Cons split: if_splits)

lemma compat_id:
  assumes "stream_one v" "\<not> has_download v" "\<not> has_download (any_entry ''extra'' v)"
  shows "normalizeXHTTPModeCompat v = v"
proof -
  from assms(1) obtain obj where v: "v = AnyMap obj" by (cases v) (simp_all add: stream_one_def)
  have del: "sm_delete ''downloadSettings'' obj = obj"
    using assms(2) by (simp add: v has_download_def delete_absent)
  have "without_download e = e" if "sm_load obj ''extra'' = Some e" for e
    using assms(3) that
    by (cases e) (auto simp: v without_download_def has_download_def any_entry_def map_get_def delete_absent)
  then show ?thesis
    using assms(1) by (auto simp: v compat_map del store_same split: option.split)
qed

text \<open>the settings of an XHTTP transport are rewritten to a normal form: wherever xray-core expects an object there is
  no list, in the mode stream-one neither the settings nor their extra part ask for a separate download, nothing that was
  normal is changed, and rewriting again changes nothing.
\<close>

theorem xhttp_normal_form:
  "let w = normalizeXHTTPModeCompat (normalizeXHTTPValue v) in
     xhttp_normal w \<and>
     (stream_one w \<longrightarrow> \<not> has_download w \<and> \<not> has_download (any_entry ''extra'' w)) \<and>
     normalizeXHTTPModeCompat (normalizeXHTTPValue w) = w \<and>
     (xhttp_normal v \<and> \<not> stream_one v \<longrightarrow> w = v)"
proof -
  let ?w = "normalizeXHTTPModeCompat (normalizeXHTTPValue v)"
  have n: "xhttp_normal ?w" by (simp add: compat_normal normalize_normal)
  have d: "stream_one ?w \<longrightarrow> \<not> has_download ?w \<and> \<not> has_download (any_entry ''extra'' ?w)"
    using compat_no_download unfolding compat_stream_one by blast
  have "normalizeXHTTPModeCompat (normalizeXHTTPValue ?w) = ?w"
    using n d compat_id compat_other by (cases "stream_one ?w") (simp_all add: normalize_id)
  with n d show ?thesis by (simp add: Let_def normalize_id compat_other)
qed

definition demo_xhttp :: any where
  "demo_xhttp = AnyMap [(''mode'', AnyString ''Stream-One''), (''downloadSettings'', AnyMap []), (''xmux'', AnyList []),
     (''extra'', AnyMap [(''downloadSettings'', AnyNil), (''headers'', AnyList [AnyString ''a: b''])])]"

text \<open>A text of visible ASCII characters has no space to trim.\<close>

definition visible :: "char set" where
  "visible = {c. 33 \<le> (of_char c :: nat) \<and> (of_char c :: nat) < 127}"

lemma visible_no_space: "\<forall>r \<in> set space_runes. hd r \<notin> visible" "\<forall>r \<in> set (map rev space_runes). hd r \<notin> visible"
  by (simp_all add: space_runes_def visible_def of_char_of)

lemma TrimSpace_visible: "set s \<subseteq> visible \<Longrightarrow> TrimSpace s = s"
  using trim_left_keeps [OF _ , of space_runes visible s] trim_left_keeps [of "map rev space_runes" visible "rev s"] visible_no_space
  by (simp add: TrimSpace_def)

lemma xhttp_normal_form_witness:
  "stream_one (normalizeXHTTPModeCompat (normalizeXHTTPValue demo_xhttp)) \<and>
   \<not> has_download (normalizeXHTTPModeCompat (normalizeXHTTPValue demo_xhttp)) \<and>
   normalizeXHTTPModeCompat (normalizeXHTTPValue (AnyList [AnyBool True])) = AnyList [AnyBool True]"
proof -
  have fold: "EqualFold ''Stream-One'' ''stream-one''" by code_simp
  have one: "stream_one (normalizeXHTTPModeCompat (normalizeXHTTPValue demo_xhttp))"
    unfolding compat_stream_one
    using fold by (simp add: stream_one_def demo_xhttp_def fix_entry_def sm_load_Cons TrimSpace_visible visible_def)
  have list: "\<not> stream_one (AnyList [AnyBool True])" "xhttp_normal (AnyList [AnyBool True])"
    by (simp_all add: stream_one_def)
  show ?thesis
    using xhttp_normal_form [of demo_xhttp, unfolded Let_def] one
      xhttp_normal_form [of "AnyList [AnyBool True]", unfolded Let_def] list by blast
qed

section \<open>Splitting texts\<close>

lemma set_trim_left: "set (trim_left rs s) \<subseteq> set s"
  using trim_left_suffix [of s rs] by (metis Un_upper2 set_append)

lemma set_TrimSpace: "set (TrimSpace s) \<subseteq> set s"
  using set_trim_left [of "map rev space_runes" "rev (trim_left space_runes s)"] set_trim_left [of space_runes s]
  by (auto simp: TrimSpace_def)

lemma splitAndFilter_items:
  assumes "p \<in> set (splitAndFilter s)"
  shows "p \<noteq> [] \<and> set p \<inter> {CHR '','', CHR '';'', CHR '' '', CHR 0x09} = {}"
proof -
  from assms obtain w where w: "p = TrimSpace w" "p \<noteq> []"
      "w \<in> set (FieldsFunc (\<lambda>r. r = CHR '','' \<or> r = CHR '';'' \<or> r = CHR '' '' \<or> r = CHR 0x09) s)"
    by (auto simp: splitAndFilter_def)
  with FieldsFunc_fields [OF w(3)] set_TrimSpace [of w] show ?thesis by auto
qed

section \<open>The shape of an inbound\<close>

definition cert_active :: "options \<Rightarrow> bool" where
  "cert_active opt = (case op_CertConfig opt of None \<Rightarrow> False | Some c \<Rightarrow> cc_CertMode c \<noteq> ''none'' \<and> cc_CertMode c \<noteq> '''')"

text \<open>Whether the connections of a network are told by proxy headers, as the inbound's transport has it.\<close>

definition accepts_proxy :: "stream_setting \<Rightarrow> string \<Rightarrow> bool option" where
  "accepts_proxy s network =
     (if network = ''tcp'' then Option.bind (sg_TCP s) tr_AcceptProxyProtocol
      else if network = ''ws'' then Option.bind (sg_WS s) tr_AcceptProxyProtocol
      else map_option sk_AcceptProxyProtocol (sg_Socket s))"

definition plain_stream :: "inbound_detour \<Rightarrow> bool" where
  "plain_stream d = (\<forall>s. id_StreamSetting d = Some s \<longrightarrow> sg_TLS s = None \<and> sg_REALITY s = None \<and> sg_Security s = [])"


lemma load_transport_put:
  "load_transport ie name raw put = Inr s \<Longrightarrow> (\<And>t. P (put t)) \<Longrightarrow> P s"
  by (cases "ie_Transport ie name raw") (auto simp: load_transport_def)

abbreviation unsecured :: "stream_setting \<Rightarrow> bool" where
  "unsecured s \<equiv> sg_TLS s = None \<and> sg_REALITY s = None \<and> sg_Security s = []"

lemma v2ray_stream_plain: "v2ray_stream ie network raw = Inr s \<Longrightarrow> unsecured s"
  unfolding v2ray_stream_def Let_def new_stream_def
  by (simp split: if_split_asm) (erule load_transport_put, simp)+

lemma trojan_stream_plain: "trojan_stream ie network raw = Inr s \<Longrightarrow> unsecured s"
  unfolding trojan_stream_def Let_def new_stream_def
  by (simp split: if_split_asm) (erule load_transport_put, simp)+

lemma put_settings_Inr: "put_settings ie what st d = Inr d' \<longleftrightarrow> ie_SettingsError ie st = None \<and> d' = d\<lparr>id_Settings := Some st\<rparr>"
  by (auto simp: put_settings_def split: option.splits)

lemma map_sum_Inr: "map_sum f g x = Inr y \<longleftrightarrow> (\<exists>z. x = Inr z \<and> y = g z)"
  by (cases x) auto

lemma vallss_settings_Inr:
  "vallss_settings ie config n d = Some (Inr d') \<Longrightarrow>
     id_Protocol d' = (if ni_Type n = ''vless'' then ''vless'' else ''vmess'') \<and> id_StreamSetting d' = id_StreamSetting d"
  by (auto simp: vallss_settings_def Let_def put_settings_Inr split: if_splits option.splits sum.splits)

lemma buildV2ray_plain:
  assumes "buildV2ray ie config n empty_detour = Some (Inr d)"
  shows "plain_stream d \<and> id_Protocol d = (if ni_Type n = ''vless'' then ''vless'' else ''vmess'')"
  using assms
  by (auto simp: buildV2ray_def plain_stream_def empty_detour_def map_sum_Inr
    split: option.splits sum.splits if_splits dest!: vallss_settings_Inr dest: v2ray_stream_plain)

lemma buildTrojan_plain:
  assumes "buildTrojan ie config n empty_detour = Some (Inr d)"
  shows "plain_stream d \<and> id_Protocol d = ''trojan''"
  using assms
  by (auto simp: buildTrojan_def plain_stream_def empty_detour_def map_sum_Inr Let_def put_settings_Inr
    split: option.splits sum.splits if_splits dest: trojan_stream_plain)

lemma buildShadowsocks_plain:
  assumes "buildShadowsocks ie config n empty_detour = Some (Inr d)"
  shows "plain_stream d \<and> id_Protocol d = ''shadowsocks'' \<and> id_StreamSetting d \<noteq> None"
  using assms
  by (auto simp: buildShadowsocks_def plain_stream_def empty_detour_def map_sum_Inr Let_def put_settings_Inr new_stream_def
    split: option.splits sum.splits if_splits)

lemma protocol_part_plain:
  assumes "protocol_part ie opt n = Some (Inr (d, network))"
  shows "plain_stream d \<and> id_Protocol d = ni_Type n"
  using assms
  by (auto simp: protocol_part_def Let_def map_sum_Inr split: if_splits option.splits
    dest!: buildV2ray_plain buildTrojan_plain buildShadowsocks_plain)


lemma accept_proxy_facts:
  "sg_TLS (accept_proxy network x s) = sg_TLS s" "sg_REALITY (accept_proxy network x s) = sg_REALITY s"
  "sg_Security (accept_proxy network x s) = sg_Security s"
  "accepts_proxy (accept_proxy network x s) network = Some (xo_EnableProxyProtocol x)"
  by (auto simp: accept_proxy_def accepts_proxy_def with_accept_def split: option.split)

lemma build_reality_Inr:
  assumes "build_reality ie v = Inr r"
  shows "\<exists>dest. reality_dest (va_TlsSettings v) = Some dest \<and> ie_String ie dest = Inr (ri_Dest r) \<and>
    ri_ServerNames r = reality_names (va_TlsSettings v) dest \<and> ri_ServerNames r \<noteq> [] \<and>
    ri_ShortIds r = splitAndFilter (ts_ShortId (va_TlsSettings v)) \<and> ri_ShortIds r \<noteq> []"
  using assms by (auto simp: build_reality_def Let_def split: option.splits sum.splits if_splits)

text \<open>What security an inbound has.\<close>

definition security_of :: "options \<Rightarrow> node_info \<Rightarrow> stream_setting \<Rightarrow> bool" where
  "security_of opt n s =
     ((sg_TLS s \<noteq> None) = (ni_Security n = Tls \<and> cert_active opt) \<and>
      (sg_REALITY s \<noteq> None) = (ni_Security n = Reality) \<and>
      sg_Security s = (if sg_TLS s \<noteq> None then ''tls'' else if sg_REALITY s \<noteq> None then ''reality'' else ''''))"

lemma Tls_Reality [simp]: "Tls \<noteq> Reality" "Reality \<noteq> Tls"
  by (simp_all add: Tls_def Reality_def)

lemma apply_security_Inr:
  assumes "apply_security ie opt n s = Some (Inr s')" "unsecured s"
  shows "security_of opt n s' \<and> accepts_proxy s' network = accepts_proxy s network"
    and "ni_Security n = Reality \<Longrightarrow> \<exists>v r. ni_VAllss n = Some v \<and> sg_REALITY s' = Some r \<and> build_reality ie v = Inr r"
    and "ni_Security n \<noteq> Reality \<Longrightarrow> sg_REALITY s' = None"
  using assms
  by (auto simp: apply_security_def security_of_def cert_active_def tls_part_def map_sum_Inr accepts_proxy_def
    split: if_splits option.splits)

lemma v2ray_stream_network: "v2ray_stream ie network raw = Inr s \<Longrightarrow> sg_Network s = network"
  unfolding v2ray_stream_def Let_def new_stream_def
  by (simp split: if_split_asm) (erule load_transport_put, simp)+

lemma trojan_stream_network: "trojan_stream ie network raw = Inr s \<Longrightarrow> sg_Network s = network"
  unfolding trojan_stream_def Let_def new_stream_def
  by (simp split: if_split_asm) (erule load_transport_put, simp)+

lemma buildV2ray_network:
  "buildV2ray ie opt n empty_detour = Some (Inr d) \<Longrightarrow> ni_VAllss n = Some v \<Longrightarrow> id_StreamSetting d = Some s \<Longrightarrow>
     sg_Network s = va_Network v"
  by (auto simp: buildV2ray_def map_sum_Inr empty_detour_def split: option.splits sum.splits if_splits
    dest!: vallss_settings_Inr dest: v2ray_stream_network)

lemma buildTrojan_network:
  "buildTrojan ie opt n empty_detour = Some (Inr d) \<Longrightarrow> ni_Trojan n = Some v \<Longrightarrow> id_StreamSetting d = Some s \<Longrightarrow>
     sg_Network s = trojan_network v"
  by (auto simp: buildTrojan_def map_sum_Inr Let_def split: option.splits sum.splits dest: trojan_stream_network)

lemma buildShadowsocks_network:
  "buildShadowsocks ie opt n empty_detour = Some (Inr d) \<Longrightarrow> id_StreamSetting d = Some s \<Longrightarrow> sg_Network s = ''tcp''"
  by (auto simp: buildShadowsocks_def Let_def put_settings_Inr new_stream_def split: option.splits sum.splits if_splits)

lemma protocol_part_network:
  "protocol_part ie opt n = Some (Inr (d, network)) \<Longrightarrow> id_StreamSetting d = Some s \<Longrightarrow> sg_Network s = network"
  by (auto simp: protocol_part_def Let_def map_sum_Inr split: if_splits option.splits
    dest: buildV2ray_network buildTrojan_network buildShadowsocks_network)

lemma apply_security_network:
  "apply_security ie opt n (accept_proxy network x s) = Some (Inr s') \<Longrightarrow> sg_Network s' = sg_Network s"
  by (auto simp: apply_security_def tls_part_def accept_proxy_def map_sum_Inr split: if_splits option.splits)

lemma inbound_of_Inr:
  assumes "inbound_of ie opt n tag = Some (Inr d)"
  obtains d0 network c x s0 s where "protocol_part ie opt n = Some (Inr (d0, network))" "ni_Common n = Some c"
    "op_XrayOptions opt = Some x" "id_StreamSetting d0 = Some s0"
    "apply_security ie opt n (accept_proxy network x s0) = Some (Inr s)"
    "d = (listen_part opt x c d0)\<lparr>id_StreamSetting := Some s, id_Tag := tag\<rparr>"
  using assms by (auto simp: inbound_of_def map_sum_Inr split: option.splits sum.splits prod.splits)

text \<open>C14: an inbound that is built has the tag, the protocol and the port of its node and sniffs unless that is switched off;
  it is secured by TLS exactly when the panel asks for it and a certificate is configured, by REALITY exactly when the
  panel asks for it, then with a server name and with short ids, none of them empty or with a separator inside; and its
  transport accepts the proxy protocol as the options say.
\<close>

theorem inbound_shape:
  assumes "inbound_of ie opt n tag = Some (Inr d)"
  shows "id_Tag d = tag \<and> id_Protocol d = ni_Type n \<and>
    (\<exists>c x s. ni_Common n = Some c \<and> op_XrayOptions opt = Some x \<and> id_StreamSetting d = Some s \<and>
       id_PortRange d = (u32 (cn_ServerPort c), u32 (cn_ServerPort c)) \<and>
       id_ListenOn d = op_ListenIP opt \<and> id_SniffingEnabled d = (\<not> xo_DisableSniffing x) \<and>
       security_of opt n s \<and> accepts_proxy s (sg_Network s) = Some (xo_EnableProxyProtocol x) \<and>
       (\<forall>r. sg_REALITY s = Some r \<longrightarrow> ri_ServerNames r \<noteq> [] \<and> ri_ShortIds r \<noteq> [] \<and>
          (\<forall>i \<in> set (ri_ShortIds r). i \<noteq> [] \<and> set i \<inter> {CHR '','', CHR '';'', CHR '' '', CHR 0x09} = {})))"
proof -
  from assms obtain d0 network c x s0 s where part: "protocol_part ie opt n = Some (Inr (d0, network))"
    and c: "ni_Common n = Some c" and x: "op_XrayOptions opt = Some x" and s0: "id_StreamSetting d0 = Some s0"
    and s: "apply_security ie opt n (accept_proxy network x s0) = Some (Inr s)"
    and d: "d = (listen_part opt x c d0)\<lparr>id_StreamSetting := Some s, id_Tag := tag\<rparr>"
    by (rule inbound_of_Inr)
  have plain: "unsecured (accept_proxy network x s0)"
    using protocol_part_plain [OF part] s0 by (simp add: plain_stream_def accept_proxy_facts)
  note sec = apply_security_Inr [OF s plain]
  have reality: "ri_ServerNames r \<noteq> [] \<and> ri_ShortIds r \<noteq> [] \<and>
      (\<forall>i \<in> set (ri_ShortIds r). i \<noteq> [] \<and> set i \<inter> {CHR '','', CHR '';'', CHR '' '', CHR 0x09} = {})"
    if r: "sg_REALITY s = Some r" for r
  proof -
    from r sec(3) have "ni_Security n = Reality" by auto
    from sec(2) [OF this] r obtain v where "build_reality ie v = Inr r" by auto
    from build_reality_Inr [OF this] splitAndFilter_items show ?thesis by metis
  qed
  have "sg_Network s = network"
    using apply_security_network [OF s] protocol_part_network [OF part s0] by simp
  then show ?thesis
    using protocol_part_plain [OF part] c x sec(1) [of network] reality
    by (auto simp: d listen_part_def accept_proxy_facts)
qed

text \<open>The node's own part, as far as its type needs one, and network settings for vmess and vless.\<close>

definition node_complete :: "node_info \<Rightarrow> bool" where
  "node_complete n =
     (ni_Common n \<noteq> None \<and> (ni_Security n = Reality \<longrightarrow> ni_VAllss n \<noteq> None) \<and>
      (if ni_Type n = ''vmess'' \<or> ni_Type n = ''vless'' then
         (case ni_VAllss n of None \<Rightarrow> False | Some v \<Rightarrow> va_NetworkSettings v \<noteq> [])
       else if ni_Type n = ''trojan'' then ni_Trojan n \<noteq> None
       else if ni_Type n = ''shadowsocks'' then ni_Shadowsocks n \<noteq> None
       else True))"

lemma vallss_settings_total: "op_XrayOptions opt \<noteq> None \<Longrightarrow> vallss_settings ie opt n d \<noteq> None"
  by (auto simp: vallss_settings_def Let_def split: option.splits sum.splits)

lemma apply_security_total: "(ni_Security n = Reality \<longrightarrow> ni_VAllss n \<noteq> None) \<Longrightarrow> apply_security ie opt n s \<noteq> None"
  by (auto simp: apply_security_def split: option.splits)

lemma buildV2ray_stream:
  "buildV2ray ie opt n d = Some (Inr d') \<Longrightarrow> ni_VAllss n = Some v \<Longrightarrow> va_NetworkSettings v \<noteq> [] \<Longrightarrow> id_StreamSetting d' \<noteq> None"
  by (auto simp: buildV2ray_def map_sum_Inr split: option.splits sum.splits)

lemma buildTrojan_stream: "buildTrojan ie opt n d = Some (Inr d') \<Longrightarrow> id_StreamSetting d' \<noteq> None"
  by (auto simp: buildTrojan_def map_sum_Inr Let_def split: option.splits sum.splits)

lemma buildV2ray_total:
  "op_XrayOptions opt \<noteq> None \<Longrightarrow> ni_VAllss n \<noteq> None \<Longrightarrow> buildV2ray ie opt n d \<noteq> None"
  using vallss_settings_total [of opt ie n d] by (auto simp: buildV2ray_def split: option.splits sum.splits)

lemma buildTrojan_total:
  "op_XrayOptions opt \<noteq> None \<Longrightarrow> ni_Trojan n \<noteq> None \<Longrightarrow> buildTrojan ie opt n d \<noteq> None"
  by (auto simp: buildTrojan_def Let_def split: option.splits sum.splits)

lemma buildShadowsocks_total:
  "op_XrayOptions opt \<noteq> None \<Longrightarrow> ni_Shadowsocks n \<noteq> None \<Longrightarrow> buildShadowsocks ie opt n d \<noteq> None"
  by (auto simp: buildShadowsocks_def Let_def split: option.splits sum.splits)

lemma protocol_part_total:
  assumes "node_complete n" "op_XrayOptions opt \<noteq> None"
  shows "\<exists>r. protocol_part ie opt n = Some r \<and> (\<forall>d network. r = Inr (d, network) \<longrightarrow> id_StreamSetting d \<noteq> None)"
proof -
  have stream: "id_StreamSetting d \<noteq> None" if "protocol_part ie opt n = Some (Inr (d, network))" for d network
    using assms that
    by (auto simp: protocol_part_def Let_def map_sum_Inr node_complete_def split: if_splits option.splits
      dest: buildV2ray_stream buildTrojan_stream buildShadowsocks_plain)
  have "protocol_part ie opt n \<noteq> None"
    using assms buildV2ray_total [of opt n ie empty_detour] buildTrojan_total [of opt n ie empty_detour]
      buildShadowsocks_total [of opt n ie empty_detour]
    by (auto simp: protocol_part_def Let_def node_complete_def split: option.splits)
  with stream show ?thesis by auto
qed

text \<open>C29: building an inbound does not panic when the options are decoded for xray and the node carries the part of its
  type; but a vmess or vless node without network settings, an optional field of the panel's answer, makes it panic as
  soon as its protocol settings are right, and so does a REALITY node of another protocol.
\<close>

theorem inbound_panics:
  "(op_XrayOptions opt \<noteq> None \<and> node_complete n \<longrightarrow> inbound_of ie opt n tag \<noteq> None) \<and>
   (\<forall>v d. ni_Type n \<in> {''vmess'', ''vless''} \<and> ni_VAllss n = Some v \<and> va_NetworkSettings v = [] \<and>
      vallss_settings ie opt n empty_detour = Some (Inr d) \<longrightarrow> inbound_of ie opt n tag = None) \<and>
   (ni_Security n = Reality \<and> ni_VAllss n = None \<longrightarrow> inbound_of ie opt n tag = None \<or>
      (\<exists>err. protocol_part ie opt n = Some (Inl err)))"
proof (intro conjI allI impI)
  assume a: "op_XrayOptions opt \<noteq> None \<and> node_complete n"
  from protocol_part_total [of n opt ie] a obtain r where r: "protocol_part ie opt n = Some r"
      "\<forall>d network. r = Inr (d, network) \<longrightarrow> id_StreamSetting d \<noteq> None" by blast
  show "inbound_of ie opt n tag \<noteq> None"
  proof (cases r)
    case (Inr p)
    obtain d network where p: "p = (d, network)" by force
    with r Inr obtain s where "id_StreamSetting d = Some s" by auto
    with a r Inr p apply_security_total [of n ie opt] show ?thesis
      by (auto simp: inbound_of_def node_complete_def)
  qed (simp add: inbound_of_def r)
next
  fix v d
  assume a: "ni_Type n \<in> {''vmess'', ''vless''} \<and> ni_VAllss n = Some v \<and> va_NetworkSettings v = [] \<and>
      vallss_settings ie opt n empty_detour = Some (Inr d)"
  then have "id_StreamSetting d = None" by (auto simp: empty_detour_def dest!: vallss_settings_Inr)
  with a show "inbound_of ie opt n tag = None"
    by (auto simp: inbound_of_def protocol_part_def buildV2ray_def Let_def split: option.splits)
next
  assume "ni_Security n = Reality \<and> ni_VAllss n = None"
  then show "inbound_of ie opt n tag = None \<or> (\<exists>err. protocol_part ie opt n = Some (Inl err))"
    by (auto simp: inbound_of_def apply_security_def split: option.splits sum.splits prod.splits)
qed

section \<open>The destination of a REALITY inbound\<close>

text \<open>C40: the destination of a REALITY inbound that is a path or an abstract socket, or already has a port, is kept; any other
  is given the configured port, 443 by default, so that splitting it gives back the host and that port. This holds for
  hosts without brackets.
\<close>

theorem reality_dest_port:
  fixes ts :: tls_settings
  defines "name \<equiv> (if TrimSpace (ts_Dest ts) = [] then TrimSpace (ts_ServerName ts) else TrimSpace (ts_Dest ts))"
    and "port \<equiv> (if TrimSpace (ts_ServerPort ts) = [] then ''443'' else TrimSpace (ts_ServerPort ts))"
  assumes "reality_dest ts = Some dest" "set name \<inter> {CHR ''['', CHR '']''} = {}"
    "set (ts_ServerPort ts) \<inter> {CHR '':'', CHR ''['', CHR '']''} = {}"
  shows "name \<noteq> [] \<and>
    (if is_socket_path name then dest = name
     else (case SplitHostPort name of Inr _ \<Rightarrow> dest = name | Inl _ \<Rightarrow> SplitHostPort dest = Inr (name, port)))"
proof -
  have "set port \<inter> {CHR '':'', CHR ''['', CHR '']''} = {}"
    using assms(5) set_TrimSpace [of "ts_ServerPort ts"] by (auto simp: port_def)
  then have "SplitHostPort (JoinHostPort name port) = Inr (name, port)"
    using assms(4) by (rule SplitHostPort_JoinHostPort [rotated])
  with assms(3) show ?thesis
    by (auto simp: reality_dest_def Let_def name_def port_def split: if_splits sum.splits)
qed

definition demo_tls :: tls_settings where
  "demo_tls = \<lparr>ts_ServerName = ''www.example.com'', ts_Dest = [], ts_ServerPort = ''8443'', ts_ShortId = ''ab,cd'',
     ts_PrivateKey = ''k'', ts_Xver = 0, ts_ECH = zero_ech\<rparr>"

lemma demo_tls_texts:
  "TrimSpace (ts_ServerName demo_tls) = ''www.example.com''" "TrimSpace (ts_ServerPort demo_tls) = ''8443''" "ts_Dest demo_tls = []"
  by (simp_all add: demo_tls_def TrimSpace_visible visible_def)

lemma demo_tls_dest: "reality_dest demo_tls = Some ''www.example.com:8443''"
proof -
  have "\<not> is_socket_path ''www.example.com''" "SplitHostPort ''www.example.com'' = Inl ''address www.example.com: missing port in address''"
    "JoinHostPort ''www.example.com'' ''8443'' = ''www.example.com:8443''" by code_simp+
  then show ?thesis by (simp add: reality_dest_def demo_tls_texts)
qed

lemma reality_dest_port_witness:
  "SplitHostPort ''www.example.com:8443'' = Inr (''www.example.com'', ''8443'')"
proof -
  have "\<not> is_socket_path ''www.example.com''" "SplitHostPort ''www.example.com'' = Inl ''address www.example.com: missing port in address''"
    "set (ts_ServerPort demo_tls) \<inter> {CHR '':'', CHR ''['', CHR '']''} = {}" by code_simp+
  then show ?thesis using reality_dest_port [OF demo_tls_dest] by (simp add: demo_tls_texts)
qed

text \<open>A bracketed address without a port gets a second pair of brackets.\<close>

lemma bracketed_dest_broken:
  assumes "TrimSpace (ts_Dest ts) = ''[::1]''" "TrimSpace (ts_ServerPort ts) = []"
  shows "reality_dest ts = Some ''[[::1]]:443''" and "SplitHostPort ''[[::1]]:443'' = Inl ''address [[::1]]:443: missing port in address''"
proof -
  have "\<not> is_socket_path ''[::1]''" "SplitHostPort ''[::1]'' = Inl ''address [::1]: missing port in address''"
    "JoinHostPort ''[::1]'' ''443'' = ''[[::1]]:443''" by code_simp+
  then show "reality_dest ts = Some ''[[::1]]:443''" by (simp add: reality_dest_def assms)
  show "SplitHostPort ''[[::1]]:443'' = Inl ''address [[::1]]:443: missing port in address''" by code_simp
qed

section \<open>A concrete node\<close>

definition demo_vless :: vallss_node where
  "demo_vless = demo_vallss\<lparr>va_TlsSettings := demo_tls, va_NetworkSettings := ''{}'', va_Network := ''ws''\<rparr>"

definition demo_inbound_node :: node_info where
  "demo_inbound_node = zero_node\<lparr>ni_Type := ''vless'', ni_Security := Reality, ni_VAllss := Some demo_vless,
     ni_Common := Some (zero_common\<lparr>cn_ServerPort := 443\<rparr>)\<rparr>"

definition demo_inbound_options :: options where
  "demo_inbound_options = default_options\<lparr>op_Core := ''xray'', op_XrayOptions := Some NewXrayOptions\<rparr>"

definition demo_inbound_env :: "inbound_detour inbound_env" where
  "demo_inbound_env = \<lparr>ie_Transport = (\<lambda>_ _. Inr True), ie_DecodeAny = (\<lambda>_. None), ie_EncodeAny = (\<lambda>_. None),
     ie_SettingsError = (\<lambda>_. None), ie_String = (\<lambda>s. Inr (CHR 0x22 # s @ [CHR 0x22])), ie_Rand = Inr [],
     ie_ParseDuration = (\<lambda>_. 0), ie_Build = Inr\<rparr>"

lemma splitAndFilter_demo: "splitAndFilter ''www.example.com'' = [''www.example.com'']" "splitAndFilter ''ab,cd'' = [''ab'', ''cd'']"
  by (simp_all add: splitAndFilter_def FieldsFunc_def TrimSpace_visible visible_def)

lemma demo_reality:
  "build_reality demo_inbound_env demo_vless = Inr \<lparr>ri_Dest = CHR 0x22 # ''www.example.com:8443'' @ [CHR 0x22], ri_Xver = 0,
     ri_ServerNames = [''www.example.com''], ri_PrivateKey = ''k'', ri_MinClientVer = [], ri_MaxClientVer = [], ri_MaxTimeDiff = 0,
     ri_ShortIds = [''ab'', ''cd'']\<rparr>"
proof -
  have ts: "va_TlsSettings demo_vless = demo_tls" by (simp add: demo_vless_def)
  have "ts_ShortId demo_tls = ''ab,cd''" "ts_Xver demo_tls = 0" "ts_PrivateKey demo_tls = ''k''" by (simp_all add: demo_tls_def)
  then show ?thesis
    by (simp add: build_reality_def ts demo_tls_dest demo_tls_texts reality_names_def splitAndFilter_demo demo_inbound_env_def
      demo_vless_def demo_vallss_def u64_def go_div_def)
qed

definition demo_detour :: inbound_detour where
  "demo_detour = the (case inbound_of demo_inbound_env demo_inbound_options demo_inbound_node ''n'' of Some (Inr d) \<Rightarrow> Some d | _ \<Rightarrow> None)"

lemma demo_detour: "inbound_of demo_inbound_env demo_inbound_options demo_inbound_node ''n'' = Some (Inr demo_detour)"
proof -
  have "\<exists>d. protocol_part demo_inbound_env demo_inbound_options demo_inbound_node = Some (Inr (d, ''ws'')) \<and> id_StreamSetting d \<noteq> None"
    by (simp add: protocol_part_def buildV2ray_def vallss_settings_def demo_inbound_node_def demo_inbound_options_def NewXrayOptions_def
      Let_def put_settings_def demo_inbound_env_def demo_vless_def v2ray_stream_def load_transport_def)
  then obtain d s where part: "protocol_part demo_inbound_env demo_inbound_options demo_inbound_node = Some (Inr (d, ''ws''))"
      "id_StreamSetting d = Some s" by blast
  show ?thesis
    unfolding demo_detour_def
    by (simp add: inbound_of_def part)
      (simp add: part(2) demo_inbound_node_def demo_inbound_options_def apply_security_def demo_reality)
qed

lemma inbound_shape_witness:
  "id_Protocol demo_detour = ''vless'' \<and> id_PortRange demo_detour = (443, 443) \<and>
   (\<exists>s. id_StreamSetting demo_detour = Some s \<and> sg_REALITY s \<noteq> None \<and> sg_TLS s = None)"
proof -
  have "ni_Security demo_inbound_node = Reality" "u32 443 = 443" by (simp_all add: demo_inbound_node_def u32_def)
  then show ?thesis
    using inbound_shape [OF demo_detour] by (auto simp: security_of_def demo_inbound_node_def zero_node_def)
qed

lemma inbound_panics_witness:
  "inbound_of demo_inbound_env demo_inbound_options (demo_inbound_node\<lparr>ni_Security := 0\<rparr>) ''n'' \<noteq> None \<and>
   inbound_of demo_inbound_env demo_inbound_options
     (demo_inbound_node\<lparr>ni_VAllss := Some (demo_vless\<lparr>va_NetworkSettings := []\<rparr>)\<rparr>) ''n'' = None"
proof -
  let ?bad = "demo_inbound_node\<lparr>ni_VAllss := Some (demo_vless\<lparr>va_NetworkSettings := []\<rparr>)\<rparr>"
  have 1: "op_XrayOptions demo_inbound_options \<noteq> None" "node_complete (demo_inbound_node\<lparr>ni_Security := 0\<rparr>)"
    by (simp_all add: demo_inbound_options_def node_complete_def demo_inbound_node_def demo_vless_def Reality_def)
  have 2: "\<exists>d. vallss_settings demo_inbound_env demo_inbound_options ?bad empty_detour = Some (Inr d)"
    by (simp add: vallss_settings_def demo_inbound_node_def demo_inbound_options_def NewXrayOptions_def Let_def put_settings_def
      demo_inbound_env_def)
  have 3: "ni_Type ?bad \<in> {''vmess'', ''vless''}" by (simp add: demo_inbound_node_def)
  show ?thesis
    using inbound_panics [of demo_inbound_options "demo_inbound_node\<lparr>ni_Security := 0\<rparr>" demo_inbound_env "''n''"]
      inbound_panics [of demo_inbound_options ?bad demo_inbound_env "''n''"] 1 2 3 by fastforce
qed

end
