(* ===== verification/Xray_Node_Laws.thy ===== *)
theory Xray_Node_Laws
  imports Xray_Instance Inbound_Laws Selector_Laws
begin

text \<open>
  What the xray core guarantees: it keeps the contract of a core on top of the handler managers of xray-core, what a
  failed addition leaves behind, what becomes of the shared DNS file, and which routes it warns about.
\<close>

section \<open>The contract of a core\<close>

text \<open>
  What the documentation of xray-core says of its managers. An inbound handler is registered under the tag of the
  configuration that it was created from, unless that tag is taken; removing a handler that is registered succeeds
  and only that one goes; nothing else touches the inbounds.
\<close>

definition keeps :: "('m \<Rightarrow> string \<Rightarrow> bool) \<Rightarrow> ('m \<Rightarrow> 'm) \<Rightarrow> bool" where
  "keeps has_in f = (\<forall>m. has_in (f m) = has_in m)"

definition manager_laws :: "('m, 'c, 'h) xray_server \<Rightarrow> ('m \<Rightarrow> string \<Rightarrow> bool) \<Rightarrow> bool" where
  "manager_laws xs has_in \<longleftrightarrow>
     (\<forall>d c m h. ie_Build (xs_Inbound xs) d = Inr c \<and> xs_CreateObject xs c m = Inr h \<longrightarrow>
        (\<forall>m0. if has_in m0 (id_Tag d) then \<exists>err. xs_AddInbound xs h m0 = (Some err, m0)
           else has_in (snd (xs_AddInbound xs h m0)) =
             (if fst (xs_AddInbound xs h m0) = None then (has_in m0)(id_Tag d := True) else has_in m0))) \<and>
     (\<forall>tag m. has_in (snd (xs_RemoveInbound xs tag m)) =
        (if fst (xs_RemoveInbound xs tag m) = None then (has_in m)(tag := False) else has_in m)) \<and>
     (\<forall>h. keeps has_in (\<lambda>m. snd (xs_AddOutbound xs h m))) \<and>
     (\<forall>tag. keeps has_in (\<lambda>m. snd (xs_RemoveOutbound xs tag m))) \<and>
     keeps has_in (\<lambda>m. snd (xs_StartServer xs m)) \<and>
     (\<forall>tag u. keeps has_in (\<lambda>m. snd (xe_AddUser (xs_Users xs) tag u m))) \<and>
     (\<forall>tag u. keeps has_in (\<lambda>m. snd (xe_RemoveUser (xs_Users xs) tag u m))) \<and>
     (\<forall>k v. keeps has_in (\<lambda>m. snd (sh_Set (xs_Users xs) k v m))) \<and>
     (\<forall>k. keeps has_in (sh_UnregisterCounter (xs_Users xs) k)) \<and>
     (\<forall>k. keeps has_in (sh_UnregisterOnlineMap (xs_Users xs) k))"

definition xray_serves :: "('m \<Rightarrow> string \<Rightarrow> bool) \<Rightarrow> 'm xray \<Rightarrow> string \<Rightarrow> bool" where
  "xray_serves has_in s = has_in (xy_Server s)"

lemma inbound_of_tag: "inbound_of ie opt n tag = Some (Inr d) \<Longrightarrow> id_Tag d = tag"
  by (erule inbound_of_Inr) simp

lemma buildInbound_Build:
  "buildInbound ie opt n tag = Some (Inr c) \<Longrightarrow> \<exists>d. ie_Build ie d = Inr c \<and> id_Tag d = tag"
  by (auto simp: buildInbound_def split: option.splits sum.splits dest: inbound_of_tag)

text \<open>The laws as rules over the operations of the model.\<close>

lemma law_AddInbound:
  assumes "manager_laws xs has_in" "ie_Build (xs_Inbound xs) d = Inr c" "xs_CreateObject xs c m = Inr h"
    "xs_AddInbound xs h m0 = (err, m')"
  shows "has_in m' = (if err = None then (has_in m0)(id_Tag d := True) else has_in m0) \<and> (has_in m0 (id_Tag d) \<longrightarrow> err \<noteq> None)"
proof -
  have "if has_in m0 (id_Tag d) then \<exists>e. xs_AddInbound xs h m0 = (Some e, m0)
      else has_in (snd (xs_AddInbound xs h m0)) =
        (if fst (xs_AddInbound xs h m0) = None then (has_in m0)(id_Tag d := True) else has_in m0)"
    using assms(1,2,3) unfolding manager_laws_def by blast
  then show ?thesis by (cases "has_in m0 (id_Tag d)") (auto simp: assms(4))
qed

lemma law_RemoveInbound:
  "manager_laws xs has_in \<Longrightarrow> xs_RemoveInbound xs tag m = (err, m') \<Longrightarrow>
     has_in m' = (if err = None then (has_in m)(tag := False) else has_in m)"
  unfolding manager_laws_def by (metis fst_conv snd_conv)

lemma law_keeps:
  assumes "manager_laws xs has_in"
  shows "xs_AddOutbound xs h m = (e, m') \<Longrightarrow> has_in m' = has_in m"
    and "xs_RemoveOutbound xs tag m = (e, m') \<Longrightarrow> has_in m' = has_in m"
    and "xs_StartServer xs m = (e, m') \<Longrightarrow> has_in m' = has_in m"
    and "xe_AddUser (xs_Users xs) tag u m = (e, m') \<Longrightarrow> has_in m' = has_in m"
    and "xe_RemoveUser (xs_Users xs) tag v m = (e, m') \<Longrightarrow> has_in m' = has_in m"
    and "sh_Set (xs_Users xs) k n m = (i, m') \<Longrightarrow> has_in m' = has_in m"
    and "has_in (sh_UnregisterCounter (xs_Users xs) k m) = has_in m"
    and "has_in (sh_UnregisterOnlineMap (xs_Users xs) k m) = has_in m"
  using assms unfolding manager_laws_def keeps_def by (metis snd_conv)+

lemma addInbound_serves:
  assumes "manager_laws xs has_in" "ie_Build (xs_Inbound xs) d = Inr c" "addInbound xs c s = Some (err, s')"
  shows "xray_serves has_in s' = (if err = None then (xray_serves has_in s)(id_Tag d := True) else xray_serves has_in s)"
    and "xray_serves has_in s (id_Tag d) \<Longrightarrow> err \<noteq> None"
  using assms(3)
  by (auto simp: addInbound_def xray_serves_def split: sum.splits if_splits prod.splits
    dest: law_AddInbound [OF assms(1,2)])

lemma addOutbound_serves:
  assumes "manager_laws xs has_in" "addOutbound xs c s = Some (err, s')"
  shows "xray_serves has_in s' = xray_serves has_in s"
  using assms(2)
  by (auto simp: addOutbound_def xray_serves_def split: sum.splits if_splits prod.splits dest: law_keeps(1) [OF assms(1)])

lemma xray_AddNode_serves:
  assumes laws: "manager_laws xs has_in" and add: "xray_AddNode xs tag info opt s = Some (err, s')"
  shows "(err = None \<longrightarrow> xray_serves has_in s' tag \<and> \<not> xray_serves has_in s tag) \<and>
    (\<forall>t. t \<noteq> tag \<longrightarrow> xray_serves has_in s' t = xray_serves has_in s t)"
proof -
  obtain e h where dns: "updateDNSConfig (xs_Dns xs) info (xy_Host s) = (e, h)" by force
  have host: "xray_serves has_in (s\<lparr>xy_Host := h\<rparr>) = xray_serves has_in s" by (simp add: xray_serves_def)
  show ?thesis
  proof (cases "\<exists>c e1 s1. e = None \<and> buildInbound (xs_Inbound xs) opt info tag = Some (Inr c) \<and>
      addInbound xs c (s\<lparr>xy_Host := h\<rparr>) = Some (e1, s1)")
    case True
    then obtain c e1 s1 where *: "e = None" "buildInbound (xs_Inbound xs) opt info tag = Some (Inr c)"
        "addInbound xs c (s\<lparr>xy_Host := h\<rparr>) = Some (e1, s1)" by blast
    from buildInbound_Build [OF *(2)] obtain d where d: "ie_Build (xs_Inbound xs) d = Inr c" "id_Tag d = tag" by blast
    note in_laws = addInbound_serves [OF laws d(1) *(3), unfolded host d(2)]
    have "xray_serves has_in s' = xray_serves has_in s1" "err = None \<longrightarrow> e1 = None"
      using add dns * addOutbound_serves [OF laws]
      by (auto simp: xray_AddNode_def Let_def split: option.splits sum.splits prod.splits)
    with in_laws show ?thesis by auto
  next
    case False
    then have "err \<noteq> None \<and> s' = s\<lparr>xy_Host := h\<rparr>"
      using add dns by (auto simp: xray_AddNode_def Let_def split: option.splits sum.splits prod.splits)
    with host show ?thesis by simp
  qed
qed

lemma xray_DelNode_serves:
  assumes laws: "manager_laws xs has_in" and del: "xray_DelNode xs tag s = Some (err, s')"
  shows "(err = None \<longrightarrow> \<not> xray_serves has_in s' tag) \<and> (\<forall>t. t \<noteq> tag \<longrightarrow> xray_serves has_in s' t = xray_serves has_in s t)"
proof -
  let ?m = "sh_UnregisterOnlineMap (xs_Users xs) (inboundOnlineStatName tag) (xy_Server s)"
  obtain e m1 where 1: "xs_RemoveInbound xs tag ?m = (e, m1)" by force
  obtain e2 m2 where 2: "xs_RemoveOutbound xs tag m1 = (e2, m2)" by force
  show ?thesis
    using del law_RemoveInbound [OF laws 1] law_keeps(2) [OF laws 2] law_keeps(8) [OF laws]
    by (auto simp: xray_DelNode_def removeInbound_def removeOutbound_def xray_serves_def Let_def 1 2
      split: if_splits option.splits)
qed

lemma add_memory_users_keeps:
  assumes "manager_laws xs has_in"
  shows "has_in (snd (add_memory_users (xs_Users xs) tag us m)) = has_in m"
proof (induction us arbitrary: m)
  case (Cons u us)
  obtain e m' where "xe_AddUser (xs_Users xs) tag u m = (e, m')" by force
  with law_keeps(4) [OF assms this] Cons.IH show ?case by (simp split: option.split)
qed simp

lemma del_memory_users_keeps:
  assumes "manager_laws xs has_in"
  shows "has_in (snd (del_memory_users (xs_Users xs) tag us m)) = has_in m"
proof (induction us arbitrary: m)
  case (Cons u us)
  obtain e m' where rm: "xe_RemoveUser (xs_Users xs) tag (UserTag tag (ui_Uuid u)) m = (e, m')" by force
  with law_keeps(5) [OF assms rm] Cons.IH law_keeps(7,8) [OF assms] show ?case by (cases e) (simp_all add: Let_def)
qed simp

lemma read_counter_keeps:
  assumes "manager_laws xs has_in" "read_counter (xs_Users xs\<lparr>sh_Nil := f\<rparr>) p reset k m = (v, m')"
  shows "has_in m' = has_in m"
  using assms(2) law_keeps(6) [OF assms(1)] by (auto simp: read_counter_def split: if_splits)

lemma core_users_serves:
  assumes "manager_laws xs has_in"
  shows "core_AddUsers xs p s = Some (r, s') \<Longrightarrow> xray_serves has_in s' = xray_serves has_in s"
    and "core_DelUsers xs us tag info s = Some (r', s') \<Longrightarrow> xray_serves has_in s' = xray_serves has_in s"
    and "core_GetUserTraffic xs tag uuid reset s = Some (r'', s') \<Longrightarrow> xray_serves has_in s' = xray_serves has_in s"
proof -
  have add: "has_in m' = has_in m" if "add_memory_users (xs_Users xs) tag us m = (e, m')" for tag us m e m'
    using add_memory_users_keeps [OF assms, of tag us m] that by simp
  have del: "has_in m' = has_in m" if "del_memory_users (xs_Users xs) tag us m = (e, m')" for tag us m e m'
    using del_memory_users_keeps [OF assms, of tag us m] that by simp
  show "core_AddUsers xs p s = Some (r, s') \<Longrightarrow> xray_serves has_in s' = xray_serves has_in s"
    by (auto simp: core_AddUsers_def on_server_def xray_AddUsers_def xray_serves_def
      split: if_splits option.splits sum.splits prod.splits dest: add)
  show "core_DelUsers xs us tag info s = Some (r', s') \<Longrightarrow> xray_serves has_in s' = xray_serves has_in s"
    by (auto simp: core_DelUsers_def on_server_def xray_DelUsers_def xray_serves_def
      split: if_splits option.splits prod.splits dest: del)
  show "core_GetUserTraffic xs tag uuid reset s = Some (r'', s') \<Longrightarrow> xray_serves has_in s' = xray_serves has_in s"
    by (auto simp: core_GetUserTraffic_def on_server_def xray_GetUserTraffic_def xray_serves_def Let_def
      split: if_splits prod.splits dest!: read_counter_keeps [OF assms])
qed

lemma xray_Start_serves:
  "manager_laws xs has_in \<Longrightarrow> xray_Start xs s = Some (r, s') \<Longrightarrow> xray_serves has_in s' = xray_serves has_in s"
  by (auto simp: xray_serves_def xray_Start_def split: prod.splits option.splits dest: law_keeps(3))

lemma xray_contract:
  assumes "manager_laws xs has_in"
  shows "core_contract (xray_ops xs) (xray_serves has_in) (\<lambda>_. True)"
  by unfold_locales
    (auto simp: xray_ops_def dest: xray_AddNode_serves [OF assms] xray_DelNode_serves [OF assms] core_users_serves [OF assms]
      xray_Start_serves [OF assms])


text \<open>A server whose managers are the lists of their tags; the second tag below is one that outbounds refuse.\<close>

type_synonym demo_managers = "string list \<times> string list"

definition demo_users :: "demo_managers xray_env" where
  "demo_users = \<lparr>xe_GetUserManager = (\<lambda>m tag. if tag \<in> set (fst m) then None else Some ''no such inbound tag''),
     xe_ToMemoryUser = (\<lambda>_. None), xe_AddUser = (\<lambda>_ _ m. (None, m)), xe_RemoveUser = (\<lambda>_ _ m. (None, m)), sh_Nil = (\<lambda>_. False),
     sh_HasCounter = (\<lambda>_ _. False), sh_Value = (\<lambda>_ _. 0), sh_Set = (\<lambda>_ _ m. (0, m)), sh_UnregisterCounter = (\<lambda>_ m. m),
     sh_UnregisterOnlineMap = (\<lambda>_ m. m), sh_OnlineMap = (\<lambda>_ _. None)\<rparr>"

definition demo_tag_env :: "string inbound_env" where
  "demo_tag_env = \<lparr>ie_Transport = (\<lambda>_ _. Inr True), ie_DecodeAny = (\<lambda>_. None), ie_EncodeAny = (\<lambda>_. None),
     ie_SettingsError = (\<lambda>_. None), ie_String = Inr, ie_Rand = Inr [], ie_ParseDuration = (\<lambda>_. 0), ie_Build = (\<lambda>d. Inr (id_Tag d))\<rparr>"

definition demo_dns :: dns_codec where
  "demo_dns = \<lparr>dn_Indent = Inr, dn_Marshal = (\<lambda>c. Inr ''{servers}''), dn_DecodeError = (\<lambda>_. None), dn_BuildError = (\<lambda>_. None)\<rparr>"

definition add_tag :: "string \<Rightarrow> string list \<Rightarrow> string option \<times> string list" where
  "add_tag t ts = (if t \<in> set ts then (Some ''existing tag found'', ts) else (None, t # ts))"

definition demo_xray :: "(demo_managers, string, string) xray_server" where
  "demo_xray = \<lparr>xs_Users = demo_users, xs_Inbound = demo_tag_env, xs_Dns = demo_dns, xs_BuildOutbound = (\<lambda>f. Inr (fo_Tag f)),
     xs_CreateObject = (\<lambda>c m. Inr c), xs_IsInbound = (\<lambda>_. True), xs_IsOutbound = (\<lambda>_. True),
     xs_AddInbound = (\<lambda>h m. case add_tag h (fst m) of (e, ts) \<Rightarrow> (e, (ts, snd m))),
     xs_AddOutbound = (\<lambda>h m. case add_tag h (snd m) of (e, ts) \<Rightarrow> (e, (fst m, ts))),
     xs_RemoveInbound = (\<lambda>tag m. (None, (removeAll tag (fst m), snd m))),
     xs_RemoveOutbound = (\<lambda>tag m. (None, (fst m, removeAll tag (snd m)))),
     xs_StartServer = (\<lambda>m. (None, m)), xs_CloseServer = (\<lambda>m. (None, m))\<rparr>"

lemma demo_manager_laws: "manager_laws demo_xray (\<lambda>m t. t \<in> set (fst m))"
  by (auto simp: manager_laws_def keeps_def demo_xray_def demo_users_def demo_tag_env_def add_tag_def fun_eq_iff split: if_splits)


text \<open>
  When the outbound of a node can not be added, its inbound stays, and adding the node again fails on that inbound
  until the node is deleted.
\<close>

lemma failed_add_leaves_inbound:
  assumes laws: "manager_laws xs has_in" and "ie_Build (xs_Inbound xs) d = Inr c"
    and "addInbound xs c s = Some (None, s1)" and out: "addOutbound xs c' s1 = Some (Some err, s2)"
  shows "xray_serves has_in s2 (id_Tag d) \<and> (\<forall>e s3. addInbound xs c s2 = Some (e, s3) \<longrightarrow> e \<noteq> None)"
proof -
  have "xray_serves has_in s2 (id_Tag d)"
    using addInbound_serves(1) [OF assms(1,2,3)] addOutbound_serves [OF laws out] by simp
  with addInbound_serves(2) [OF assms(1,2)] show ?thesis by blast
qed

section \<open>The DNS file\<close>

text \<open>The text that a node wants in the file, and whether saving it is heard of.\<close>

definition wanted_dns :: "dns_codec \<Rightarrow> node_info \<Rightarrow> string + (string \<times> bool) option" where
  "wanted_dns dn node =
     (let raw = ni_RawDNS node in
      if rd_DNSJson raw \<noteq> [] then map_sum id (\<lambda>t. Some (t, True)) (dn_Indent dn (rd_DNSJson raw))
      else if rd_DNSMap raw \<noteq> [] then
        (case dns_servers (map snd (rd_DNSMap raw)) [NamedServer ''1.1.1.1'', NamedServer ''localhost''] of
           Inl e \<Rightarrow> Inl e
         | Inr servers \<Rightarrow> map_sum id (\<lambda>t. Some (t, False)) (dn_Marshal dn \<lparr>dc_Servers = servers, dc_Tag = ''dns_inbound''\<rparr>))
      else Inr None)"

lemma updateDNSConfig_wanted:
  "updateDNSConfig dn node h =
     (case wanted_dns dn node of
        Inl e \<Rightarrow> (Some e, h)
      | Inr None \<Rightarrow> (None, h)
      | Inr (Some (t, heard)) \<Rightarrow>
          (case saveDnsConfig dn t (Getenv ''XRAY_DNS_PATH'' h) h of (e, h') \<Rightarrow> (if heard then e else None, h')))"
  by (auto simp: updateDNSConfig_def wanted_dns_def Let_def split: sum.split prod.split)

lemma saveDnsConfig_writes:
  assumes "ho_ReadFault h p = None" "ho_WriteFault h p = None" "p \<noteq> []" "sm_load (ho_Files h) p = Some c" "dn_BuildError dn t = None"
  shows "saveDnsConfig dn t p h =
    (if c = t then (None, h) else (dn_DecodeError dn t, h\<lparr>ho_Files := sm_store p t (ho_Files h)\<rparr>))"
  using assms by (simp add: saveDnsConfig_def ReadFile_def Truncate_def WriteFile_def)

lemma saveDnsConfig_frame:
  "saveDnsConfig dn t p h = (e, h') \<Longrightarrow> ho_Env h' = ho_Env h \<and> (\<forall>q. q \<noteq> p \<longrightarrow> sm_load (ho_Files h') q = sm_load (ho_Files h) q)"
  by (auto simp: saveDnsConfig_def ReadFile_def Truncate_def WriteFile_def split: sum.splits option.splits if_splits)


definition demo_host :: host where
  "demo_host = \<lparr>ho_Env = [(''XRAY_DNS_PATH'', ''dns.json'')], ho_Files = [(''dns.json'', ''{}''), (''other'', ''x'')],
     ho_ReadFault = (\<lambda>_. None), ho_WriteFault = (\<lambda>_. None)\<rparr>"

definition demo_dns_node :: node_info where
  "demo_dns_node = zero_node\<lparr>ni_RawDNS := \<lparr>rd_DNSMap = [], rd_DNSJson = ''{1}''\<rparr>\<rparr>"


section \<open>Routes without an outbound\<close>

lemma configured_tags:
  "sm_load (collectConfiguredOutboundTags ts) k \<noteq> None \<longleftrightarrow> k \<noteq> [] \<and> k \<in> TrimSpace ` set ts"
proof -
  have "sm_load (fold (\<lambda>t tags. let tag = TrimSpace t in if tag = '''' then tags else sm_store tag () tags) ts m) k \<noteq> None \<longleftrightarrow>
      sm_load m k \<noteq> None \<or> k \<noteq> [] \<and> k \<in> TrimSpace ` set ts" for m
    by (induction ts arbitrary: m) (auto simp: Let_def split: if_splits)
  then show ?thesis by (simp add: collectConfiguredOutboundTags_def)
qed

definition rule_tags :: "(string \<Rightarrow> string option) \<Rightarrow> string list \<Rightarrow> string set" where
  "rule_tags ruleTag rules = {t. t \<noteq> [] \<and> (\<exists>r \<in> set rules. map_option TrimSpace (ruleTag r) = Some t)}"

lemma missing_tags:
  "sm_wf (collectMissingRouteOutboundTags ruleTag rules defined) \<and>
   set (sm_keys (collectMissingRouteOutboundTags ruleTag rules defined)) = {t \<in> rule_tags ruleTag rules. sm_load defined t = None}"
proof -
  have "sm_wf m \<Longrightarrow>
      (let m' = fold (\<lambda>rawRule missing. case ruleTag rawRule of None \<Rightarrow> missing
         | Some t \<Rightarrow> (let tag = TrimSpace t in if tag = '''' then missing
            else if sm_load defined tag \<noteq> None then missing else sm_store tag () missing)) rules m
       in sm_wf m' \<and> set (sm_keys m') = set (sm_keys m) \<union> {t \<in> rule_tags ruleTag rules. sm_load defined t = None})" for m
  proof (induction rules arbitrary: m)
    case (Cons r rs)
    show ?case
    proof (cases "\<exists>t. map_option TrimSpace (ruleTag r) = Some t \<and> t \<noteq> [] \<and> sm_load defined t = None")
      case True
      then obtain t where t: "ruleTag r = Some t" "TrimSpace t \<noteq> []" "sm_load defined (TrimSpace t) = None" by auto
      with Cons.IH [of "sm_store (TrimSpace t) () m"] Cons.prems show ?thesis
        by (auto simp: Let_def rule_tags_def sm.set_keys_store)
    next
      case False
      with Cons.IH [OF Cons.prems] show ?thesis
        by (auto simp: Let_def rule_tags_def split: option.split)
    qed
  qed (simp add: rule_tags_def)
  from this [of "[]"] show ?thesis by (simp add: collectMissingRouteOutboundTags_def Let_def sm_keys_def)
qed

text \<open>the warning at start names, sorted and each once, exactly the outbounds that some rule refers to and none configures,
  with the space around both removed; there is no warning when there are none.
\<close>

theorem route_warning:
  "validateRouteOutboundReferences ruleTag routePath (Some rules) outPath configTags =
     (let missing = {t \<in> rule_tags ruleTag rules. t \<notin> TrimSpace ` set configTags} in
      if missing = {} then None
      else Some (if TrimSpace routePath = [] then ''RouteConfigPath'' else routePath, sorted_list_of_set missing,
        if TrimSpace outPath = [] then ''OutboundConfigPath'' else outPath))"
proof -
  let ?ms = "collectMissingRouteOutboundTags ruleTag rules (collectConfiguredOutboundTags configTags)"
  let ?missing = "{t \<in> rule_tags ruleTag rules. t \<notin> TrimSpace ` set configTags}"
  have "sm_load (collectConfiguredOutboundTags configTags) t = None \<longleftrightarrow> t \<notin> TrimSpace ` set configTags"
    if "t \<in> rule_tags ruleTag rules" for t
    using configured_tags [of configTags t] that by (auto simp: rule_tags_def)
  then have keys: "set (sm_keys ?ms) = ?missing" "distinct (sm_keys ?ms)"
    using missing_tags [of ruleTag rules "collectConfiguredOutboundTags configTags"] by (auto simp: sm_wf_def sm_keys_def)
  then have "sort (sm_keys ?ms) = sorted_list_of_set ?missing"
    by (metis distinct_sort set_sort sorted_list_of_set.idem_if_sorted_distinct sorted_sort)
  moreover have "?ms = [] \<longleftrightarrow> ?missing = {}"
    unfolding keys(1) [symmetric] by (simp add: sm_keys_def)
  moreover have "rules = [] \<longrightarrow> ?missing = {}" by (simp add: rule_tags_def)
  ultimately have "validateRouteOutboundReferences ruleTag routePath (Some rules) outPath configTags =
    (if M = {} then None
      else Some (if TrimSpace routePath = [] then ''RouteConfigPath'' else routePath, sorted_list_of_set M,
        if TrimSpace outPath = [] then ''OutboundConfigPath'' else outPath))" if "M = ?missing" for M
    unfolding that [symmetric] by (simp add: validateRouteOutboundReferences_def Let_def)
  then show ?thesis by (simp only: Let_def)
qed

end
