(* ===== verification/Sing_Options.thy ===== *)
theory Sing_Options
  imports Xray_Users Go_Std
begin

text \<open>
  \<^verbatim>\<open>core/sing/node.go\<close> (\<^verbatim>\<open>getInboundOptions\<close>) and \<^verbatim>\<open>utils.go\<close>: the inbound of a node on the sing-box core. The option
  structs of sing-box are described by the fields that the code sets. JSON decoders, the parsers of addresses, URLs and
  durations, and random bytes are parameters. A nil dereference is \<^term>\<open>None\<close>, an error the left side of a sum.
\<close>

section \<open>The option structs\<close>

record sing_listen =
  gl_Listen :: string
  gl_ListenPort :: int
  gl_TCPFastOpen :: bool
  gl_SniffEnabled :: bool
  gl_SniffOverrideDestination :: bool
  gl_DomainStrategy :: int

record server_options =
  vo_Server :: string
  vo_ServerPort :: int

record sing_reality =
  gr_Enabled :: bool
  gr_ShortID :: "string list"
  gr_PrivateKey :: string
  gr_Xver :: int
  gr_Handshake :: server_options
  gr_MaxTimeDifference :: int

record sing_tls =
  gt_Enabled :: bool
  gt_ServerName :: string
  gt_CertificatePath :: string
  gt_KeyPath :: string
  gt_ALPN :: "string list"
  gt_Reality :: "sing_reality option"

definition no_tls :: sing_tls where
  "no_tls = \<lparr>gt_Enabled = False, gt_ServerName = [], gt_CertificatePath = [], gt_KeyPath = [], gt_ALPN = [], gt_Reality = None\<rparr>"

record websocket_options =
  wo_Path :: string
  wo_EarlyDataHeaderName :: string
  wo_MaxEarlyData :: int
  wo_Headers :: "(string, string list) gomap"

record sing_transport =
  gp_Type :: string
  gp_HTTPHost :: "string list"
  gp_HTTPPath :: string
  gp_HTTPMethod :: string
  gp_Websocket :: "websocket_options option"
  gp_GRPCServiceName :: string
  gp_HTTPUpgradePath :: string
  gp_HTTPUpgradeHost :: string

definition new_transport :: "string \<Rightarrow> sing_transport" where
  "new_transport t = \<lparr>gp_Type = t, gp_HTTPHost = [], gp_HTTPPath = [], gp_HTTPMethod = [], gp_Websocket = None,
     gp_GRPCServiceName = [], gp_HTTPUpgradePath = [], gp_HTTPUpgradeHost = []\<rparr>"

text \<open>The options of an inbound by its protocol; a user of naive is a name and a password.\<close>

datatype sing_options_of =
    VLESSInbound sing_listen sing_tls sing_transport "multiplex_config option"
  | VMessInbound sing_listen sing_tls sing_transport "multiplex_config option"
  | ShadowsocksInbound sing_listen string string "string list" "multiplex_config option"
  | TrojanInbound sing_listen sing_tls sing_transport "multiplex_config option" "server_options option"
      "(string, server_options) gomap option"
  | TUICInbound sing_listen string bool sing_tls
  | AnyTLSInbound sing_listen "string list" sing_tls
  | NaiveInbound sing_listen "(string \<times> string) list" string sing_tls
  | HysteriaInbound sing_listen int int string sing_tls
  | Hysteria2Inbound sing_listen int int bool "(string \<times> string) option" sing_tls

record sing_inbound =
  gi_Type :: string
  gi_Tag :: string
  gi_Options :: "sing_options_of option"

record http_request =
  hq_Method :: string
  hq_Path :: "string list"
  hq_Host :: "string list"

text \<open>
  The parameters: parsing the listen address; decoding the settings of the networks (for tcp the type of the header and
  its request, for ws path and headers); the path of a URL and its value for \<^verbatim>\<open>ed\<close>; durations in nanoseconds;
  random bytes; and a list of strings.
\<close>

record sing_env =
  sx_ParseAddr :: "string \<Rightarrow> string option"
  sx_Http :: "string \<Rightarrow> string + (string \<times> string option)"
  sx_HttpRequest :: "string \<Rightarrow> string + http_request"
  sx_Ws :: "string \<Rightarrow> string + (string \<times> (string, string) gomap)"
  sx_Grpc :: "string \<Rightarrow> string + string"
  sx_HttpUpgrade :: "string \<Rightarrow> string + (string \<times> string)"
  sx_ParseURL :: "string \<Rightarrow> string + (string \<times> string)"
  sx_ParseDuration :: "string \<Rightarrow> int"
  sx_Rand :: "nat \<Rightarrow> string"
  sx_Strings :: "string \<Rightarrow> string list option"

definition u8 :: "int \<Rightarrow> int" where "u8 n = n mod 2 ^ 8"
definition u16 :: "int \<Rightarrow> int" where "u16 n = n mod 2 ^ 16"
definition uint32 :: "int \<Rightarrow> int" where "uint32 n = n mod 2 ^ 32"

section \<open>Listening and TLS\<close>

definition sing_listen_of :: "string \<Rightarrow> node_info \<Rightarrow> sing_options \<Rightarrow> common_node \<Rightarrow> sing_listen" where
  "sing_listen_of addr info so c =
     \<lparr>gl_Listen = addr, gl_ListenPort = u16 (cn_ServerPort c), gl_TCPFastOpen = so_TCPFastOpen so,
      gl_SniffEnabled = so_SniffEnabled so, gl_SniffOverrideDestination = so_SniffOverrideDestination so,
      gl_DomainStrategy = (if so_EnableDNS so then so_DomainStrategy so else 0)\<rparr>"

text \<open>AnyTLS and vless read the same fields of their own settings.\<close>

definition sing_reality_of :: "sing_env \<Rightarrow> tls_settings \<Rightarrow> reality_config \<Rightarrow> sing_tls \<Rightarrow> sing_tls" where
  "sing_reality_of sx ts rc tls =
     tls\<lparr>gt_ServerName := ts_ServerName ts,
       gt_Reality := Some \<lparr>gr_Enabled = True, gr_ShortID = [ts_ShortId ts], gr_PrivateKey = ts_PrivateKey ts,
         gr_Xver = u8 (ts_Xver ts),
         gr_Handshake = \<lparr>vo_Server = (if ts_Dest ts \<noteq> '''' then ts_Dest ts else ts_ServerName ts),
           vo_ServerPort = u16 (fst (Atoi (ts_ServerPort ts)))\<rparr>,
         gr_MaxTimeDifference = sx_ParseDuration sx (re_MaxTimeDiff rc)\<rparr>\<rparr>"

definition sing_tls_of :: "sing_env \<Rightarrow> node_info \<Rightarrow> options \<Rightarrow> (string + sing_tls) option" where
  "sing_tls_of sx info c =
     (if ni_Security info = Tls then
        (case op_CertConfig c of
           None \<Rightarrow> Some (Inl ''the CertConfig is not vail'')
         | Some cert \<Rightarrow>
             if cc_CertMode cert = ''none'' \<or> cc_CertMode cert = '''' then Some (Inr no_tls)
             else Some (Inr (no_tls\<lparr>gt_Enabled := True, gt_CertificatePath := cc_CertFile cert, gt_KeyPath := cc_KeyFile cert\<rparr>)))
      else if ni_Security info = Reality then
        (let tls = no_tls\<lparr>gt_Enabled := True\<rparr> in
         if ni_Type info = ''anytls'' then
           map_option (\<lambda>v. Inr (sing_reality_of sx (at_TlsSettings v) (at_RealityConfig v) tls)) (ni_AnyTLS info)
         else
           map_option (\<lambda>v. Inr (sing_reality_of sx (va_TlsSettings v) (va_RealityConfig v) tls)) (ni_VAllss info))
      else Some (Inr no_tls))"

section \<open>Transports\<close>

text \<open>The first path of an HTTP request is taken without a check.\<close>

definition tcp_transport :: "sing_env \<Rightarrow> string \<Rightarrow> sing_transport \<Rightarrow> (string + sing_transport) option" where
  "tcp_transport sx raw t =
     (if raw = [] then Some (Inr (t\<lparr>gp_Type := ''''\<rparr>))
      else (case sx_Http sx raw of
          Inl err \<Rightarrow> Some (Inl (''decode NetworkSettings error: '' @ err))
        | Inr (headerType, req) \<Rightarrow>
            if headerType \<noteq> ''http'' then Some (Inr (t\<lparr>gp_Type := ''''\<rparr>))
            else (case req of
                None \<Rightarrow> Some (Inr (t\<lparr>gp_Type := headerType\<rparr>))
              | Some r \<Rightarrow>
                  (case sx_HttpRequest sx r of
                     Inl err \<Rightarrow> Some (Inl (''decode HttpRequest error: '' @ err))
                   | Inr request \<Rightarrow>
                       (case hq_Path request of
                          [] \<Rightarrow> panic
                        | p # _ \<Rightarrow> Some (Inr (t\<lparr>gp_Type := headerType, gp_HTTPHost := hq_Host request, gp_HTTPPath := p,
                            gp_HTTPMethod := hq_Method request\<rparr>)))))))"

definition websocket_of :: "string \<Rightarrow> int \<Rightarrow> (string, string list) gomap \<Rightarrow> websocket_options" where
  "websocket_of path ed headers =
     \<lparr>wo_Path = path, wo_EarlyDataHeaderName = ''Sec-WebSocket-Protocol'', wo_MaxEarlyData = uint32 ed, wo_Headers = headers\<rparr>"

definition ws_transport :: "sing_env \<Rightarrow> string \<Rightarrow> sing_transport \<Rightarrow> string + sing_transport" where
  "ws_transport sx raw t =
     (if raw = [] then Inr (t\<lparr>gp_Websocket := Some (websocket_of '''' 0 [])\<rparr>)
      else (case sx_Ws sx raw of
          Inl err \<Rightarrow> Inl (''decode NetworkSettings error: '' @ err)
        | Inr (p, hs) \<Rightarrow>
            (case sx_ParseURL sx p of
               Inl err \<Rightarrow> Inl (''parse path error: '' @ err)
             | Inr (path, ed) \<Rightarrow> Inr (t\<lparr>gp_Websocket :=
                 Some (websocket_of path (fst (Atoi ed)) (map (\<lambda>(k, v). (k, [v])) hs))\<rparr>))))"

definition grpc_transport :: "sing_env \<Rightarrow> string \<Rightarrow> sing_transport \<Rightarrow> string + sing_transport" where
  "grpc_transport sx raw t =
     (if raw = [] then Inr t
      else (case sx_Grpc sx raw of
          Inl err \<Rightarrow> Inl (''decode NetworkSettings error: '' @ err)
        | Inr name \<Rightarrow> Inr (t\<lparr>gp_GRPCServiceName := name\<rparr>)))"

definition httpupgrade_transport :: "sing_env \<Rightarrow> string \<Rightarrow> sing_transport \<Rightarrow> string + sing_transport" where
  "httpupgrade_transport sx raw t =
     (if raw = [] then Inr t
      else (case sx_HttpUpgrade sx raw of
          Inl err \<Rightarrow> Inl (''decode NetworkSettings error: '' @ err)
        | Inr (path, h) \<Rightarrow> Inr (t\<lparr>gp_HTTPUpgradePath := path, gp_HTTPUpgradeHost := h\<rparr>)))"

definition vallss_transport :: "sing_env \<Rightarrow> vallss_node \<Rightarrow> (string + sing_transport) option" where
  "vallss_transport sx n =
     (let t = new_transport (va_Network n); raw = va_NetworkSettings n in
      if va_Network n = ''tcp'' then tcp_transport sx raw t
      else if va_Network n = ''ws'' then Some (ws_transport sx raw t)
      else if va_Network n = ''grpc'' then Some (grpc_transport sx raw t)
      else if va_Network n = ''httpupgrade'' then Some (httpupgrade_transport sx raw t)
      else Some (Inr t))"

definition trojan_transport :: "sing_env \<Rightarrow> trojan_node \<Rightarrow> string + sing_transport" where
  "trojan_transport sx n =
     (let t = new_transport (tj_Network n); raw = tj_NetworkSettings n in
      if tj_Network n = ''ws'' then ws_transport sx raw t
      else if tj_Network n = ''grpc'' then grpc_transport sx raw t
      else Inr (t\<lparr>gp_Type := ''''\<rparr>))"

section \<open>The protocols\<close>

fun processFallback :: "(string, fallback) gomap \<Rightarrow> (string, server_options) gomap \<Rightarrow> string + (string, server_options) gomap" where
  "processFallback [] fallbackForALPN = Inr fallbackForALPN"
| "processFallback ((k, v) # rest) fallbackForALPN =
     (case Atoi (fb_ServerPort v) of (fallbackPort, ok) \<Rightarrow>
        if \<not> ok then Inl (''unable to parse fallbackForALPN server port error: '' @ fb_ServerPort v)
        else processFallback rest (sm_store k \<lparr>vo_Server = fb_Server v, vo_ServerPort = u16 fallbackPort\<rparr> fallbackForALPN))"

definition trojan_fallback :: "fallback_config_sing \<Rightarrow> server_options option" where
  "trojan_fallback f =
     (case Atoi (fb_ServerPort (fs_FallBack f)) of (port, ok) \<Rightarrow>
        if ok then Some \<lparr>vo_Server = fb_Server (fs_FallBack f), vo_ServerPort = u16 port\<rparr> else None)"

definition trojan_alpn :: "fallback_config_sing \<Rightarrow> (string, server_options) gomap option" where
  "trojan_alpn f = (case processFallback (fs_FallBackForALPN f) [] of Inl _ \<Rightarrow> None | Inr m \<Rightarrow> Some m)"

definition ss_password_length :: "string \<Rightarrow> nat" where
  "ss_password_length cipher =
     (if cipher = ''2022-blake3-aes-128-gcm'' then 16
      else if cipher = ''2022-blake3-aes-256-gcm'' \<or> cipher = ''2022-blake3-chacha20-poly1305'' then 32 else 16)"

definition sing_shadowsocks :: "sing_env \<Rightarrow> sing_listen \<Rightarrow> multiplex_config option \<Rightarrow> shadowsocks_node \<Rightarrow> sing_options_of" where
  "sing_shadowsocks sx listen mux n =
     (let p = sx_Rand sx (ss_password_length (ss_Cipher n)) in
      if Contains (ss_Cipher n) ''2022''
      then ShadowsocksInbound listen (ss_Cipher n) (ss_ServerKey n) [StdEncoding p] mux
      else ShadowsocksInbound listen (ss_Cipher n) '''' [p] mux)"

definition hysteria2_obfs :: "hysteria2_node \<Rightarrow> (string \<times> string) option" where
  "hysteria2_obfs n =
     (if h2_ObfsType n \<noteq> '''' \<and> h2_ObfsPassword n \<noteq> '''' then Some (h2_ObfsType n, h2_ObfsPassword n)
      else if h2_ObfsType n \<noteq> '''' then Some (''salamander'', h2_ObfsType n)
      else None)"

definition padding_scheme :: "sing_env \<Rightarrow> anytls_node \<Rightarrow> string list" where
  "padding_scheme sx n =
     (if at_PaddingScheme n = [] then [] else (case sx_Strings sx (at_PaddingScheme n) of Some arr \<Rightarrow> arr | None \<Rightarrow> []))"

text \<open>The options for the type of the node; a type that is not known has none.\<close>

definition protocol_options ::
    "sing_env \<Rightarrow> node_info \<Rightarrow> sing_options \<Rightarrow> (string \<times> string) list \<Rightarrow> sing_listen \<Rightarrow> sing_tls \<Rightarrow>
     (string + sing_options_of option) option" where
  "protocol_options sx info so naiveUsers listen tls =
     (let t = ni_Type info; mux = so_Multiplex so in
      if t = ''vmess'' \<or> t = ''vless'' then
        (case ni_VAllss info of
           None \<Rightarrow> panic
         | Some n \<Rightarrow> map_option (map_sum id (\<lambda>tr. Some ((if t = ''vless'' then VLESSInbound else VMessInbound) listen tls tr mux)))
             (vallss_transport sx n))
      else if t = ''shadowsocks'' then map_option (\<lambda>n. Inr (Some (sing_shadowsocks sx listen mux n))) (ni_Shadowsocks info)
      else if t = ''trojan'' then
        (case ni_Trojan info of
           None \<Rightarrow> panic
         | Some n \<Rightarrow> Some (map_sum id (\<lambda>tr. Some (TrojanInbound listen tls tr mux
             (Option.bind (so_FallBackConfigs so) trojan_fallback) (Option.bind (so_FallBackConfigs so) trojan_alpn)))
             (trojan_transport sx n)))
      else if t = ''tuic'' then
        map_option (\<lambda>n. Inr (Some (TUICInbound listen (tu_CongestionControl n) (tu_ZeroRTTHandshake n)
          (tls\<lparr>gt_ALPN := gt_ALPN tls @ [''h3'']\<rparr>)))) (ni_Tuic info)
      else if t = ''anytls'' then map_option (\<lambda>n. Inr (Some (AnyTLSInbound listen (padding_scheme sx n) tls))) (ni_AnyTLS info)
      else if t = ''naive'' then
        (case ni_Naive info of
           None \<Rightarrow> Some (Inl ''missing naive node config'')
         | Some n \<Rightarrow>
             if naiveUsers = [] then Some (Inl ''naive inbound requires at least one user'')
             else Some (Inr (Some (NaiveInbound listen naiveUsers (nv_Network n) tls))))
      else if t = ''hysteria'' then
        map_option (\<lambda>n. Inr (Some (HysteriaInbound listen (hy_UpMbps n) (hy_DownMbps n) (hy_Obfs n) tls))) (ni_Hysteria info)
      else if t = ''hysteria2'' then
        map_option (\<lambda>n. Inr (Some (Hysteria2Inbound listen (h2_UpMbps n) (h2_DownMbps n) (h2_Ignore_Client_Bandwidth n)
          (hysteria2_obfs n) tls))) (ni_Hysteria2 info)
      else Some (Inr None))"

definition known_types :: "string list" where
  "known_types = [''vmess'', ''vless'', ''shadowsocks'', ''trojan'', ''tuic'', ''anytls'', ''naive'', ''hysteria'', ''hysteria2'']"

definition getInboundOptions ::
    "sing_env \<Rightarrow> string \<Rightarrow> node_info \<Rightarrow> options \<Rightarrow> (string \<times> string) list \<Rightarrow> (string + sing_inbound) option" where
  "getInboundOptions sx tag info c naiveUsers =
     (case sx_ParseAddr sx (op_ListenIP c) of
        None \<Rightarrow> Some (Inl ''the listen ip not vail'')
      | Some addr \<Rightarrow>
          (case (op_SingOptions c, ni_Common info) of
             (Some so, Some cn) \<Rightarrow>
               (case sing_tls_of sx info c of
                  None \<Rightarrow> panic
                | Some (Inl err) \<Rightarrow> Some (Inl err)
                | Some (Inr tls) \<Rightarrow>
                    (case protocol_options sx info so naiveUsers (sing_listen_of addr info so cn) tls of
                       None \<Rightarrow> panic
                     | Some (Inl err) \<Rightarrow> Some (Inl err)
                     | Some (Inr opts) \<Rightarrow> Some (Inr
                         \<lparr>gi_Type = (if ni_Type info \<in> set known_types then ni_Type info else ''''), gi_Tag = tag, gi_Options = opts\<rparr>)))
           | _ \<Rightarrow> panic))"

end
