(* ===== verification/Sing_Core.thy ===== *)
theory Sing_Core
  imports Sing_Options Traffic_Counter Limiter
begin

text \<open>
  The sing-box core: \<^verbatim>\<open>core/sing/sing.go\<close>, \<^verbatim>\<open>node.go\<close> (adding and deleting nodes), \<^verbatim>\<open>naive.go\<close>, \<^verbatim>\<open>user.go\<close> and the
  connection hooks of \<^verbatim>\<open>hook.go\<close>. The box with its inbounds is a state of type \<open>'m\<close> and a record of functions; an
  inbound has a type, which a type assertion of the code reads.
\<close>

section \<open>The state\<close>

text \<open>The users given to an inbound of each type: names, keys and, for some types, numbers.\<close>

datatype sing_users =
    VLESSUsers "(string \<times> string \<times> string) list"
  | VMessUsers "(string \<times> string) list"
  | ShadowsocksUsers "(string \<times> string) list"
  | TrojanUsers "(string \<times> string) list"
  | TUICUsers "(string \<times> string \<times> string) list" "int list"
  | AnyTLSUsers "(string \<times> string) list" "int list"
  | HysteriaUsers "(string \<times> string) list"
  | Hysteria2Users "(string \<times> string) list" "int list"

record 'm sing_box =
  sb_Get :: "'m \<Rightarrow> string \<Rightarrow> string option"
  sb_Create :: "sing_inbound \<Rightarrow> 'm \<Rightarrow> string option \<times> 'm"
  sb_Remove :: "string \<Rightarrow> 'm \<Rightarrow> string option \<times> 'm"
  sb_AddUsers :: "string \<Rightarrow> sing_users \<Rightarrow> 'm \<Rightarrow> string option \<times> 'm"
  sb_DelUsers :: "string \<Rightarrow> string list \<Rightarrow> 'm \<Rightarrow> string option \<times> 'm"
  sb_Start :: "'m \<Rightarrow> string option \<times> 'm"
  sb_Close :: "'m \<Rightarrow> string option \<times> 'm"

text \<open>An inbound of naive is made anew for each change of its users, so the core keeps what it is made from.\<close>

record naive_state =
  ns_info :: node_info
  ns_config :: options
  ns_users :: "(string, user_info) gomap"

record 'm sing =
  sg_box :: 'm
  sg_counter :: "(string, traffic_counter) gomap"
  sg_naive :: "(string, naive_state) gomap"

section \<open>Nodes\<close>

definition create_inbound :: "'m sing_box \<Rightarrow> sing_inbound \<Rightarrow> 'm sing \<Rightarrow> string option \<times> 'm sing" where
  "create_inbound sb i s =
     (case sb_Create sb i (sg_box s) of (err, m) \<Rightarrow> (map_option (\<lambda>e. ''add inbound error: '' @ e) err, s\<lparr>sg_box := m\<rparr>))"

definition remove_inbound :: "'m sing_box \<Rightarrow> string \<Rightarrow> 'm sing \<Rightarrow> string option \<times> 'm sing" where
  "remove_inbound sb tag s =
     (case sb_Remove sb tag (sg_box s) of (err, m) \<Rightarrow> (map_option (\<lambda>e. ''delete inbound error: '' @ e) err, s\<lparr>sg_box := m\<rparr>))"

definition addNaiveNode :: "string \<Rightarrow> node_info \<Rightarrow> options \<Rightarrow> 'm sing \<Rightarrow> 'm sing" where
  "addNaiveNode tag info config s =
     s\<lparr>sg_naive := sm_store tag \<lparr>ns_info = info, ns_config = config, ns_users = []\<rparr> (sg_naive s)\<rparr>"

definition hasNaiveNode :: "string \<Rightarrow> 'm sing \<Rightarrow> bool" where
  "hasNaiveNode tag s = (sm_load (sg_naive s) tag \<noteq> None)"

definition deleteNaiveNode :: "string \<Rightarrow> 'm sing \<Rightarrow> 'm sing" where
  "deleteNaiveNode tag s = s\<lparr>sg_naive := sm_delete tag (sg_naive s)\<rparr>"

definition sing_AddNode ::
    "sing_env \<Rightarrow> 'm sing_box \<Rightarrow> string \<Rightarrow> node_info \<Rightarrow> options \<Rightarrow> 'm sing \<Rightarrow> (string option \<times> 'm sing) option" where
  "sing_AddNode sx sb tag info config s =
     (if ni_Type info = ''naive'' then Some (None, addNaiveNode tag info config s)
      else (case getInboundOptions sx tag info config [] of
          None \<Rightarrow> panic
        | Some (Inl err) \<Rightarrow> Some (Some err, s)
        | Some (Inr inboundOptions) \<Rightarrow> Some (create_inbound sb inboundOptions s)))"

definition sing_DelNode :: "'m sing_box \<Rightarrow> string \<Rightarrow> 'm sing \<Rightarrow> (string option \<times> 'm sing) option" where
  "sing_DelNode sb tag s =
     (if hasNaiveNode tag s then
        (let s = deleteNaiveNode tag s in
         if sb_Get sb (sg_box s) tag = None then Some (None, s) else Some (remove_inbound sb tag s))
      else Some (remove_inbound sb tag s))"

section \<open>The users of naive\<close>

definition buildNaiveAuthUsers :: "(string, user_info) gomap \<Rightarrow> (string \<times> string) list" where
  "buildNaiveAuthUsers users = map (\<lambda>uuid. (uuid, uuid)) (sort (sm_keys users))"

text \<open>Without users there is no inbound; with users it is built first, so that an error leaves the old one.\<close>

definition applyNaiveInboundLocked ::
    "sing_env \<Rightarrow> 'm sing_box \<Rightarrow> string \<Rightarrow> naive_state \<Rightarrow> 'm sing \<Rightarrow> (string option \<times> 'm sing) option" where
  "applyNaiveInboundLocked sx sb tag state s =
     (if ns_users state = [] then
        (if sb_Get sb (sg_box s) tag = None then Some (None, s) else Some (remove_inbound sb tag s))
      else (case getInboundOptions sx tag (ns_info state) (ns_config state) (buildNaiveAuthUsers (ns_users state)) of
          None \<Rightarrow> panic
        | Some (Inl err) \<Rightarrow> Some (Some err, s)
        | Some (Inr inboundOptions) \<Rightarrow>
            (case (if sb_Get sb (sg_box s) tag = None then (None, s) else remove_inbound sb tag s) of
               (Some err, s) \<Rightarrow> Some (Some err, s)
             | (None, s) \<Rightarrow> Some (create_inbound sb inboundOptions s))))"

definition no_naive_state :: string where "no_naive_state = ''the naive inbound state not found''"

text \<open>The state of the node is a pointer: its users are changed even when the inbound can not be made.\<close>

definition addNaiveUsers ::
    "sing_env \<Rightarrow> 'm sing_box \<Rightarrow> add_users_params \<Rightarrow> 'm sing \<Rightarrow> ((int \<times> string option) \<times> 'm sing) option" where
  "addNaiveUsers sx sb p s =
     (case sm_load (sg_naive s) (au_Tag p) of
        None \<Rightarrow> Some ((0, Some no_naive_state), s)
      | Some state0 \<Rightarrow>
          (let state = state0\<lparr>ns_info := au_NodeInfo p,
                 ns_users := fold (\<lambda>u. sm_store (ui_Uuid u) u) (au_Users p) (ns_users state0)\<rparr>;
               s = s\<lparr>sg_naive := sm_store (au_Tag p) state (sg_naive s)\<rparr>
           in map_option (\<lambda>(err, s). ((if err = None then int (length (au_Users p)) else 0, err), s))
                (applyNaiveInboundLocked sx sb (au_Tag p) state s)))"

definition delNaiveUsers ::
    "sing_env \<Rightarrow> 'm sing_box \<Rightarrow> user_info list \<Rightarrow> string \<Rightarrow> 'm sing \<Rightarrow> (string option \<times> 'm sing) option" where
  "delNaiveUsers sx sb users tag s =
     (case sm_load (sg_naive s) tag of
        None \<Rightarrow> Some (Some no_naive_state, s)
      | Some state0 \<Rightarrow>
          (let state = state0\<lparr>ns_users := fold (\<lambda>u. sm_delete (ui_Uuid u)) users (ns_users state0)\<rparr>
           in applyNaiveInboundLocked sx sb tag state (s\<lparr>sg_naive := sm_store tag state (sg_naive s)\<rparr>)))"

section \<open>Users\<close>

text \<open>The password of a user of shadowsocks; cutting a uuid that is too short panics.\<close>

definition sing_ss_password :: "string \<Rightarrow> string \<Rightarrow> string option" where
  "sing_ss_password cipher uuid =
     (if cipher = ''2022-blake3-aes-128-gcm'' then
        (if length uuid < 16 then panic else Some (StdEncoding (take 16 uuid)))
      else if cipher = ''2022-blake3-aes-256-gcm'' then
        (if length uuid < 32 then panic else Some (StdEncoding (take 32 uuid)))
      else Some uuid)"

fun sing_ss_users :: "string \<Rightarrow> user_info list \<Rightarrow> (string \<times> string) list option" where
  "sing_ss_users cipher [] = Some []"
| "sing_ss_users cipher (u # us) =
     do { p \<leftarrow> sing_ss_password cipher (ui_Uuid u); ps \<leftarrow> sing_ss_users cipher us; Some ((ui_Uuid u, p) # ps) }"

text \<open>
  The users for the type of the node, and no users for a type that is not known. The part of the node is only read
  for a user, so a nil part panics only when there are users. The numbers of the users of anytls stay zero.
\<close>

definition sing_users_of :: "node_info \<Rightarrow> user_info list \<Rightarrow> sing_users option option" where
  "sing_users_of info users =
     (let t = ni_Type info; ids = map ui_Uuid users; pairs = map (\<lambda>i. (i, i)) ids in
      if t = ''vless'' then
        (case ni_VAllss info of
           None \<Rightarrow> if users = [] then Some (Some (VLESSUsers [])) else panic
         | Some v \<Rightarrow> Some (Some (VLESSUsers (map (\<lambda>i. (i, va_Flow v, i)) ids))))
      else if t = ''vmess'' then Some (Some (VMessUsers pairs))
      else if t = ''shadowsocks'' then
        (case ni_Shadowsocks info of
           None \<Rightarrow> if users = [] then Some (Some (ShadowsocksUsers [])) else panic
         | Some n \<Rightarrow> map_option (\<lambda>us. Some (ShadowsocksUsers us)) (sing_ss_users (ss_Cipher n) users))
      else if t = ''trojan'' then Some (Some (TrojanUsers pairs))
      else if t = ''tuic'' then Some (Some (TUICUsers (map (\<lambda>i. (i, i, i)) ids) (map ui_Id users)))
      else if t = ''anytls'' then Some (Some (AnyTLSUsers pairs (replicate (length users) 0)))
      else if t = ''hysteria'' then Some (Some (HysteriaUsers pairs))
      else if t = ''hysteria2'' then Some (Some (Hysteria2Users pairs (map ui_Id users)))
      else Some None)"

definition sing_AddUsers ::
    "sing_env \<Rightarrow> 'm sing_box \<Rightarrow> add_users_params \<Rightarrow> 'm sing \<Rightarrow> ((int \<times> string option) \<times> 'm sing) option" where
  "sing_AddUsers sx sb p s =
     (if ni_Type (au_NodeInfo p) = ''naive'' then addNaiveUsers sx sb p s
      else (case sb_Get sb (sg_box s) (au_Tag p) of
          None \<Rightarrow> Some ((0, Some ''the inbound not found''), s)
        | Some t \<Rightarrow>
            (case sing_users_of (au_NodeInfo p) (au_Users p) of
               None \<Rightarrow> panic
             | Some None \<Rightarrow> Some ((int (length (au_Users p)), None), s)
             | Some (Some us) \<Rightarrow>
                 if t \<noteq> ni_Type (au_NodeInfo p) then panic
                 else (case sb_AddUsers sb (au_Tag p) us (sg_box s) of
                     (err, m) \<Rightarrow> Some ((if err = None then int (length (au_Users p)) else 0, err), s\<lparr>sg_box := m\<rparr>)))))"

text \<open>For a type that is not known the deleter stays nil.\<close>

definition sing_DelUsers ::
    "sing_env \<Rightarrow> 'm sing_box \<Rightarrow> user_info list \<Rightarrow> string \<Rightarrow> node_info \<Rightarrow> 'm sing \<Rightarrow> (string option \<times> 'm sing) option" where
  "sing_DelUsers sx sb users tag info s =
     (if ni_Type info = ''naive'' then delNaiveUsers sx sb users tag s
      else (case sb_Get sb (sg_box s) tag of
          None \<Rightarrow> Some (Some ''the inbound not found'', s)
        | Some t \<Rightarrow>
            if ni_Type info \<notin> set known_types \<or> t \<noteq> ni_Type info then panic
            else (case sb_DelUsers sb tag (map ui_Uuid users) (sg_box s) of (err, m) \<Rightarrow> Some (err, s\<lparr>sg_box := m\<rparr>))))"

definition sing_GetUserTraffic :: "string \<Rightarrow> string \<Rightarrow> bool \<Rightarrow> 'm sing \<Rightarrow> ((int \<times> int) \<times> 'm sing) option" where
  "sing_GetUserTraffic tag uuid reset s =
     (case sm_load (sg_counter s) tag of
        None \<Rightarrow> Some ((0, 0), s)
      | Some c \<Rightarrow> Some ((GetUpCount uuid c, GetDownCount uuid c),
          if reset then s\<lparr>sg_counter := sm_store tag (Reset uuid c) (sg_counter s)\<rparr> else s))"

section \<open>The core\<close>

definition sing_Start :: "'m sing_box \<Rightarrow> 'm sing \<Rightarrow> (string option \<times> 'm sing) option" where
  "sing_Start sb s = (case sb_Start sb (sg_box s) of (err, m) \<Rightarrow> Some (err, s\<lparr>sg_box := m\<rparr>))"

definition sing_Close :: "'m sing_box \<Rightarrow> 'm sing \<Rightarrow> (string list \<times> 'm sing) option" where
  "sing_Close sb s =
     (case sb_Close sb (sg_box s) of (err, m) \<Rightarrow> Some (case err of None \<Rightarrow> [] | Some e \<Rightarrow> [e], s\<lparr>sg_box := m\<rparr>))"

definition sing_Protocols :: "'m sing \<Rightarrow> string list" where
  "sing_Protocols s =
     [''vmess'', ''vless'', ''shadowsocks'', ''trojan'', ''tuic'', ''anytls'', ''naive'', ''hysteria'', ''hysteria2'']"

definition sing_Type :: "'m sing \<Rightarrow> string" where
  "sing_Type s = ''sing''"

definition sing_ops :: "sing_env \<Rightarrow> 'm sing_box \<Rightarrow> 'm sing core_ops" where
  "sing_ops sx sb =
     \<lparr>co_Start = sing_Start sb, co_Close = sing_Close sb,
      co_AddNode = (\<lambda>tag info config s. map_option (\<lambda>(err, s). ((err, config), s)) (sing_AddNode sx sb tag info config s)),
      co_DelNode = sing_DelNode sb, co_AddUsers = sing_AddUsers sx sb, co_GetUserTraffic = sing_GetUserTraffic,
      co_DelUsers = sing_DelUsers sx sb, co_Protocols = sing_Protocols, co_Type = sing_Type\<rparr>"

text \<open>The configuration of the box: the decoded original options, of an abstract type, with log and time settings.\<close>

record 'o box_options =
  bx_Original :: 'o
  bx_Log :: sing_log_config
  bx_NTP :: sing_ntp_config

definition sing_New ::
    "'o \<Rightarrow> (string \<Rightarrow> string + 'o) \<Rightarrow> ('o box_options \<Rightarrow> string + 'm) \<Rightarrow> core_config \<Rightarrow> host \<Rightarrow> (string + 'm sing \<times> host) option" where
  "sing_New zero decode box_New c h =
     do { sc \<leftarrow> cf_SingConfig c;
          Some (case (if sc_OriginalPath sc = [] then Inr zero
              else (case ReadFile (sc_OriginalPath sc) h of
                  Inl err \<Rightarrow> Inl (''read original config error: '' @ err)
                | Inr data \<Rightarrow> (case decode data of
                      Inl err \<Rightarrow> Inl (''unmarshal original config error: '' @ err)
                    | Inr options \<Rightarrow> Inr options))) of
            Inl err \<Rightarrow> Inl err
          | Inr options \<Rightarrow>
              (case box_New \<lparr>bx_Original = options, bx_Log = sc_LogConfig sc, bx_NTP = sc_NtpConfig sc\<rparr> of
                 Inl err \<Rightarrow> Inl err
               | Inr m \<Rightarrow> Inr (\<lparr>sg_box = m, sg_counter = [], sg_naive = []\<rparr>, Setenv ''SING_DNS_PATH'' '''' h))) }"

section \<open>The hooks\<close>

record inbound_context =
  ic_Inbound :: string
  ic_User :: string
  ic_SourceIP :: string
  ic_Destination :: string
  ic_Network :: string

text \<open>
  What becomes of a connection: it is passed on as it is, it is closed, or it is wrapped by a rate limit, if there is one,
  and by the counter of its user.
\<close>

datatype hooked = PassedOn | ClosedConn | Wrapped "bucket option" nat

definition load_counter :: "string \<Rightarrow> (string, traffic_counter) gomap \<Rightarrow> traffic_counter" where
  "load_counter tag cs = (case sm_load cs tag of Some t \<Rightarrow> t | None \<Rightarrow> NewTrafficCounter)"

definition rejected_by_rule :: "('re \<Rightarrow> string \<Rightarrow> bool) \<Rightarrow> 're limiter \<Rightarrow> inbound_context \<Rightarrow> bool" where
  "rejected_by_rule Match l m =
     (CheckDomainRule Match (DomainRules l) (ic_Destination m) \<or>
      ic_Network m \<noteq> '''' \<and> CheckProtocolRule (ProtocolRules l) (ic_Network m))"

definition hook_connection ::
    "('re \<Rightarrow> string \<Rightarrow> bool) \<Rightarrow> int \<Rightarrow> bool \<Rightarrow> inbound_context \<Rightarrow> 're registry \<Rightarrow> (string, traffic_counter) gomap \<Rightarrow>
     (hooked \<times> 're registry \<times> (string, traffic_counter) gomap) option" where
  "hook_connection Match now tcp m r counters =
     (case GetLimiter r (ic_Inbound m) of
        Inl _ \<Rightarrow> Some (PassedOn, r, counters)
      | Inr a \<Rightarrow>
          (case CheckLimit (rg_heap r ! a) now (UserTag (ic_Inbound m) (ic_User m)) (ic_SourceIP m) tcp tcp of
             None \<Rightarrow> panic
           | Some ((b, rejected), l) \<Rightarrow>
               (let r = heap_update a (\<lambda>_. l) r in
                if rejected \<or> rejected_by_rule Match l m then Some (ClosedConn, r, counters)
                else (case GetCounter (ic_User m) (load_counter (ic_Inbound m) counters) of
                    (addr, t) \<Rightarrow> Some (Wrapped (if tcp then b else None) addr, r, sm_store (ic_Inbound m) t counters)))))"

definition RoutedConnection ::
    "('re \<Rightarrow> string \<Rightarrow> bool) \<Rightarrow> int \<Rightarrow> inbound_context \<Rightarrow> 're registry \<Rightarrow> (string, traffic_counter) gomap \<Rightarrow>
     (hooked \<times> 're registry \<times> (string, traffic_counter) gomap) option" where
  "RoutedConnection Match now m r counters = hook_connection Match now True m r counters"

text \<open>Packets are not slowed down.\<close>

definition RoutedPacketConnection ::
    "('re \<Rightarrow> string \<Rightarrow> bool) \<Rightarrow> int \<Rightarrow> inbound_context \<Rightarrow> 're registry \<Rightarrow> (string, traffic_counter) gomap \<Rightarrow>
     (hooked \<times> 're registry \<times> (string, traffic_counter) gomap) option" where
  "RoutedPacketConnection Match now m r counters = hook_connection Match now False m r counters"

end
