(* ===== verification/Sing_Laws.thy ===== *)
theory Sing_Laws
  imports Sing_Core Selector_Laws Conn_Ledger Limiter_Check Traffic_Report
begin

text \<open>
  What the sing-box core guarantees: it keeps the contract of a core, the inbound of a naive node follows its users, its
  traffic is metered, and its hooks let in a bounded number of connections for good.
\<close>

section \<open>The contract of a core\<close>

text \<open>
  What the documentation of sing-box says of its inbounds, which are told by an observation: creating an inbound puts it
  under its tag, in place of one that is there; removing one makes it go; nothing else touches the inbounds.
\<close>

definition box_laws :: "'m sing_box \<Rightarrow> ('m \<Rightarrow> string \<Rightarrow> sing_inbound option) \<Rightarrow> bool" where
  "box_laws sb shown \<longleftrightarrow>
     (\<forall>m t. sb_Get sb m t = map_option gi_Type (shown m t)) \<and>
     (\<forall>i m e m' t. sb_Create sb i m = (e, m') \<longrightarrow> t \<noteq> gi_Tag i \<longrightarrow> shown m' t = shown m t) \<and>
     (\<forall>i m m'. sb_Create sb i m = (None, m') \<longrightarrow> shown m' (gi_Tag i) = Some i) \<and>
     (\<forall>tag m e m' t. sb_Remove sb tag m = (e, m') \<longrightarrow> t \<noteq> tag \<longrightarrow> shown m' t = shown m t) \<and>
     (\<forall>tag m m'. sb_Remove sb tag m = (None, m') \<longrightarrow> shown m' tag = None) \<and>
     (\<forall>tag us m e m'. sb_AddUsers sb tag us m = (e, m') \<longrightarrow> shown m' = shown m) \<and>
     (\<forall>tag us m e m'. sb_DelUsers sb tag us m = (e, m') \<longrightarrow> shown m' = shown m) \<and>
     (\<forall>m e m'. sb_Start sb m = (e, m') \<longrightarrow> shown m' = shown m)"

definition sing_serves :: "('m \<Rightarrow> string \<Rightarrow> sing_inbound option) \<Rightarrow> 'm sing \<Rightarrow> string \<Rightarrow> bool" where
  "sing_serves shown s tag = (hasNaiveNode tag s \<or> shown (sg_box s) tag \<noteq> None)"

lemma box_law:
  assumes "box_laws sb shown"
  shows "sb_Get sb m t = map_option gi_Type (shown m t)"
    and "sb_Create sb i m = (e, m') \<Longrightarrow> t \<noteq> gi_Tag i \<Longrightarrow> shown m' t = shown m t"
    and "sb_Create sb i m = (None, m') \<Longrightarrow> shown m' (gi_Tag i) = Some i"
    and "sb_Remove sb tag m = (e, m') \<Longrightarrow> t \<noteq> tag \<Longrightarrow> shown m' t = shown m t"
    and "sb_Remove sb tag m = (None, m') \<Longrightarrow> shown m' tag = None"
    and "sb_AddUsers sb tag us m = (e, m') \<Longrightarrow> shown m' = shown m"
    and "sb_DelUsers sb tag uuids m = (e, m') \<Longrightarrow> shown m' = shown m"
    and "sb_Start sb m = (e, m') \<Longrightarrow> shown m' = shown m"
  using assms unfolding box_laws_def by metis+

lemma create_inbound_box:
  assumes "box_laws sb shown" "create_inbound sb i s = (e, s')"
  shows "sg_naive s' = sg_naive s \<and> sg_counter s' = sg_counter s \<and> (e = None \<longrightarrow> shown (sg_box s') (gi_Tag i) = Some i) \<and>
    (\<forall>t. t \<noteq> gi_Tag i \<longrightarrow> shown (sg_box s') t = shown (sg_box s) t)"
  using assms(2)
  by (auto simp: create_inbound_def split: prod.splits dest: box_law(2) [OF assms(1)] box_law(3) [OF assms(1)])

lemma remove_inbound_box:
  assumes "box_laws sb shown" "remove_inbound sb tag s = (e, s')"
  shows "sg_naive s' = sg_naive s \<and> sg_counter s' = sg_counter s \<and> (e = None \<longrightarrow> shown (sg_box s') tag = None) \<and>
    (\<forall>t. t \<noteq> tag \<longrightarrow> shown (sg_box s') t = shown (sg_box s) t)"
  using assms(2)
  by (auto simp: remove_inbound_def split: prod.splits dest: box_law(4) [OF assms(1)] box_law(5) [OF assms(1)])

lemma getInboundOptions_tag: "getInboundOptions sx tag info c us = Some (Inr i) \<Longrightarrow> gi_Tag i = tag"
  by (auto simp: getInboundOptions_def split: option.splits sum.splits)

text \<open>What making the inbound of a naive node does to the box.\<close>

lemma applyNaive_box:
  assumes laws: "box_laws sb shown" and run: "applyNaiveInboundLocked sx sb tag state s = Some (e, s')"
  shows "sg_naive s' = sg_naive s \<and> sg_counter s' = sg_counter s \<and>
    (\<forall>t. t \<noteq> tag \<longrightarrow> shown (sg_box s') t = shown (sg_box s) t) \<and>
    (e = None \<longrightarrow> (if ns_users state = [] then shown (sg_box s') tag = None
       else \<exists>i. shown (sg_box s') tag = Some i \<and>
         getInboundOptions sx tag (ns_info state) (ns_config state) (buildNaiveAuthUsers (ns_users state)) = Some (Inr i)))"
proof (cases "ns_users state = []")
  case True
  show ?thesis
    using run remove_inbound_box [OF laws, of tag s] box_law(1) [OF laws]
    by (cases "remove_inbound sb tag s") (auto simp: applyNaiveInboundLocked_def True split: if_splits)
next
  case False
  show ?thesis
  proof (cases "\<exists>i s1. getInboundOptions sx tag (ns_info state) (ns_config state) (buildNaiveAuthUsers (ns_users state)) = Some (Inr i) \<and>
      (if sb_Get sb (sg_box s) tag = None then (None, s) else remove_inbound sb tag s) = (None, s1)")
    case True
    then obtain i s1 where i: "getInboundOptions sx tag (ns_info state) (ns_config state) (buildNaiveAuthUsers (ns_users state)) = Some (Inr i)"
      and s1: "(if sb_Get sb (sg_box s) tag = None then (None, s) else remove_inbound sb tag s) = (None, s1)" by blast
    have create: "create_inbound sb i s1 = (e, s')"
      using run False by (simp add: applyNaiveInboundLocked_def i s1)
    have "sg_naive s1 = sg_naive s \<and> sg_counter s1 = sg_counter s \<and> (\<forall>t. t \<noteq> tag \<longrightarrow> shown (sg_box s1) t = shown (sg_box s) t)"
      using s1 remove_inbound_box [OF laws] by (auto split: if_splits)
    with create_inbound_box [OF laws create] getInboundOptions_tag [OF i] i False show ?thesis by auto
  next
    case no: False
    obtain r s1 where r: "(if sb_Get sb (sg_box s) tag = None then (None, s) else remove_inbound sb tag s) = (r, s1)" by force
    have "e \<noteq> None \<and> (s' = s \<or> s' = s1)"
      using run False no r by (auto simp: applyNaiveInboundLocked_def split: option.splits sum.splits)
    moreover have "sg_naive s1 = sg_naive s \<and> sg_counter s1 = sg_counter s \<and> (\<forall>t. t \<noteq> tag \<longrightarrow> shown (sg_box s1) t = shown (sg_box s) t)"
      using r remove_inbound_box [OF laws] by (auto split: if_splits)
    ultimately show ?thesis by auto
  qed
qed

lemma addNaiveUsers_run:
  assumes "addNaiveUsers sx sb p s = Some ((n, err), s')" "sm_load (sg_naive s) (au_Tag p) = Some st"
  obtains st' where "st' = st\<lparr>ns_info := au_NodeInfo p, ns_users := fold (\<lambda>u. sm_store (ui_Uuid u) u) (au_Users p) (ns_users st)\<rparr>"
    "applyNaiveInboundLocked sx sb (au_Tag p) st' (s\<lparr>sg_naive := sm_store (au_Tag p) st' (sg_naive s)\<rparr>) = Some (err, s')"
  using assms by (auto simp: addNaiveUsers_def Let_def)

lemma delNaiveUsers_run:
  assumes "delNaiveUsers sx sb us tag s = Some (err, s')" "sm_load (sg_naive s) tag = Some st"
  obtains st' where "st' = st\<lparr>ns_users := fold (\<lambda>u. sm_delete (ui_Uuid u)) us (ns_users st)\<rparr>"
    "applyNaiveInboundLocked sx sb tag st' (s\<lparr>sg_naive := sm_store tag st' (sg_naive s)\<rparr>) = Some (err, s')"
  using assms by (auto simp: delNaiveUsers_def Let_def)

text \<open>A tag with a naive state is served whatever its inbound is.\<close>

lemma stored_naive_serves:
  assumes laws: "box_laws sb shown" and st: "sm_load (sg_naive s) tag = Some st"
    and run: "applyNaiveInboundLocked sx sb tag st' (s\<lparr>sg_naive := sm_store tag st' (sg_naive s)\<rparr>) = Some (err, s')"
  shows "sing_serves shown s' = sing_serves shown s"
proof
  fix t
  note box = applyNaive_box [OF laws run]
  show "sing_serves shown s' t = sing_serves shown s t"
    using box st by (cases "t = tag") (auto simp: sing_serves_def hasNaiveNode_def)
qed

lemma sing_AddUsers_serves:
  assumes "box_laws sb shown" "sing_AddUsers sx sb p s = Some (r, s')"
  shows "sing_serves shown s' = sing_serves shown s"
proof (cases "ni_Type (au_NodeInfo p) = ''naive''")
  case True
  obtain n err where r: "r = (n, err)" by force
  show ?thesis
  proof (cases "sm_load (sg_naive s) (au_Tag p)")
    case None
    with True assms(2) show ?thesis by (simp add: sing_AddUsers_def addNaiveUsers_def)
  next
    case (Some st)
    have "addNaiveUsers sx sb p s = Some ((n, err), s')" using True assms(2) r by (simp add: sing_AddUsers_def)
    then show ?thesis using Some by (rule addNaiveUsers_run) (rule stored_naive_serves [OF assms(1) Some])
  qed
next
  case False
  with assms(2) show ?thesis
    by (auto simp: sing_AddUsers_def sing_serves_def hasNaiveNode_def fun_eq_iff split: option.splits if_splits prod.splits
      dest: box_law(6) [OF assms(1)])
qed

lemma sing_DelUsers_serves:
  assumes "box_laws sb shown" "sing_DelUsers sx sb us tag info s = Some (err, s')"
  shows "sing_serves shown s' = sing_serves shown s"
proof (cases "ni_Type info = ''naive''")
  case True
  show ?thesis
  proof (cases "sm_load (sg_naive s) tag")
    case None
    with True assms(2) show ?thesis by (simp add: sing_DelUsers_def delNaiveUsers_def)
  next
    case (Some st)
    have "delNaiveUsers sx sb us tag s = Some (err, s')" using True assms(2) by (simp add: sing_DelUsers_def)
    then show ?thesis using Some by (rule delNaiveUsers_run) (rule stored_naive_serves [OF assms(1) Some])
  qed
next
  case False
  with assms(2) show ?thesis
    by (auto simp: sing_DelUsers_def sing_serves_def hasNaiveNode_def fun_eq_iff split: option.splits if_splits prod.splits
      dest: box_law(7) [OF assms(1)])
qed

lemma sing_AddNode_serves:
  assumes "box_laws sb shown" "sing_AddNode sx sb tag info opt s = Some (err, s')"
  shows "(err = None \<longrightarrow> sing_serves shown s' tag) \<and> (\<forall>t. t \<noteq> tag \<longrightarrow> sing_serves shown s' t = sing_serves shown s t)"
  using assms(2)
  by (auto simp: sing_AddNode_def addNaiveNode_def sing_serves_def hasNaiveNode_def split: if_splits option.splits sum.splits
    dest!: create_inbound_box [OF assms(1)] getInboundOptions_tag)

lemma sing_DelNode_serves:
  assumes "box_laws sb shown" "sing_DelNode sb tag s = Some (err, s')"
  shows "(err = None \<longrightarrow> \<not> sing_serves shown s' tag) \<and> (\<forall>t. t \<noteq> tag \<longrightarrow> sing_serves shown s' t = sing_serves shown s t)"
  using assms(2)
  by (auto simp: sing_DelNode_def deleteNaiveNode_def sing_serves_def hasNaiveNode_def Let_def box_law(1) [OF assms(1)]
    split: if_splits dest!: remove_inbound_box [OF assms(1)])

lemma sing_contract:
  assumes "box_laws sb shown"
  shows "core_contract (sing_ops sx sb) (sing_serves shown) (\<lambda>_. True)"
proof (unfold_locales, goal_cases)
  case (5 s tag uuid reset r s')
  then show ?case
    by (cases reset)
      (auto simp: sing_ops_def sing_GetUserTraffic_def sing_serves_def hasNaiveNode_def fun_eq_iff split: option.splits)
next
  case (6 s r s')
  then show ?case
    by (auto simp: sing_ops_def sing_Start_def sing_serves_def hasNaiveNode_def fun_eq_iff split: prod.splits
      dest: box_law(8) [OF assms])
qed (auto simp: sing_ops_def dest: sing_AddNode_serves [OF assms] sing_DelNode_serves [OF assms] sing_AddUsers_serves [OF assms]
  sing_DelUsers_serves [OF assms])

text \<open>C12: The sing-box core is a core, naive nodes included: on a box that keeps its documented laws, adding a node makes it
  served (a naive node as soon as its state is kept, before it has an inbound) and deleting it stops that, calls for one
  tag leave the other nodes alone, and the calls for users change no node.\<close>

theorem sing_is_core:
  assumes "box_laws sb shown"
  shows "core_contract (sing_ops sx sb) (sing_serves shown) (\<lambda>_. True) \<and>
    core_contract (selector_ops dc (sing_ops sx sb)) (sel_serves (sing_serves shown)) (sel_valid (\<lambda>_. True))"
  using sing_contract [OF assms] core_contract.selector_contract [OF sing_contract [OF assms]] by blast

text \<open>A box that is the map of its inbounds.\<close>

definition demo_box :: "(string, sing_inbound) gomap sing_box" where
  "demo_box = \<lparr>sb_Get = (\<lambda>m t. map_option gi_Type (sm_load m t)), sb_Create = (\<lambda>i m. (None, sm_store (gi_Tag i) i m)),
     sb_Remove = (\<lambda>tag m. (None, sm_delete tag m)), sb_AddUsers = (\<lambda>_ _ m. (None, m)), sb_DelUsers = (\<lambda>_ _ m. (None, m)),
     sb_Start = (\<lambda>m. (None, m)), sb_Close = (\<lambda>m. (None, m))\<rparr>"

lemma demo_box_laws: "box_laws demo_box sm_load"
  by (auto simp: box_laws_def demo_box_def)

lemma sing_is_core_witness:
  "\<forall>sx. core_contract (sing_ops sx demo_box) (sing_serves sm_load) (\<lambda>_. True)"
  using sing_is_core [OF demo_box_laws] by blast

section \<open>Naive nodes\<close>

text \<open>The inbound of a naive node fits its users: there is none without users, and it has exactly theirs otherwise.\<close>

definition naive_fits :: "('m \<Rightarrow> string \<Rightarrow> sing_inbound option) \<Rightarrow> 'm sing \<Rightarrow> string \<Rightarrow> bool" where
  "naive_fits shown s tag =
     (case sm_load (sg_naive s) tag of
        None \<Rightarrow> False
      | Some st \<Rightarrow>
          (case shown (sg_box s) tag of
             None \<Rightarrow> ns_users st = []
           | Some i \<Rightarrow> ns_users st \<noteq> [] \<and>
               (case gi_Options i of Some (NaiveInbound _ us _ _) \<Rightarrow> us = buildNaiveAuthUsers (ns_users st) | _ \<Rightarrow> False)))"

definition naive_uuids :: "'m sing \<Rightarrow> string \<Rightarrow> string set" where
  "naive_uuids s tag = (case sm_load (sg_naive s) tag of None \<Rightarrow> {} | Some st \<Rightarrow> set (sm_keys (ns_users st)))"

definition naive_typed :: "'m sing \<Rightarrow> string \<Rightarrow> bool" where
  "naive_typed s tag = (\<forall>st. sm_load (sg_naive s) tag = Some st \<longrightarrow> ni_Type (ns_info st) = ''naive'')"

lemma getInboundOptions_naive:
  assumes "getInboundOptions sx tag info c us = Some (Inr i)" "ni_Type info = ''naive''"
  shows "\<exists>l n t. gi_Options i = Some (NaiveInbound l us n t)"
  using assms by (auto simp: getInboundOptions_def protocol_options_def split: option.splits sum.splits if_splits)

lemma apply_fits:
  assumes laws: "box_laws sb shown" and "ni_Type (ns_info st) = ''naive''"
    and run: "applyNaiveInboundLocked sx sb tag st (s\<lparr>sg_naive := sm_store tag st (sg_naive s)\<rparr>) = Some (None, s')"
  shows "naive_fits shown s' tag"
proof -
  note box = applyNaive_box [OF laws run]
  then have st: "sm_load (sg_naive s') tag = Some st" by simp
  show ?thesis
  proof (cases "ns_users st = []")
    case True
    with box st show ?thesis by (simp add: naive_fits_def)
  next
    case False
    with box obtain i where i: "shown (sg_box s') tag = Some i"
        "getInboundOptions sx tag (ns_info st) (ns_config st) (buildNaiveAuthUsers (ns_users st)) = Some (Inr i)" by auto
    from getInboundOptions_naive [OF i(2) assms(2)] i(1) st False show ?thesis by (auto simp: naive_fits_def)
  qed
qed

lemma keys_fold_store: "set (sm_keys (fold (\<lambda>u. sm_store (ui_Uuid u) u) us m)) = ui_Uuid ` set us \<union> set (sm_keys m)"
  by (induction us arbitrary: m) (auto simp: sm.set_keys_store)

lemma keys_fold_delete: "set (sm_keys (fold (\<lambda>u. sm_delete (ui_Uuid u)) us m)) = set (sm_keys m) - ui_Uuid ` set us"
  by (induction us arbitrary: m) (auto simp: sm.set_keys_delete)

text \<open>C27: Every change of the users of a naive node is kept in its state, whether or not it can be carried out; when it is
  carried out, the inbound has exactly the users of the state, or is gone when there are none.\<close>

theorem naive_users:
  assumes "box_laws sb shown" "sm_load (sg_naive s) tag = Some st" "ni_Type (ns_info st) = ''naive''"
  shows "(\<forall>p n err s'. ni_Type (au_NodeInfo p) = ''naive'' \<and> au_Tag p = tag \<and> sing_AddUsers sx sb p s = Some ((n, err), s') \<longrightarrow>
       naive_uuids s' tag = naive_uuids s tag \<union> ui_Uuid ` set (au_Users p) \<and> (err = None \<longrightarrow> naive_fits shown s' tag)) \<and>
    (\<forall>us info err s'. ni_Type info = ''naive'' \<and> sing_DelUsers sx sb us tag info s = Some (err, s') \<longrightarrow>
       naive_uuids s' tag = naive_uuids s tag - ui_Uuid ` set us \<and> (err = None \<longrightarrow> naive_fits shown s' tag))"
proof (intro conjI allI impI)
  fix p n err s'
  assume a: "ni_Type (au_NodeInfo p) = ''naive'' \<and> au_Tag p = tag \<and> sing_AddUsers sx sb p s = Some ((n, err), s')"
  then have "addNaiveUsers sx sb p s = Some ((n, err), s')" "sm_load (sg_naive s) (au_Tag p) = Some st"
    using assms(2) by (auto simp: sing_AddUsers_def)
  then obtain st' where st': "st' = st\<lparr>ns_info := au_NodeInfo p, ns_users := fold (\<lambda>u. sm_store (ui_Uuid u) u) (au_Users p) (ns_users st)\<rparr>"
      "applyNaiveInboundLocked sx sb tag st' (s\<lparr>sg_naive := sm_store tag st' (sg_naive s)\<rparr>) = Some (err, s')"
    using a by (auto elim: addNaiveUsers_run)
  show "naive_uuids s' tag = naive_uuids s tag \<union> ui_Uuid ` set (au_Users p)"
    using applyNaive_box [OF assms(1) st'(2)] assms(2) by (auto simp: naive_uuids_def st'(1) keys_fold_store)
  show "naive_fits shown s' tag" if "err = None"
    using apply_fits [OF assms(1) _ st'(2) [unfolded that]] a by (simp add: st'(1))
next
  fix us info err s'
  assume a: "ni_Type info = ''naive'' \<and> sing_DelUsers sx sb us tag info s = Some (err, s')"
  then have "delNaiveUsers sx sb us tag s = Some (err, s')" by (auto simp: sing_DelUsers_def)
  then obtain st' where st': "st' = st\<lparr>ns_users := fold (\<lambda>u. sm_delete (ui_Uuid u)) us (ns_users st)\<rparr>"
      "applyNaiveInboundLocked sx sb tag st' (s\<lparr>sg_naive := sm_store tag st' (sg_naive s)\<rparr>) = Some (err, s')"
    using assms(2) by (rule delNaiveUsers_run)
  show "naive_uuids s' tag = naive_uuids s tag - ui_Uuid ` set us"
    using applyNaive_box [OF assms(1) st'(2)] assms(2) by (auto simp: naive_uuids_def st'(1) keys_fold_delete)
  show "naive_fits shown s' tag" if "err = None"
    using apply_fits [OF assms(1) _ st'(2) [unfolded that]] assms(3) by (simp add: st'(1))
qed

definition demo_sing_env :: sing_env where
  "demo_sing_env = \<lparr>sx_ParseAddr = Some, sx_Http = (\<lambda>_. Inl ''''), sx_HttpRequest = (\<lambda>_. Inl ''''), sx_Ws = (\<lambda>_. Inl ''''),
     sx_Grpc = (\<lambda>_. Inl ''''), sx_HttpUpgrade = (\<lambda>_. Inl ''''), sx_ParseURL = (\<lambda>_. Inl ''''), sx_ParseDuration = (\<lambda>_. 0),
     sx_Rand = (\<lambda>n. replicate n (CHR ''x'')), sx_Strings = (\<lambda>_. None)\<rparr>"

definition demo_naive_node :: node_info where
  "demo_naive_node = zero_node\<lparr>ni_Type := ''naive'', ni_Common := Some zero_common, ni_Naive := Some \<lparr>nv_Common = zero_common,
     nv_Network = ''tcp'', nv_NetworkSettings = [], nv_NetworkSettingsBack = [], nv_Tls = 0,
     nv_TlsSettings = \<lparr>ts_ServerName = [], ts_Dest = [], ts_ServerPort = [], ts_ShortId = [], ts_PrivateKey = [], ts_Xver = 0,
       ts_ECH = zero_ech\<rparr>, nv_TlsSettingsBack = None\<rparr>\<rparr>"

definition demo_sing_options :: options where
  "demo_sing_options = default_options\<lparr>op_Core := ''sing'', op_SingOptions := Some NewSingOptions\<rparr>"

definition demo_sing :: "(string, sing_inbound) gomap sing" where
  "demo_sing = \<lparr>sg_box = [], sg_counter = [], sg_naive = [(''n'', \<lparr>ns_info = demo_naive_node, ns_config = demo_sing_options, ns_users = []\<rparr>)]\<rparr>"

definition demo_naive_params :: add_users_params where
  "demo_naive_params = \<lparr>au_Tag = ''n'', au_Users = [\<lparr>ui_Id = 1, ui_Uuid = ''b'', ui_SpeedLimit = 0, ui_DeviceLimit = 0\<rparr>,
     \<lparr>ui_Id = 2, ui_Uuid = ''a'', ui_SpeedLimit = 0, ui_DeviceLimit = 0\<rparr>], au_NodeInfo = demo_naive_node\<rparr>"

lemma naive_users_witness:
  "\<exists>s'. sing_AddUsers demo_sing_env demo_box demo_naive_params demo_sing = Some ((2, None), s') \<and>
     naive_uuids s' ''n'' = {''a'', ''b''} \<and> naive_fits sm_load s' ''n''"
proof -
  let ?r = "the (sing_AddUsers demo_sing_env demo_box demo_naive_params demo_sing)"
  have run: "sing_AddUsers demo_sing_env demo_box demo_naive_params demo_sing = Some ((2, None), snd ?r)" by code_simp
  have st: "sm_load (sg_naive demo_sing) ''n'' = Some \<lparr>ns_info = demo_naive_node, ns_config = demo_sing_options, ns_users = []\<rparr>"
    by (simp add: demo_sing_def sm_load_Cons)
  have type: "ni_Type demo_naive_node = ''naive''" by (simp add: demo_naive_node_def)
  have "naive_uuids demo_sing ''n'' = {}" by (simp add: naive_uuids_def st sm_keys_def)
  moreover have "ui_Uuid ` set (au_Users demo_naive_params) = {''a'', ''b''}" by (auto simp: demo_naive_params_def)
  moreover have "ni_Type (au_NodeInfo demo_naive_params) = ''naive''" "au_Tag demo_naive_params = ''n''"
    by (simp_all add: demo_naive_params_def type)
  ultimately have "naive_uuids (snd ?r) ''n'' = {''a'', ''b''} \<and> naive_fits sm_load (snd ?r) ''n''"
    using naive_users [OF demo_box_laws st, THEN conjunct1, rule_format, of demo_naive_params demo_sing_env 2 None "snd ?r"] run
    by (simp add: type)
  with run show ?thesis by blast
qed

section \<open>Traffic\<close>

definition sing_metered :: "'m sing \<Rightarrow> string \<Rightarrow> bool" where
  "sing_metered s tag = counter_inv (load_counter tag (sg_counter s))"

definition sing_meter :: "'m sing \<Rightarrow> string \<Rightarrow> string \<Rightarrow> int \<times> int" where
  "sing_meter s tag = totals (load_counter tag (sg_counter s))"

interpretation sing_traffic: traffic_meter "sing_ops sx sb" sing_metered sing_meter for sx sb
proof (unfold_locales, goal_cases)
  case (1 s tag uuid)
  show ?case
  proof (cases "sm_load (sg_counter s) tag")
    case None
    have "totals NewTrafficCounter = (\<lambda>_. (0, 0))"
      by (auto simp: fun_eq_iff totals_def GetUpCount_def GetDownCount_def NewTrafficCounter_def)
    with None 1 show ?thesis
      by (auto simp: sing_ops_def sing_GetUserTraffic_def sing_meter_def sing_metered_def load_counter_def)
  next
    case (Some c)
    with 1 have c: "counter_inv c" by (simp add: sing_metered_def load_counter_def)
    have "totals (Reset uuid c) = (totals c)(uuid := (0, 0))" "counter_inv (Reset uuid c)"
      using counter_step_refines [OF c, of "ResetOp uuid"] by simp_all
    with Some show ?thesis
      by (auto simp: sing_ops_def sing_GetUserTraffic_def sing_meter_def sing_metered_def load_counter_def totals_def fun_eq_iff)
  qed
qed

interpretation sel_sing_traffic: traffic_meter "selector_ops dc (sing_ops sx sb)" "sel_metered sing_metered" "sel_meter sing_meter"
  for dc sx sb by (rule sing_traffic.selector_meter)

section \<open>The hooks\<close>

text \<open>The outcome of a run of hooks over one registry: each with its clock, its kind and its connection.\<close>

type_synonym hook_event = "int \<times> bool \<times> inbound_context"

fun hook_run :: "('re \<Rightarrow> string \<Rightarrow> bool) \<Rightarrow> hook_event list \<Rightarrow> 're registry \<Rightarrow> (string, traffic_counter) gomap \<Rightarrow>
    (hooked list \<times> 're registry \<times> (string, traffic_counter) gomap) option" where
  "hook_run Match [] r cs = Some ([], r, cs)"
| "hook_run Match ((now, tcp, m) # es) r cs =
     (case (if tcp then RoutedConnection Match now m r cs else RoutedPacketConnection Match now m r cs) of
        None \<Rightarrow> None
      | Some (out, r', cs') \<Rightarrow> map_option (\<lambda>(outs, x). (out # outs, x)) (hook_run Match es r' cs'))"

lemma hook_run_Cons:
  "hook_run Match ((now, tcp, m) # es) r cs =
     (case hook_connection Match now tcp m r cs of
        None \<Rightarrow> None
      | Some (out, r', cs') \<Rightarrow> map_option (\<lambda>(outs, x). (out # outs, x)) (hook_run Match es r' cs'))"
  by (simp add: RoutedConnection_def RoutedPacketConnection_def split: option.split)

declare hook_run.simps(2) [simp del]

lemma CheckLimit_counts:
  assumes "CheckLimit l now t ip tcp su = Some ((b, rejected), l')"
  shows "\<exists>lim. AddConnCount (ConnLimiter l) now t (NormalizeIP ip) tcp = Some (lim, ConnLimiter l') \<and> (lim \<longrightarrow> rejected)"
proof -
  from assms obtain lim c where add: "AddConnCount (ConnLimiter l) now t (NormalizeIP ip) tcp = Some (lim, c)"
    by (auto simp: CheckLimit_def Let_def split: option.splits)
  have "ConnLimiter l' = c \<and> (lim \<longrightarrow> rejected)"
    using assms unfolding CheckLimit_unfold [OF add]
    by (auto simp: Let_def take_bucket_snd check_device_snd split: if_splits option.splits)
  with add show ?thesis by auto
qed

abbreviation conn_count :: "'re limiter \<Rightarrow> string \<Rightarrow> int" where
  "conn_count l k \<equiv> map_get 0 (cl_count (ConnLimiter l)) k"

lemma AddConnCount_bound:
  assumes "AddConnCount c now u ip tcp = Some (r, c')" "0 < cl_connLimit c" "map_get 0 (cl_count c) k \<le> cl_connLimit c"
  shows "map_get 0 (cl_count c') k \<le> cl_connLimit c \<and> map_get 0 (cl_count c) k \<le> map_get 0 (cl_count c') k \<and>
    (\<not> r \<and> tcp \<and> k = u \<longrightarrow> map_get 0 (cl_count c') k = map_get 0 (cl_count c) k + 1)"
  using assms(1)
proof (cases rule: AddConnCount_cases)
  case (track d)
  have "map_get 0 (cl_count d) k \<le> cl_connLimit c"
    using track(1) assms(2,3) by (auto simp: count_conn_def map_get_def split: if_splits option.splits)
  with track_ip_frame [OF track(2)] count_conn_count [OF track(1), of k] assms(2) show ?thesis by auto
qed (use assms(3) in simp)

text \<open>Whether an event is for the user's key at the limiter, and lets a TCP connection in.\<close>

definition lets_in :: "'re registry \<Rightarrow> nat \<Rightarrow> string \<Rightarrow> hook_event \<Rightarrow> hooked \<Rightarrow> bool" where
  "lets_in r a k e out =
     (case e of (_, tcp, m) \<Rightarrow> tcp \<and> GetLimiter r (ic_Inbound m) = Inr a \<and> UserTag (ic_Inbound m) (ic_User m) = k \<and>
        (case out of Wrapped _ _ \<Rightarrow> True | _ \<Rightarrow> False))"

lemma hook_connection_counts:
  assumes "hook_connection Match now tcp m r cs = Some (out, r', cs')" "a < length (rg_heap r)"
    and "cl_connLimit (ConnLimiter (rg_heap r ! a)) = n" "0 < n" "conn_count (rg_heap r ! a) k \<le> n"
  shows "rg_limiter r' = rg_limiter r \<and> a < length (rg_heap r') \<and> cl_connLimit (ConnLimiter (rg_heap r' ! a)) = n \<and>
    conn_count (rg_heap r' ! a) k \<le> n \<and>
    conn_count (rg_heap r ! a) k + of_bool (lets_in r a k (now, tcp, m) out) \<le> conn_count (rg_heap r' ! a) k"
proof (cases "GetLimiter r (ic_Inbound m)")
  case (Inl e)
  with assms show ?thesis by (auto simp: hook_connection_def lets_in_def)
next
  case (Inr a')
  then obtain b rejected l where l: "CheckLimit (rg_heap r ! a') now (UserTag (ic_Inbound m) (ic_User m)) (ic_SourceIP m) tcp tcp =
      Some ((b, rejected), l)"
    using assms(1) by (auto simp: hook_connection_def split: option.splits)
  have r': "r' = heap_update a' (\<lambda>_. l) r" and out: "rejected \<longrightarrow> \<not> lets_in r a k (now, tcp, m) out"
    using assms(1) Inr l by (auto simp: hook_connection_def Let_def lets_in_def split: if_splits prod.splits)
  obtain lim where add: "AddConnCount (ConnLimiter (rg_heap r ! a')) now (UserTag (ic_Inbound m) (ic_User m)) (NormalizeIP (ic_SourceIP m)) tcp =
      Some (lim, ConnLimiter l)" "lim \<longrightarrow> rejected"
    using CheckLimit_counts [OF l] by blast
  show ?thesis
  proof (cases "a' = a")
    case True
    note bound = AddConnCount_bound [OF add(1) [unfolded True], of k] AddConnCount_config [OF add(1) [unfolded True]]
    have "lets_in r a k (now, tcp, m) out \<longrightarrow> \<not> rejected \<and> tcp \<and> k = UserTag (ic_Inbound m) (ic_User m)"
      using out by (auto simp: lets_in_def)
    then show ?thesis
      using bound assms(2-5) add(2) by (auto simp: r' True heap_update_def of_bool_def)
  next
    case False
    then have "\<not> lets_in r a k (now, tcp, m) out" using Inr by (auto simp: lets_in_def)
    with False assms(2-5) show ?thesis by (simp add: r' heap_update_def)
  qed
qed

lemma lets_in_cong: "rg_limiter r' = rg_limiter r \<Longrightarrow> lets_in r' = lets_in r"
  by (simp add: lets_in_def fun_eq_iff GetLimiter_def)

text \<open>C13: The hooks of the sing-box core count connections and never uncount one: over any run of them, at most as many TCP
  connections of a user are let in as the limit of its node says, however many of them have ended, less those that were
  counted before. A user with a connection limit is locked out after that many connections.\<close>

theorem sing_connection_limit:
  assumes "hook_run Match es r cs = Some (outs, r', cs')" "a < length (rg_heap r)"
    and "cl_connLimit (ConnLimiter (rg_heap r ! a)) = n" "0 < n" "conn_count (rg_heap r ! a) k \<le> n"
  shows "length outs = length es \<and>
    conn_count (rg_heap r ! a) k + int (length (filter (\<lambda>(e, out). lets_in r a k e out) (zip es outs))) \<le> n"
  using assms
proof (induction es arbitrary: r cs outs)
  case (Cons e es)
  obtain now tcp m where e: "e = (now, tcp, m)" by (cases e)
  from Cons.prems(1) obtain out r1 cs1 outs' where step: "hook_connection Match now tcp m r cs = Some (out, r1, cs1)"
    and rest: "hook_run Match es r1 cs1 = Some (outs', r', cs')" and outs: "outs = out # outs'"
    by (auto simp: e hook_run_Cons split: option.splits prod.splits)
  note one = hook_connection_counts [OF step Cons.prems(2-5)]
  from Cons.IH [OF rest] one Cons.prems(4) have
    "length outs' = length es \<and>
      conn_count (rg_heap r1 ! a) k + int (length (filter (\<lambda>(e, out). lets_in r1 a k e out) (zip es outs'))) \<le> n" by blast
  with one lets_in_cong [of r1 r] show ?case by (auto simp: e outs)
qed simp

definition demo_hook_registry :: "unit registry" where
  "demo_hook_registry = snd (AddLimiter ''n'' (zero_limit\<lparr>lc_ConnLimit := 2, lc_EnableRealtime := True\<rparr>)
     [\<lparr>ui_Id = 1, ui_Uuid = ''u'', ui_SpeedLimit = 0, ui_DeviceLimit = 0\<rparr>] [] \<lparr>rg_heap = [], rg_limiter = Some []\<rparr>)"

definition demo_hook_event :: hook_event where
  "demo_hook_event = (0, True, \<lparr>ic_Inbound = ''n'', ic_User = ''u'', ic_SourceIP = ''1.1.1.1'', ic_Destination = ''d'', ic_Network = ''tcp''\<rparr>)"

lemma sing_connection_limit_witness:
  "\<exists>outs r' cs'. hook_run (\<lambda>_ _. False) (replicate 4 demo_hook_event) demo_hook_registry [] = Some (outs, r', cs') \<and>
     length (filter (\<lambda>(e, out). lets_in demo_hook_registry 0 ''n|u'' e out) (zip (replicate 4 demo_hook_event) outs)) \<le> 2 \<and>
     outs = [Wrapped None 0, Wrapped None 0, ClosedConn, ClosedConn]"
proof -
  let ?r = "the (hook_run (\<lambda>_ _. False) (replicate 4 demo_hook_event) demo_hook_registry [])"
  have run: "hook_run (\<lambda>_ _. False) (replicate 4 demo_hook_event) demo_hook_registry [] = Some (fst ?r, fst (snd ?r), snd (snd ?r))"
    "fst ?r = [Wrapped None 0, Wrapped None 0, ClosedConn, ClosedConn]"
    "0 < length (rg_heap demo_hook_registry)" "cl_connLimit (ConnLimiter (rg_heap demo_hook_registry ! 0)) = 2"
    "conn_count (rg_heap demo_hook_registry ! 0) ''n|u'' = 0"
    by code_simp+
  have "conn_count (rg_heap demo_hook_registry ! 0) ''n|u'' \<le> 2" using run(5) by simp
  from sing_connection_limit [OF run(1,3,4) _ this] run(2,5) have
    "length (filter (\<lambda>(e, out). lets_in demo_hook_registry 0 ''n|u'' e out) (zip (replicate 4 demo_hook_event) (fst ?r))) \<le> 2" by simp
  with run(1,2) show ?thesis by metis
qed

text \<open>What goes through an accepted connection is what the core reports for its user, and for nobody else.\<close>

lemma sing_hook_meters:
  assumes "hook_connection Match now tcp m r (sg_counter s) = Some (Wrapped b a, r', cs')"
    and "sing_metered s (ic_Inbound m)" "list_all buffered calls"
  defines "s' \<equiv> s\<lparr>sg_counter := sm_store (ic_Inbound m) (conn_calls a calls (load_counter (ic_Inbound m) cs')) cs'\<rparr>"
  shows "i64 (fst (sing_meter s' (ic_Inbound m) (ic_User m))) =
      i64 (fst (sing_meter s (ic_Inbound m) (ic_User m)) + sum_list (map up_bytes calls)) \<and>
    i64 (snd (sing_meter s' (ic_Inbound m) (ic_User m))) =
      i64 (snd (sing_meter s (ic_Inbound m) (ic_User m)) + sum_list (map down_bytes calls)) \<and>
    (j \<noteq> ic_User m \<longrightarrow> sing_meter s' (ic_Inbound m) j = sing_meter s (ic_Inbound m) j)"
proof -
  from assms(1) obtain t where t: "GetCounter (ic_User m) (load_counter (ic_Inbound m) (sg_counter s)) = (a, t)"
      "cs' = sm_store (ic_Inbound m) t (sg_counter s)"
    by (auto simp: hook_connection_def Let_def split: option.splits sum.splits if_splits prod.splits)
  note inv = GetCounter_inv [OF assms(2) [unfolded sing_metered_def] t(1)]
  have before: "sing_meter s (ic_Inbound m) = totals t" using inv by (simp add: sing_meter_def)
  have after: "sing_meter s' (ic_Inbound m) = totals (conn_calls a calls t)"
    by (simp add: s'_def sing_meter_def load_counter_def t(2))
  have "counter_inv t" "sm_load (tc_counters t) (ic_User m) = Some a" using inv by simp_all
  from conn_counter_conserves [OF this assms(3), of j] show ?thesis
    unfolding before after by (simp add: totals_def)
qed

text \<open>Without a port in the panel's answer the handshake of REALITY has port 0, where the xray core takes 443.\<close>

lemma sing_reality_port_zero:
  "ts_ServerPort ts = '''' \<Longrightarrow> map_option (\<lambda>r. vo_ServerPort (gr_Handshake r)) (gt_Reality (sing_reality_of sx ts rc tls)) = Some 0"
  by (simp add: sing_reality_of_def Atoi_def u16_def)

end
