(* ===== verification/Disk.thy ===== *)
theory Disk
  imports GoMap
begin

text \<open>
  Paths and files of the Go standard library, as the certificate client and the loader of geographic data
  use them: \<^verbatim>\<open>path.Clean\<close>, \<^verbatim>\<open>Dir\<close> and \<^verbatim>\<open>Join\<close>, and a disk of files and directories named by their
  cleaned path (there are no symbolic links). Whatever else may fail, permissions or a full disk, is a fault that the
  surroundings choose for each operation and path.
\<close>

section \<open>Paths\<close>

fun clean_comps :: "bool \<Rightarrow> string list \<Rightarrow> string list \<Rightarrow> string list" where
  "clean_comps rooted out [] = rev out"
| "clean_comps rooted out (c # cs) =
     (if c = '''' \<or> c = ''.'' then clean_comps rooted out cs
      else if c = ''..'' then
        (case out of
           [] \<Rightarrow> clean_comps rooted (if rooted then [] else [''..'']) cs
         | d # ds \<Rightarrow> clean_comps rooted (if d = ''..'' then ''..'' # out else ds) cs)
      else clean_comps rooted (c # out) cs)"

definition path_Clean :: "string \<Rightarrow> string" where
  "path_Clean p =
     (if p = '''' then ''.''
      else let rooted = (hd p = CHR ''/''); s = Join (clean_comps rooted [] (Split (CHR ''/'') p)) ''/'' in
        if rooted then CHR ''/'' # s else if s = '''' then ''.'' else s)"

definition path_Dir :: "string \<Rightarrow> string" where
  "path_Dir p = path_Clean (rev (dropWhile (\<lambda>c. c \<noteq> CHR ''/'') (rev p)))"

definition path_Join :: "string list \<Rightarrow> string" where
  "path_Join elems = (let es = filter (\<lambda>e. e \<noteq> '''') elems in if es = [] then '''' else path_Clean (Join es ''/''))"

section \<open>The disk\<close>

datatype file_op = StatOp | ReadOp | MkdirOp | OpenOp | WriteOp | RenameOp

text \<open>A file is its contents and the time of its last change. Other records extend the disk with what else a
  component changes.\<close>

record disk =
  dk_Files :: "(string, string \<times> int) gomap"
  dk_Dirs :: "string list"
  dk_Now :: int
  dk_Fault :: "file_op \<Rightarrow> string \<Rightarrow> string option"

definition disk_file :: "string \<Rightarrow> 'a disk_scheme \<Rightarrow> string option" where
  "disk_file p d = map_option fst (sm_load (dk_Files d) (path_Clean p))"

definition is_dir :: "string \<Rightarrow> 'a disk_scheme \<Rightarrow> bool" where
  "is_dir p d = (path_Clean p \<in> {''.'', ''/''} \<union> set (dk_Dirs d))"

definition no_entry :: "string \<Rightarrow> string \<Rightarrow> string" where
  "no_entry call p = call @ '' '' @ p @ '': no such file or directory''"

text \<open>\<^verbatim>\<open>common/file\<close>: a path that cannot be examined counts as existing, unless the reason is that it is missing.\<close>

definition IsExist :: "string \<Rightarrow> 'a disk_scheme \<Rightarrow> bool" where
  "IsExist p d = (p \<noteq> '''' \<and> (dk_Fault d StatOp p \<noteq> None \<or> disk_file p d \<noteq> None \<or> is_dir p d))"

definition disk_read :: "string \<Rightarrow> 'a disk_scheme \<Rightarrow> string + string" where
  "disk_read p d =
     (case dk_Fault d ReadOp p of
        Some e \<Rightarrow> Inl e
      | None \<Rightarrow> if p \<noteq> '''' \<and> is_dir p d then Inl (''read '' @ p @ '': is a directory'')
          else (case disk_file p d of
              Some c \<Rightarrow> if p = '''' then Inl (no_entry ''open'' p) else Inr c
            | None \<Rightarrow> Inl (no_entry ''open'' p)))"

text \<open>The directories on the way to a path.\<close>

definition dir_chain :: "string \<Rightarrow> string list" where
  "dir_chain p = (let cs = Split (CHR ''/'') (path_Clean p) in
     filter (\<lambda>q. q \<noteq> '''') (map (\<lambda>i. Join (take i cs) ''/'') [1..<Suc (length cs)]))"

definition MkdirAll :: "string \<Rightarrow> 'a disk_scheme \<Rightarrow> string option \<times> 'a disk_scheme" where
  "MkdirAll p d =
     (case dk_Fault d MkdirOp p of
        Some e \<Rightarrow> (Some e, d)
      | None \<Rightarrow>
          if p = '''' then (Some (no_entry ''mkdir'' p), d)
          else if list_ex (\<lambda>q. disk_file q d \<noteq> None) (dir_chain p) then (Some (''mkdir '' @ p @ '': not a directory''), d)
          else (None, d\<lparr>dk_Dirs := dk_Dirs d @ filter (\<lambda>q. \<not> is_dir q d) (dir_chain p)\<rparr>))"

definition put_file :: "string \<Rightarrow> string \<Rightarrow> 'a disk_scheme \<Rightarrow> 'a disk_scheme" where
  "put_file p c d = d\<lparr>dk_Files := sm_store (path_Clean p) (c, dk_Now d) (dk_Files d)\<rparr>"

text \<open>\<^verbatim>\<open>os.OpenFile\<close> for writing with \<^verbatim>\<open>O_CREATE\<close>, and with \<^verbatim>\<open>O_TRUNC\<close> or without.\<close>

definition OpenFile :: "bool \<Rightarrow> string \<Rightarrow> 'a disk_scheme \<Rightarrow> string option \<times> 'a disk_scheme" where
  "OpenFile trunc p d =
     (case dk_Fault d OpenOp p of
        Some e \<Rightarrow> (Some e, d)
      | None \<Rightarrow>
          if p = '''' \<or> \<not> is_dir (path_Dir p) d then (Some (no_entry ''open'' p), d)
          else if last p = CHR ''/'' \<or> is_dir p d then (Some (''open '' @ p @ '': is a directory''), d)
          else (None, if trunc \<or> disk_file p d = None then put_file p '''' d else d))"

text \<open>Writing into a file just opened: from its start, over what is there.\<close>

definition file_write :: "string \<Rightarrow> string \<Rightarrow> 'a disk_scheme \<Rightarrow> string option \<times> 'a disk_scheme" where
  "file_write p c d =
     (case dk_Fault d WriteOp p of
        Some e \<Rightarrow> (Some e, d)
      | None \<Rightarrow> (None, put_file p (c @ drop (length c) (case disk_file p d of None \<Rightarrow> '''' | Some old \<Rightarrow> old)) d))"

definition disk_write :: "string \<Rightarrow> string \<Rightarrow> 'a disk_scheme \<Rightarrow> string option \<times> 'a disk_scheme" where
  "disk_write p c d = (case OpenFile True p d of (Some e, d) \<Rightarrow> (Some e, d) | (None, d) \<Rightarrow> file_write p c d)"

text \<open>\<^verbatim>\<open>os.Remove\<close> of a file, and \<^verbatim>\<open>os.Rename\<close>, which keeps the time of the last change.\<close>

definition remove_file :: "string \<Rightarrow> 'a disk_scheme \<Rightarrow> 'a disk_scheme" where
  "remove_file p d = d\<lparr>dk_Files := sm_delete (path_Clean p) (dk_Files d)\<rparr>"

definition Rename :: "string \<Rightarrow> string \<Rightarrow> 'a disk_scheme \<Rightarrow> string option \<times> 'a disk_scheme" where
  "Rename p q d =
     (case dk_Fault d RenameOp q of
        Some e \<Rightarrow> (Some e, d)
      | None \<Rightarrow>
          (case sm_load (dk_Files d) (path_Clean p) of
             None \<Rightarrow> (Some (no_entry ''rename'' p), d)
           | Some f \<Rightarrow>
               if q = '''' \<or> \<not> is_dir (path_Dir q) d then (Some (no_entry ''rename'' p), d)
               else if is_dir q d then (Some (''rename '' @ p @ '' '' @ q @ '': file exists''), d)
               else (None, (remove_file p d)\<lparr>dk_Files := sm_store (path_Clean q) f (sm_delete (path_Clean p) (dk_Files d))\<rparr>)))"

text \<open>The difference of two instants, \<^verbatim>\<open>Time.Sub\<close>, stays within a duration.\<close>

definition time_Sub :: "int \<Rightarrow> int \<Rightarrow> int" where
  "time_Sub t u = max (- (2 ^ 63)) (min (2 ^ 63 - 1) (t - u))"

section \<open>What the operations leave alone\<close>

definition same_place :: "string \<Rightarrow> string \<Rightarrow> bool" where
  "same_place p q = (path_Clean p = path_Clean q)"

lemma same_place_refl [simp]: "same_place p p"
  by (simp add: same_place_def)

lemma put_file_simps [simp]:
  "disk_file q (put_file p c d) = (if same_place q p then Some c else disk_file q d)"
  "is_dir q (put_file p c d) = is_dir q d" "dk_Fault (put_file p c d) = dk_Fault d"
  "dk_Dirs (put_file p c d) = dk_Dirs d" "dk_Now (put_file p c d) = dk_Now d"
  by (auto simp: put_file_def disk_file_def is_dir_def same_place_def sm.load_store)

lemma remove_file_simps [simp]:
  "disk_file q (remove_file p d) = (if same_place q p then None else disk_file q d)"
  "is_dir q (remove_file p d) = is_dir q d" "dk_Fault (remove_file p d) = dk_Fault d" "dk_Now (remove_file p d) = dk_Now d"
  by (auto simp: remove_file_def disk_file_def is_dir_def same_place_def sm.load_delete)

lemma rename_spec:
  assumes "Rename p q d = (e, d')"
  shows "(e \<noteq> None \<longrightarrow> d' = d) \<and> is_dir r d' = is_dir r d \<and> dk_Fault d' = dk_Fault d \<and>
    (e = None \<longrightarrow> disk_file p d \<noteq> None \<and> q \<noteq> '''' \<and> \<not> is_dir q d' \<and>
       disk_file r d' = (if same_place r q then disk_file p d else if same_place r p then None else disk_file r d))"
  using assms
  by (auto simp: Rename_def disk_file_def is_dir_def same_place_def remove_file_def sm.load_store sm.load_delete
      split: option.splits if_splits)

lemma mkdir_keeps:
  "MkdirAll p d = (e, d') \<Longrightarrow> disk_file q d' = disk_file q d \<and> dk_Fault d' = dk_Fault d \<and> dk_Now d' = dk_Now d"
  by (auto simp: MkdirAll_def disk_file_def split: option.splits if_splits)

lemma mkdir_dirs_grow: "MkdirAll p d = (e, d') \<Longrightarrow> is_dir q d \<Longrightarrow> is_dir q d'"
  by (auto simp: MkdirAll_def is_dir_def split: option.splits if_splits)

lemma open_keeps:
  "OpenFile t p d = (e, d') \<Longrightarrow> (\<not> same_place q p \<longrightarrow> disk_file q d' = disk_file q d) \<and> is_dir q d' = is_dir q d \<and>
     dk_Fault d' = dk_Fault d \<and> dk_Now d' = dk_Now d"
  by (auto simp: OpenFile_def split: option.splits if_splits)

lemma open_write:
  "OpenFile t p d = (None, d1) \<Longrightarrow> file_write p c d1 = (None, d2) \<Longrightarrow>
     disk_file p d2 = Some (c @ drop (length c) (if t then '''' else (case disk_file p d of None \<Rightarrow> '''' | Some old \<Rightarrow> old))) \<and>
     p \<noteq> '''' \<and> \<not> is_dir p d2 \<and> dk_Fault d2 = dk_Fault d"
  by (auto simp: OpenFile_def file_write_def split: option.splits if_splits)

lemma write_keeps:
  "disk_write p c d = (e, d') \<Longrightarrow> (\<not> same_place q p \<longrightarrow> disk_file q d' = disk_file q d) \<and> is_dir q d' = is_dir q d \<and>
     dk_Fault d' = dk_Fault d \<and> dk_Now d' = dk_Now d"
  by (auto simp: disk_write_def file_write_def OpenFile_def split: option.splits if_splits)

lemma write_stores: "disk_write p c d = (None, d') \<Longrightarrow> disk_file p d' = Some c"
  by (auto simp: disk_write_def file_write_def OpenFile_def split: option.splits if_splits)

lemma write_not_dir: "disk_write p c d = (None, d') \<Longrightarrow> p \<noteq> '''' \<and> \<not> is_dir p d'"
  by (auto simp: disk_write_def file_write_def OpenFile_def split: option.splits if_splits)

text \<open>A file that was written is there, and is read back unless reading fails.\<close>

lemma write_read:
  "disk_write p c d = (None, d') \<Longrightarrow> dk_Fault d ReadOp p = None \<Longrightarrow> disk_read p d' = Inr c \<and> IsExist p d'"
  using write_stores [of p c d d'] write_not_dir [of p c d d'] write_keeps [of p c d None d']
  by (simp add: disk_read_def IsExist_def)

end
