(* ===== verification/Lego.thy ===== *)
theory Lego
  imports Disk Conf
begin

text \<open>
  The certificate client of \<^verbatim>\<open>node/lego.go\<close>: the account with its key file, obtaining a certificate and renewing it. The
  ACME library, the JSON and PEM encodings and the keys are arguments; the calls of the library are recorded in
  order, and an answer may depend on all calls before it. What the client changes is a disk with the environment variables and
  that record.
\<close>

section \<open>What the client uses\<close>

text \<open>\<^verbatim>\<open>User\<close>: a key that was not set is nil.\<close>

record ('k, 'g) lego_user =
  us_Email :: string
  us_Registration :: "'g option"
  us_key :: "'k option"
  us_KeyEncoded :: string

definition zero_user :: "('k, 'g) lego_user" where
  "zero_user = \<lparr>us_Email = '''', us_Registration = None, us_key = None, us_KeyEncoded = ''''\<rparr>"

datatype challenge = HTTP01 | DNS01 string

text \<open>The library's calls: registering an account with its key, obtaining and renewing a certificate; \<open>bundle\<close>,
  \<open>must_staple\<close> and the preferred chain are passed as they are.\<close>

datatype 'k acme_call =
    CallRegister string "'k option"
  | CallObtain string "challenge option" "string list" bool
  | CallRenew string "challenge option" string string bool bool string

record cert_resource =
  re_Certificate :: string
  re_PrivateKey :: string

record 'k lego_world = disk +
  lw_Env :: "(string, string) gomap"
  lw_Calls :: "'k acme_call list"

text \<open>\<^verbatim>\<open>encoding/json\<close> on the three fields of a user, \<^verbatim>\<open>crypto/x509\<close> and \<^verbatim>\<open>encoding/pem\<close>. Decoding JSON starts from the
  fields as they are; a text without a PEM block has no block.\<close>

record ('k, 'g) account_codec =
  ak_Encode :: "string \<times> 'g option \<times> string \<Rightarrow> string + string"
  ak_Decode :: "string \<Rightarrow> string \<times> 'g option \<times> string \<Rightarrow> string + (string \<times> 'g option \<times> string)"
  ak_MarshalEC :: "'k \<Rightarrow> string + string"
  ak_ParseEC :: "string \<Rightarrow> string + 'k"
  ak_PemEncode :: "string \<Rightarrow> string \<Rightarrow> string"
  ak_PemDecode :: "string \<Rightarrow> string option"

record ('k, 'g) acme =
  am_GenerateKey :: "'k acme_call list \<Rightarrow> string + 'k"
  am_NewClient :: "'k acme_call list \<Rightarrow> ('k, 'g) lego_user \<Rightarrow> string option"
  am_Register :: "'k acme_call list \<Rightarrow> ('k, 'g) lego_user \<Rightarrow> string + 'g"
  am_SetHTTP01 :: "string option"
  am_DNSProvider :: "string \<Rightarrow> (string, string) gomap \<Rightarrow> string option"
  am_SetDNS01 :: "string option"
  am_Obtain :: "'k acme_call list \<Rightarrow> ('k, 'g) lego_user \<Rightarrow> challenge option \<Rightarrow> string list \<Rightarrow> bool \<Rightarrow> string + cert_resource"
  am_Renew :: "'k acme_call list \<Rightarrow> ('k, 'g) lego_user \<Rightarrow> challenge option \<Rightarrow> string \<Rightarrow> string \<Rightarrow> bool \<Rightarrow> bool \<Rightarrow> string \<Rightarrow>
    string + cert_resource"
  am_ParseCert :: "string \<Rightarrow> string + int"
  am_codec :: "('k, 'g) account_codec"

section \<open>The account\<close>

definition GetEmail :: "('k, 'g) lego_user \<Rightarrow> string" where "GetEmail u = us_Email u"
definition GetRegistration :: "('k, 'g) lego_user \<Rightarrow> 'g option" where "GetRegistration u = us_Registration u"
definition GetPrivateKey :: "('k, 'g) lego_user \<Rightarrow> 'k option" where "GetPrivateKey u = us_key u"

definition checkPath :: "string \<Rightarrow> 'a disk_scheme \<Rightarrow> string option \<times> 'a disk_scheme" where
  "checkPath p d =
     (if \<not> IsExist (path_Dir p) d
      then (case MkdirAll (path_Dir p) d of (e, d) \<Rightarrow> (map_option (\<lambda>e. ''create dir error: '' @ e) e, d))
      else (None, d))"

definition EncodePrivate :: "('k, 'g) account_codec \<Rightarrow> 'k \<Rightarrow> string + string" where
  "EncodePrivate cd k = map_sum id (ak_PemEncode cd ''EC PRIVATE KEY'') (ak_MarshalEC cd k)"

text \<open>The error of \<^verbatim>\<open>EncodePrivate\<close> is dropped; a key that is not set fails the type assertion. The encoder writes the
  whole document once it is complete.\<close>

definition SaveUser :: "('k, 'g) account_codec \<Rightarrow> string \<Rightarrow> ('k, 'g) lego_user \<Rightarrow> 'a disk_scheme \<Rightarrow>
    (string option \<times> ('k, 'g) lego_user \<times> 'a disk_scheme) option" where
  "SaveUser cd path u d =
     (case checkPath path d of
        (Some e, d) \<Rightarrow> Some (Some (''check path error: '' @ e), u, d)
      | (None, d) \<Rightarrow>
          (case us_key u of
             None \<Rightarrow> panic
           | Some k \<Rightarrow>
               let u = u\<lparr>us_KeyEncoded := (case EncodePrivate cd k of Inl _ \<Rightarrow> '''' | Inr s \<Rightarrow> s)\<rparr> in
               (case OpenFile True path d of
                  (Some e, d) \<Rightarrow> Some (Some e, u, d)
                | (None, d) \<Rightarrow>
                    (case ak_Encode cd (us_Email u, us_Registration u, us_KeyEncoded u) of
                       Inl e \<Rightarrow> Some (Some (''marshal json error: '' @ e), u, d)
                     | Inr text \<Rightarrow>
                         (case file_write path text d of
                            (Some e, d) \<Rightarrow> Some (Some (''marshal json error: '' @ e), u, d)
                          | (None, d) \<Rightarrow> Some (None, u\<lparr>us_KeyEncoded := ''''\<rparr>, d))))))"

text \<open>A text without a PEM block makes \<^verbatim>\<open>DecodePrivate\<close> read the bytes of a nil block.\<close>

definition DecodePrivate :: "('k, 'g) account_codec \<Rightarrow> string \<Rightarrow> (string + 'k) option" where
  "DecodePrivate cd s = (case ak_PemDecode cd s of None \<Rightarrow> panic | Some bytes \<Rightarrow> Some (ak_ParseEC cd bytes))"

definition LoadUser :: "('k, 'g) account_codec \<Rightarrow> string \<Rightarrow> ('k, 'g) lego_user \<Rightarrow> 'a disk_scheme \<Rightarrow>
    (string + ('k, 'g) lego_user) option" where
  "LoadUser cd path u d =
     (case disk_read path d of
        Inl e \<Rightarrow> Some (Inl (''open file error: '' @ e))
      | Inr text \<Rightarrow>
          (case ak_Decode cd text (us_Email u, us_Registration u, us_KeyEncoded u) of
             Inl e \<Rightarrow> Some (Inl (''unmarshal json error: '' @ e))
           | Inr (email, reg, key) \<Rightarrow>
               (case DecodePrivate cd key of
                  None \<Rightarrow> panic
                | Some (Inl e) \<Rightarrow> Some (Inl (''decode private key error: '' @ e))
                | Some (Inr k) \<Rightarrow> Some (Inr (u\<lparr>us_Email := email, us_Registration := reg, us_KeyEncoded := key,
                    us_key := Some k\<rparr>)))))"

definition record_call :: "'k acme_call \<Rightarrow> 'k lego_world \<Rightarrow> 'k lego_world" where
  "record_call c w = w\<lparr>lw_Calls := lw_Calls w @ [c]\<rparr>"

definition registerUser :: "('k, 'g) acme \<Rightarrow> ('k, 'g) lego_user \<Rightarrow> string \<Rightarrow> 'k lego_world \<Rightarrow>
    ((string + ('k, 'g) lego_user) \<times> 'k lego_world) option" where
  "registerUser ax u path w =
     (case am_GenerateKey ax (lw_Calls w) of
        Inl e \<Rightarrow> Some (Inl (''generate key error: '' @ e), w)
      | Inr k \<Rightarrow>
          let u = u\<lparr>us_key := Some k\<rparr> in
          (case am_NewClient ax (lw_Calls w) u of
             Some e \<Rightarrow> Some (Inl (''create lego client error: '' @ e), w)
           | None \<Rightarrow>
               (case am_Register ax (lw_Calls w) u of
                  Inl e \<Rightarrow> Some (Inl e, record_call (CallRegister (us_Email u) (us_key u)) w)
                | Inr reg \<Rightarrow>
                    (case SaveUser (am_codec ax) path (u\<lparr>us_Registration := Some reg\<rparr>)
                        (record_call (CallRegister (us_Email u) (us_key u)) w) of
                       None \<Rightarrow> panic
                     | Some (Some e, _, w) \<Rightarrow> Some (Inl (''save user error: '' @ e), w)
                     | Some (None, u, w) \<Rightarrow> Some (Inr u, w)))))"

definition NewLegoUser :: "('k, 'g) acme \<Rightarrow> string \<Rightarrow> string \<Rightarrow> 'k lego_world \<Rightarrow>
    ((string + ('k, 'g) lego_user) \<times> 'k lego_world) option" where
  "NewLegoUser ax path email w =
     (if IsExist path w then
        (case LoadUser (am_codec ax) path zero_user w of
           None \<Rightarrow> panic
         | Some (Inl e) \<Rightarrow> Some (Inl e, w)
         | Some (Inr u) \<Rightarrow>
             if us_Email u \<noteq> email
             then registerUser ax (u\<lparr>us_Registration := None, us_Email := email\<rparr>) path w
             else Some (Inr u, w))
      else registerUser ax (zero_user\<lparr>us_Email := email\<rparr>) path w)"

section \<open>The client\<close>

record ('k, 'g) lego =
  lg_user :: "('k, 'g) lego_user"
  lg_challenge :: "challenge option"
  lg_config :: cert_config

text \<open>\<^verbatim>\<open>os.Setenv\<close>, whose error is dropped: it refuses an empty name, one with \<^verbatim>\<open>=\<close>, and zero bytes.\<close>

definition set_env :: "string \<times> string \<Rightarrow> (string, string) gomap \<Rightarrow> (string, string) gomap" where
  "set_env kv env = (case kv of (k, v) \<Rightarrow>
     if k = '''' \<or> CHR ''='' \<in> set k \<or> CHR 0x00 \<in> set k \<or> CHR 0x00 \<in> set v then env else sm_store k v env)"

definition SetProvider :: "('k, 'g) acme \<Rightarrow> ('k, 'g) lego \<Rightarrow> 'k lego_world \<Rightarrow> (string + ('k, 'g) lego) \<times> 'k lego_world" where
  "SetProvider ax l w =
     (let cc = lg_config l in
      if cc_CertMode cc = ''http'' then
        (case am_SetHTTP01 ax of Some e \<Rightarrow> (Inl e, w) | None \<Rightarrow> (Inr (l\<lparr>lg_challenge := Some HTTP01\<rparr>), w))
      else if cc_CertMode cc = ''dns'' then
        (let w = w\<lparr>lw_Env := fold set_env (cc_DNSEnv cc) (lw_Env w)\<rparr> in
         case am_DNSProvider ax (cc_Provider cc) (lw_Env w) of
           Some e \<Rightarrow> (Inl (''create dns challenge provider error: '' @ e), w)
         | None \<Rightarrow>
             (case am_SetDNS01 ax of
                Some e \<Rightarrow> (Inl (''set dns provider error: '' @ e), w)
              | None \<Rightarrow> (Inr (l\<lparr>lg_challenge := Some (DNS01 (cc_Provider cc))\<rparr>), w)))
      else (Inr l, w))"

definition user_file :: "cert_config \<Rightarrow> string" where
  "user_file cc = path_Join [path_Dir (cc_CertFile cc), ''user'', ''user-'' @ cc_Email cc @ ''.json'']"

definition NewLego :: "('k, 'g) acme \<Rightarrow> cert_config \<Rightarrow> 'k lego_world \<Rightarrow> ((string + ('k, 'g) lego) \<times> 'k lego_world) option" where
  "NewLego ax config w =
     (case NewLegoUser ax (user_file config) (cc_Email config) w of
        None \<Rightarrow> panic
      | Some (Inl e, w) \<Rightarrow> Some (Inl (''create user error: '' @ e), w)
      | Some (Inr user, w) \<Rightarrow>
          (case am_NewClient ax (lw_Calls w) user of
             Some e \<Rightarrow> Some (Inl e, w)
           | None \<Rightarrow>
               (case SetProvider ax \<lparr>lg_user = user, lg_challenge = None, lg_config = config\<rparr> w of
                  (Inl e, w) \<Rightarrow> Some (Inl (''set provider error: '' @ e), w)
                | (Inr l, w) \<Rightarrow> Some (Inr l, w))))"

text \<open>\<^verbatim>\<open>strings.NewReplacer\<close> with two patterns: at each place the one that fits is replaced, and what was inserted
  is not looked at again.\<close>

fun replace_params :: "string \<Rightarrow> string \<Rightarrow> string \<Rightarrow> string" where
  "replace_params domain email [] = []"
| "replace_params domain email (c # cs) =
     (if HasPrefix (c # cs) ''{domain}'' then domain @ replace_params domain email (drop 8 (c # cs))
      else if HasPrefix (c # cs) ''{email}'' then email @ replace_params domain email (drop 7 (c # cs))
      else c # replace_params domain email cs)"

definition parseParams :: "('k, 'g) lego \<Rightarrow> string \<Rightarrow> string" where
  "parseParams l path = replace_params (cc_CertDomain (lg_config l)) (cc_Email (lg_config l)) path"

definition write_one :: "('k, 'g) lego \<Rightarrow> string \<Rightarrow> string \<Rightarrow> 'a disk_scheme \<Rightarrow> string option \<times> 'a disk_scheme" where
  "write_one l file contents d =
     (case checkPath file d of
        (Some e, d) \<Rightarrow> (Some (''check path error: '' @ e), d)
      | (None, d) \<Rightarrow> disk_write (parseParams l file) contents d)"

definition writeCert :: "('k, 'g) lego \<Rightarrow> cert_resource \<Rightarrow> 'a disk_scheme \<Rightarrow> string option \<times> 'a disk_scheme" where
  "writeCert l certificates d =
     (case write_one l (cc_CertFile (lg_config l)) (re_Certificate certificates) d of
        (Some e, d) \<Rightarrow> (Some e, d)
      | (None, d) \<Rightarrow> write_one l (cc_KeyFile (lg_config l)) (re_PrivateKey certificates) d)"

definition write_result :: "('k, 'g) lego \<Rightarrow> cert_resource \<Rightarrow> 'k lego_world \<Rightarrow> string option \<times> 'k lego_world" where
  "write_result l res w = (case writeCert l res w of (e, w) \<Rightarrow> (map_option (\<lambda>e. ''write certificate error: '' @ e) e, w))"

definition CreateCert :: "('k, 'g) acme \<Rightarrow> ('k, 'g) lego \<Rightarrow> 'k lego_world \<Rightarrow> string option \<times> 'k lego_world" where
  "CreateCert ax l w =
     (let domains = [cc_CertDomain (lg_config l)];
          w1 = record_call (CallObtain (us_Email (lg_user l)) (lg_challenge l) domains True) w
      in case am_Obtain ax (lw_Calls w) (lg_user l) (lg_challenge l) domains True of
           Inl e \<Rightarrow> (Some (''obtain certificate error: '' @ e), w1)
         | Inr certificates \<Rightarrow> write_result l certificates w1)"

text \<open>
  \<^verbatim>\<open>time.Until\<close> stays within a duration. The days left are computed in floating point and cut off; up to the bound
  of 31 days the rounding of the two divisions does not reach the next whole day, so they are the whole days left.
\<close>

definition Until :: "int \<Rightarrow> int \<Rightarrow> int" where
  "Until t now = time_Sub t now"

definition CheckCert :: "('k, 'g) acme \<Rightarrow> string \<Rightarrow> int \<Rightarrow> bool \<times> string option" where
  "CheckCert ax file now =
     (case am_ParseCert ax file of
        Inl e \<Rightarrow> (False, Some e)
      | Inr notAfter \<Rightarrow> if go_div (Until notAfter now) (24 * Hour) > 30 then (False, None) else (True, None))"

definition RenewCert :: "('k, 'g) acme \<Rightarrow> ('k, 'g) lego \<Rightarrow> 'k lego_world \<Rightarrow> string option \<times> 'k lego_world" where
  "RenewCert ax l w =
     (case disk_read (cc_CertFile (lg_config l)) w of
        Inl e \<Rightarrow> (Some (''read cert file error: '' @ e), w)
      | Inr file \<Rightarrow>
          (case CheckCert ax file (dk_Now w) of
             (False, _) \<Rightarrow> (None, w)
           | (True, Some e) \<Rightarrow> (Some (''check cert error: '' @ e), w)
           | (True, None) \<Rightarrow>
               let domain = cc_CertDomain (lg_config l);
                   w1 = record_call (CallRenew (us_Email (lg_user l)) (lg_challenge l) domain file True False '''') w
               in (case am_Renew ax (lw_Calls w) (lg_user l) (lg_challenge l) domain file True False '''' of
                     Inl e \<Rightarrow> (Some e, w1)
                   | Inr res \<Rightarrow> write_result l res w1)))"

end
