(* ===== verification/Cert_Files.thy ===== *)
theory Cert_Files
  imports Lego Controller
begin

text \<open>
  The certificate tasks of a controller, \<^verbatim>\<open>node/cert.go\<close>, on the disk: the check before a node is started, the
  certificate it signs itself, and the daily renewal. In the theory \<open>Controller\<close> the same check asks its surroundings;
  here it runs the client of \<open>Lego\<close>.
\<close>

section \<open>The self-signed certificate\<close>

text \<open>The fields of the \<^verbatim>\<open>x509.Certificate\<close> that are set; key usages are the library's bits and numbers.\<close>

record x509_template =
  xt_Version :: int
  xt_SerialNumber :: int
  xt_CommonName :: string
  xt_DNSNames :: "string list"
  xt_BasicConstraintsValid :: bool
  xt_KeyUsage :: int
  xt_ExtKeyUsage :: "int list"
  xt_NotBefore :: int
  xt_NotAfter :: int

text \<open>The random key, none when its generation failed; the instant some years later in the local calendar; signing; and the
  encodings.\<close>

record 'r self_env =
  sf_GenerateKey :: "'r option"
  sf_AddYears :: "int \<Rightarrow> int \<Rightarrow> int"
  sf_CreateCertificate :: "x509_template \<Rightarrow> 'r \<Rightarrow> string + string"
  sf_MarshalPKCS1 :: "'r \<Rightarrow> string"
  sf_PemEncode :: "string \<Rightarrow> string \<Rightarrow> string"

definition self_template :: "'r self_env \<Rightarrow> string \<Rightarrow> int \<Rightarrow> x509_template" where
  "self_template sf domain now =
     \<lparr>xt_Version = 3, xt_SerialNumber = Unix now, xt_CommonName = domain, xt_DNSNames = [domain],
      xt_BasicConstraintsValid = True, xt_KeyUsage = 5, xt_ExtKeyUsage = [1], xt_NotBefore = now,
      xt_NotAfter = sf_AddYears sf 30 now\<rparr>"

text \<open>Both files are opened without truncating them.\<close>

definition write_over :: "string \<Rightarrow> string \<Rightarrow> 'a disk_scheme \<Rightarrow> string option \<times> 'a disk_scheme" where
  "write_over p c d = (case OpenFile False p d of (Some e, d) \<Rightarrow> (Some e, d) | (None, d) \<Rightarrow> file_write p c d)"

text \<open>A key that could not be generated is nil, and \<^verbatim>\<open>key.Public()\<close> dereferences it.\<close>

definition generateSelfSslCertificate :: "'r self_env \<Rightarrow> string \<Rightarrow> string \<Rightarrow> string \<Rightarrow> 'a disk_scheme \<Rightarrow>
    (string option \<times> 'a disk_scheme) option" where
  "generateSelfSslCertificate sf domain certPath keyPath d =
     (case sf_GenerateKey sf of
        None \<Rightarrow> panic
      | Some key \<Rightarrow>
          (case sf_CreateCertificate sf (self_template sf domain (dk_Now d)) key of
             Inl e \<Rightarrow> Some (Some e, d)
           | Inr cert \<Rightarrow>
               (case write_over certPath (sf_PemEncode sf ''CERTIFICATE'' cert) d of
                  (Some e, d) \<Rightarrow> Some (Some e, d)
                | (None, d) \<Rightarrow> Some (write_over keyPath (sf_PemEncode sf ''EC PRIVATE KEY'' (sf_MarshalPKCS1 sf key)) d))))"

section \<open>The check before a node is started\<close>

definition both_exist :: "cert_config \<Rightarrow> 'a disk_scheme \<Rightarrow> bool" where
  "both_exist cc d = (IsExist (cc_CertFile cc) d \<and> IsExist (cc_KeyFile cc) d)"

definition obtain_cert :: "('k, 'g) acme \<Rightarrow> cert_config \<Rightarrow> 'k lego_world \<Rightarrow> (string option \<times> 'k lego_world) option" where
  "obtain_cert ax cc w =
     (case NewLego ax cc w of
        None \<Rightarrow> panic
      | Some (Inl e, w) \<Rightarrow> Some (Some (''create lego object error: '' @ e), w)
      | Some (Inr l, w) \<Rightarrow>
          (case CreateCert ax l w of (e, w) \<Rightarrow> Some (map_option (\<lambda>e. ''create lego cert error: '' @ e) e, w)))"

definition self_cert :: "'r self_env \<Rightarrow> cert_config \<Rightarrow> 'a disk_scheme \<Rightarrow> (string option \<times> 'a disk_scheme) option" where
  "self_cert sf cc d = map_option (\<lambda>(e, d). (map_option (\<lambda>e. ''generate self cert error: '' @ e) e, d))
     (generateSelfSslCertificate sf (cc_CertDomain cc) (cc_CertFile cc) (cc_KeyFile cc) d)"

definition requestCert_files :: "('k, 'g) acme \<Rightarrow> 'r self_env \<Rightarrow> options \<Rightarrow> 'k lego_world \<Rightarrow>
    (string option \<times> 'k lego_world) option" where
  "requestCert_files ax sf opt w =
     (case op_CertConfig opt of
        None \<Rightarrow> panic
      | Some cc \<Rightarrow>
          let mode = cc_CertMode cc;
              no_path = (cc_CertFile cc = '''' \<or> cc_KeyFile cc = '''');
              bad = Some ''cert file path or key file path not exist''
          in if mode = ''none'' \<or> mode = '''' then Some (None, w)
             else if mode = ''file'' then Some (if no_path then bad else None, w)
             else if mode = ''dns'' \<or> mode = ''http'' then
               (if no_path then Some (bad, w) else if both_exist cc w then Some (None, w) else obtain_cert ax cc w)
             else if mode = ''self'' then
               (if no_path then Some (bad, w) else if both_exist cc w then Some (None, w) else self_cert sf cc w)
             else Some (Some (''unsupported certmode: '' @ mode), w))"

section \<open>The renewal\<close>

text \<open>The task never fails; its errors are logged, here the first part of the result. It is run only for a configuration.\<close>

definition renewCertTask :: "('k, 'g) acme \<Rightarrow> cert_config \<Rightarrow> 'k lego_world \<Rightarrow> (string option \<times> 'k lego_world) option" where
  "renewCertTask ax cc w =
     (case NewLego ax cc w of
        None \<Rightarrow> panic
      | Some (Inl e, w) \<Rightarrow> Some (Some (''new lego error: '' @ e), w)
      | Some (Inr l, w) \<Rightarrow> (case RenewCert ax l w of (e, w) \<Rightarrow> Some (map_option (\<lambda>e. ''renew cert error: '' @ e) e, w)))"

section \<open>What the controller sees\<close>

text \<open>The surroundings of a controller whose certificates are those of a disk.\<close>

definition cert_env :: "('k, 'g) acme \<Rightarrow> 'r self_env \<Rightarrow> 'k lego_world \<Rightarrow> 're ctrl_env \<Rightarrow> 're ctrl_env" where
  "cert_env ax sf w ev = ev\<lparr>
     ev_IsExist := (\<lambda>p. IsExist p w),
     ev_NewLego := (\<lambda>cc. case NewLego ax cc w of Some (Inl e, _) \<Rightarrow> Some e | _ \<Rightarrow> None),
     ev_CreateCert := (\<lambda>cc. case NewLego ax cc w of Some (Inr l, w') \<Rightarrow> fst (CreateCert ax l w') | _ \<Rightarrow> None),
     ev_SelfCert := (\<lambda>domain certPath keyPath.
       case generateSelfSslCertificate sf domain certPath keyPath w of Some (e, _) \<Rightarrow> e | None \<Rightarrow> None)\<rparr>"

end
