(* ===== verification/Cert_Laws.thy ===== *)
theory Cert_Laws
  imports Cert_Files Controller_Laws
begin

text \<open>
  What the certificate client does: an account is registered once and found again, a certificate is renewed
  exactly when it is due, and only the files of the certificate are written; and what the controller's view of it
  promises.
\<close>

section \<open>The account\<close>

text \<open>What is written about a user of that address is read back, and a key and a PEM block are decoded from their encoding.\<close>

definition faithful_account :: "('k, 'g) account_codec \<Rightarrow> string \<Rightarrow> bool" where
  "faithful_account cd email \<longleftrightarrow>
     (\<forall>reg key text. ak_Encode cd (email, reg, key) = Inr text \<longrightarrow> ak_Decode cd text ('''', None, '''') = Inr (email, reg, key)) \<and>
     (\<forall>k. \<exists>bytes. ak_MarshalEC cd k = Inr bytes \<and> ak_ParseEC cd bytes = Inr k) \<and>
     (\<forall>t bytes. ak_PemDecode cd (ak_PemEncode cd t bytes) = Some bytes)"

lemma key_roundtrip:
  "faithful_account cd email \<Longrightarrow> \<exists>text. EncodePrivate cd k = Inr text \<and> DecodePrivate cd text = Some (Inr k)"
proof -
  assume a: "faithful_account cd email"
  then obtain bytes where b: "ak_MarshalEC cd k = Inr bytes" "ak_ParseEC cd bytes = Inr k"
    unfolding faithful_account_def by blast
  with a show ?thesis
    by (intro exI [of _ "ak_PemEncode cd ''EC PRIVATE KEY'' bytes"]) (simp add: faithful_account_def EncodePrivate_def DecodePrivate_def)
qed

lemma checkPath_keeps:
  "checkPath p d = (e, d') \<Longrightarrow> disk_file q d' = disk_file q d \<and> dk_Fault d' = dk_Fault d \<and> dk_Now d' = dk_Now d"
  using mkdir_keeps [of "path_Dir p" d] by (auto simp: checkPath_def split: if_splits prod.splits)

lemma save_load:
  assumes "SaveUser cd path u d = Some (None, u', d')" "faithful_account cd (us_Email u)" "dk_Fault d' ReadOp path = None"
  shows "\<exists>t. LoadUser cd path zero_user d' = Some (Inr (u\<lparr>us_KeyEncoded := t\<rparr>)) \<and> IsExist path d' \<and> u' = u\<lparr>us_KeyEncoded := ''''\<rparr>"
proof -
  obtain d1 d2 k pem json where d1: "checkPath path d = (None, d1)" and k: "us_key u = Some k"
    and pem: "EncodePrivate cd k = Inr pem" "DecodePrivate cd pem = Some (Inr k)"
    and open1: "OpenFile True path d1 = (None, d2)" and json: "ak_Encode cd (us_Email u, us_Registration u, pem) = Inr json"
    and w: "file_write path json d2 = (None, d')" and u': "u' = u\<lparr>us_KeyEncoded := ''''\<rparr>"
    using assms(1) key_roundtrip [OF assms(2)]
    by (auto simp: SaveUser_def Let_def split: prod.splits option.splits sum.splits) (metis sum.sel(2) Inl_Inr_False)+
  have f: "disk_file path d' = Some json" "path \<noteq> ''''" "\<not> is_dir path d'"
    using open_write [OF open1 w] by simp_all
  moreover have "ak_Decode cd json ('''', None, '''') = Inr (us_Email u, us_Registration u, pem)"
    using assms(2) json by (auto simp: faithful_account_def)
  ultimately have "LoadUser cd path zero_user d' = Some (Inr (u\<lparr>us_KeyEncoded := pem\<rparr>))"
    using assms(3) pem(2) k by (cases u) (simp add: LoadUser_def disk_read_def zero_user_def)
  with f u' show ?thesis by (auto simp: IsExist_def)
qed

lemma register_load:
  assumes "registerUser ax u path w = Some (Inr u', w')" "faithful_account (am_codec ax) (us_Email u)" "dk_Fault w' ReadOp path = None"
  shows "\<exists>t. LoadUser (am_codec ax) path zero_user w' = Some (Inr (u'\<lparr>us_KeyEncoded := t\<rparr>)) \<and> IsExist path w' \<and> us_Email u' = us_Email u"
proof -
  obtain v d where v: "SaveUser (am_codec ax) path v d = Some (None, u', w')" "us_Email v = us_Email u"
    using assms(1) by (auto simp: registerUser_def Let_def split: sum.splits option.splits prod.splits)
  show ?thesis using save_load [OF v(1)] v(2) assms(2,3) by fastforce
qed

text \<open>C18: A new client uses an account that is there: once an account was loaded or registered for an address, asking again
  for it, now or after a restart, gives the same address, registration and key, and neither registers again nor
  changes any file.\<close>

theorem account_persists:
  assumes "NewLegoUser ax path email w = Some (Inr u, w')" "faithful_account (am_codec ax) email" "dk_Fault w' ReadOp path = None"
  shows "us_Email u = email \<and> (\<exists>t. NewLegoUser ax path email w' = Some (Inr (u\<lparr>us_KeyEncoded := t\<rparr>), w'))"
proof -
  consider (load) "IsExist path w" "LoadUser (am_codec ax) path zero_user w = Some (Inr u)" "us_Email u = email" "w' = w"
    | (register) v where "registerUser ax v path w = Some (Inr u, w')" "us_Email v = email"
    using assms(1) by (auto simp: NewLegoUser_def split: if_splits option.splits sum.splits)
  then show ?thesis
  proof cases
    case load
    then show ?thesis by (auto simp: NewLegoUser_def intro: exI [of _ "us_KeyEncoded u"])
  next
    case register
    then obtain t where t: "LoadUser (am_codec ax) path zero_user w' = Some (Inr (u\<lparr>us_KeyEncoded := t\<rparr>))" "IsExist path w'"
      "us_Email u = email" using register_load assms(2,3) by blast
    then show ?thesis by (auto simp: NewLegoUser_def)
  qed
qed

section \<open>The files of a certificate\<close>

lemma replace_params_plain: "CHR ''{'' \<notin> set p \<Longrightarrow> replace_params domain email p = p"
  by (induction p) (auto simp: HasPrefix_def)

lemma write_one_spec:
  assumes "write_one l p c d = (e, d')"
  shows "(\<not> same_place q (parseParams l p) \<longrightarrow> disk_file q d' = disk_file q d) \<and> dk_Fault d' = dk_Fault d \<and> dk_Now d' = dk_Now d \<and>
    (e = None \<longrightarrow> disk_file (parseParams l p) d' = Some c)"
proof -
  obtain e1 d1 where 1: "checkPath p d = (e1, d1)" by fastforce
  note k = checkPath_keeps [OF 1]
  show ?thesis
  proof (cases e1)
    case None
    then have w: "disk_write (parseParams l p) c d1 = (e, d')" using assms 1 by (simp add: write_one_def)
    show ?thesis using k write_keeps [OF w] write_stores [of "parseParams l p" c d1 d'] w by auto
  next
    case (Some x)
    then show ?thesis using assms 1 k by (auto simp: write_one_def)
  qed
qed

definition cert_place :: "('k, 'g) lego \<Rightarrow> string" where "cert_place l = parseParams l (cc_CertFile (lg_config l))"
definition key_place :: "('k, 'g) lego \<Rightarrow> string" where "key_place l = parseParams l (cc_KeyFile (lg_config l))"

lemma writeCert_spec:
  assumes "writeCert l res d = (e, d')"
  shows "(\<forall>q. \<not> same_place q (cert_place l) \<longrightarrow> \<not> same_place q (key_place l) \<longrightarrow> disk_file q d' = disk_file q d) \<and>
    (e = None \<longrightarrow> disk_file (key_place l) d' = Some (re_PrivateKey res) \<and>
      (\<not> same_place (cert_place l) (key_place l) \<longrightarrow> disk_file (cert_place l) d' = Some (re_Certificate res)))"
proof -
  obtain e1 d1 where 1: "write_one l (cc_CertFile (lg_config l)) (re_Certificate res) d = (e1, d1)" by fastforce
  note w1 = write_one_spec [OF 1, folded cert_place_def]
  show ?thesis
  proof (cases e1)
    case None
    then have 2: "write_one l (cc_KeyFile (lg_config l)) (re_PrivateKey res) d1 = (e, d')"
      using assms 1 by (simp add: writeCert_def)
    show ?thesis using w1 write_one_spec [OF 2, folded key_place_def] None by auto
  next
    case (Some x)
    then show ?thesis using assms 1 w1 by (auto simp: writeCert_def)
  qed
qed

lemma calls_of_disk:
  "checkPath p w = (e, w') \<Longrightarrow> lw_Calls w' = lw_Calls w" "disk_write p c w = (e, w') \<Longrightarrow> lw_Calls w' = lw_Calls w"
  for w w' :: "'k lego_world"
  by (auto simp: checkPath_def MkdirAll_def disk_write_def file_write_def OpenFile_def put_file_def
      split: if_splits prod.splits option.splits)

lemma writeCert_calls: "writeCert l res w = (e, w') \<Longrightarrow> lw_Calls w' = lw_Calls w" for w w' :: "'k lego_world"
  by (auto simp: writeCert_def write_one_def split: prod.splits option.splits dest!: calls_of_disk)

lemma record_call_simps [simp]:
  "disk_file q (record_call c w) = disk_file q w" "lw_Calls (record_call c w) = lw_Calls w @ [c]"
  by (simp_all add: record_call_def disk_file_def)

section \<open>Renewal\<close>

lemma days_left: "go_div (Until t now) (24 * Hour) > 30 \<longleftrightarrow> t \<ge> now + 31 * (24 * Hour)"
proof (cases "Until t now \<ge> 0")
  case True
  then have "go_div (Until t now) (24 * Hour) > 30 \<longleftrightarrow> Until t now \<ge> 31 * (24 * Hour)"
    by (simp add: go_div_nonneg) linarith
  then show ?thesis by (simp add: Until_def time_Sub_def) linarith
next
  case False
  then have "go_div (Until t now) (24 * Hour) \<le> 0"
    by (simp add: go_div_def sgn_if)
  moreover have "t < now" using False by (auto simp: Until_def time_Sub_def)
  ultimately show ?thesis by simp
qed

text \<open>C19: The daily renewal looks at the certificate file: if it cannot be read, it fails; if at least 31 days are left, it
  does nothing; otherwise it asks once for a renewal of the domain, and when that succeeds, the key file
  and (at another path) the certificate file hold what came back. No other file changes. A file that is no certificate
  also ends the renewal, without an error.\<close>

theorem renew_decision:
  assumes "RenewCert ax l w = (e, w')" "cc_CertFile (lg_config l) = cert" "dk_Now w = now"
  shows "case disk_read cert w of
      Inl err \<Rightarrow> e = Some (''read cert file error: '' @ err) \<and> w' = w
    | Inr file \<Rightarrow> (case am_ParseCert ax file of
          Inl _ \<Rightarrow> e = None \<and> w' = w
        | Inr notAfter \<Rightarrow>
            if notAfter \<ge> now + 31 * (24 * Hour) then e = None \<and> w' = w
            else lw_Calls w' = lw_Calls w @
                [CallRenew (us_Email (lg_user l)) (lg_challenge l) (cc_CertDomain (lg_config l)) file True False ''''] \<and>
              (\<forall>q. \<not> same_place q (cert_place l) \<longrightarrow> \<not> same_place q (key_place l) \<longrightarrow> disk_file q w' = disk_file q w) \<and>
              (e = None \<longrightarrow> (\<exists>res. am_Renew ax (lw_Calls w) (lg_user l) (lg_challenge l) (cc_CertDomain (lg_config l)) file
                  True False '''' = Inr res \<and> disk_file (key_place l) w' = Some (re_PrivateKey res) \<and>
                  (\<not> same_place (cert_place l) (key_place l) \<longrightarrow> disk_file (cert_place l) w' = Some (re_Certificate res)))))"
proof (cases "disk_read cert w")
  case (Inr f)
  note read = this
  show ?thesis
  proof (cases "am_ParseCert ax f")
    case (Inr notAfter)
    note parse = this
    show ?thesis
    proof (cases "notAfter \<ge> now + 31 * (24 * Hour)")
      case False
      let ?dom = "cc_CertDomain (lg_config l)"
      let ?w1 = "record_call (CallRenew (us_Email (lg_user l)) (lg_challenge l) ?dom f True False '''') w"
      have "\<not> go_div (Until notAfter now) (24 * Hour) > 30" using False by (simp only: days_left) simp
      then have run: "RenewCert ax l w = (case am_Renew ax (lw_Calls w) (lg_user l) (lg_challenge l) ?dom f True False '''' of
          Inl e \<Rightarrow> (Some e, ?w1) | Inr res \<Rightarrow> write_result l res ?w1)"
        using read parse assms(2,3) by (simp add: RenewCert_def CheckCert_def Let_def)
      show ?thesis
      proof (cases "am_Renew ax (lw_Calls w) (lg_user l) (lg_challenge l) ?dom f True False ''''")
        case (Inl err)
        then show ?thesis using run assms(1) read parse False by auto
      next
        case (Inr res)
        obtain e1 w1 where c: "writeCert l res ?w1 = (e1, w1)" by fastforce
        then have "w' = w1" "(e = None) = (e1 = None)" using run Inr assms(1) by (auto simp: write_result_def)
        then show ?thesis using writeCert_spec [OF c] writeCert_calls [OF c] Inr read parse False by simp
      qed
    next
      case True
      then have "go_div (Until notAfter now) (24 * Hour) > 30" by (simp only: days_left)
      then have "CheckCert ax f (dk_Now w) = (False, None)" using parse assms(3) by (simp only: CheckCert_def) simp
      then show ?thesis using read parse assms True by (simp add: RenewCert_def)
    qed
  qed (use read assms in \<open>simp add: RenewCert_def CheckCert_def\<close>)
qed (use assms in \<open>simp add: RenewCert_def\<close>)

section \<open>The check before a node is started\<close>

lemma obtain_cert_seen:
  "obtain_cert ax cc w = Some (e, w') \<Longrightarrow>
     (case ev_NewLego (cert_env ax sf w ev) cc of
        Some err \<Rightarrow> Some (''create lego object error: '' @ err)
      | None \<Rightarrow> map_option (\<lambda>err. ''create lego cert error: '' @ err) (ev_CreateCert (cert_env ax sf w ev) cc)) = e"
  by (simp add: obtain_cert_def cert_env_def map_option_case split: option.splits sum.splits prod.splits)

lemma self_cert_seen:
  "self_cert sf cc w = Some (e, w') \<Longrightarrow>
     map_option (\<lambda>err. ''generate self cert error: '' @ err)
       (ev_SelfCert (cert_env ax sf w ev) (cc_CertDomain cc) (cc_CertFile cc) (cc_KeyFile cc)) = e"
  by (simp add: self_cert_def cert_env_def map_option_case split: option.splits sum.splits prod.splits)

lemma exists_seen [simp]: "ev_IsExist (cert_env ax sf w ev) p = IsExist p w"
  by (simp add: cert_env_def)

text \<open>The certificate check of the controller, which only asks its surroundings, is what the client does on the disk:
  whenever the client finishes, the controller reports the same error or the same success.\<close>

theorem request_cert_refines:
  assumes "requestCert_files ax sf opt w = Some (e, w')"
  shows "requestCert (cert_env ax sf w ev) opt = Some e"
proof (cases "op_CertConfig opt")
  case (Some cc)
  consider "cc_CertMode cc = ''none'' \<or> cc_CertMode cc = ''''" | "cc_CertMode cc = ''file''"
    | (acme) "cc_CertMode cc = ''dns'' \<or> cc_CertMode cc = ''http''" | (self) "cc_CertMode cc = ''self''"
    | (other) "cc_CertMode cc \<notin> {''none'', '''', ''file'', ''dns'', ''http'', ''self''}" by auto
  then show ?thesis
  proof cases
    case acme
    then show ?thesis
      using assms Some
      by (auto simp: requestCert_files_def requestCert_def both_exist_def Let_def simp del: append.simps
          split: if_splits dest!: obtain_cert_seen [where sf = sf and ev = ev])
  next
    case self
    then show ?thesis
      using assms Some
      by (auto simp: requestCert_files_def requestCert_def both_exist_def Let_def simp del: append.simps
          split: if_splits dest!: self_cert_seen [where ax = ax and ev = ev])
  qed (use assms Some in \<open>auto simp: requestCert_files_def requestCert_def Let_def\<close>)
qed (use assms in \<open>simp add: requestCert_files_def\<close>)

text \<open>A certificate that exists is left alone, and nothing is asked of the library.\<close>

lemma existing_cert_kept:
  "requestCert_files ax sf opt w = Some (e, w') \<Longrightarrow> op_CertConfig opt = Some cc \<Longrightarrow> both_exist cc w \<Longrightarrow> w' = w"
  by (auto simp: requestCert_files_def Let_def split: if_splits)

section \<open>Concrete runs\<close>

text \<open>An ACME server that grants everything; the certificate it gives is valid for ten more days. A user's file is its address,
  a line end, a mark for the registration, and the key.\<close>

definition demo_account_codec :: "(bool, unit) account_codec" where
  "demo_account_codec = \<lparr>
     ak_Encode = (\<lambda>(e, r, k). Inr (e @ CHR 0x0A # (if r = None then CHR ''0'' else CHR ''1'') # k)),
     ak_Decode = (\<lambda>text _. case dropWhile (\<lambda>c. c \<noteq> CHR 0x0A) text of
         _ # r # k \<Rightarrow> Inr (takeWhile (\<lambda>c. c \<noteq> CHR 0x0A) text, if r = CHR ''0'' then None else Some (), k)
       | _ \<Rightarrow> Inl ''unexpected end''),
     ak_MarshalEC = (\<lambda>k. Inr (if k then ''1'' else ''0'')),
     ak_ParseEC = (\<lambda>b. if b = ''1'' then Inr True else if b = ''0'' then Inr False else Inl ''bad key''),
     ak_PemEncode = (\<lambda>t b. CHR ''P'' # b),
     ak_PemDecode = (\<lambda>s. case s of [] \<Rightarrow> None | c # b \<Rightarrow> if c = CHR ''P'' then Some b else None)\<rparr>"

definition demo_acme :: "(bool, unit) acme" where
  "demo_acme = \<lparr>am_GenerateKey = (\<lambda>_. Inr True), am_NewClient = (\<lambda>_ _. None), am_Register = (\<lambda>_ _. Inr ()),
     am_SetHTTP01 = None, am_DNSProvider = (\<lambda>_ _. None), am_SetDNS01 = None,
     am_Obtain = (\<lambda>_ _ _ _ _. Inr \<lparr>re_Certificate = ''cert'', re_PrivateKey = ''key''\<rparr>),
     am_Renew = (\<lambda>_ _ _ _ _ _ _ _. Inr \<lparr>re_Certificate = ''cert2'', re_PrivateKey = ''key2''\<rparr>),
     am_ParseCert = (\<lambda>c. if c = ''cert'' then Inr (10 * (24 * Hour)) else Inl ''no certificate''),
     am_codec = demo_account_codec\<rparr>"

definition demo_disk_world :: "bool lego_world" where
  "demo_disk_world = \<lparr>dk_Files = [], dk_Dirs = [''/c''], dk_Now = 0, dk_Fault = (\<lambda>_ _. None), lw_Env = [], lw_Calls = []\<rparr>"

definition demo_cert :: "string \<Rightarrow> cert_config" where
  "demo_cert file = \<lparr>cc_CertMode = ''http'', cc_RejectUnknownSni = False, cc_CertDomain = ''x.org'', cc_CertFile = file,
     cc_KeyFile = ''/c/x.key'', cc_Provider = '''', cc_Email = ''a@b'', cc_DNSEnv = []\<rparr>"

definition demo_self :: "bool self_env" where
  "demo_self = \<lparr>sf_GenerateKey = Some True, sf_AddYears = (\<lambda>n t. t + n * (365 * (24 * Hour))),
     sf_CreateCertificate = (\<lambda>_ _. Inr ''c''), sf_MarshalPKCS1 = (\<lambda>_. ''k''), sf_PemEncode = (\<lambda>t b. b)\<rparr>"

lemma ran_to: "map_option fst r = Some e \<Longrightarrow> r = Some (e, snd (the r))"
  by (cases r) auto

lemma faithful_demo: "faithful_account demo_account_codec ''a@b''"
  by (auto simp: faithful_account_def demo_account_codec_def)

lemma account_persists_witness:
  "\<exists>u w'. NewLegoUser demo_acme ''/c/user/u.json'' ''a@b'' demo_disk_world = Some (Inr u, w') \<and>
     lw_Calls w' = [CallRegister ''a@b'' (Some True)] \<and>
     (\<exists>t. NewLegoUser demo_acme ''/c/user/u.json'' ''a@b'' w' = Some (Inr (u\<lparr>us_KeyEncoded := t\<rparr>), w'))"
proof -
  let ?r = "the (NewLegoUser demo_acme ''/c/user/u.json'' ''a@b'' demo_disk_world)"
  have run: "map_option fst (NewLegoUser demo_acme ''/c/user/u.json'' ''a@b'' demo_disk_world) =
      Some (Inr \<lparr>us_Email = ''a@b'', us_Registration = Some (), us_key = Some True, us_KeyEncoded = ''''\<rparr>)"
    by code_simp
  obtain u where u: "NewLegoUser demo_acme ''/c/user/u.json'' ''a@b'' demo_disk_world = Some (Inr u, snd ?r)"
    using ran_to [of "NewLegoUser demo_acme ''/c/user/u.json'' ''a@b'' demo_disk_world" "Inr _"] run by blast
  have "lw_Calls (snd ?r) = [CallRegister ''a@b'' (Some True)]" "dk_Fault (snd ?r) ReadOp ''/c/user/u.json'' = None"
    by code_simp+
  with u account_persists [OF u] faithful_demo show ?thesis by (auto simp: demo_acme_def)
qed

text \<open>Ten days before the end of its certificate the client asks for a new one and writes it.\<close>

lemma renew_decision_witness:
  "\<exists>l w e w'. RenewCert demo_acme l w = (e, w') \<and> disk_file ''/c/x.pem'' w = Some ''cert'' \<and>
     lw_Calls w' = lw_Calls w @ [CallRenew ''a@b'' (Some HTTP01) ''x.org'' ''cert'' True False '''']"
proof -
  let ?w = "put_file ''/c/x.pem'' ''cert'' demo_disk_world"
  let ?l = "\<lparr>lg_user = zero_user\<lparr>us_Email := ''a@b''\<rparr>, lg_challenge = Some HTTP01, lg_config = demo_cert ''/c/x.pem''\<rparr>"
  obtain e w' where r: "RenewCert demo_acme ?l ?w = (e, w')" by fastforce
  have "disk_read ''/c/x.pem'' ?w = Inr ''cert''" "disk_file ''/c/x.pem'' ?w = Some ''cert''" by code_simp+
  then show ?thesis
    using renew_decision [OF r refl refl] r
    by (intro exI [of _ ?l] exI [of _ ?w] exI [of _ e] exI [of _ w'])
      (simp add: demo_cert_def demo_acme_def zero_user_def demo_disk_world_def put_file_def)
qed

lemma request_cert_refines_witness:
  "\<exists>w'. requestCert_files demo_acme demo_self (default_options\<lparr>op_CertConfig := Some (demo_cert ''/c/x.pem'')\<rparr>) demo_disk_world =
       Some (None, w') \<and> disk_file ''/c/x.pem'' w' = Some ''cert'' \<and> disk_file ''/c/x.key'' w' = Some ''key'' \<and>
     requestCert (cert_env demo_acme demo_self demo_disk_world demo_ctrl_env)
       (default_options\<lparr>op_CertConfig := Some (demo_cert ''/c/x.pem'')\<rparr>) = Some None"
proof -
  let ?o = "default_options\<lparr>op_CertConfig := Some (demo_cert ''/c/x.pem'')\<rparr>"
  let ?w = "snd (the (requestCert_files demo_acme demo_self ?o demo_disk_world))"
  have r: "requestCert_files demo_acme demo_self ?o demo_disk_world = Some (None, ?w)"
    by (rule ran_to) code_simp
  have "disk_file ''/c/x.pem'' ?w = Some ''cert''" "disk_file ''/c/x.key'' ?w = Some ''key''" by code_simp+
  with r request_cert_refines [OF r] show ?thesis by blast
qed

text \<open>A placeholder in the path of the certificate is replaced only where the file is written: the file is never found again, so
  every start obtains another certificate, and the renewal fails each time.\<close>

lemma placeholder_not_found:
  "\<exists>w1 w2. requestCert_files demo_acme demo_self (default_options\<lparr>op_CertConfig := Some (demo_cert ''/c/{domain}.pem'')\<rparr>)
       demo_disk_world = Some (None, w1) \<and> disk_file ''/c/x.org.pem'' w1 = Some ''cert'' \<and>
     requestCert_files demo_acme demo_self (default_options\<lparr>op_CertConfig := Some (demo_cert ''/c/{domain}.pem'')\<rparr>) w1 =
       Some (None, w2) \<and> length (filter (\<lambda>c. case c of CallObtain _ _ _ _ \<Rightarrow> True | _ \<Rightarrow> False) (lw_Calls w2)) = 2 \<and>
     fst (the (renewCertTask demo_acme (demo_cert ''/c/{domain}.pem'') w2)) \<noteq> None"
proof -
  let ?o = "default_options\<lparr>op_CertConfig := Some (demo_cert ''/c/{domain}.pem'')\<rparr>"
  let ?w1 = "snd (the (requestCert_files demo_acme demo_self ?o demo_disk_world))"
  let ?w2 = "snd (the (requestCert_files demo_acme demo_self ?o ?w1))"
  have "requestCert_files demo_acme demo_self ?o demo_disk_world = Some (None, ?w1)"
    "requestCert_files demo_acme demo_self ?o ?w1 = Some (None, ?w2)"
    by (rule ran_to, code_simp)+
  moreover have "disk_file ''/c/x.org.pem'' ?w1 = Some ''cert''"
    "length (filter (\<lambda>c. case c of CallObtain _ _ _ _ \<Rightarrow> True | _ \<Rightarrow> False) (lw_Calls ?w2)) = 2"
    "fst (the (renewCertTask demo_acme (demo_cert ''/c/{domain}.pem'') ?w2)) \<noteq> None"
    by code_simp+
  ultimately show ?thesis by blast
qed

text \<open>A file that is no certificate is never replaced, and no error is logged.\<close>

lemma bad_certificate_kept:
  "am_ParseCert ax file = Inl err \<Longrightarrow> disk_read (cc_CertFile (lg_config l)) w = Inr file \<Longrightarrow> RenewCert ax l w = (None, w)"
  by (simp add: RenewCert_def CheckCert_def)

text \<open>An account file without a key stops the process.\<close>

lemma account_without_key_panics:
  "NewLego demo_acme (demo_cert ''/c/x.pem'') (put_file ''/c/user/user-a@b.json'' (''a@b'' @ CHR 0x0A # ''1'') demo_disk_world) = None"
proof -
  have "Option.is_none (NewLego demo_acme (demo_cert ''/c/x.pem'')
      (put_file ''/c/user/user-a@b.json'' (''a@b'' @ CHR 0x0A # ''1'') demo_disk_world))"
    by code_simp
  then show ?thesis by (simp add: Option.is_none_def)
qed

text \<open>A self-signed certificate written over a longer file, whose key was lost, keeps the end of that file.\<close>

lemma self_certificate_tail:
  "map_option (disk_file ''/c/x.pem'' \<circ> snd) (generateSelfSslCertificate demo_self ''x.org'' ''/c/x.pem'' ''/c/x.key''
     (put_file ''/c/x.pem'' ''old'' demo_disk_world)) = Some (Some ''cld'')"
  by code_simp

end
