(* ===== verification/Geo_Loader.thy ===== *)
theory Geo_Loader
  imports Disk
begin

text \<open>
  The loader of the geographic databases, \<^verbatim>\<open>core/hy2/geoloader.go\<close>: a database is kept once it is loaded; with no file
  configured it is downloaded when it is missing, empty, broken or too old. The parser of the databases and the web
  are arguments.
\<close>

definition geoipFilename :: string where "geoipFilename = ''geoip.dat''"
definition geoipURL :: string where
  "geoipURL = ''https://cdn.jsdelivr.net/gh/Loyalsoldier/v2ray-rules-dat@release/geoip.dat''"
definition geositeFilename :: string where "geositeFilename = ''geosite.dat''"
definition geositeURL :: string where
  "geositeURL = ''https://cdn.jsdelivr.net/gh/Loyalsoldier/v2ray-rules-dat@release/geosite.dat''"
definition geoDefaultUpdateInterval :: int where "geoDefaultUpdateInterval = 7 * 24 * Hour"

text \<open>A map that was not loaded is nil.\<close>

record ('i, 's) geo_loader =
  gl_GeoIPFilename :: string
  gl_GeoSiteFilename :: string
  gl_UpdateInterval :: int
  gl_geoipMap :: "'i option"
  gl_geositeMap :: "'s option"

datatype geo_event = Downloading string string | DownloadFailed string

record geo_world = disk +
  gw_Log :: "geo_event list"

text \<open>A page is an error, or its body and the error that breaks it off; \<open>gx_TempName\<close> is the fresh name that
  \<^verbatim>\<open>os.CreateTemp\<close> picks, \<open>gx_DirInfo\<close> the size and time of a directory. The parser sees the contents of a file.\<close>

record ('i, 's) geo_env =
  gx_Get :: "string \<Rightarrow> string + (string \<times> string option)"
  gx_TempName :: string
  gx_DirInfo :: "string \<Rightarrow> int \<times> int"
  gx_LoadGeoIP :: "string \<Rightarrow> string + 'i"
  gx_LoadGeoSite :: "string \<Rightarrow> string + 's"

definition geoDownloadFunc :: "string \<Rightarrow> string \<Rightarrow> geo_world \<Rightarrow> geo_world" where
  "geoDownloadFunc filename url w = w\<lparr>gw_Log := gw_Log w @ [Downloading filename url]\<rparr>"

definition geoDownloadErrFunc :: "string option \<Rightarrow> geo_world \<Rightarrow> geo_world" where
  "geoDownloadErrFunc err w = (case err of None \<Rightarrow> w | Some e \<Rightarrow> w\<lparr>gw_Log := gw_Log w @ [DownloadFailed e]\<rparr>)"

text \<open>An error of \<^verbatim>\<open>os.Stat\<close> other than a missing file leaves no information to ask.\<close>

definition shouldDownload :: "('i, 's) geo_env \<Rightarrow> ('i, 's) geo_loader \<Rightarrow> string \<Rightarrow> 'a disk_scheme \<Rightarrow> bool option" where
  "shouldDownload gx l filename d =
     (if \<not> IsExist filename d then Some True
      else if dk_Fault d StatOp filename \<noteq> None then panic
      else case (if is_dir filename d then gx_DirInfo gx filename
                 else case sm_load (dk_Files d) (path_Clean filename) of None \<Rightarrow> (0, 0) | Some (c, t) \<Rightarrow> (int (length c), t)) of
        (len, modTime) \<Rightarrow>
          if len = 0 then Some True
          else let dt = time_Sub (dk_Now d) modTime in
            if gl_UpdateInterval l = 0 then Some (dt > geoDefaultUpdateInterval) else Some (dt > gl_UpdateInterval l))"

text \<open>What \<^verbatim>\<open>LoadGeoIP\<close> and \<^verbatim>\<open>LoadGeoSite\<close> do with a file: they differ in its name, its address and its parser.\<close>

definition load_file :: "(string \<Rightarrow> string + 'm) \<Rightarrow> string \<Rightarrow> 'a disk_scheme \<Rightarrow> string + 'm" where
  "load_file parse filename d = (case disk_read filename d of Inl e \<Rightarrow> Inl e | Inr c \<Rightarrow> parse c)"

text \<open>The error that \<^verbatim>\<open>downloadAndCheck\<close> logs differs from the one it returns; its temporary file is removed at the end
  however that comes about.\<close>

definition geo_fail :: "string \<Rightarrow> string \<Rightarrow> geo_world \<Rightarrow> string option \<times> geo_world" where
  "geo_fail prefix e w = (Some e, geoDownloadErrFunc (Some (prefix @ e)) w)"

definition check_and_rename :: "string \<Rightarrow> string \<Rightarrow> (string \<Rightarrow> string + 'm) \<Rightarrow> geo_world \<Rightarrow> string option \<times> geo_world" where
  "check_and_rename tmp filename parse w =
     (case load_file parse tmp w of
        Inl e \<Rightarrow> geo_fail ''integrity check failed: '' e w
      | Inr _ \<Rightarrow>
          (case Rename tmp filename w of
             (Some e, w) \<Rightarrow> geo_fail ''rename failed: '' e w
           | (None, w) \<Rightarrow> (None, w)))"

definition downloadAndCheck :: "('i, 's) geo_env \<Rightarrow> string \<Rightarrow> string \<Rightarrow> (string \<Rightarrow> string + 'm) \<Rightarrow> geo_world \<Rightarrow>
    string option \<times> geo_world" where
  "downloadAndCheck gx filename url parse w0 =
     (let w = geoDownloadFunc filename url w0; tmp = gx_TempName gx in
      case gx_Get gx url of
        Inl e \<Rightarrow> geo_fail '''' e w
      | Inr (body, broken) \<Rightarrow>
          (case OpenFile True tmp w of
             (Some e, w) \<Rightarrow> geo_fail '''' e w
           | (None, w) \<Rightarrow>
               (case (case (file_write tmp body w, broken) of
                    ((Some e, w), _) \<Rightarrow> geo_fail '''' e w
                  | ((None, w), Some e) \<Rightarrow> geo_fail '''' e w
                  | ((None, w), None) \<Rightarrow> check_and_rename tmp filename parse w) of
                 (e, w) \<Rightarrow> (e, remove_file tmp w))))"

definition fetch_geo :: "('i, 's) geo_env \<Rightarrow> ('i, 's) geo_loader \<Rightarrow> bool \<Rightarrow> string \<Rightarrow> string \<Rightarrow> (string \<Rightarrow> string + 'm) \<Rightarrow>
    geo_world \<Rightarrow> ((string + 'm) \<times> geo_world) option" where
  "fetch_geo gx l autoDL filename url parse w =
     (if \<not> autoDL then Some (load_file parse filename w, w)
      else case shouldDownload gx l filename w of
        None \<Rightarrow> panic
      | Some should \<Rightarrow>
          (case (if should then Inl '''' else load_file parse filename w) of
             Inr m \<Rightarrow> Some (Inr m, w)
           | Inl _ \<Rightarrow>
               (case downloadAndCheck gx filename url parse w of
                  (Some err, w) \<Rightarrow> if \<not> IsExist filename w then Some (Inl err, w) else Some (load_file parse filename w, w)
                | (None, w) \<Rightarrow> Some (load_file parse filename w, w))))"

definition LoadGeoIP :: "('i, 's) geo_env \<Rightarrow> ('i, 's) geo_loader \<Rightarrow> geo_world \<Rightarrow>
    ((string + 'i) \<times> ('i, 's) geo_loader \<times> geo_world) option" where
  "LoadGeoIP gx l w =
     (case gl_geoipMap l of
        Some m \<Rightarrow> Some (Inr m, l, w)
      | None \<Rightarrow>
          let autoDL = (gl_GeoIPFilename l = ''''); filename = (if autoDL then geoipFilename else gl_GeoIPFilename l) in
          (case fetch_geo gx l autoDL filename geoipURL (gx_LoadGeoIP gx) w of
             None \<Rightarrow> panic
           | Some (Inl e, w) \<Rightarrow> Some (Inl e, l, w)
           | Some (Inr m, w) \<Rightarrow> Some (Inr m, l\<lparr>gl_geoipMap := Some m\<rparr>, w)))"

definition LoadGeoSite :: "('i, 's) geo_env \<Rightarrow> ('i, 's) geo_loader \<Rightarrow> geo_world \<Rightarrow>
    ((string + 's) \<times> ('i, 's) geo_loader \<times> geo_world) option" where
  "LoadGeoSite gx l w =
     (case gl_geositeMap l of
        Some m \<Rightarrow> Some (Inr m, l, w)
      | None \<Rightarrow>
          let autoDL = (gl_GeoSiteFilename l = ''''); filename = (if autoDL then geositeFilename else gl_GeoSiteFilename l) in
          (case fetch_geo gx l autoDL filename geositeURL (gx_LoadGeoSite gx) w of
             None \<Rightarrow> panic
           | Some (Inl e, w) \<Rightarrow> Some (Inl e, l, w)
           | Some (Inr m, w) \<Rightarrow> Some (Inr m, l\<lparr>gl_geositeMap := Some m\<rparr>, w)))"

section \<open>Properties\<close>

lemma log_simps [simp]:
  "disk_file q (geoDownloadFunc f u w) = disk_file q w" "disk_file q (geoDownloadErrFunc e w) = disk_file q w"
  "is_dir q (geoDownloadFunc f u w) = is_dir q w" "is_dir q (geoDownloadErrFunc e w) = is_dir q w"
  "dk_Fault (geoDownloadFunc f u w) = dk_Fault w" "dk_Fault (geoDownloadErrFunc e w) = dk_Fault w"
  by (auto simp: geoDownloadFunc_def geoDownloadErrFunc_def disk_file_def is_dir_def split: option.splits)

lemma geo_fail_simps [simp]:
  "fst (geo_fail p e w) = Some e" "disk_file q (snd (geo_fail p e w)) = disk_file q w"
  "is_dir q (snd (geo_fail p e w)) = is_dir q w" "dk_Fault (snd (geo_fail p e w)) = dk_Fault w"
  by (simp_all add: geo_fail_def)

lemma geo_fail_eqD: "geo_fail p e w = (r, w') \<Longrightarrow> r = Some e \<and> (\<forall>q. disk_file q w' = disk_file q w \<and> is_dir q w' = is_dir q w) \<and>
    dk_Fault w' = dk_Fault w"
  by (auto simp: geo_fail_def)

lemma check_and_rename_spec:
  assumes "check_and_rename tmp f parse w = (e, w')" "disk_file tmp w = Some body" "\<not> same_place f tmp"
  shows "dk_Fault w' = dk_Fault w \<and> (\<forall>q. is_dir q w' = is_dir q w) \<and> (e \<noteq> None \<longrightarrow> (\<forall>q. disk_file q w' = disk_file q w)) \<and>
    (e = None \<longrightarrow> \<not> isl (parse body) \<and> \<not> is_dir f w' \<and> f \<noteq> '''' \<and> disk_file f w' = Some body \<and>
      (\<forall>q. \<not> same_place q f \<longrightarrow> \<not> same_place q tmp \<longrightarrow> disk_file q w' = disk_file q w))"
proof (cases "disk_read tmp w")
  case (Inl r)
  then show ?thesis using assms(1) by (auto simp: check_and_rename_def load_file_def dest!: geo_fail_eqD)
next
  case (Inr c)
  then have c: "c = body" using assms(2) by (auto simp: disk_read_def split: option.splits if_splits)
  show ?thesis
  proof (cases "parse c")
    case (Inl r)
    then show ?thesis using assms(1) Inr by (auto simp: check_and_rename_def load_file_def dest!: geo_fail_eqD)
  next
    case p: (Inr m)
    obtain e1 w1 where r: "Rename tmp f w = (e1, w1)" by fastforce
    show ?thesis
    proof (cases e1)
      case None
      then have "e = None" "w' = w1" using assms(1) Inr p r by (simp_all add: check_and_rename_def load_file_def)
      then show ?thesis using rename_spec [OF r] None p c assms(2) by auto
    next
      case (Some x)
      then show ?thesis using assms(1) Inr p r rename_spec [OF r] by (auto simp: check_and_rename_def load_file_def dest!: geo_fail_eqD)
    qed
  qed
qed

text \<open>C20: A download replaces a database as a whole or not at all: if it fails, in any of its steps, every file is as it was;
  if it succeeds, the database is what the web sent, complete and accepted by the parser, and no other file has
  changed. The temporary file is gone in both cases.\<close>

theorem download_all_or_nothing:
  assumes "downloadAndCheck gx f url parse w = (e, w')" "disk_file (gx_TempName gx) w = None" "\<not> same_place f (gx_TempName gx)"
  shows "(\<forall>q. e \<noteq> None \<or> \<not> same_place q f \<longrightarrow> disk_file q w' = disk_file q w) \<and>
    (e = None \<longrightarrow> (\<exists>body. gx_Get gx url = Inr (body, None) \<and> \<not> isl (parse body) \<and> disk_file f w' = Some body))"
proof (cases "gx_Get gx url")
  case (Inl x)
  then show ?thesis using assms(1) by (auto simp: downloadAndCheck_def dest!: geo_fail_eqD)
next
  case (Inr r)
  obtain body broken where b: "gx_Get gx url = Inr (body, broken)" using Inr by (cases r) auto
  let ?tmp = "gx_TempName gx" and ?w = "geoDownloadFunc f url w"
  obtain e1 w1 where o: "OpenFile True ?tmp ?w = (e1, w1)" by fastforce
  note k = open_keeps [OF o]
  show ?thesis
  proof (cases e1)
    case (Some x)
    then have "w1 = ?w" using o by (auto simp: OpenFile_def split: option.splits if_splits)
    then show ?thesis using assms(1) b o Some by (auto simp: downloadAndCheck_def dest!: geo_fail_eqD)
  next
    case None
    obtain e2 w2 where f: "file_write ?tmp body w1 = (e2, w2)" by fastforce
    have same: "disk_file q w2 = disk_file q w" if "\<not> same_place q ?tmp" for q
      using f k that by (auto simp: file_write_def split: option.splits)
    have gone: "disk_file q w = None" if "same_place q ?tmp" for q
      using that assms(2) by (simp add: disk_file_def same_place_def)
    have restored: "disk_file q (remove_file ?tmp v) = disk_file q w" if "\<not> same_place q ?tmp \<Longrightarrow> disk_file q v = disk_file q w" for q v
      using that gone by auto
    show ?thesis
    proof (cases "e2 = None \<and> broken = None")
      case True
      obtain e3 w3 where c: "check_and_rename ?tmp f parse w2 = (e3, w3)" by fastforce
      have w': "e = e3" "w' = remove_file ?tmp w3"
        using assms(1) b o None f True c by (simp_all add: downloadAndCheck_def)
      have "disk_file ?tmp w2 = Some body" using open_write [OF o [unfolded None]] f True by simp
      note s = check_and_rename_spec [OF c this assms(3)]
      show ?thesis using s b True w' same restored [of _ w3] assms(3) by (cases e3) (auto simp: same_place_def)
    next
      case False
      then obtain x where "e = Some x" "w' = remove_file ?tmp (snd (geo_fail '''' x w2))"
        using assms(1) b o None f by (cases e2; cases broken) (auto simp: downloadAndCheck_def geo_fail_def split: prod.splits)
      then show ?thesis using same restored [of _ "snd (geo_fail '''' x w2)"] by simp
    qed
  qed
qed

definition same_rest :: "geo_world \<Rightarrow> geo_world \<Rightarrow> bool" where
  "same_rest w w' = (dk_Fault w' = dk_Fault w \<and> (\<forall>q. is_dir q w' = is_dir q w))"

lemma same_rest_steps:
  "same_rest w w" "same_rest w w1 \<Longrightarrow> same_rest w1 w2 \<Longrightarrow> same_rest w w2"
  "same_rest w (geoDownloadFunc f u w)" "same_rest w (snd (geo_fail p e w))" "same_rest w (remove_file p w)"
  "same_rest w (snd (OpenFile t p w))" "same_rest w (snd (file_write p c w))" "same_rest w (snd (Rename p q w))"
proof -
  show "same_rest w (snd (OpenFile t p w))"
    using open_keeps [of t p w "fst (OpenFile t p w)" "snd (OpenFile t p w)"] by (simp add: same_rest_def)
  show "same_rest w (snd (Rename p q w))"
    using rename_spec [of p q w "fst (Rename p q w)" "snd (Rename p q w)"] by (simp add: same_rest_def)
qed (auto simp: same_rest_def file_write_def split: option.splits)

lemma check_and_rename_frame: "same_rest w (snd (check_and_rename tmp f parse w))"
  using same_rest_steps(8) [of w tmp f] same_rest_steps(2,4)
  by (auto simp: check_and_rename_def same_rest_steps(1,4) split: sum.splits prod.splits option.splits)

lemma download_frame: "same_rest w (snd (downloadAndCheck gx f url parse w))"
proof -
  let ?w = "geoDownloadFunc f url w" and ?tmp = "gx_TempName gx"
  have w: "same_rest w v" if "same_rest ?w v" for v using that same_rest_steps(2,3) by blast
  obtain e1 w1 where o: "OpenFile True ?tmp ?w = (e1, w1)" by fastforce
  have w1: "same_rest w w1" using w same_rest_steps(6) [of ?w True ?tmp] o by simp
  have part: "same_rest w (snd (case r of (e, w) \<Rightarrow> (e, remove_file ?tmp w)))" if "same_rest w (snd r)"
    for r :: "string option \<times> geo_world"
    using that same_rest_steps(2,5) by (cases r) auto
  have body: "same_rest w (snd (case (file_write ?tmp body w1, broken) of ((Some e, w), _) \<Rightarrow> geo_fail '''' e w
        | ((None, w), Some e) \<Rightarrow> geo_fail '''' e w | ((None, w), None) \<Rightarrow> check_and_rename ?tmp f parse w))" for body broken
  proof -
    have "same_rest w (snd (file_write ?tmp body w1))" using same_rest_steps(2) [OF w1 same_rest_steps(7)] .
    then show ?thesis
      by (cases "file_write ?tmp body w1")
        (auto intro: same_rest_steps(2,4) check_and_rename_frame same_rest_steps(2) split: option.splits)
  qed
  show ?thesis
  proof (cases "gx_Get gx url")
    case (Inl e)
    then show ?thesis using w same_rest_steps(4) [of ?w] by (simp add: downloadAndCheck_def)
  next
    case (Inr r)
    then show ?thesis
      using part [OF body] same_rest_steps(2) [OF w1 same_rest_steps(4)] o
      by (cases r; cases e1) (simp_all add: downloadAndCheck_def Let_def)
  qed
qed

lemma load_file_ok:
  "disk_file f w = Some c \<Longrightarrow> f \<noteq> '''' \<Longrightarrow> \<not> is_dir f w \<Longrightarrow> dk_Fault w ReadOp f = None \<Longrightarrow> load_file parse f w = parse c"
  by (simp add: load_file_def disk_read_def)

lemma fetch_available:
  assumes "disk_file f w = Some c" "f \<noteq> ''''" "\<not> is_dir f w" "parse c = Inr m"
    and "dk_Fault w ReadOp f = None" "dk_Fault w StatOp f = None"
    and "disk_file (gx_TempName gx) w = None" "\<not> same_place f (gx_TempName gx)"
  shows "\<exists>m' w'. fetch_geo gx l True f url parse w = Some (Inr m', w') \<and>
    (m' = m \<or> (\<exists>body. gx_Get gx url = Inr (body, None) \<and> parse body = Inr m'))"
proof -
  have "shouldDownload gx l f w \<noteq> None"
    using assms by (auto simp: shouldDownload_def IsExist_def Let_def split: prod.splits)
  then obtain should where s: "shouldDownload gx l f w = Some should" by blast
  note here = load_file_ok [OF assms(1,2,3,5), of parse] assms(4)
  obtain e w1 where d: "downloadAndCheck gx f url parse w = (e, w1)" by fastforce
  note all = download_all_or_nothing [OF d assms(7,8)] 
  have frame: "dk_Fault w1 = dk_Fault w" "is_dir f w1 = is_dir f w"
    using download_frame [of w gx f url parse] d by (simp_all add: same_rest_def)
  show ?thesis
  proof (cases should)
    case True
    show ?thesis
    proof (cases e)
      case None
      then obtain body where b: "gx_Get gx url = Inr (body, None)" "\<not> isl (parse body)" "disk_file f w1 = Some body"
        using all by blast
      then have "load_file parse f w1 = parse body" using load_file_ok [OF b(3) assms(2)] frame assms(3,5) by simp
      then show ?thesis using s True d None b by (cases "parse body") (auto simp: fetch_geo_def)
    next
      case (Some x)
      then have "disk_file f w1 = Some c" using all assms(1) by simp
      then have "load_file parse f w1 = Inr m" "IsExist f w1"
        using load_file_ok [of f w1 c parse] assms frame by (simp_all add: IsExist_def)
      then show ?thesis using s True d Some by (auto simp: fetch_geo_def)
    qed
  qed (use s here in \<open>simp add: fetch_geo_def\<close>)
qed


section \<open>Concrete runs\<close>

definition demo_geo_env :: "string + (string \<times> string option) \<Rightarrow> (nat, nat) geo_env" where
  "demo_geo_env page = \<lparr>gx_Get = (\<lambda>_. page), gx_TempName = ''tmp'', gx_DirInfo = (\<lambda>_. (4096, 0)),
     gx_LoadGeoIP = (\<lambda>c. if c = ''bad'' then Inl ''broken'' else Inr (length c)), gx_LoadGeoSite = (\<lambda>c. Inr (length c))\<rparr>"

definition demo_geo :: "(nat, nat) geo_loader" where
  "demo_geo = \<lparr>gl_GeoIPFilename = '''', gl_GeoSiteFilename = '''', gl_UpdateInterval = 0, gl_geoipMap = None, gl_geositeMap = None\<rparr>"

definition demo_geo_world :: geo_world where
  "demo_geo_world = \<lparr>dk_Files = [(''geoip.dat'', ''old'', 0)], dk_Dirs = [], dk_Now = 8 * 24 * Hour, dk_Fault = (\<lambda>_ _. None), gw_Log = []\<rparr>"

text \<open>A new database takes the place of the old one; one that is broken does not.\<close>

lemma download_all_or_nothing_witness:
  "(\<exists>w'. downloadAndCheck (demo_geo_env (Inr (''newer'', None))) ''geoip.dat'' geoipURL
      (gx_LoadGeoIP (demo_geo_env (Inr (''newer'', None)))) demo_geo_world = (None, w') \<and> disk_file ''geoip.dat'' w' = Some ''newer'') \<and>
   (\<exists>w'. downloadAndCheck (demo_geo_env (Inr (''bad'', None))) ''geoip.dat'' geoipURL
      (gx_LoadGeoIP (demo_geo_env (Inr (''bad'', None)))) demo_geo_world = (Some ''broken'', w') \<and> disk_file ''geoip.dat'' w' = Some ''old'')"
proof -
  let ?run = "\<lambda>page. downloadAndCheck (demo_geo_env page) ''geoip.dat'' geoipURL (gx_LoadGeoIP (demo_geo_env page)) demo_geo_world"
  let ?new = "Inr (''newer'', None) :: string + (string \<times> string option)" and ?bad = "Inr (''bad'', None) :: string + (string \<times> string option)"
  have e: "fst (?run ?new) = None" "fst (?run ?bad) = Some ''broken''" by code_simp+
  have "disk_file (gx_TempName (demo_geo_env page)) demo_geo_world = None" "\<not> same_place ''geoip.dat'' (gx_TempName (demo_geo_env page))"
    "disk_file ''geoip.dat'' demo_geo_world = Some ''old''" for page
    unfolding demo_geo_env_def geo_env.simps by code_simp+
  note run = download_all_or_nothing [OF surjective_pairing this(1,2)] and old = this(3)
  have "disk_file ''geoip.dat'' (snd (?run ?new)) = Some ''newer''"
    using run [of ?new geoipURL "gx_LoadGeoIP (demo_geo_env ?new)"] e(1) by (simp add: demo_geo_env_def)
  moreover have "disk_file ''geoip.dat'' (snd (?run ?bad)) = Some ''old''"
    using run [of ?bad geoipURL "gx_LoadGeoIP (demo_geo_env ?bad)"] e(2) old by simp
  ultimately show ?thesis using e by (metis prod.collapse)
qed


text \<open>A database that cannot be examined stops the process.\<close>

lemma stat_error_panics:
  "dk_Fault w StatOp geoipFilename = Some e \<Longrightarrow> gl_GeoIPFilename l = '''' \<Longrightarrow> gl_geoipMap l = None \<Longrightarrow> LoadGeoIP gx l w = None"
  by (simp add: LoadGeoIP_def fetch_geo_def shouldDownload_def IsExist_def geoipFilename_def)

end
