(* ===== verification/Service.thy ===== *)
theory Service
  imports Controller_Run Selector_Laws
begin

text \<open>
  The whole process: loading the configuration and watching its file (\<^verbatim>\<open>conf/conf.go\<close>, \<^verbatim>\<open>watch.go\<close>), and starting and
  reloading the core with its nodes (\<^verbatim>\<open>cmd/server.go\<close>). The decoder of the configuration, the files, the surroundings of
  the controllers and the constructors of the cores are arguments.
\<close>

section \<open>The configuration\<close>

record log_config =
  lo_Level :: string
  lo_Output :: string

record conf =
  cn_LogConfig :: log_config
  cn_CoresConfig :: "core_config list"
  cn_NodeConfig :: "node_config list"

definition NewConf :: conf where
  "NewConf = \<lparr>cn_LogConfig = \<lparr>lo_Level = ''info'', lo_Output = ''''\<rparr>, cn_CoresConfig = [], cn_NodeConfig = []\<rparr>"

text \<open>The error, and the configuration as the decoder leaves it.\<close>

definition LoadFromPath :: "conf decode \<Rightarrow> (string \<Rightarrow> source) \<Rightarrow> string \<Rightarrow> conf \<Rightarrow> string option \<times> conf" where
  "LoadFromPath decode os_open filePath p =
     (case os_open filePath of
        Inl err \<Rightarrow> (Some (''open config file error: '' @ err), p)
      | Inr body \<Rightarrow>
          (case read_clean body of
             Inl err \<Rightarrow> (Some (''read config file error: '' @ err), p)
           | Inr data \<Rightarrow>
               (case decode data p of (err, p) \<Rightarrow> (map_option (\<lambda>err. ''unmarshal config error: '' @ err) err, p))))"

section \<open>Watching\<close>

text \<open>An event of the watcher: the name of the file, whether it is only a change of its attributes, and when it is received.\<close>

record watch_event =
  we_Name :: string
  we_Chmod :: bool
  we_Now :: int

text \<open>The zero \<^verbatim>\<open>time.Time\<close>, the first of January of the year 1.\<close>

definition zero_time :: int where "zero_time = - 62135596800 * Second"

definition watch_step :: "watch_event \<Rightarrow> int \<Rightarrow> bool \<times> int" where
  "watch_step e pre =
     (if we_Chmod e then (False, pre)
      else if pre + 10 * Second > we_Now e then (False, pre)
      else (True, we_Now e))"

text \<open>The times at which the configuration is read again, five seconds after the events that are taken.\<close>

fun reload_times :: "watch_event list \<Rightarrow> int \<Rightarrow> int list" where
  "reload_times [] pre = []"
| "reload_times (e # es) pre = (case watch_step e pre of (fire, pre) \<Rightarrow>
     if fire then (we_Now e + 5 * Second) # reload_times es pre else reload_times es pre)"

text \<open>\<^verbatim>\<open>filepath.Base\<close> on Unix.\<close>

definition path_Base :: "string \<Rightarrow> string" where
  "path_Base p =
     (if p = '''' then ''.''
      else let q = rev (dropWhile (\<lambda>c. c = CHR ''/'') (rev p)) in
        if q = '''' then ''/'' else rev (takeWhile (\<lambda>c. c \<noteq> CHR ''/'') (rev q)))"

definition reload_message :: "string \<Rightarrow> string \<Rightarrow> string \<Rightarrow> string" where
  "reload_message name xDnsPath sDnsPath =
     (let base = path_Base (if HasSuffix name ''~'' then butlast name else name) in
      if base = path_Base xDnsPath \<or> base = path_Base sDnsPath then ''DNS file changed, reloading...''
      else ''config file changed, reloading...'')"

text \<open>Setting the watcher up: the error, and the paths that are watched.\<close>

fun add_paths :: "(string \<Rightarrow> string option) \<Rightarrow> (string \<times> string) list \<Rightarrow> string list \<Rightarrow> string option \<times> string list" where
  "add_paths add [] watched = (None, watched)"
| "add_paths add ((prefix, p) # rest) watched =
     (case add p of Some err \<Rightarrow> (Some (prefix @ err), watched) | None \<Rightarrow> add_paths add rest (watched @ [p]))"

definition Watch :: "string option \<Rightarrow> (string \<Rightarrow> string option) \<Rightarrow> string \<Rightarrow> string \<Rightarrow> string \<Rightarrow> string option \<times> string list" where
  "Watch new_watcher add filePath xDnsPath sDnsPath =
     (case new_watcher of
        Some err \<Rightarrow> (Some (''new watcher error: '' @ err), [])
      | None \<Rightarrow> add_paths add ((''watch file error: '', filePath) #
          (if xDnsPath \<noteq> '''' then [(''watch dns file error: '', xDnsPath)] else []) @
          (if sDnsPath \<noteq> '''' then [(''watch dns file error: '', sDnsPath)] else [])) [])"

section \<open>Any core\<close>

text \<open>A call through the interface reaches the one core or the selector.\<close>

definition on_core :: "('s \<Rightarrow> ('r \<times> 's) option) \<Rightarrow> ('s selector \<Rightarrow> ('r \<times> 's selector) option) \<Rightarrow> 's core \<Rightarrow> ('r \<times> 's core) option" where
  "on_core f g c = (case c of
     Single s \<Rightarrow> map_option (\<lambda>(r, s). (r, Single s)) (f s)
   | Multi m \<Rightarrow> map_option (\<lambda>(r, m). (r, Multi m)) (g m))"

definition any_ops :: "conf_codec \<Rightarrow> 's core_ops \<Rightarrow> 's core core_ops" where
  "any_ops dc ops = (let sel = selector_ops dc ops in
     \<lparr>co_Start = on_core (co_Start ops) (co_Start sel), co_Close = on_core (co_Close ops) (co_Close sel),
      co_AddNode = (\<lambda>tag info opt. on_core (co_AddNode ops tag info opt) (co_AddNode sel tag info opt)),
      co_DelNode = (\<lambda>tag. on_core (co_DelNode ops tag) (co_DelNode sel tag)),
      co_AddUsers = (\<lambda>p. on_core (co_AddUsers ops p) (co_AddUsers sel p)),
      co_GetUserTraffic = (\<lambda>tag uuid reset. on_core (co_GetUserTraffic ops tag uuid reset) (co_GetUserTraffic sel tag uuid reset)),
      co_DelUsers = (\<lambda>users tag info. on_core (co_DelUsers ops users tag info) (co_DelUsers sel users tag info)),
      co_Protocols = case_core (co_Protocols ops) (co_Protocols sel),
      co_Type = case_core (co_Type ops) (co_Type sel)\<rparr>)"

section \<open>The process\<close>

datatype service_error =
    LoadFailed string
  | NewCoreFailed string
  | StartCoreFailed string
  | NodesFailed string
  | WatchFailed string
  | CloseFailed "string list"

text \<open>A core that could not be made is nil.\<close>

record ('re, 's) service =
  sx_conf :: conf
  sx_core :: "'s core option"
  sx_nodes :: "('re, 's core) controller option list"
  sx_registry :: "'re registry"
  sx_Level :: string
  sx_Output :: string

definition start_service :: "'s constructors \<Rightarrow> 's core core_server \<Rightarrow> (nat \<Rightarrow> 're ctrl_env) \<Rightarrow> ('re, 's) service \<Rightarrow>
    (service_error option \<times> ('re, 's) service) option" where
  "start_service cores sv ev s =
     (case NewCore cores (cn_CoresConfig (sx_conf s)) of
        None \<Rightarrow> panic
      | Some (Inl err) \<Rightarrow> Some (Some (NewCoreFailed err), s\<lparr>sx_core := None\<rparr>)
      | Some (Inr vc) \<Rightarrow>
          (case co_Start (sv_ops sv) vc of
             None \<Rightarrow> panic
           | Some (Some err, vc) \<Rightarrow> Some (Some (StartCoreFailed err), s\<lparr>sx_core := Some vc\<rparr>)
           | Some (None, vc) \<Rightarrow>
               (case start_nodes ev sv 0 (map (\<lambda>n. (nc_ApiConfig n, nc_Options n)) (cn_NodeConfig (sx_conf s))) (vc, sx_registry s) of
                  None \<Rightarrow> panic
                | Some ((err, ns), vc, reg) \<Rightarrow>
                    Some (map_option NodesFailed err, s\<lparr>sx_core := Some vc, sx_nodes := ns, sx_registry := reg\<rparr>))))"

text \<open>An unknown level leaves logrus at its default.\<close>

definition log_level :: "string \<Rightarrow> string" where
  "log_level l = (if l \<in> {''debug'', ''info'', ''warn'', ''error''} then l else ''info'')"

text \<open>An error ends the process; without one it waits for a signal.\<close>

definition serverHandle :: "conf decode \<Rightarrow> (string \<Rightarrow> source) \<Rightarrow> 's constructors \<Rightarrow> 's core core_server \<Rightarrow> (nat \<Rightarrow> 're ctrl_env) \<Rightarrow>
    string \<Rightarrow> (string option \<times> string list) option \<Rightarrow> (service_error + ('re, 's) service) option" where
  "serverHandle decode os_open cores sv ev config watch =
     (case LoadFromPath decode os_open config NewConf of
        (Some err, _) \<Rightarrow> Some (Inl (LoadFailed err))
      | (None, c) \<Rightarrow>
          (case start_service cores sv ev \<lparr>sx_conf = c, sx_core = None, sx_nodes = [],
               sx_registry = InitLimiter \<lparr>rg_heap = [], rg_limiter = None\<rparr>,
               sx_Level = log_level (lo_Level (cn_LogConfig c)), sx_Output = lo_Output (cn_LogConfig c)\<rparr> of
             None \<Rightarrow> panic
           | Some (Some err, _) \<Rightarrow> Some (Inl err)
           | Some (None, s) \<Rightarrow>
               (case watch of
                  Some (Some err, _) \<Rightarrow> Some (Inl (WatchFailed err))
                | _ \<Rightarrow> Some (Inr s))))"

text \<open>The reload: the nodes are closed, then the core, and both are made anew. Calling a core that is nil panics; there
  are no nodes then.\<close>

definition reload :: "'s constructors \<Rightarrow> 's core core_server \<Rightarrow> (nat \<Rightarrow> 're ctrl_env) \<Rightarrow> ('re, 's) service \<Rightarrow>
    (service_error option \<times> ('re, 's) service) option" where
  "reload cores sv ev s =
     (case sx_core s of
        None \<Rightarrow> panic
      | Some vc \<Rightarrow>
          (case close_nodes sv (sx_nodes s) (vc, sx_registry s) of
             None \<Rightarrow> panic
           | Some (vc, reg) \<Rightarrow>
               (case co_Close (sv_ops sv) vc of
                  None \<Rightarrow> panic
                | Some (errs, vc) \<Rightarrow>
                    let s = s\<lparr>sx_core := Some vc, sx_nodes := [], sx_registry := reg\<rparr> in
                    if errs \<noteq> [] then Some (Some (CloseFailed errs), s) else start_service cores sv ev s)))"

text \<open>What the watcher runs: an error of loading is only logged.\<close>

definition watch_reload :: "conf decode \<Rightarrow> (string \<Rightarrow> source) \<Rightarrow> 's constructors \<Rightarrow> 's core core_server \<Rightarrow> (nat \<Rightarrow> 're ctrl_env) \<Rightarrow>
    string \<Rightarrow> ('re, 's) service \<Rightarrow> (service_error option \<times> ('re, 's) service) option" where
  "watch_reload decode os_open cores sv ev filePath s =
     reload cores sv ev (s\<lparr>sx_conf := snd (LoadFromPath decode os_open filePath NewConf)\<rparr>)"

end
