(* ===== verification/Process_Run.thy ===== *)
theory Process_Run
  imports Service Node_Start
begin

text \<open>
  The running process: the tasks of its controllers, the requests that its cores ask their limiters about, and reloads,
  in any order. A handler works on what it finds in the core and the registry, which all controllers share. A handler is
  one step, and so is a request; a monitor that hangs never runs again, while the other tasks go on. A reload after that
  waits for ever for the mutex of the monitor, with some nodes closed already; what follows is not described.
\<close>

section \<open>The machine\<close>

text \<open>What a reload finds: the decoder, the files and the surroundings of the controllers that it starts.\<close>

record 're reload_env =
  re_decode :: "conf decode"
  re_open :: "string \<Rightarrow> source"
  re_path :: string
  re_ev :: "nat \<Rightarrow> 're ctrl_env"

text \<open>A task of a controller; a request under a tag (xray and sing ask for a verdict, hysteria also notes it);
  the end of a connection, which keeps the limiter it was admitted by; the clearing of old addresses; any move of the core of its own.\<close>

datatype ('re, 's) event =
    Monitor nat "'re ctrl_env"
  | Report nat "'re ctrl_env"
  | SyncOnline nat "'re ctrl_env"
  | CheckSpeed nat "'re ctrl_env"
  | Request int string string string bool bool
  | HyRequest int string net_addr string
  | HyTraffic string int int hook_server
  | ConnEnd nat string string
  | ClearIPs int
  | CoreMoves "'s core"
  | Reload "'re reload_env"

type_synonym ('re, 's) process = "('re, 's) service \<times> nat list"

text \<open>A controller as its handler finds it; one whose tasks were not started has none to run.\<close>

definition the_node :: "nat \<Rightarrow> ('re, 's) service \<Rightarrow> ('re, 's core) controller option" where
  "the_node i s =
     (case sx_core s of
        None \<Rightarrow> None
      | Some vc \<Rightarrow>
          if i < length (sx_nodes s) then
            (case sx_nodes s ! i of
               None \<Rightarrow> None
             | Some n \<Rightarrow> if nd_nodeInfoMonitor n = None then None
                 else Some (n\<lparr>nd_server := vc, nd_registry := sx_registry s\<rparr>))
          else None)"

definition put_node :: "nat \<Rightarrow> ('re, 's core) controller \<Rightarrow> ('re, 's) service \<Rightarrow> ('re, 's) service" where
  "put_node i n s = s\<lparr>sx_core := Some (nd_server n), sx_registry := nd_registry n, sx_nodes := (sx_nodes s)[i := Some n]\<rparr>"

definition on_node :: "nat \<Rightarrow> (('re, 's core) controller \<Rightarrow> ('re, 's core) controller option) \<Rightarrow> ('re, 's) service \<Rightarrow> ('re, 's) service option" where
  "on_node i f s = (case the_node i s of None \<Rightarrow> None | Some n \<Rightarrow> map_option (\<lambda>n. put_node i n s) (f n))"

text \<open>The verdict of a limiter: \<^term>\<open>None\<close> without one, or when it panics.\<close>

definition ask :: "int \<Rightarrow> string \<Rightarrow> string \<Rightarrow> string \<Rightarrow> bool \<Rightarrow> bool \<Rightarrow> 're registry \<Rightarrow> (bool \<times> 're registry) option" where
  "ask now tag uuid ip tcp noSSUDP r =
     (case GetLimiter r tag of
        Inl _ \<Rightarrow> None
      | Inr a \<Rightarrow> map_option (\<lambda>((_, rejected), l). (rejected, heap_update a (\<lambda>_. l) r))
          (CheckLimit (rg_heap r ! a) now (UserTag tag uuid) ip tcp noSSUDP))"

definition end_connection :: "nat \<Rightarrow> string \<Rightarrow> string \<Rightarrow> 're registry \<Rightarrow> 're registry option" where
  "end_connection a email ip r =
     (if a < length (rg_heap r)
      then map_option (\<lambda>c. heap_update a (\<lambda>l. l\<lparr>ConnLimiter := c\<rparr>) r) (DelConnCount (ConnLimiter (rg_heap r ! a)) email ip)
      else None)"

definition monitor_step :: "'s core core_server \<Rightarrow> nat \<Rightarrow> 're ctrl_env \<Rightarrow> ('re, 's) process \<Rightarrow> ('re, 's) process option" where
  "monitor_step sv i ev p =
     (if i \<in> set (snd p) then None
      else (case the_node i (fst p) of
          None \<Rightarrow> None
        | Some n \<Rightarrow>
            (case nodeInfoMonitor ev sv n of
               Done n \<Rightarrow> Some (put_node i n (fst p), snd p)
             | Hang n \<Rightarrow> Some (put_node i n (fst p), i # snd p)
             | Panic \<Rightarrow> None)))"

text \<open>\<^term>\<open>None\<close>: the step can not be made, or the process panics.\<close>

definition process_step :: "'s constructors \<Rightarrow> 's core core_server \<Rightarrow> ('re, 's) process \<Rightarrow> ('re, 's) event \<Rightarrow> ('re, 's) process option" where
  "process_step cores sv p x =
     (let s = fst p;
          same = (\<lambda>r. map_option (\<lambda>s. (s, snd p)) r);
          on_registry = (\<lambda>r. same (map_option (\<lambda>reg. s\<lparr>sx_registry := reg\<rparr>) r)) in
      case x of
        Monitor i ev \<Rightarrow> monitor_step sv i ev p
      | Report i ev \<Rightarrow> same (on_node i (\<lambda>n. map_option snd (reportUserTrafficTask ev sv n)) s)
      | SyncOnline i ev \<Rightarrow> same (on_node i (syncOnlineUsersTask ev sv) s)
      | CheckSpeed i ev \<Rightarrow> same (on_node i (SpeedChecker ev) s)
      | Request now tag uuid ip tcp su \<Rightarrow> on_registry (map_option snd (ask now tag uuid ip tcp su (sx_registry s)))
      | HyRequest now tag addr uuid \<Rightarrow> on_registry (check_request now tag addr uuid (sx_registry s))
      | HyTraffic uuid tx rx hk \<Rightarrow> on_registry (Some (snd (snd (LogTraffic uuid tx rx hk (sx_registry s)))))
      | ConnEnd a email ip \<Rightarrow> on_registry (end_connection a email ip (sx_registry s))
      | ClearIPs now \<Rightarrow> on_registry (Some (ClearAllOnlineIP now (sx_registry s)))
      | CoreMoves vc \<Rightarrow> same (Some (s\<lparr>sx_core := map_option (\<lambda>_. vc) (sx_core s)\<rparr>))
      | Reload re \<Rightarrow>
          if snd p = [] then map_option (\<lambda>(_, s). (s, []))
            (watch_reload (re_decode re) (re_open re) cores sv (re_ev re) (re_path re) s)
          else None)"

end
