(* ===== verification/Node_Frame.thy ===== *)
theory Node_Frame
  imports Process_Run Xray_Node_Laws Sing_Laws
begin

text \<open>
  What a handler of one node may do to the others: each has a limiter of its own, which only the handlers of its node
  replace or give other users, and an entry in the registry, which only they change.
\<close>

section \<open>Limiters that hold the same users\<close>

text \<open>No entry has a temporary limit, so none is ever dropped.\<close>

definition lasting :: "'re limiter \<Rightarrow> bool" where
  "lasting l \<longleftrightarrow> (\<forall>t u. sm_load (UserLimitInfo l) t = Some u \<longrightarrow> li_ExpireTime u = 0)"

text \<open>And its requests do not panic.\<close>

definition sound :: "'re limiter \<Rightarrow> bool" where
  "sound l \<longleftrightarrow> lasting l \<and> limiter_inv l"

definition same_users :: "'re limiter \<Rightarrow> 're limiter \<Rightarrow> bool" where
  "same_users l l' \<longleftrightarrow> UUIDtoUID l' = UUIDtoUID l \<and> (sound l \<longrightarrow> sound l' \<and>
     (\<forall>t. map_option panel_view (sm_load (UserLimitInfo l') t) = map_option panel_view (sm_load (UserLimitInfo l) t)))"

lemma same_users_table: "same_table l l' \<Longrightarrow> (limiter_inv l \<Longrightarrow> limiter_inv l') \<Longrightarrow> same_users l l'"
  by (simp add: same_table_def same_users_def sound_def lasting_def)

lemma same_users_refl [simp]: "same_users l l"
  by (simp add: same_users_table)

lemma same_users_trans: "same_users l l' \<Longrightarrow> same_users l' l'' \<Longrightarrow> same_users l l''"
  by (simp add: same_users_def)

lemma same_users_tracks: "same_users l l' \<Longrightarrow> sound l \<Longrightarrow> tracks_users tag us l \<Longrightarrow> sound l' \<and> tracks_users tag us l'"
  by (simp add: same_users_def tracks_users_def)

lemma lasting_steps:
  "lasting l \<Longrightarrow> lasting (store_user tag u l)" "lasting l \<Longrightarrow> lasting (drop_user tag u l)"
  by (auto simp: lasting_def store_user_def drop_user_def DeleteAlive_def sm.load_store sm.load_delete new_limit_info_def split: if_splits)

lemma lasting_fold: "lasting l \<Longrightarrow> lasting (fold (store_user tag) us l)" "lasting l \<Longrightarrow> lasting (fold (drop_user tag) us l)"
  by (induction us arbitrary: l) (simp_all add: lasting_steps)

lemma lasting_new: "lasting (NewLimiter tag cfg users alive)"
  unfolding NewLimiter_def by (rule lasting_fold) (simp add: lasting_def sm.load_empty)

lemma lasting_update: "lasting l \<Longrightarrow> lasting (UpdateUser tag added deleted l)"
  by (simp add: UpdateUser_def lasting_fold)

lemma sound_new: "sound (NewLimiter tag cfg users alive)"
  by (simp add: sound_def lasting_new limiter_inv_new)

lemma sound_update: "sound l \<Longrightarrow> sound (UpdateUser tag added deleted l)"
  by (simp add: sound_def lasting_update UpdateUser_inv)

lemma inv_ops:
  "limiter_inv l \<Longrightarrow> limiter_inv (SetAliveList m l)" "limiter_inv l \<Longrightarrow> limiter_inv (snd (GetOnlineDevice l))"
  "UpdateRule Compile r l = Some l' \<Longrightarrow> limiter_inv l \<Longrightarrow> limiter_inv l'" "limiter_inv l \<Longrightarrow> limiter_inv (set_over_limit t b l)"
  "limiter_inv l \<Longrightarrow> limiter_inv (l\<lparr>ConnLimiter := ClearOnlineIP now (ConnLimiter l)\<rparr>)"
  "DelConnCount (ConnLimiter l) t ip = Some c \<Longrightarrow> limiter_inv l \<Longrightarrow> limiter_inv (l\<lparr>ConnLimiter := c\<rparr>)"
  using limiter_machine.step_safe [of l "EndOp t ip"] limiter_machine.step_safe [of l "ExpireOp now"]
  by (auto simp: GetOnlineDevice_def UpdateRule_def set_over_limit_def intro: limiter_inv_frame split: Option.bind_splits option.splits)

lemma read_table: "lasting l \<Longrightarrow> load_user_limit l now t = Some (uid, d, u, l') \<Longrightarrow> l' = l"
  by (auto simp: load_user_limit_eq expired_def lasting_def split: option.splits)

lemma device_table: "check_device l t ip uid d = (r, l') \<Longrightarrow> same_table l l'"
  by (auto simp: same_table_def check_device_def load_or_store_eq Let_def split: option.splits if_splits)

lemma bucket_table: "take_bucket l t u = (b, l') \<Longrightarrow> same_table l l'"
  by (auto simp: same_table_def take_bucket_def Let_def split: option.splits if_splits)

lemma load_user_limit_uids: "load_user_limit l now t = Some (uid, d, u, l') \<Longrightarrow> UUIDtoUID l' = UUIDtoUID l"
  by (auto simp: load_user_limit_def split: option.splits if_splits)

lemma CheckLimit_steps [consumes 1, case_names stopped read]:
  assumes "CheckLimit l now t ip tcp su = Some (r, l')"
  obtains c where "l' = l\<lparr>ConnLimiter := c\<rparr>"
    | c uid d u l1 where "load_user_limit (l\<lparr>ConnLimiter := c\<rparr>) now t = Some (uid, d, u, l1)" "same_table l1 l'"
proof -
  obtain lim c where add: "AddConnCount (ConnLimiter l) now t (NormalizeIP ip) tcp = Some (lim, c)"
    using assms by (auto simp: CheckLimit_def Let_def split: option.splits)
  show ?thesis
  proof (cases "lim \<or> load_user_limit (l\<lparr>ConnLimiter := c\<rparr>) now t = None")
    case True
    then show ?thesis using assms add by (intro that(1) [of c]) (auto simp: CheckLimit_def Let_def split: if_splits)
  next
    case False
    then obtain uid d u l1 where 1: "load_user_limit (l\<lparr>ConnLimiter := c\<rparr>) now t = Some (uid, d, u, l1)" by auto
    obtain x l2 where 2: "(if su then check_device l1 t (NormalizeIP ip) uid d else (False, l1)) = (x, l2)" by force
    obtain b l3 where 3: "take_bucket l2 t u = (b, l3)" by force
    have "l' = l2 \<or> l' = l3" using assms add False 1 2 3 by (auto simp: CheckLimit_def Let_def split: if_splits)
    moreover have "same_table l1 l2" using 2 device_table by (auto split: if_splits)
    ultimately have "same_table l1 l'" using bucket_table [OF 3] same_table_trans by blast
    then show ?thesis by (rule that(2) [OF 1])
  qed
qed

lemma CheckLimit_views: "CheckLimit l now t ip tcp su = Some (r, l') \<Longrightarrow> UUIDtoUID l' = UUIDtoUID l \<and>
    (lasting l \<longrightarrow> UserLimitInfo l' = UserLimitInfo l)"
proof (induction rule: CheckLimit_steps)
  case (read c uid d u l1)
  then show ?case using read_table [OF _ read(1)] load_user_limit_uids [OF read(1)] by (auto simp: same_table_def lasting_def)
qed simp

lemma CheckLimit_same_users: "CheckLimit l now t ip tcp su = Some (r, l') \<Longrightarrow> same_users l l'"
  using CheckLimit_views [of l now t ip tcp su r l'] CheckLimit_safe [of l now t ip tcp su]
  by (auto simp: same_users_def sound_def lasting_def)

lemma set_over_limit_same_users: "same_users l (set_over_limit t b l)"
  using inv_ops(4)
  by (auto simp: same_users_def sound_def lasting_def)
    (auto simp: set_over_limit_def panel_view_def sm.load_store split: option.splits if_splits)

section \<open>What one node may do to the others\<close>

text \<open>The limiter at an address and the entries of some tags may change; no other limiter loses or gains a user, and no
  other entry changes.\<close>

definition frame :: "nat option \<Rightarrow> string set \<Rightarrow> 're registry \<Rightarrow> 're registry \<Rightarrow> bool" where
  "frame a T r r' \<longleftrightarrow> length (rg_heap r) \<le> length (rg_heap r') \<and>
     (\<forall>b < length (rg_heap r). Some b \<noteq> a \<longrightarrow> same_users (rg_heap r ! b) (rg_heap r' ! b)) \<and>
     (\<forall>t. t \<notin> T \<longrightarrow> GetLimiter r' t = GetLimiter r t)"

lemma frame_refl [simp]: "frame a T r r"
  by (simp add: frame_def)

lemma frame_mono: "frame a T r r' \<Longrightarrow> a = b \<or> a = None \<Longrightarrow> T \<subseteq> T' \<Longrightarrow> frame b T' r r'"
  by (auto simp: frame_def)

lemma frame_trans:
  assumes "frame a T r r'" "frame a' T r' r''" "a' = a \<or> (\<exists>k \<ge> length (rg_heap r). a' = Some k)"
  shows "frame a T r r''"
  unfolding frame_def
proof (intro conjI allI impI)
  show "length (rg_heap r) \<le> length (rg_heap r'')" using assms(1,2) by (simp add: frame_def)
  fix b assume b: "b < length (rg_heap r)" "Some b \<noteq> a"
  then have "Some b \<noteq> a'" using assms(3) by auto
  with b assms(1,2) show "same_users (rg_heap r ! b) (rg_heap r'' ! b)"
    unfolding frame_def by (meson less_le_trans same_users_trans)
next
  fix t assume "t \<notin> T"
  with assms(1,2) show "GetLimiter r'' t = GetLimiter r t" by (simp add: frame_def)
qed

lemma GetLimiter_heap [simp]: "GetLimiter (heap_update a f r) t = GetLimiter r t"
  by (simp add: GetLimiter_def heap_update_def)

lemma length_heap_update [simp]: "length (rg_heap (heap_update a f r)) = length (rg_heap r)"
  by (simp add: heap_update_def)

lemma heap_update_own: "a < length (rg_heap r) \<Longrightarrow> rg_heap (heap_update a f r) ! a = f (rg_heap r ! a)"
  by (simp add: heap_update_def)

lemma list_update_nth: "xs[a := x] ! b = (if a = b \<and> b < length xs then x else xs ! b)"
  by (cases "a < length xs") (auto simp: list_update_beyond)

lemma frame_update: "(same_users (rg_heap r ! a) (f (rg_heap r ! a))) \<or> b = Some a \<Longrightarrow> frame b T r (heap_update a f r)"
  unfolding frame_def GetLimiter_heap length_heap_update
  by (auto simp: heap_update_def list_update_nth)

lemma frame_AddLimiter:
  "AddLimiter tag cfg us alive r = (a, r') \<Longrightarrow> a = length (rg_heap r) \<and> length (rg_heap r') = Suc a \<and>
     rg_heap r' ! a = NewLimiter tag cfg us alive \<and> GetLimiter r' tag = Inr a \<and> frame None {tag} r r'"
  by (auto simp: AddLimiter_def Let_def frame_def nth_append GetLimiter_def sm.load_store sm.load_empty split: option.splits if_splits)

lemma frame_DeleteLimiter: "frame None {tag} r (DeleteLimiter tag r)"
  by (auto simp: DeleteLimiter_def frame_def GetLimiter_def sm.load_delete split: option.splits)

section \<open>A node and its limiter\<close>

text \<open>The tag of a node of a panel that is not \<^verbatim>\<open>ppanel\<close>, whose type is the configured one.\<close>

definition client_tag :: "panel_client \<Rightarrow> string" where
  "client_tag c = ''['' @ pc_APIHost c @ '']-'' @ pc_NodeType c @ '':'' @ Itoa (pc_NodeId c)"

definition plain_node :: "panel_client \<Rightarrow> options \<Rightarrow> bool" where
  "plain_node c opt \<longleftrightarrow> pc_PanelType c \<noteq> ''ppanel'' \<and> op_Name opt = '''' \<and> \<not> dynamicSpeedLimitEnabled opt"

definition held :: "'re registry \<Rightarrow> ('re, 's) controller \<Rightarrow> bool" where
  "held r n \<longleftrightarrow> plain_node (nd_apiClient n) (nd_Options n) \<and> nd_tag n = client_tag (nd_apiClient n) \<and>
     (\<exists>a. nd_limiter n = Some a \<and> a < length (rg_heap r) \<and> GetLimiter r (nd_tag n) = Inr a \<and> sound (rg_heap r ! a))"

definition node_ok :: "'re registry \<Rightarrow> ('re, 's) controller \<Rightarrow> bool" where
  "node_ok r n \<longleftrightarrow> held r n \<and> in_sync (n\<lparr>nd_registry := r\<rparr>)"

lemma node_ok_frame:
  assumes "node_ok r n" "frame a T r r'" "nd_limiter n \<noteq> a" "nd_tag n \<notin> T"
  shows "node_ok r' n"
proof -
  obtain b where b: "nd_limiter n = Some b" "b < length (rg_heap r)" "GetLimiter r (nd_tag n) = Inr b"
    "sound (rg_heap r ! b)" "tracks_users (nd_tag n) (nd_userList n) (rg_heap r ! b)"
    using assms(1) by (auto simp: node_ok_def held_def in_sync_def)
  then have "same_users (rg_heap r ! b) (rg_heap r' ! b)" "b < length (rg_heap r')" "GetLimiter r' (nd_tag n) = Inr b"
    using assms(2-4) by (auto simp: frame_def)
  with b assms(1) same_users_tracks show ?thesis by (fastforce simp: node_ok_def held_def in_sync_def)
qed

section \<open>What a handler keeps\<close>

definition same_client :: "panel_client \<Rightarrow> panel_client \<Rightarrow> bool" where
  "same_client c c' \<longleftrightarrow> pc_PanelType c' = pc_PanelType c \<and> pc_APIHost c' = pc_APIHost c \<and>
     pc_NodeType c' = pc_NodeType c \<and> pc_NodeId c' = pc_NodeId c"

definition same_options :: "options \<Rightarrow> options \<Rightarrow> bool" where
  "same_options opt opt' \<longleftrightarrow> op_Name opt' = op_Name opt \<and> op_LimitConfig opt' = op_LimitConfig opt"

definition same_settings :: "('re, 's) controller \<Rightarrow> ('re, 's) controller \<Rightarrow> bool" where
  "same_settings n n' \<longleftrightarrow> same_client (nd_apiClient n) (nd_apiClient n') \<and> same_options (nd_Options n) (nd_Options n')"

lemma same_refl [simp]: "same_client c c" "same_options opt opt" "same_settings n n"
  by (simp_all add: same_client_def same_options_def same_settings_def)

lemma same_trans:
  "same_client c c' \<Longrightarrow> same_client c' c'' \<Longrightarrow> same_client c c''"
  "same_settings n n' \<Longrightarrow> same_settings n' n'' \<Longrightarrow> same_settings n n''"
  by (simp_all add: same_client_def same_options_def same_settings_def)

lemma same_settings_plain:
  "same_client c c' \<Longrightarrow> same_options opt opt' \<Longrightarrow> plain_node c' opt' = plain_node c opt \<and> client_tag c' = client_tag c"
  by (simp add: same_client_def same_options_def plain_node_def client_tag_def dynamicSpeedLimitEnabled_def)

text \<open>From a state that holds its limiter, a handler goes to such a state, under the same tag, with the limiter it had
  or a fresh one, and leaves the others alone.\<close>

definition goes :: "('re, 's) controller \<Rightarrow> ('re, 's) controller \<Rightarrow> bool" where
  "goes n n' \<longleftrightarrow> (held (nd_registry n) n \<longrightarrow> held (nd_registry n') n' \<and> same_settings n n' \<and> nd_tag n' = nd_tag n \<and>
     frame (nd_limiter n) {nd_tag n} (nd_registry n) (nd_registry n') \<and>
     (nd_limiter n' = nd_limiter n \<or> (\<exists>a \<ge> length (rg_heap (nd_registry n)). nd_limiter n' = Some a)))"

lemma goes_refl [simp]: "goes n n"
  by (simp add: goes_def)

lemma goes_trans:
  assumes "goes n n'" "goes n' n''"
  shows "goes n n''"
  unfolding goes_def
proof
  assume h: "held (nd_registry n) n"
  with assms(1) have 1: "held (nd_registry n') n'" "same_settings n n'" "nd_tag n' = nd_tag n"
      "frame (nd_limiter n) {nd_tag n} (nd_registry n) (nd_registry n')"
      "nd_limiter n' = nd_limiter n \<or> (\<exists>a \<ge> length (rg_heap (nd_registry n)). nd_limiter n' = Some a)"
    by (simp_all add: goes_def)
  with assms(2) have 2: "held (nd_registry n'') n''" "same_settings n' n''" "nd_tag n'' = nd_tag n'"
      "frame (nd_limiter n') {nd_tag n'} (nd_registry n') (nd_registry n'')"
      "nd_limiter n'' = nd_limiter n' \<or> (\<exists>a \<ge> length (rg_heap (nd_registry n')). nd_limiter n'' = Some a)"
    by (simp_all add: goes_def)
  have "length (rg_heap (nd_registry n)) \<le> length (rg_heap (nd_registry n'))" using 1(4) by (simp add: frame_def)
  then have "nd_limiter n'' = nd_limiter n \<or> (\<exists>a \<ge> length (rg_heap (nd_registry n)). nd_limiter n'' = Some a)"
    using 1(5) 2(5) le_trans by metis
  with 1 2 frame_trans [OF 1(4) _ 1(5)] show "held (nd_registry n'') n'' \<and> same_settings n n'' \<and> nd_tag n'' = nd_tag n \<and>
     frame (nd_limiter n) {nd_tag n} (nd_registry n) (nd_registry n'') \<and>
     (nd_limiter n'' = nd_limiter n \<or> (\<exists>a \<ge> length (rg_heap (nd_registry n)). nd_limiter n'' = Some a))"
    by (simp add: same_trans(2) [OF 1(2) 2(2)])
qed

definition heap_safe :: "'re registry \<Rightarrow> 're registry \<Rightarrow> bool" where
  "heap_safe r r' \<longleftrightarrow> (\<forall>b < length (rg_heap r). limiter_inv (rg_heap r ! b) \<longrightarrow> limiter_inv (rg_heap r' ! b))"

lemma heap_safe_refl [simp]: "heap_safe r r"
  by (simp add: heap_safe_def)

lemma heap_safe_update: "(limiter_inv (rg_heap r ! a) \<Longrightarrow> limiter_inv (f (rg_heap r ! a))) \<Longrightarrow> heap_safe r (heap_update a f r)"
  by (auto simp: heap_safe_def heap_update_def list_update_nth)

text \<open>Handlers that change no user.\<close>

lemma goes_kept:
  assumes "users_kept n n'" "same_settings n n'" "rg_limiter (nd_registry n') = rg_limiter (nd_registry n)"
    and "heap_safe (nd_registry n) (nd_registry n')"
  shows "goes n n'"
proof -
  have k: "nd_tag n' = nd_tag n" "nd_limiter n' = nd_limiter n"
    "length (rg_heap (nd_registry n')) = length (rg_heap (nd_registry n))"
    "\<forall>a < length (rg_heap (nd_registry n)). same_users (rg_heap (nd_registry n) ! a) (rg_heap (nd_registry n') ! a)"
    using assms(1,4) by (auto simp: users_kept_def heap_safe_def intro!: same_users_table)
  moreover have "GetLimiter (nd_registry n') t = GetLimiter (nd_registry n) t" for t
    using assms(3) by (simp add: GetLimiter_def)
  moreover have "held (nd_registry n) n \<Longrightarrow> held (nd_registry n') n'"
    using calculation assms(2) same_settings_plain
    by (fastforce simp: held_def same_settings_def same_users_def)
  ultimately show ?thesis using assms(2) by (simp add: goes_def frame_def)
qed

lemma client_kept:
  "GetUserAlive ac get c = Some (alive, c') \<Longrightarrow> same_client c c'"
  "GetUserList cd uget c = Some (users, c') \<Longrightarrow> same_client c c'"
  by (auto simp: GetUserAlive_def GetUserList_def Let_def same_client_def split: if_splits option.splits sum.splits)

lemma node_of_uniproxy_tag:
  "node_of_uniproxy cd c body = Some (Inr node) \<Longrightarrow> ni_Id node = pc_NodeId c \<and> ni_Type node = pc_NodeType c"
proof -
  have d: "decode_node_type cd t body n0 = Some (Inr (n1, cm)) \<Longrightarrow> ni_Id n1 = ni_Id n0 \<and> ni_Type n1 = ni_Type n0" for t n0 n1 cm
    by (auto simp: decode_node_type_def unwrap_error_def Let_def map_sum_def split: if_splits sum.splits)
  show "node_of_uniproxy cd c body = Some (Inr node) \<Longrightarrow> ni_Id node = pc_NodeId c \<and> ni_Type node = pc_NodeType c"
    by (auto simp: node_of_uniproxy_def clear_shared_def split: option.splits sum.splits Option.bind_splits dest!: d)
qed

lemma node_client:
  assumes "GetNodeInfo cd hash get c = Some (r, c')"
  shows "same_client c c' \<and> (\<forall>node. r = Inr (Some node) \<longrightarrow> pc_PanelType c \<noteq> ''ppanel'' \<longrightarrow>
    ni_Id node = pc_NodeId c \<and> ni_Type node = pc_NodeType c)"
  using assms
  by (auto simp: GetNodeInfo_def Let_def same_client_def split: option.splits if_splits sum.splits dest!: node_of_uniproxy_tag)

lemma report_settings:
  assumes "reportUserTrafficTask ev sv n = Some (log, n')"
  shows "nd_apiClient n' = nd_apiClient n \<and> nd_Options n' = nd_Options n \<and> rg_limiter (nd_registry n') = rg_limiter (nd_registry n) \<and>
    heap_safe (nd_registry n) (nd_registry n')"
proof -
  have online: "nd_apiClient (snd (getOnlineUsers sv m)) = nd_apiClient m \<and> nd_Options (snd (getOnlineUsers sv m)) = nd_Options m \<and>
      rg_limiter (nd_registry (snd (getOnlineUsers sv m))) = rg_limiter (nd_registry m) \<and>
      heap_safe (nd_registry m) (nd_registry (snd (getOnlineUsers sv m)))" for m :: "('a, 'b) controller"
    using inv_ops(2) by (auto simp: getOnlineUsers_def intro!: heap_safe_update split: option.splits)
  have "m' = snd (getOnlineUsers sv m)" if "report_online ev sv ts m = Some (d, m')" for m m' :: "('a, 'b) controller" and ts d
    using that by (auto simp: report_online_def Let_def split: prod.splits sum.splits option.splits)
  moreover obtain s m ts d where "report_online ev sv ts (n\<lparr>nd_server := s, nd_traffic := m\<rparr>) = Some (d, n')"
    using assms by (auto simp: reportUserTrafficTask_def split: option.splits prod.splits if_splits)
  ultimately show ?thesis using online [of "n\<lparr>nd_server := s, nd_traffic := m\<rparr>"] by simp
qed

lemma report_goes: "reportUserTrafficTask ev sv n = Some (log, n') \<Longrightarrow> goes n n'"
  using report_kept report_settings by (intro goes_kept) (fastforce simp: same_settings_def)+

lemma alive_fields:
  "on_limiter (SetAliveList m) n = Some n' \<Longrightarrow> nd_apiClient n' = nd_apiClient n \<and> nd_Options n' = nd_Options n \<and>
     rg_limiter (nd_registry n') = rg_limiter (nd_registry n) \<and> heap_safe (nd_registry n) (nd_registry n')"
  using inv_ops(1) by (auto simp: on_limiter_def intro!: heap_safe_update split: option.splits) (simp_all add: heap_update_def)

lemma sync_goes: "syncOnlineUsersTask ev sv n = Some n' \<Longrightarrow> goes n n'"
  by (intro goes_kept sync_kept)
    (auto simp: syncOnlineUsersTask_def Let_def same_settings_def split: if_splits sum.splits option.splits prod.splits
      dest!: alive_fields client_kept(1))

lemma goes_fields:
  "nd_tag n' = nd_tag n \<Longrightarrow> nd_limiter n' = nd_limiter n \<Longrightarrow> nd_registry n' = nd_registry n \<Longrightarrow> same_settings n n' \<Longrightarrow> goes n n'"
  using same_settings_plain by (fastforce simp: goes_def held_def same_settings_def)

lemma ensure_goes:
  assumes "ensureOnlineIPSyncTask ev sv n = Some n'"
  shows "goes n n'"
proof -
  have "n' = n\<lparr>nd_onlineIpReport := None\<rparr> \<or> n' = n \<or> (\<exists>i. syncOnlineUsersTask ev sv (n\<lparr>nd_onlineIpReport := i\<rparr>) = Some n')"
    using assms by (auto simp: ensureOnlineIPSyncTask_def split: if_splits)
  moreover have "goes n (n\<lparr>nd_onlineIpReport := i\<rparr>)" for i
    by (rule goes_fields) (simp_all add: same_settings_def)
  ultimately show ?thesis using sync_goes goes_trans by (metis goes_refl)
qed

lemma check_intervals_goes:
  assumes "ends (check_intervals ev sv newN n) n'"
  shows "goes n n'"
proof -
  have f: "goes n (n\<lparr>nd_nodeInfoMonitor := p\<rparr>)" "goes n (n\<lparr>nd_userReport := q\<rparr>)" for p q
    by (rule goes_fields; simp add: same_settings_def)+
  obtain pull where pull: "nd_nodeInfoMonitor n = Some pull" using assms by (auto simp: check_intervals_def split: option.splits)
  show ?thesis
  proof (cases "pull \<noteq> ni_PullInterval newN \<and> ni_PullInterval newN \<noteq> 0")
    case True
    then show ?thesis using assms pull f(1) by (simp add: check_intervals_def)
  next
    case False
    then obtain push where push: "nd_userReport n = Some push"
      using assms pull by (auto simp: check_intervals_def split: option.splits)
    let ?q = "normalizedPushInterval (nd_apiClient n) (ni_PushInterval newN)"
    obtain n1 where n1: "(if push \<noteq> ?q then map_option snd (reportUserTrafficTask ev sv (n\<lparr>nd_userReport := Some ?q\<rparr>)) else Some n) = Some n1"
      "ensureOnlineIPSyncTask ev sv n1 = Some n'"
      using assms pull push False by (auto simp: check_intervals_def Let_def split: option.splits)
    have "goes n n1" using n1(1) goes_trans [OF f(2) report_goes] by (auto split: if_splits)
    then show ?thesis using ensure_goes [OF n1(2)] by (rule goes_trans)
  qed
qed

text \<open>What is asked of a core: the options it returns keep the name and the limits.\<close>

definition keeps_options :: "'s core_ops \<Rightarrow> bool" where
  "keeps_options ops \<longleftrightarrow> (\<forall>tag node opt s err opt' s'.
     co_AddNode ops tag node opt s = Some ((err, opt'), s') \<longrightarrow> same_options opt opt')"

text \<open>Every core of the repository does, and so does a selector over such cores, which decodes the text of the options
  again, when that gives the same name and limits.\<close>

lemma cores_keep_options:
  "keeps_options (hy2_ops env)" "keeps_options (xray_ops xs)" "keeps_options (sing_ops sx sb)"
  by (auto simp: keeps_options_def hy2_ops_def hy_AddNode_def xray_ops_def sing_ops_def Let_def
      split: option.splits sum.splits if_splits)

definition rereads :: "conf_codec \<Rightarrow> bool" where
  "rereads dc \<longleftrightarrow> (\<forall>opt t. same_options opt (snd (dc_Opt dc (op_RawOptions opt) (opt\<lparr>op_Core := t\<rparr>))))"

lemma decode_keeps_options:
  assumes "decode_for dc ops opt core = (err, opt')" "rereads dc"
  shows "same_options opt opt'"
proof -
  let ?r = "dc_Opt dc (op_RawOptions opt) (opt\<lparr>op_Core := co_Type ops core\<rparr>)"
  have "same_options opt (snd ?r)" using assms(2) by (simp add: rereads_def)
  then show ?thesis using assms(1)
    by (cases ?r) (auto simp: decode_for_def options_UnmarshalJSON_def same_options_def split: option.splits prod.splits if_splits)
qed

lemma selector_keeps_options:
  assumes "keeps_options ops" "rereads dc"
  shows "keeps_options (selector_ops dc ops)"
  unfolding keeps_options_def
proof (intro allI impI)
  fix tag node opt s err opt' s'
  assume a: "co_AddNode (selector_ops dc ops) tag node opt s = Some ((err, opt'), s')"
  show "same_options opt opt'"
  proof (cases "select_core ops node opt (se_cores s)")
    case None
    then show ?thesis using a by (simp add: selector_ops_def sel_AddNode_def)
  next
    case (Some x)
    obtain n core where x: "x = (n, core)" by force
    obtain e o1 where d: "decode_for dc ops opt core = (e, o1)" by force
    have "opt' = o1 \<or> (\<exists>r c. co_AddNode ops tag node o1 core = Some ((r, opt'), c))"
      using a Some x d by (cases e) (auto simp: selector_ops_def sel_AddNode_def split: option.splits)
    then show ?thesis using decode_keeps_options [OF d assms(2)] assms(1) unfolding keeps_options_def same_options_def by metis
  qed
qed

lemma any_keeps_options:
  assumes "keeps_options ops" "rereads dc"
  shows "keeps_options (any_ops dc ops)"
  unfolding keeps_options_def
proof (intro allI impI)
  fix tag node opt s err opt' s'
  assume a: "co_AddNode (any_ops dc ops) tag node opt s = Some ((err, opt'), s')"
  show "same_options opt opt'"
  proof (cases s)
    case (Single c)
    then obtain c' where "co_AddNode ops tag node opt c = Some ((err, opt'), c')"
      using a by (auto simp: any_ops_def Let_def on_core_def)
    then show ?thesis using assms(1) unfolding keeps_options_def by blast
  next
    case (Multi m)
    then obtain m' where "co_AddNode (selector_ops dc ops) tag node opt m = Some ((err, opt'), m')"
      using a by (auto simp: any_ops_def Let_def on_core_def)
    then show ?thesis using selector_keeps_options [OF assms] unfolding keeps_options_def by blast
  qed
qed

lemma readd_goes:
  assumes "ends (readd_node ev sv newN n) n'" "keeps_options (sv_ops sv)"
  shows "goes n n'"
proof -
  obtain opt s n1 where n1: "n1 = n\<lparr>nd_server := s, nd_Options := opt\<rparr>" "same_options (nd_Options n) opt"
    "n' = n1 \<or> ends (check_intervals ev sv newN n1) n'"
    using assms unfolding keeps_options_def
    by (fastforce simp: readd_node_def split: option.splits prod.splits)
  have "goes n n1" using n1(1,2) by (intro goes_fields) (simp_all add: same_settings_def)
  then show ?thesis using n1(3) check_intervals_goes goes_trans by blast
qed

lemma reload_limiter_goes:
  assumes "buildNodeTag (nd_apiClient n) newN = client_tag (nd_apiClient n)"
  shows "goes n (reload_limiter newN newA n)"
  unfolding goes_def
proof (rule impI)
  assume h: "held (nd_registry n) n"
  then have name: "op_Name (nd_Options n) = ''''" and tag: "nd_tag n = client_tag (nd_apiClient n)"
    by (simp_all add: held_def plain_node_def)
  obtain a r where a: "AddLimiter (nd_tag n) (op_LimitConfig (nd_Options n)) (nd_userList n) newA (DeleteLimiter (nd_tag n) (nd_registry n)) = (a, r)"
    by force
  then have n': "reload_limiter newN newA n = n\<lparr>nd_tag := nd_tag n, nd_registry := r, nd_limiter := Some a\<rparr>"
    using name tag assms by (simp add: reload_limiter_def)
  note f = frame_AddLimiter [OF a]
  have "frame None {nd_tag n} (nd_registry n) r" using f frame_trans [OF frame_DeleteLimiter] by blast
  moreover have "a = length (rg_heap (nd_registry n))" using f by (simp add: DeleteLimiter_def)
  ultimately show "held (nd_registry (reload_limiter newN newA n)) (reload_limiter newN newA n) \<and>
      same_settings n (reload_limiter newN newA n) \<and> nd_tag (reload_limiter newN newA n) = nd_tag n \<and>
      frame (nd_limiter n) {nd_tag n} (nd_registry n) (nd_registry (reload_limiter newN newA n)) \<and>
      (nd_limiter (reload_limiter newN newA n) = nd_limiter n \<or>
       (\<exists>a \<ge> length (rg_heap (nd_registry n)). nd_limiter (reload_limiter newN newA n) = Some a))"
    using h f sound_new by (auto simp: n' held_def same_settings_def intro: frame_mono)
qed

lemma reload_rules_goes:
  assumes "reload_rules ev newN newA n = Some n'"
  shows "goes n n'"
  by (rule goes_kept [OF reload_rules_kept [OF assms]])
    (use assms in \<open>auto simp: reload_rules_def same_settings_def intro!: heap_safe_update inv_ops(3) [OF _ inv_ops(1)] split: option.splits\<close>)

lemma reload_goes:
  assumes "ends (reload_node ev sv newN newU newA n) n'" "keeps_options (sv_ops sv)"
    and "buildNodeTag (nd_apiClient n) newN = client_tag (nd_apiClient n)"
  shows "goes n n'"
proof -
  let ?n1 = "resetTraffic (n\<lparr>nd_info := Some newN, nd_userList := (case newU of None \<Rightarrow> nd_userList n | Some us \<Rightarrow> us)\<rparr>)"
  obtain s n2 where n2: "reload_rules ev newN newA (reload_limiter newN newA (?n1\<lparr>nd_server := s\<rparr>)) = Some n2"
    and n': "n' = n2 \<or> ends (readd_node ev sv newN n2) n'"
    using assms(1) by (auto simp: reload_node_def Let_def split: option.splits prod.splits if_splits)
  have "goes n (?n1\<lparr>nd_server := s\<rparr>)" by (rule goes_fields) (simp_all add: resetTraffic_def same_settings_def)
  moreover have "goes (?n1\<lparr>nd_server := s\<rparr>) (reload_limiter newN newA (?n1\<lparr>nd_server := s\<rparr>))"
    by (rule reload_limiter_goes) (simp add: resetTraffic_def assms(3))
  ultimately have "goes n n2" using reload_rules_goes [OF n2] goes_trans by blast
  then show ?thesis using n' readd_goes [OF _ assms(2)] goes_trans by blast
qed

lemma note_users_goes:
  assumes "note_users deleted added n = Some n'"
  shows "goes n n'"
proof (cases "deleted = [] \<and> added = []")
  case True
  with assms show ?thesis by (simp add: note_users_def)
next
  case False
  then obtain a n1 where a: "nd_limiter n = Some a"
    and n1: "n1 = n\<lparr>nd_registry := heap_update a (UpdateUser (nd_tag n) added deleted) (nd_registry n)\<rparr>"
    and n': "n' = n1 \<or> (\<exists>m. n' = n1\<lparr>nd_traffic := m\<rparr>)"
    using assms by (auto simp: note_users_def on_limiter_def split: if_splits option.splits)
  have "goes n n1"
    using a frame_update [of "nd_registry n" a _ "Some a"]
    by (auto simp: goes_def n1 held_def same_settings_def heap_update_own sound_update)
  moreover have "goes n1 n'" using n' by (auto intro!: goes_fields simp: same_settings_def)
  ultimately show ?thesis by (rule goes_trans)
qed

lemma update_goes:
  assumes "update_users ev sv newU newA n = Some n'"
  shows "goes n n'"
proof -
  obtain n1 where n1: "on_limiter (SetAliveList newA) n = Some n1"
    using assms by (auto simp: update_users_def split: option.splits)
  have 1: "goes n n1"
    using alive_fields [OF n1] by (intro goes_kept on_limiter_kept [OF _ n1]) (simp_all add: same_settings_def)
  have srv: "goes n1 (n1\<lparr>nd_server := s\<rparr>)" for s by (rule goes_fields) (simp_all add: same_settings_def)
  show ?thesis
  proof (cases "newU = None \<or> newU = Some []")
    case True
    then show ?thesis using assms n1 1 by (auto simp: update_users_def)
  next
    case False
    then obtain u us where us: "newU = Some (u # us)" by (metis list.exhaust option.exhaust)
    obtain deleted added where d: "compareUserList (nd_userList n1) (u # us) = (deleted, added)" by force
    obtain info ok s where m: "nd_info n1 = Some info" "move_users (sv_ops sv) (nd_tag n1) info deleted added (nd_server n1) = Some (ok, s)"
      using assms n1 us d by (auto simp: update_users_def split: option.splits)
    show ?thesis
    proof (cases ok)
      case False
      then have "n' = n1\<lparr>nd_server := s\<rparr>" using assms n1 us d m by (simp add: update_users_def)
      then show ?thesis using goes_trans [OF 1 srv] by simp
    next
      case True
      then obtain n2 where n2: "note_users deleted added (n1\<lparr>nd_server := s\<rparr>) = Some n2"
        "ensureOnlineIPSyncTask ev sv (n2\<lparr>nd_userList := u # us\<rparr>) = Some n'"
        using assms n1 us d m by (auto simp: update_users_def split: option.splits)
      have "goes n2 (n2\<lparr>nd_userList := u # us\<rparr>)" by (rule goes_fields) (simp_all add: same_settings_def)
      then show ?thesis using 1 srv note_users_goes [OF n2(1)] ensure_goes [OF n2(2)] goes_trans by blast
    qed
  qed
qed

lemma monitor_goes:
  assumes "ends (nodeInfoMonitor ev sv n) n'" "keeps_options (sv_ops sv)"
  shows "goes n n'"
proof (cases "held (nd_registry n) n")
  case held: True
  have client: "goes n (n\<lparr>nd_apiClient := c\<rparr>)" if "same_client (nd_apiClient n) c" for c
    using that by (intro goes_fields) (simp_all add: same_settings_def)
  consider c where "same_client (nd_apiClient n) c" "n' = n\<lparr>nd_apiClient := c\<rparr>"
    | c node newU newA where "same_client (nd_apiClient n) c" "ni_Id node = pc_NodeId (nd_apiClient n)"
      "ni_Type node = pc_NodeType (nd_apiClient n)" "ends (reload_node ev sv node newU newA (n\<lparr>nd_apiClient := c\<rparr>)) n'"
    | c newU newA where "same_client (nd_apiClient n) c" "update_users ev sv newU newA (n\<lparr>nd_apiClient := c\<rparr>) = Some n'"
  proof -
    obtain r1 c1 where 1: "GetNodeInfo (ev_codec ev) (ev_hash ev) (ev_node_get ev) (nd_apiClient n) = Some (r1, c1)"
      using assms(1) by (auto simp: nodeInfoMonitor_def split: option.splits)
    note s1 = node_client [OF 1]
    have pp: "pc_PanelType (nd_apiClient n) \<noteq> ''ppanel''" using held by (simp add: held_def plain_node_def)
    show ?thesis
    proof (cases r1)
      case (Inl e)
      then show ?thesis using assms(1) 1 s1 that(1) by (auto simp: nodeInfoMonitor_def)
    next
      case (Inr newN)
      obtain r2 c2 where 2: "GetUserList (ev_codec ev) (ev_user_get ev) c1 = Some (r2, c2)"
        using assms(1) 1 Inr by (auto simp: nodeInfoMonitor_def split: option.splits)
      have s2: "same_client (nd_apiClient n) c2" using s1 client_kept(2) [OF 2] same_trans(1) by blast
      show ?thesis
      proof (cases r2)
        case (Inl e)
        then show ?thesis using assms(1) 1 2 Inr s2 that(1) by (auto simp: nodeInfoMonitor_def)
      next
        case r2: (Inr newU)
        obtain newA c3 where 3: "GetUserAlive (ev_alive ev) (ev_alive_get ev) c2 = Some (newA, c3)"
          using assms(1) 1 2 Inr r2 by (auto simp: nodeInfoMonitor_def split: option.splits)
        have s3: "same_client (nd_apiClient n) c3" using s2 client_kept(1) [OF 3] same_trans(1) by blast
        show ?thesis
        proof (cases newN)
          case None
          then show ?thesis using assms(1) 1 2 3 Inr r2 s3 that(3) by (auto simp: nodeInfoMonitor_def Let_def)
        next
          case (Some node)
          then show ?thesis using assms(1) 1 2 3 Inr r2 s1 s3 pp by (intro that(2) [OF s3]) (auto simp: nodeInfoMonitor_def Let_def)
        qed
      qed
    qed
  qed
  then show ?thesis
  proof cases
    case (2 c node newU newA)
    have "buildNodeTag c node = client_tag c" using 2(1-3) by (simp add: buildNodeTag_def client_tag_def same_client_def)
    then show ?thesis using reload_goes [OF 2(4) assms(2)] client [OF 2(1)] goes_trans by simp
  next
    case (3 c newU newA)
    then show ?thesis using update_goes client goes_trans by blast
  qed (simp add: client)
qed (simp add: goes_def)

end
