(* ===== verification/Service_Laws.thy ===== *)
theory Service_Laws
  imports Service Node_Start
begin

text \<open>
  What the process does as a whole: after a start or a reload every configured node is served, whatever core or
  cores are configured; how often a changed configuration is read; and what a reload that fails leaves behind.
\<close>

section \<open>The contract of any core\<close>

definition any_serves :: "('s \<Rightarrow> string \<Rightarrow> bool) \<Rightarrow> 's core \<Rightarrow> string \<Rightarrow> bool" where
  "any_serves serves c t = (case c of Single s \<Rightarrow> serves s t | Multi m \<Rightarrow> sel_serves serves m t)"

definition any_valid :: "('s \<Rightarrow> bool) \<Rightarrow> 's core \<Rightarrow> bool" where
  "any_valid valid c = (case c of Single s \<Rightarrow> valid s | Multi m \<Rightarrow> sel_valid valid m)"

lemma on_core_cases:
  assumes "on_core f g c = Some (r, c')"
  obtains (single) s s' where "c = Single s" "c' = Single s'" "f s = Some (r, s')"
  | (multi) m m' where "c = Multi m" "c' = Multi m'" "g m = Some (r, m')"
  using assms by (auto simp: on_core_def split: core.splits)

lemma any_simps [simp]:
  "any_serves serves (Single s) = serves s" "any_serves serves (Multi m) = sel_serves serves m"
  "any_valid valid (Single s) = valid s" "any_valid valid (Multi m) = sel_valid valid m"
  by (auto simp: any_serves_def any_valid_def)

lemma any_ops_simps:
  "co_Start (any_ops dc ops) = on_core (co_Start ops) (co_Start (selector_ops dc ops))"
  "co_AddNode (any_ops dc ops) tag info opt = on_core (co_AddNode ops tag info opt) (co_AddNode (selector_ops dc ops) tag info opt)"
  "co_DelNode (any_ops dc ops) tag = on_core (co_DelNode ops tag) (co_DelNode (selector_ops dc ops) tag)"
  "co_AddUsers (any_ops dc ops) p = on_core (co_AddUsers ops p) (co_AddUsers (selector_ops dc ops) p)"
  "co_GetUserTraffic (any_ops dc ops) tag uuid reset =
     on_core (co_GetUserTraffic ops tag uuid reset) (co_GetUserTraffic (selector_ops dc ops) tag uuid reset)"
  "co_DelUsers (any_ops dc ops) users tag info = on_core (co_DelUsers ops users tag info) (co_DelUsers (selector_ops dc ops) users tag info)"
  by (simp_all add: any_ops_def Let_def)

context core_contract
begin

lemmas sel_laws = core_contract.add_node [OF selector_contract] core_contract.del_node [OF selector_contract]
  core_contract.add_users [OF selector_contract] core_contract.del_users [OF selector_contract]
  core_contract.get_traffic [OF selector_contract] core_contract.start [OF selector_contract]

lemma any_contract: "core_contract (any_ops dc ops) (any_serves serves) (any_valid valid)"
proof (unfold_locales, goal_cases)
  case (1 s tag info opt err opt' s')
  from 1(2) show ?case unfolding any_ops_simps
  proof (cases rule: on_core_cases)
    case (single k k')
    then show ?thesis using 1(1) add_node [OF _ single(3)] by simp
  next
    case (multi m m')
    then show ?thesis using 1(1) sel_laws(1) [OF _ multi(3)] by simp
  qed
next
  case (2 s tag err s')
  from 2(2) show ?case unfolding any_ops_simps
  proof (cases rule: on_core_cases)
    case (single k k')
    then show ?thesis using 2(1) del_node [OF _ single(3)] by simp
  next
    case (multi m m')
    then show ?thesis using 2(1) sel_laws(2) [OF _ multi(3)] by simp
  qed
next
  case (3 s p r s')
  then show ?case by (auto simp: any_ops_simps elim!: on_core_cases dest: add_users sel_laws(3))
next
  case (4 s users tag info r s')
  then show ?case by (auto simp: any_ops_simps elim!: on_core_cases dest: del_users sel_laws(4))
next
  case (5 s tag uuid reset r s')
  then show ?case by (auto simp: any_ops_simps elim!: on_core_cases dest: get_traffic sel_laws(5))
next
  case (6 s r s')
  then show ?case by (auto simp: any_ops_simps elim!: on_core_cases dest: start sel_laws(6))
qed

end

section \<open>Starting nodes\<close>

lemma fetch_start_server: "fetch_start ev n = (r, n') \<Longrightarrow> nd_server n' = nd_server n"
  by (auto simp: fetch_start_def Let_def split: option.splits prod.splits sum.splits if_splits)

lemma start_limiter_server: "start_limiter ev node n = Some (node', n') \<Longrightarrow> nd_server n' = nd_server n"
  by (auto simp: start_limiter_def Let_def split: option.splits prod.splits)

context core_contract
begin

lemma start_serves:
  assumes "Start ev sv n0 = Some (None, n)" "sv_ops sv = ops" "valid (nd_server n0)"
  shows "valid (nd_server n) \<and> serves (nd_server n) (nd_tag n) \<and> (\<forall>t. serves (nd_server n0) t \<longrightarrow> serves (nd_server n) t)"
proof -
  obtain node node' n1 n2 where f: "fetch_start ev n0 = (Some (Inr node), n1)"
    and l: "start_limiter ev node n1 = Some (node', n2)" and s: "start_node ev sv node' n2 = Some (None, n)"
    using assms(1) by (auto simp: Start_def split: option.splits prod.splits sum.splits if_splits)
  have srv: "nd_server n2 = nd_server n0" using fetch_start_server [OF f] start_limiter_server [OF l] by simp
  obtain opt s1 k s2 where a: "co_AddNode ops (nd_tag n2) node' (nd_Options n2) (nd_server n2) = Some ((None, opt), s1)"
    "co_AddUsers ops \<lparr>au_Tag = nd_tag n2, au_Users = nd_userList n2, au_NodeInfo = node'\<rparr> s1 = Some ((k, None), s2)"
    "startTasks ev sv node' (n2\<lparr>nd_server := s2, nd_Options := opt, nd_info := Some node'\<rparr>) = Some n"
    using s by (auto simp: start_node_def assms(2) split: option.splits prod.splits)
  have v0: "valid (nd_server n2)" using assms(3) srv by simp
  note 1 = add_node [OF v0 a(1)]
  note 2 = add_users [OF conjunct1 [OF 1] a(2)]
  let ?P = "\<lambda>h. valid h \<and> serves h = serves s2"
  have "users_kept (n2\<lparr>nd_server := s2, nd_Options := opt, nd_info := Some node'\<rparr>) n \<and> ?P (nd_server n)"
  proof (rule startTasks_frame [OF a(3)])
    show "?P (nd_server (n2\<lparr>nd_server := s2, nd_Options := opt, nd_info := Some node'\<rparr>))" using 2 by simp
    fix s uuid r s'
    assume s: "?P s" and r: "co_GetUserTraffic (sv_ops sv) (nd_tag (n2\<lparr>nd_server := s2, nd_Options := opt, nd_info := Some node'\<rparr>))
      uuid True s = Some (r, s')"
    show "?P s'" using get_traffic [OF conjunct1 [OF s] r [unfolded assms(2)]] s by simp
  qed
  then have n: "nd_tag n = nd_tag n2" "?P (nd_server n)" by (simp_all add: users_kept_def)
  have "serves s1 t" if "serves (nd_server n0) t" for t
    using that 1 srv by (cases "t = nd_tag n2") auto
  then show ?thesis using n 1 2 by auto
qed

lemma start_one_serves:
  assumes "start_one ev sv cfg w = Some ((None, c), w')" "sv_ops sv = ops" "valid (fst w)"
  shows "valid (fst w') \<and> (\<exists>n. c = Some n \<and> serves (fst w') (nd_tag n)) \<and> (\<forall>t. serves (fst w) t \<longrightarrow> serves (fst w') t)"
proof -
  obtain cl q n where "Start ev sv (NewController (fst w) (snd w) cl (snd cfg)) = Some (None, n)"
    "c = Some n" "w' = (nd_server n, nd_registry n)"
    using assms(1) by (auto simp: start_one_def split: sum.splits option.splits prod.splits)
  then show ?thesis using start_serves [of ev sv _ n] assms(2,3) by (auto simp: NewController_def)
qed

lemma start_nodes_serve:
  "start_nodes ev sv i cfgs w = Some ((None, ns), w') \<Longrightarrow> sv_ops sv = ops \<Longrightarrow> valid (fst w) \<Longrightarrow>
     valid (fst w') \<and> length ns = length cfgs \<and> (\<forall>n \<in> set ns. \<exists>c. n = Some c \<and> serves (fst w') (nd_tag c)) \<and>
     (\<forall>t. serves (fst w) t \<longrightarrow> serves (fst w') t)"
proof (induction cfgs arbitrary: i w ns)
  case (Cons cfg cfgs)
  obtain c w1 ns1 where 1: "start_one (ev i) sv cfg w = Some ((None, c), w1)"
    and 2: "start_nodes ev sv (Suc i) cfgs w1 = Some ((None, ns1), w')" and ns: "ns = c # ns1"
    using Cons.prems(1) by (auto split: option.splits prod.splits)
  note s = start_one_serves [OF 1 Cons.prems(2,3)]
  note rest = Cons.IH [OF 2 Cons.prems(2) conjunct1 [OF s]]
  show ?case using s rest ns by auto
qed simp

lemma inr_of_map_sum: "map_sum f g r = Inr y \<Longrightarrow> (\<And>x. r = Inr x \<Longrightarrow> y = g x \<Longrightarrow> P) \<Longrightarrow> P"
  by (cases r) auto

lemma new_members_valid:
  "new_members reg ts cs = Some (Inr cs') \<Longrightarrow> (\<And>t f c s. sm_load reg t = Some f \<Longrightarrow> f c = Some (Inr s) \<Longrightarrow> valid s) \<Longrightarrow>
     sm_wf cs \<Longrightarrow> (\<forall>n c. sm_load cs n = Some c \<longrightarrow> valid c) \<Longrightarrow> sm_wf cs' \<and> (\<forall>n c. sm_load cs' n = Some c \<longrightarrow> valid c)"
proof (induction ts arbitrary: cs)
  case (Cons t ts)
  obtain f core1 where f: "sm_load reg (ToLower (cf_Type t)) = Some f" "f t = Some (Inr core1)"
    and r: "new_members reg ts (sm_store (if cf_Name t = '''' then cf_Type t else cf_Name t) core1 cs) = Some (Inr cs')"
    using Cons.prems(1) by (auto split: option.splits sum.splits)
  have "valid core1" using Cons.prems(2) f by blast
  then show ?case
    using Cons.prems(3,4) by (intro Cons.IH [OF r]) (auto simp: sm.wf_store sm.load_store split: if_splits intro: Cons.prems(2))
qed simp

lemma new_core_valid:
  assumes "NewCore reg cs = Some (Inr vc)" "\<And>t f c s. sm_load reg t = Some f \<Longrightarrow> f c = Some (Inr s) \<Longrightarrow> valid s"
  shows "any_valid valid vc"
proof (cases "length cs > 1")
  case True
  then have "map_option (map_sum id Multi) (NewSelector reg cs) = Some (Inr vc)" using assms(1) by (simp add: NewCore_def)
  then obtain m where "NewSelector reg cs = Some (Inr m)" "vc = Multi m"
    by (auto elim!: inr_of_map_sum)
  moreover have "sm_wf []" "\<forall>n c. sm_load [] n = Some c \<longrightarrow> valid c" by (simp_all add: sm.wf_empty sm.load_empty)
  ultimately show ?thesis
    using new_members_valid [where reg = reg and ts = cs and cs = "[]"] assms(2)
    by (auto simp: NewSelector_def sel_valid_def elim!: inr_of_map_sum)
next
  case False
  then obtain c0 f s where "cs = [c0]" "sm_load reg (cf_Type c0) = Some f" "f c0 = Some (Inr s)" "vc = Single s"
    using assms(1) by (cases cs) (auto simp: NewCore_def split: option.splits elim!: inr_of_map_sum)
  then show ?thesis using assms(2) by auto
qed

end

text \<open>C8: Whenever the process has started, and after every reload that succeeds, there is one controller for each
  configured node, none of them nil, and the core that was made from the configuration serves the node of every one of
  them under its tag, for one core or a selector over several.\<close>

theorem service_serves_nodes:
  assumes "serverHandle decode os_open cores sv ev path watch = Some (Inr s) \<or>
      watch_reload decode os_open cores sv ev path s0 = Some (None, s)"
    and "core_contract ops serves valid" "sv_ops sv = any_ops dc ops"
    and "\<forall>t f c k. sm_load cores t = Some f \<longrightarrow> f c = Some (Inr k) \<longrightarrow> valid k"
  shows "sx_conf s = snd (LoadFromPath decode os_open path NewConf) \<and>
    length (sx_nodes s) = length (cn_NodeConfig (sx_conf s)) \<and>
    (\<exists>vc. sx_core s = Some vc \<and> (\<forall>n \<in> set (sx_nodes s). \<exists>c. n = Some c \<and> any_serves serves vc (nd_tag c)))"
proof -
  note any = core_contract.any_contract [OF assms(2), of dc]
  have "\<exists>s1. start_service cores sv ev s1 = Some (None, s) \<and> sx_conf s1 = snd (LoadFromPath decode os_open path NewConf)"
    using assms(1)
  proof
    assume "serverHandle decode os_open cores sv ev path watch = Some (Inr s)"
    then show ?thesis
      by (force simp: serverHandle_def split: prod.splits option.splits)
  next
    assume "watch_reload decode os_open cores sv ev path s0 = Some (None, s)"
    then show ?thesis
      by (force simp: watch_reload_def reload_def Let_def split: prod.splits option.splits if_splits)
  qed
  then obtain s1 where s1: "start_service cores sv ev s1 = Some (None, s)"
    "sx_conf s1 = snd (LoadFromPath decode os_open path NewConf)" by blast
  obtain vc0 vc1 where vc: "NewCore cores (cn_CoresConfig (sx_conf s1)) = Some (Inr vc0)" "co_Start (sv_ops sv) vc0 = Some (None, vc1)"
    using s1(1) by (auto simp: start_service_def split: option.splits sum.splits prod.splits)
  obtain ns vc2 reg where n: "start_nodes ev sv 0 (map (\<lambda>n. (nc_ApiConfig n, nc_Options n)) (cn_NodeConfig (sx_conf s1)))
      (vc1, sx_registry s1) = Some ((None, ns), vc2, reg)" and s: "s = s1\<lparr>sx_core := Some vc2, sx_nodes := ns, sx_registry := reg\<rparr>"
    using s1(1) vc by (auto simp: start_service_def split: option.splits prod.splits)
  have "any_valid valid vc0" using core_contract.new_core_valid [OF assms(2) vc(1)] assms(4) by blast
  then have "any_valid valid vc1" using core_contract.start [OF any _ vc(2) [unfolded assms(3)]] by blast
  then show ?thesis
    using core_contract.start_nodes_serve [OF any n assms(3)] s s1(2) by simp
qed

section \<open>Reading the configuration again\<close>

lemma reload_times_after: "t \<in> set (reload_times es pre) \<Longrightarrow> pre + 15 * Second \<le> t"
proof (induction es arbitrary: pre)
  case (Cons e es)
  then show ?case by (fastforce simp: watch_step_def split: if_splits)
qed simp

text \<open>C31: The configuration is read at most once in ten seconds. And every change of a watched file is near a reading: for a change
  at some time there is one at most five seconds before it or after it. (One that comes before the change, as after
  a second change within the ten seconds, does not see it.)\<close>

theorem reload_spacing:
  assumes "sorted (map we_Now es)" "\<forall>e \<in> set es. zero_time + 10 * Second \<le> we_Now e"
  shows "sorted_wrt (\<lambda>t u. t + 10 * Second \<le> u) (reload_times es zero_time) \<and>
    (\<forall>e \<in> set es. \<not> we_Chmod e \<longrightarrow>
       (\<exists>t \<in> set (reload_times es zero_time). we_Now e - 5 * Second < t \<and> t \<le> we_Now e + 5 * Second))"
proof -
  have spaced: "sorted_wrt (\<lambda>t u. t + 10 * Second \<le> u) (reload_times es pre)" for es pre
  proof (induction es arbitrary: pre)
    case (Cons e es)
    then show ?case using reload_times_after [of _ es "we_Now e"] by (fastforce simp: watch_step_def)
  qed simp
  have near: "sorted (map we_Now es) \<Longrightarrow> \<forall>e \<in> set es. pre \<le> we_Now e \<Longrightarrow> e \<in> set es \<Longrightarrow> \<not> we_Chmod e \<Longrightarrow>
      we_Now e < pre + 10 * Second \<or>
      (\<exists>t \<in> set (reload_times es pre). we_Now e - 5 * Second < t \<and> t \<le> we_Now e + 5 * Second)" for es pre e
  proof (induction es arbitrary: pre)
    case (Cons x xs)
    obtain fire pre' where w: "watch_step x pre = (fire, pre')" by force
    have after: "\<forall>e \<in> set xs. pre' \<le> we_Now e" "pre \<le> pre'"
      using Cons.prems(1,2) w by (auto simp: watch_step_def split: if_splits)
    show ?case
    proof (cases "e = x")
      case True
      then show ?thesis using Cons.prems(4) by (auto simp: watch_step_def)
    next
      case False
      then consider "we_Now e < pre' + 10 * Second"
        | "\<exists>t \<in> set (reload_times xs pre'). we_Now e - 5 * Second < t \<and> t \<le> we_Now e + 5 * Second"
        using Cons.IH [OF _ after(1)] Cons.prems by auto
      then show ?thesis
      proof cases
        case 1
        then show ?thesis using w Cons.prems(1,3) False by (auto simp: watch_step_def split: if_splits)
      next
        case 2
        then show ?thesis using w by auto
      qed
    qed
  qed simp
  have late: "zero_time + 10 * Second \<le> we_Now e" if "e \<in> set es" for e using assms(2) that by blast
  then have "\<forall>e \<in> set es. zero_time \<le> we_Now e" by fastforce
  note near = near [OF assms(1) this]
  have "\<exists>t \<in> set (reload_times es zero_time). we_Now e - 5 * Second < t \<and> t \<le> we_Now e + 5 * Second"
    if "e \<in> set es" "\<not> we_Chmod e" for e
    using near [OF that] late [OF that(1)] by linarith
  then show ?thesis using spaced by blast
qed

lemma reload_spacing_witness:
  "let es = map (\<lambda>t. \<lparr>we_Name = ''config.json'', we_Chmod = False, we_Now = t * Second\<rparr>) [0, 7, 12] in
   reload_times es zero_time = [5 * Second, 17 * Second] \<and>
   (\<forall>e \<in> set es. \<exists>t \<in> set (reload_times es zero_time). we_Now e - 5 * Second < t \<and> t \<le> we_Now e + 5 * Second)"
proof -
  let ?es = "map (\<lambda>t. \<lparr>we_Name = ''config.json'', we_Chmod = False, we_Now = t * Second\<rparr>) [0, 7, 12]"
  have "sorted (map we_Now ?es)" "\<forall>e \<in> set ?es. zero_time + 10 * Second \<le> we_Now e" "\<forall>e \<in> set ?es. \<not> we_Chmod e"
    by (auto simp: zero_time_def)
  with reload_spacing [of ?es] have "\<forall>e \<in> set ?es. \<exists>t \<in> set (reload_times ?es zero_time). we_Now e - 5 * Second < t \<and> t \<le> we_Now e + 5 * Second"
    by blast
  moreover have "reload_times ?es zero_time = [5 * Second, 17 * Second]" by code_simp
  ultimately show ?thesis by (simp only: Let_def)
qed

text \<open>Two changes seven seconds apart: the second is not read until the file changes again.\<close>

lemma second_change_not_read:
  "reload_times (map (\<lambda>t. \<lparr>we_Name = ''config.json'', we_Chmod = False, we_Now = t * Second\<rparr>) [0, 7]) zero_time = [5 * Second]"
  by code_simp

section \<open>Reloads that fail\<close>

lemma close_nil_node: "None \<in> set ns \<Longrightarrow> close_nodes sv ns w = None"
proof (induction ns arbitrary: w)
  case (Cons n ns)
  then show ?case by (cases n) (auto split: option.splits)
qed simp


section \<open>A concrete process\<close>

definition demo_conf_decode :: "conf decode" where
  "demo_conf_decode data p = (None, p\<lparr>
     cn_CoresConfig := [\<lparr>cf_Type = ''hysteria2'', cf_Name = '''', cf_XrayConfig = None, cf_SingConfig = None, cf_Hysteria2Config = None\<rparr>],
     cn_NodeConfig := [\<lparr>nc_ApiConfig = default_api\<lparr>api_NodeType := ''Hysteria2'', api_NodeID := 1\<rparr>, nc_Options = demo_named_options\<rparr>]\<rparr>)"

definition demo_cores :: "hysteria2 constructors" where
  "demo_cores = RegisterCore ''hysteria2'' (\<lambda>_. Some (Inr demo_hy_start)) []"

definition demo_any_server :: "hysteria2 core core_server" where
  "demo_any_server = \<lparr>sv_ops = any_ops demo_conf_codec (hy2_ops demo_env), sv_reporter = None\<rparr>"

definition demo_process :: "(service_error + (unit, hysteria2) service) option" where
  "demo_process = serverHandle demo_conf_decode (\<lambda>_. Inr (''{}'', None)) demo_cores demo_any_server (\<lambda>_. demo_change_env)
     ''/etc/V2bX/config.json'' None"

definition demo_service :: "(unit, hysteria2) service" where
  "demo_service = projr (the demo_process)"

lemma from_computed:
  "map_option isl r = Some False \<Longrightarrow> r = Some (Inr (projr (the r)))" "\<not> Option.is_none m \<Longrightarrow> m = Some (the m)"
  "\<not> Option.is_none q \<Longrightarrow> fst (the q) = a \<Longrightarrow> q = Some (a, snd (the q))"
  by (cases r; auto simp: isl_def) (auto simp: Option.is_none_def)

lemma demo_process_runs: "demo_process = Some (Inr demo_service)"
  unfolding demo_service_def by (rule from_computed(1)) code_simp

lemma service_serves_nodes_witness:
  "length (sx_nodes demo_service) = 1 \<and> (\<exists>vc. sx_core demo_service = Some vc \<and> any_serves hy_serves vc ''n'')"
proof -
  have "core_contract (hy2_ops demo_env) hy_serves (\<lambda>_. True)" by (rule hy2.core_contract_axioms)
  moreover have "sv_ops demo_any_server = any_ops demo_conf_codec (hy2_ops demo_env)" by (simp add: demo_any_server_def)
  ultimately obtain vc where "length (sx_nodes demo_service) = length (cn_NodeConfig (sx_conf demo_service))"
    "sx_core demo_service = Some vc" "\<forall>n \<in> set (sx_nodes demo_service). \<exists>c. n = Some c \<and> any_serves hy_serves vc (nd_tag c)"
    using service_serves_nodes [OF disjI1 [OF demo_process_runs [unfolded demo_process_def]]] by blast
  moreover have tags: "map (map_option nd_tag) (sx_nodes demo_service) = [Some ''n'']" by code_simp
  then obtain c where "sx_nodes demo_service = [Some c]" "nd_tag c = ''n''" by auto
  ultimately show ?thesis by auto
qed


end
