(* ===== verification/Process_Laws.thy ===== *)
theory Process_Laws
  imports Node_Frame Service_Laws
begin

text \<open>
  What holds in every state of a running process: whatever the panel answers and whatever connects meanwhile, the limiter
  that is registered under the tag of a node holds exactly the users of its controller.
\<close>

section \<open>Starting a node\<close>

lemma startTasks_goes:
  assumes "startTasks ev sv node n = Some n'"
  shows "goes n n'"
proof -
  let ?n1 = "n\<lparr>nd_nodeInfoMonitor := Some (ni_PullInterval node),
      nd_userReport := Some (normalizedPushInterval (nd_apiClient n) (ni_PushInterval node))\<rparr>"
  obtain log n2 n3 where n2: "reportUserTrafficTask ev sv ?n1 = Some (log, n2)"
    and n3: "cert_task node n2 = Some n3" and n': "ensureOnlineIPSyncTask ev sv (speed_task n3) = Some n'"
    using assms by (auto simp: startTasks_def split: option.splits)
  have 1: "goes n ?n1" by (rule goes_fields) (simp_all add: same_settings_def)
  have "nd_tag n3 = nd_tag n2 \<and> nd_limiter n3 = nd_limiter n2 \<and> nd_registry n3 = nd_registry n2 \<and>
      nd_apiClient n3 = nd_apiClient n2 \<and> nd_Options n3 = nd_Options n2"
    using n3 unfolding cert_task_def by (simp split: if_split_asm option.split_asm) auto
  then have 3: "goes n2 n3" by (intro goes_fields) (simp_all add: same_settings_def)
  have 4: "goes n3 (speed_task n3)"
    by (rule goes_fields) (simp_all add: speed_task_def resetTraffic_def same_settings_def)
  show ?thesis
    by (rule goes_trans [OF goes_trans [OF 1 report_goes [OF n2]] goes_trans [OF 3 goes_trans [OF 4 ensure_goes [OF n']]]])
qed

lemma fetch_start_settings:
  assumes "fetch_start ev n = (r, n')"
  shows "nd_registry n' = nd_registry n \<and> nd_nodeInfoMonitor n' = nd_nodeInfoMonitor n \<and> nd_Options n' = nd_Options n \<and>
    same_client (nd_apiClient n) (nd_apiClient n') \<and>
    (\<forall>node. r = Some (Inr (Some node)) \<longrightarrow> pc_PanelType (nd_apiClient n) \<noteq> ''ppanel'' \<longrightarrow>
      ni_Id node = pc_NodeId (nd_apiClient n) \<and> ni_Type node = pc_NodeType (nd_apiClient n))"
proof (cases "GetNodeInfo (ev_codec ev) (ev_hash ev) (ev_node_get ev) (nd_apiClient n)")
  case None
  with assms show ?thesis by (auto simp: fetch_start_def)
next
  case (Some x)
  obtain r1 c1 where 1: "GetNodeInfo (ev_codec ev) (ev_hash ev) (ev_node_get ev) (nd_apiClient n) = Some (r1, c1)"
    using Some by (cases x) auto
  note c = node_client [OF 1]
  show ?thesis
  proof (cases "\<exists>node. r1 = Inr node")
    case False
    then show ?thesis using assms 1 c by (cases r1) (auto simp: fetch_start_def)
  next
    case True
    then obtain node where node: "r1 = Inr node" by blast
    show ?thesis
    proof (cases "GetUserList (ev_codec ev) (ev_user_get ev) c1")
      case None
      then show ?thesis using assms 1 node by (auto simp: fetch_start_def)
    next
      case (Some y)
      then obtain r2 c2 where 2: "GetUserList (ev_codec ev) (ev_user_get ev) c1 = Some (r2, c2)" by (cases y) auto
      have s2: "same_client (nd_apiClient n) c2" using c client_kept(2) [OF 2] same_trans(1) by blast
      show ?thesis
      proof (cases "GetUserAlive (ev_alive ev) (ev_alive_get ev) c2")
        case None
        then show ?thesis using assms 1 2 node s2 by (auto simp: fetch_start_def Let_def split: sum.splits if_splits)
      next
        case (Some z)
        then obtain alive c3 where 3: "GetUserAlive (ev_alive ev) (ev_alive_get ev) c2 = Some (alive, c3)" by (cases z) auto
        have "same_client (nd_apiClient n) c3" using s2 client_kept(1) [OF 3] same_trans(1) by blast
        then show ?thesis using assms 1 2 3 node c s2 by (auto simp: fetch_start_def Let_def split: sum.splits if_splits)
      qed
    qed
  qed
qed

lemma start_limiter_holds:
  assumes "start_limiter ev node n = Some (node', n')" "plain_node (nd_apiClient n) (nd_Options n)"
    and "node = Some node' \<Longrightarrow> buildNodeTag (nd_apiClient n) node' = client_tag (nd_apiClient n)"
  shows "held (nd_registry n') n' \<and> nd_limiter n' = Some (length (rg_heap (nd_registry n))) \<and>
    nd_nodeInfoMonitor n' = nd_nodeInfoMonitor n \<and> nd_apiClient n' = nd_apiClient n \<and>
    frame None {client_tag (nd_apiClient n)} (nd_registry n) (nd_registry n')"
proof -
  have node: "node = Some node'" using assms(1) by (auto simp: start_limiter_def Let_def split: option.splits prod.splits)
  let ?tag = "client_tag (nd_apiClient n)"
  obtain a r where a: "AddLimiter ?tag (op_LimitConfig (nd_Options n)) (nd_userList n) (nd_aliveMap n) (nd_registry n) = (a, r)"
    by force
  obtain l where l: "UpdateRule (ev_Compile ev) (ni_Rules node') (rg_heap r ! a) = Some l"
    and n': "n' = n\<lparr>nd_tag := ?tag, nd_limiter := Some a, nd_registry := heap_update a (\<lambda>_. l) r\<rparr>"
    using assms node a by (cases "UpdateRule (ev_Compile ev) (ni_Rules node') (rg_heap r ! a)") (auto simp: start_limiter_def plain_node_def)
  note f = frame_AddLimiter [OF a]
  have same: "same_users (rg_heap r ! a) l" using l inv_ops(3) [OF l] by (intro same_users_table) simp_all
  have "sound (rg_heap r ! a)" by (simp only: f [THEN conjunct2, THEN conjunct2, THEN conjunct1] sound_new)
  with same have "sound l" unfolding same_users_def by blast
  moreover have "frame None {?tag} r (heap_update a (\<lambda>_. l) r)" by (rule frame_update) (simp add: same)
  then have "frame None {?tag} (nd_registry n) (heap_update a (\<lambda>_. l) r)" using f frame_trans by blast
  moreover have "a < length (rg_heap r)" "GetLimiter r ?tag = Inr a" "a = length (rg_heap (nd_registry n))" using f by simp_all
  ultimately show ?thesis using assms(2) by (simp add: n' held_def heap_update_own)
qed

lemma start_node_cases:
  assumes "start_node ev sv node n = Some (err, n')" "keeps_options (sv_ops sv)"
  shows "(\<exists>opt s. n' = n\<lparr>nd_server := s, nd_Options := opt\<rparr>) \<or> (\<exists>opt s i. same_options (nd_Options n) opt \<and>
    startTasks ev sv node (n\<lparr>nd_server := s, nd_Options := opt, nd_info := i\<rparr>) = Some n')"
proof -
  obtain e opt s where a: "co_AddNode (sv_ops sv) (nd_tag n) node (nd_Options n) (nd_server n) = Some ((e, opt), s)"
    using assms(1) by (auto simp: start_node_def split: option.splits)
  then have same: "same_options (nd_Options n) opt" using assms(2) unfolding keeps_options_def by blast
  show ?thesis
  proof (cases e)
    case (Some err)
    then show ?thesis using assms(1) a by (auto simp: start_node_def)
  next
    case None
    then obtain k e2 s2 where "co_AddUsers (sv_ops sv) \<lparr>au_Tag = nd_tag n, au_Users = nd_userList n, au_NodeInfo = node\<rparr> s = Some ((k, e2), s2)"
      using assms(1) a by (auto simp: start_node_def split: option.splits)
    then show ?thesis using assms(1) a None same by (cases e2) (auto simp: start_node_def)
  qed
qed

text \<open>A controller that was started holds its users under its tag; one that failed runs no task.\<close>

lemma start_holds:
  assumes "Start ev sv (NewController s0 r0 c0 opt0) = Some (err, n')" "plain_node c0 opt0"
    and "keeps_options (sv_ops sv)" "distinct_lists (ev_codec ev)"
  shows "frame None {client_tag c0} r0 (nd_registry n') \<and> (nd_nodeInfoMonitor n' = None \<or>
    node_ok (nd_registry n') n' \<and> nd_tag n' = client_tag c0 \<and> (\<exists>a \<ge> length (rg_heap r0). nd_limiter n' = Some a))"
proof -
  let ?n0 = "NewController s0 r0 c0 opt0"
  obtain r n1 where f: "fetch_start ev ?n0 = (r, n1)" by force
  note c = fetch_start_settings [OF f]
  have n1: "nd_registry n1 = r0" "nd_nodeInfoMonitor n1 = None" "plain_node (nd_apiClient n1) (nd_Options n1)"
    "client_tag (nd_apiClient n1) = client_tag c0"
    using c assms(2) same_settings_plain [of c0 "nd_apiClient n1" opt0 opt0] by (simp_all add: NewController_def)
  show ?thesis
  proof (cases "\<exists>node. r = Some (Inr node)")
    case False
    then have "n' = n1" using assms(1) f by (auto simp: Start_def split: option.splits sum.splits)
    then show ?thesis using n1 by simp
  next
    case True
    then obtain node where r: "r = Some (Inr node)" by blast
    obtain node' n2 where l: "start_limiter ev node n1 = Some (node', n2)"
      using assms(1) f r by (auto simp: Start_def split: option.splits)
    have "pc_PanelType c0 \<noteq> ''ppanel''" using assms(2) by (simp add: plain_node_def)
    then have "buildNodeTag (nd_apiClient n1) node' = client_tag (nd_apiClient n1)" if "node = Some node'"
      using c r that by (simp add: NewController_def same_client_def buildNodeTag_def client_tag_def)
    note h = start_limiter_holds [OF l n1(3) this]
    have "distinct (map ui_Uuid (nd_userList n1))" using fetch_start_spec [OF f [unfolded r] assms(4)] by simp
    then have sync: "in_sync n2" using start_limiter_spec [OF l] by simp
    have tag: "nd_tag n2 = client_tag c0" using h n1(4) by (simp add: held_def)
    have "n' = n2 \<or> start_node ev sv node' n2 = Some (err, n')"
      using assms(1) f r l by (simp add: Start_def split: option.splits if_splits)
    then consider "n' = n2" | opt s where "n' = n2\<lparr>nd_server := s, nd_Options := opt\<rparr>"
      | opt s i where "same_options (nd_Options n2) opt"
        "startTasks ev sv node' (n2\<lparr>nd_server := s, nd_Options := opt, nd_info := i\<rparr>) = Some n'"
      using start_node_cases [OF _ assms(3)] by blast
    then show ?thesis
    proof cases
      case (3 opt s i)
      let ?n3 = "n2\<lparr>nd_server := s, nd_Options := opt, nd_info := i\<rparr>"
      have "goes n2 ?n3" using 3(1) by (intro goes_fields) (simp_all add: same_settings_def)
      then have g: "goes n2 n'" using startTasks_goes [OF 3(2)] by (rule goes_trans)
      have "users_kept n2 n'" using startTasks_frame [OF 3(2), of "\<lambda>_. True"] by simp
      then have "in_sync n'" "nd_limiter n' = nd_limiter n2" using sync in_sync_kept by (auto simp: users_kept_def)
      moreover have "held (nd_registry n') n'" "nd_tag n' = nd_tag n2"
        "frame (nd_limiter n2) {nd_tag n2} (nd_registry n2) (nd_registry n')"
        using g h by (simp_all add: goes_def)
      moreover have "frame None {client_tag c0} r0 (nd_registry n')"
        by (rule frame_trans [OF _ calculation(5) [unfolded tag]]) (use h n1(1,4) in auto)
      ultimately show ?thesis using h n1(1) tag by (simp add: node_ok_def)
    qed (use h n1 in simp_all)
  qed
qed

section \<open>The nodes of a process\<close>

definition runs :: "('re, 's) controller option list \<Rightarrow> nat \<Rightarrow> ('re, 's) controller \<Rightarrow> bool" where
  "runs ns i n \<longleftrightarrow> i < length ns \<and> ns ! i = Some n \<and> nd_nodeInfoMonitor n \<noteq> None"

definition nodes_ok :: "'re registry \<Rightarrow> ('re, 's) controller option list \<Rightarrow> bool" where
  "nodes_ok r ns \<longleftrightarrow> (\<forall>i n. runs ns i n \<longrightarrow> node_ok r n) \<and>
     (\<forall>i j n m. runs ns i n \<longrightarrow> runs ns j m \<longrightarrow> i \<noteq> j \<longrightarrow> nd_tag n \<noteq> nd_tag m \<and> nd_limiter n \<noteq> nd_limiter m)"

lemma runs_simps [simp]: "\<not> runs [] i n" "runs (x # ns) 0 n = (x = Some n \<and> nd_nodeInfoMonitor n \<noteq> None)"
  "runs (x # ns) (Suc i) n = runs ns i n" "\<not> runs (replicate k None) i n"
  by (auto simp: runs_def)

lemma nodes_ok_frame:
  assumes "nodes_ok r ns" "frame None {} r r'"
  shows "nodes_ok r' ns"
proof -
  have "node_ok r' n" if "runs ns i n" for i n
  proof (rule node_ok_frame [OF _ assms(2)])
    show n: "node_ok r n" using assms(1) that by (auto simp: nodes_ok_def)
    then show "nd_limiter n \<noteq> None" by (auto simp: node_ok_def held_def)
  qed simp
  then show ?thesis using assms(1) by (auto simp: nodes_ok_def)
qed

text \<open>A step of one node: it goes on under its tag, its users in sync; the others are not touched.\<close>

lemma nodes_ok_step:
  assumes "nodes_ok r ns" "runs ns i n" "goes (n\<lparr>nd_server := vc, nd_registry := r\<rparr>) n'"
    and "in_sync (n\<lparr>nd_server := vc, nd_registry := r\<rparr>) \<Longrightarrow> in_sync n'"
  shows "nodes_ok (nd_registry n') (ns[i := Some n'])"
proof -
  let ?n = "n\<lparr>nd_server := vc, nd_registry := r\<rparr>"
  have n: "node_ok r n" using assms(1,2) by (auto simp: nodes_ok_def)
  then have "held (nd_registry ?n) ?n" "in_sync ?n" by (auto simp: node_ok_def held_def in_sync_def)
  then have g: "node_ok (nd_registry n') n'" "nd_tag n' = nd_tag n" "frame (nd_limiter n) {nd_tag n} r (nd_registry n')"
    "nd_limiter n' = nd_limiter n \<or> (\<exists>a \<ge> length (rg_heap r). nd_limiter n' = Some a)"
    using assms(3,4) by (simp_all add: goes_def node_ok_def)
  have others: "node_ok (nd_registry n') m \<and> nd_tag m \<noteq> nd_tag n' \<and> nd_limiter m \<noteq> nd_limiter n'" if "runs ns j m" "j \<noteq> i" for j m
  proof -
    have m: "node_ok r m" "nd_tag m \<noteq> nd_tag n" "nd_limiter m \<noteq> nd_limiter n"
      using assms(1,2) that by (auto simp: nodes_ok_def)
    then have "nd_limiter m \<noteq> nd_limiter n'" using g(4) by (auto simp: node_ok_def held_def)
    then show ?thesis using m g(2) node_ok_frame [OF m(1) g(3)] by simp
  qed
  have "runs (ns[i := Some n']) j m \<longleftrightarrow> (if j = i then m = n' \<and> nd_nodeInfoMonitor n' \<noteq> None else runs ns j m)" for j m
    using assms(2) by (auto simp: runs_def)
  note run = this
  show ?thesis unfolding nodes_ok_def
  proof (intro conjI allI impI)
    fix j k m m' assume "runs (ns[i := Some n']) j m" "runs (ns[i := Some n']) k m'" "j \<noteq> k"
    then show "nd_tag m \<noteq> nd_tag m'" "nd_limiter m \<noteq> nd_limiter m'"
      unfolding run using others assms(1) by (metis nodes_ok_def)+
  qed (use run g(1) others in \<open>auto split: if_splits\<close>)
qed

section \<open>Starting the process\<close>

definition config_client :: "node_config \<Rightarrow> panel_client option" where
  "config_client nc = (case fst (NewClient (nc_ApiConfig nc)) of Inl _ \<Rightarrow> None | Inr (c, _) \<Rightarrow> Some c)"

text \<open>Nodes without names, of panels other than \<^verbatim>\<open>ppanel\<close>, without temporary limits, under different tags.\<close>

definition plain_config :: "node_config list \<Rightarrow> bool" where
  "plain_config ncs \<longleftrightarrow> (\<forall>nc \<in> set ncs. case config_client nc of None \<Rightarrow> True | Some c \<Rightarrow> plain_node c (nc_Options nc)) \<and>
     distinct (map (\<lambda>nc. map_option client_tag (config_client nc)) ncs)"

lemma start_one_holds:
  assumes "start_one ev sv (nc_ApiConfig nc, nc_Options nc) w = Some ((err, n), w')"
    and "\<forall>c. config_client nc = Some c \<longrightarrow> plain_node c (nc_Options nc)" "keeps_options (sv_ops sv)" "distinct_lists (ev_codec ev)"
  shows "frame None {t. Some t = map_option client_tag (config_client nc)} (snd w) (snd w') \<and>
    (\<forall>n'. n = Some n' \<longrightarrow> nd_nodeInfoMonitor n' = None \<or> node_ok (snd w') n' \<and>
      Some (nd_tag n') = map_option client_tag (config_client nc) \<and> (\<exists>a \<ge> length (rg_heap (snd w)). nd_limiter n' = Some a))"
proof (cases "config_client nc")
  case None
  then show ?thesis using assms(1) by (auto simp: start_one_def config_client_def split: sum.splits)
next
  case (Some c)
  then obtain q where q: "fst (NewClient (nc_ApiConfig nc)) = Inr (c, q)" by (auto simp: config_client_def split: sum.splits prod.splits)
  then obtain e n' where "Start ev sv (NewController (fst w) (snd w) c (nc_Options nc)) = Some (e, n')"
    "n = Some n'" "w' = (nd_server n', nd_registry n')"
    using assms(1) by (auto simp: start_one_def split: option.splits prod.splits)
  then show ?thesis using start_holds [OF _ _ assms(3,4)] assms(2) Some by auto
qed

lemma start_nodes_hold:
  assumes "start_nodes ev sv i (map (\<lambda>nc. (nc_ApiConfig nc, nc_Options nc)) ncs) w = Some ((err, ns), w')"
    and "plain_config ncs" "keeps_options (sv_ops sv)" "\<forall>i. distinct_lists (ev_codec (ev i))"
  shows "nodes_ok (snd w') ns \<and> frame None {t. Some t \<in> (\<lambda>nc. map_option client_tag (config_client nc)) ` set ncs} (snd w) (snd w') \<and>
    (\<forall>j n. runs ns j n \<longrightarrow> Some (nd_tag n) \<in> (\<lambda>nc. map_option client_tag (config_client nc)) ` set ncs \<and>
      (\<exists>a \<ge> length (rg_heap (snd w)). nd_limiter n = Some a))"
  using assms(1,2)
proof (induction ncs arbitrary: i w ns)
  case Nil
  then show ?case by (simp add: nodes_ok_def)
next
  case (Cons nc ncs)
  let ?tag = "\<lambda>nc. map_option client_tag (config_client nc)"
  have plain: "\<forall>c. config_client nc = Some c \<longrightarrow> plain_node c (nc_Options nc)" "plain_config ncs" "?tag nc \<notin> ?tag ` set ncs"
    using Cons.prems(2) by (auto simp: plain_config_def)
  obtain err1 n1 w1 where 1: "start_one (ev i) sv (nc_ApiConfig nc, nc_Options nc) w = Some ((err1, n1), w1)"
    using Cons.prems(1) by (auto split: option.splits)
  note h1 = start_one_holds [OF 1 plain(1) assms(3) assms(4) [rule_format]]
  show ?case
  proof (cases err1)
    case (Some e)
    then have ns: "ns = n1 # replicate (length ncs) None" "w' = w1" using Cons.prems(1) 1 by simp_all
    have head: "runs ns j n \<Longrightarrow> j = 0 \<and> n1 = Some n \<and> nd_nodeInfoMonitor n \<noteq> None" for j n by (cases j) (simp_all add: ns(1))
    have "nodes_ok (snd w1) ns" unfolding nodes_ok_def using head h1 by blast
    moreover have "frame None {t. Some t \<in> ?tag ` set (nc # ncs)} (snd w) (snd w1)"
      by (rule frame_mono [OF conjunct1 [OF h1]]) auto
    moreover have "Some (nd_tag n) \<in> ?tag ` set (nc # ncs) \<and> (\<exists>a \<ge> length (rg_heap (snd w)). nd_limiter n = Some a)"
      if "runs ns j n" for j n
      using head [OF that] h1 by auto
    ultimately show ?thesis by (simp add: ns(2))
  next
    case None
    then obtain ns2 where 2: "start_nodes ev sv (Suc i) (map (\<lambda>nc. (nc_ApiConfig nc, nc_Options nc)) ncs) w1 = Some ((err, ns2), w')"
      and ns: "ns = n1 # ns2"
      using Cons.prems(1) 1 by auto
    note h2 = Cons.IH [OF 2 plain(2)]
    have len: "length (rg_heap (snd w)) \<le> length (rg_heap (snd w1))" using h1 by (simp add: frame_def)
    have f: "frame None {t. Some t \<in> ?tag ` set (nc # ncs)} (snd w) (snd w')"
      by (rule frame_trans [of _ _ _ "snd w1" None]) (use h1 h2 in \<open>auto intro: frame_mono\<close>)
    have first: "node_ok (snd w') n \<and> Some (nd_tag n) = ?tag nc \<and> (\<exists>a \<ge> length (rg_heap (snd w)). nd_limiter n = Some a \<and> a < length (rg_heap (snd w1)))"
      if "n1 = Some n" "nd_nodeInfoMonitor n \<noteq> None" for n
    proof -
      have n: "node_ok (snd w1) n" "Some (nd_tag n) = ?tag nc" "\<exists>a \<ge> length (rg_heap (snd w)). nd_limiter n = Some a"
        using h1 that by auto
      then have "node_ok (snd w') n"
        using plain(3) h2 by (intro node_ok_frame [OF n(1) conjunct1 [OF conjunct2 [OF h2]]]) auto
      then show ?thesis using n by (auto simp: node_ok_def held_def)
    qed
    have tail: "node_ok (snd w') n \<and> Some (nd_tag n) \<in> ?tag ` set ncs \<and> (\<exists>a \<ge> length (rg_heap (snd w1)). nd_limiter n = Some a)"
      if "runs ns2 j n" for j n using h2 that by (auto simp: nodes_ok_def)
    have apart: "nd_tag n \<noteq> nd_tag m \<and> nd_limiter n \<noteq> nd_limiter m"
      if "n1 = Some n" "nd_nodeInfoMonitor n \<noteq> None" "runs ns2 j m" for n j m
    proof
      have "Some (nd_tag n) \<noteq> Some (nd_tag m)" using first [OF that(1,2)] tail [OF that(3)] plain(3) by metis
      then show "nd_tag n \<noteq> nd_tag m" by simp
      show "nd_limiter n \<noteq> nd_limiter m" using first [OF that(1,2)] tail [OF that(3)] by auto
    qed
    have all: "runs ns j n \<Longrightarrow> node_ok (snd w') n \<and> Some (nd_tag n) \<in> ?tag ` set (nc # ncs) \<and>
        (\<exists>a \<ge> length (rg_heap (snd w)). nd_limiter n = Some a)" for j n
    proof (cases j)
      case 0
      assume "runs ns j n"
      then show ?thesis using first [of n] 0 by (auto simp: ns)
    next
      case (Suc k)
      assume "runs ns j n"
      then have "runs ns2 k n" by (simp add: ns Suc)
      then show ?thesis using tail [of k n] len le_trans by auto
    qed
    have "nd_tag n \<noteq> nd_tag m \<and> nd_limiter n \<noteq> nd_limiter m" if "runs ns j n" "runs ns k m" "j \<noteq> k" for j k n m
    proof (cases j)
      case 0
      note asm = that
      obtain k' where k: "k = Suc k'" using asm(3) 0 by (cases k) simp_all
      then show ?thesis using asm(1,2) apart [of n k' m] 0 by (simp add: ns)
    next
      case j: (Suc j')
      show ?thesis
      proof (cases k)
        case 0
        then show ?thesis using that(1,2) apart [of m j' n] j by (simp add: ns) metis
      next
        case (Suc k')
        then show ?thesis using that j h2 by (auto simp: ns nodes_ok_def)
      qed
    qed
    then have "nodes_ok (snd w') ns" using all by (auto simp: nodes_ok_def)
    then show ?thesis using f all by blast
  qed
qed

lemma start_service_holds:
  assumes "start_service cores sv ev s0 = Some (err, s)" "sx_nodes s0 = []" "plain_config (cn_NodeConfig (sx_conf s0))"
    and "keeps_options (sv_ops sv)" "\<forall>i. distinct_lists (ev_codec (ev i))"
  shows "nodes_ok (sx_registry s) (sx_nodes s)"
proof -
  have none: "nodes_ok r []" for r :: "'a registry" by (simp add: nodes_ok_def)
  consider "sx_nodes s = []"
    | err vc ns vc2 reg where "start_nodes ev sv 0 (map (\<lambda>n. (nc_ApiConfig n, nc_Options n)) (cn_NodeConfig (sx_conf s0)))
        (vc, sx_registry s0) = Some ((err, ns), vc2, reg)" "sx_nodes s = ns" "sx_registry s = reg"
    using assms(1,2) by (auto simp: start_service_def split: option.splits sum.splits prod.splits)
  then show ?thesis
  proof cases
    case 1
    then show ?thesis by (simp add: none)
  next
    case (2 err vc ns vc2 reg)
    then show ?thesis using start_nodes_hold [OF 2(1) assms(3-5)] by simp
  qed
qed

lemma reload_holds:
  assumes "watch_reload decode os_open cores sv ev path s0 = Some (err, s)"
    and "plain_config (cn_NodeConfig (snd (LoadFromPath decode os_open path NewConf)))"
    and "keeps_options (sv_ops sv)" "\<forall>i. distinct_lists (ev_codec (ev i))"
  shows "nodes_ok (sx_registry s) (sx_nodes s)"
proof -
  have none: "nodes_ok r []" for r :: "'a registry" by (simp add: nodes_ok_def)
  let ?c = "snd (LoadFromPath decode os_open path NewConf)"
  have "sx_nodes s = [] \<or> (\<exists>s1. start_service cores sv ev s1 = Some (err, s) \<and> sx_nodes s1 = [] \<and> sx_conf s1 = ?c)"
    using assms(1) by (auto simp: watch_reload_def reload_def Let_def split: option.splits prod.splits if_splits)
  then show ?thesis using start_service_holds [OF _ _ _ assms(3,4)] assms(2) none by metis
qed

section \<open>Requests\<close>

lemma frame_at: "same_users (rg_heap r ! a) l \<Longrightarrow> frame None {} r (heap_update a (\<lambda>_. l) r)"
  by (rule frame_update) simp

lemma ask_frame: "ask now tag uuid ip tcp su r = Some (rejected, r') \<Longrightarrow> frame None {} r r'"
  by (auto simp: ask_def split: sum.splits intro!: frame_at CheckLimit_same_users)

lemma check_request_frame: "check_request now tag addr uuid r = Some r' \<Longrightarrow> frame None {} r r'"
  by (auto simp: check_request_def split: sum.splits option.splits
      intro!: frame_at same_users_trans [OF CheckLimit_same_users set_over_limit_same_users])

lemma LogTraffic_frame: "frame None {} r (snd (snd (LogTraffic uuid tx rx hk r)))"
  by (auto simp: LogTraffic_def Let_def split: sum.splits option.splits intro!: frame_update set_over_limit_same_users)

lemma end_connection_frame: "end_connection a email ip r = Some r' \<Longrightarrow> frame None {} r r'"
  by (auto simp: end_connection_def same_table_def split: if_splits intro!: frame_update same_users_table intro: inv_ops)

lemma ClearAll_frame: "frame None {} r (ClearAllOnlineIP now r)"
proof -
  have "frame None {} r (fold (\<lambda>(tag, a). heap_update a (\<lambda>l. l\<lparr>ConnLimiter := ClearOnlineIP now (ConnLimiter l)\<rparr>)) m r)"
    for m :: "(string \<times> nat) list" and r :: "'a registry"
  proof (induction m arbitrary: r)
    case (Cons x m)
    obtain tag a where x: "x = (tag, a)" by force
    have "frame None {} r (heap_update a (\<lambda>l. l\<lparr>ConnLimiter := ClearOnlineIP now (ConnLimiter l)\<rparr>) r)"
      by (intro frame_update disjI1 same_users_table) (simp_all add: same_table_def inv_ops)
    then show ?case using Cons.IH frame_trans by (fastforce simp: x)
  qed simp
  then show ?thesis by (simp add: ClearAllOnlineIP_def split: option.splits)
qed

section \<open>Every run\<close>

definition process_ok :: "('re, 's) process \<Rightarrow> bool" where
  "process_ok p \<longleftrightarrow> nodes_ok (sx_registry (fst p)) (sx_nodes (fst p))"

text \<open>The panel never names a uuid twice, and a configuration that is read again is plain too.\<close>

fun event_ok :: "('re, 's) event \<Rightarrow> bool" where
  "event_ok (Monitor i ev) = distinct_lists (ev_codec ev)"
| "event_ok (Reload re) = (plain_config (cn_NodeConfig (snd (LoadFromPath (re_decode re) (re_open re) (re_path re) NewConf))) \<and>
     (\<forall>i. distinct_lists (ev_codec (re_ev re i))))"
| "event_ok _ = True"

lemma the_node_runs: "the_node i s = Some n \<Longrightarrow> \<exists>vc n0. runs (sx_nodes s) i n0 \<and> n = n0\<lparr>nd_server := vc, nd_registry := sx_registry s\<rparr>"
  by (auto simp: the_node_def runs_def split: option.splits if_splits)

lemma put_node_ok:
  assumes "nodes_ok (sx_registry s) (sx_nodes s)" "the_node i s = Some n" "goes n n'" "in_sync n \<Longrightarrow> in_sync n'"
  shows "nodes_ok (sx_registry (put_node i n' s)) (sx_nodes (put_node i n' s))"
proof -
  obtain vc n0 where "runs (sx_nodes s) i n0" "n = n0\<lparr>nd_server := vc, nd_registry := sx_registry s\<rparr>"
    using the_node_runs [OF assms(2)] by blast
  then show ?thesis using nodes_ok_step [OF assms(1)] assms(3,4) by (simp add: put_node_def)
qed

lemma on_node_ok:
  assumes "nodes_ok (sx_registry s) (sx_nodes s)" "on_node i f s = Some s'"
    and "\<And>n n'. the_node i s = Some n \<Longrightarrow> f n = Some n' \<Longrightarrow> goes n n' \<and> (in_sync n \<longrightarrow> in_sync n')"
  shows "nodes_ok (sx_registry s') (sx_nodes s')"
  using assms put_node_ok by (fastforce simp: on_node_def split: option.splits)

lemma monitor_step_ok:
  assumes "monitor_step sv i ev p = Some p'" "process_ok p" "keeps_options (sv_ops sv)" "distinct_lists (ev_codec ev)"
  shows "process_ok p'"
proof -
  obtain n where n: "the_node i (fst p) = Some n"
    using assms(1) by (auto simp: monitor_step_def split: if_splits option.splits)
  obtain n' where n': "ends (nodeInfoMonitor ev sv n) n'" "fst p' = put_node i n' (fst p)"
    using assms(1) n by (auto simp: monitor_step_def ends_def split: if_splits outcome.splits)
  obtain vc n0 where n0: "runs (sx_nodes (fst p)) i n0" "n = n0\<lparr>nd_server := vc, nd_registry := sx_registry (fst p)\<rparr>"
    using the_node_runs [OF n] by blast
  have "node_ok (sx_registry (fst p)) n0" using assms(2) n0(1) by (auto simp: process_ok_def nodes_ok_def)
  then have "op_Name (nd_Options n) = ''''" by (simp add: n0(2) node_ok_def held_def plain_node_def)
  then have "in_sync n \<Longrightarrow> in_sync n'" using monitor_keeps_users_in_sync [OF _ _ assms(4) n'(1)] by blast
  then show ?thesis
    using put_node_ok [OF _ n monitor_goes [OF n'(1) assms(3)]] assms(2) by (simp add: process_ok_def n'(2))
qed

lemma registry_ok: "process_ok p \<Longrightarrow> frame None {} (sx_registry (fst p)) r \<Longrightarrow> process_ok (fst p\<lparr>sx_registry := r\<rparr>, h)"
  by (simp add: process_ok_def nodes_ok_frame)

lemma process_step_ok:
  assumes "process_step cores sv p x = Some p'" "process_ok p" "keeps_options (sv_ops sv)" "event_ok x"
  shows "process_ok p'"
proof (cases x)
  case (Monitor i ev)
  then show ?thesis using assms monitor_step_ok by (fastforce simp: process_step_def)
next
  case (Report i ev)
  then obtain s where s: "on_node i (\<lambda>n. map_option snd (reportUserTrafficTask ev sv n)) (fst p) = Some s" "fst p' = s"
    using assms(1) by (auto simp: process_step_def Let_def)
  show ?thesis unfolding process_ok_def s(2)
    by (rule on_node_ok [OF _ s(1)]) (use assms(2) report_goes in_sync_kept [OF report_kept] in \<open>auto simp: process_ok_def\<close>)
next
  case (SyncOnline i ev)
  then obtain s where s: "on_node i (syncOnlineUsersTask ev sv) (fst p) = Some s" "fst p' = s"
    using assms(1) by (auto simp: process_step_def Let_def)
  show ?thesis unfolding process_ok_def s(2)
    by (rule on_node_ok [OF _ s(1)]) (use assms(2) sync_goes in_sync_kept [OF sync_kept] in \<open>auto simp: process_ok_def\<close>)
next
  case (CheckSpeed i ev)
  then obtain s where s: "on_node i (SpeedChecker ev) (fst p) = Some s" "fst p' = s"
    using assms(1) by (auto simp: process_step_def Let_def)
  show ?thesis unfolding process_ok_def s(2)
  proof (rule on_node_ok [OF _ s(1)])
    fix n n' assume n: "the_node i (fst p) = Some n" "SpeedChecker ev n = Some n'"
    obtain vc n0 where "runs (sx_nodes (fst p)) i n0" "n = n0\<lparr>nd_server := vc, nd_registry := sx_registry (fst p)\<rparr>"
      using the_node_runs [OF n(1)] by blast
    then have "\<not> dynamicSpeedLimitEnabled (nd_Options n)"
      using assms(2) by (auto simp: process_ok_def nodes_ok_def node_ok_def held_def plain_node_def)
    then show "goes n n' \<and> (in_sync n \<longrightarrow> in_sync n')" using n(2) by (simp add: SpeedChecker_def)
  qed (use assms(2) in \<open>simp add: process_ok_def\<close>)
next
  case (Reload re)
  then show ?thesis using assms(1,3,4) reload_holds
    by (fastforce simp: process_step_def Let_def process_ok_def split: if_splits)
next
  case (CoreMoves vc)
  then show ?thesis using assms(1,2) by (auto simp: process_step_def Let_def process_ok_def)
qed (use assms(1,2) in \<open>auto simp: process_step_def Let_def intro!: registry_ok
      intro: ask_frame check_request_frame LogTraffic_frame end_connection_frame ClearAll_frame\<close>)

lemma process_machine:
  "keeps_options (sv_ops sv) \<Longrightarrow> inv_machine (\<lambda>p x. if event_ok x then process_step cores sv p x else None) process_ok"
  by unfold_locales (auto split: if_splits intro: process_step_ok)

lemma run_guarded: "\<forall>x \<in> set xs. ok x \<Longrightarrow> run_ops (\<lambda>p x. if ok x then step p x else None) p xs = run_ops step p xs"
  by (induction xs arbitrary: p) (auto split: option.splits)

lemma run_process_ok:
  assumes "process_ok p" "keeps_options (sv_ops sv)" "\<forall>x \<in> set xs. event_ok x" "run_ops (process_step cores sv) p xs = Some p'"
  shows "process_ok p'"
proof -
  have "run_ops (\<lambda>p x. if event_ok x then process_step cores sv p x else None) p xs = Some p'"
    using run_guarded [OF assms(3), of "process_step cores sv" p] assms(4) by simp
  then show ?thesis by (rule inv_machine.run_inv [OF process_machine [OF assms(2)] assms(1)])
qed

text \<open>The verdict of a limiter that holds a list of users.\<close>

lemma ask_listed:
  assumes "GetLimiter r tag = Inr a" "tracks_users tag us (rg_heap r ! a)" "sound (rg_heap r ! a)" "distinct (map ui_Uuid us)"
  shows "\<exists>rejected r'. ask now tag uuid ip tcp su r = Some (rejected, r') \<and> (rejected \<longleftrightarrow> (\<exists>c. AddConnCount (ConnLimiter (rg_heap r ! a)) now (UserTag tag uuid) (NormalizeIP ip) tcp = Some (True, c)) \<or>
    (case filter (\<lambda>u. ui_Uuid u = uuid) us of [] \<Rightarrow> True
     | u # _ \<Rightarrow> su \<and> device_refused (rg_heap r ! a) (UserTag tag uuid) (NormalizeIP ip) (ui_Id u) (ui_DeviceLimit u)))"
proof -
  let ?l = "rg_heap r ! a" and ?t = "UserTag tag uuid"
  obtain b rejected l' where ask: "CheckLimit ?l now ?t ip tcp su = Some ((b, rejected), l')"
    using assms(3) CheckLimit_safe by (metis sound_def)
  then have verdict: "ask now tag uuid ip tcp su r = Some (rejected, heap_update a (\<lambda>_. l') r)" using assms(1) by (simp add: ask_def)
  obtain lim c where add: "AddConnCount (ConnLimiter ?l) now ?t (NormalizeIP ip) tcp = Some (lim, c)"
    using ask by (auto simp: CheckLimit_def Let_def split: option.splits)
  have view: "map_option panel_view (sm_load (UserLimitInfo ?l) ?t) = user_table user_view us uuid"
    using assms(2) by (simp add: tracks_users_def)
  show ?thesis
  proof (cases "filter (\<lambda>u. ui_Uuid u = uuid) us")
    case Nil
    then have "uuid \<notin> ui_Uuid ` set us" by (auto simp: filter_empty_conv)
    then have "sm_load (UserLimitInfo ?l) ?t = None" using view user_table_None [of user_view us uuid] by simp
    then have "rejected" using CheckLimit_unknown ask by metis
    then show ?thesis using verdict by (auto simp: Nil intro!: exI [of _ True])
  next
    case (Cons u us')
    then have u: "u \<in> set us" "ui_Uuid u = uuid" by (auto simp: filter_eq_Cons_iff)
    then have "user_table user_view us uuid = Some (user_view u)" using user_table_distinct [OF assms(4), of u user_view] by simp
    then obtain i where i: "sm_load (UserLimitInfo ?l) ?t = Some i" "li_UID i = ui_Id u" "li_DeviceLimit i = ui_DeviceLimit u"
      using view by (auto simp: panel_view_def user_view_def)
    have "rejected \<longleftrightarrow> lim \<or> su \<and> device_refused ?l ?t (NormalizeIP ip) (ui_Id u) (ui_DeviceLimit u)"
      using ask i by (auto simp: CheckLimit_unfold [OF add] Let_def check_device_reject split: if_splits)
    then show ?thesis using add verdict by (simp add: Cons)
  qed
qed

text \<open>C1: Whatever happens to a running process, every node answers for its own users. After any sequence of monitor runs,
  reports, synchronisations, requests and ends of connections on any of its nodes, moves of the core, and reloads, each
  node that runs has under its tag a limiter that holds exactly the users (uid and limits of each uuid) of the list that its controller
  holds, and a request under that tag gets an answer, which rejects it exactly when its uuid is not in that list, or the connection
  limit or the device limit of that user refuses it. For nodes without names of their own and without temporary limits,
  under different tags, panels other than \<^verbatim>\<open>ppanel\<close>, user lists that name no uuid twice, and a core whose
  options keep name and limits.\<close>

theorem running_nodes_admit_users:
  assumes "serverHandle decode os_open cores sv ev path watch = Some (Inr s)"
    and "plain_config (cn_NodeConfig (snd (LoadFromPath decode os_open path NewConf)))" "\<forall>i. distinct_lists (ev_codec (ev i))"
    and "keeps_options (sv_ops sv)" "\<forall>x \<in> set xs. event_ok x"
    and "run_ops (process_step cores sv) (s, []) xs = Some (s', hung)" "runs (sx_nodes s') i n"
  shows "\<exists>a. GetLimiter (sx_registry s') (nd_tag n) = Inr a \<and> tracks_users (nd_tag n) (nd_userList n) (rg_heap (sx_registry s') ! a) \<and>
    (\<forall>now uuid ip tcp su. \<exists>rejected r. ask now (nd_tag n) uuid ip tcp su (sx_registry s') = Some (rejected, r) \<and>
      (rejected \<longleftrightarrow>
        (\<exists>c. AddConnCount (ConnLimiter (rg_heap (sx_registry s') ! a)) now (UserTag (nd_tag n) uuid) (NormalizeIP ip) tcp = Some (True, c)) \<or>
        (case filter (\<lambda>u. ui_Uuid u = uuid) (nd_userList n) of [] \<Rightarrow> True
         | u # _ \<Rightarrow> su \<and> device_refused (rg_heap (sx_registry s') ! a) (UserTag (nd_tag n) uuid) (NormalizeIP ip) (ui_Id u) (ui_DeviceLimit u))))"
proof -
  obtain s0 where "start_service cores sv ev s0 = Some (None, s)" "sx_nodes s0 = []"
    "sx_conf s0 = snd (LoadFromPath decode os_open path NewConf)"
    using assms(1) by (force simp: serverHandle_def split: prod.splits option.splits)
  then have "process_ok (s, [])" using start_service_holds assms(2-4) by (metis process_ok_def fst_conv)
  then have "process_ok (s', hung)" by (rule run_process_ok [OF _ assms(4-6)])
  then have "node_ok (sx_registry s') n" using assms(7) by (auto simp: process_ok_def nodes_ok_def)
  then obtain a where a: "GetLimiter (sx_registry s') (nd_tag n) = Inr a" "sound (rg_heap (sx_registry s') ! a)"
    "tracks_users (nd_tag n) (nd_userList n) (rg_heap (sx_registry s') ! a)" "distinct (map ui_Uuid (nd_userList n))"
    by (auto simp: node_ok_def held_def in_sync_def)
  show ?thesis by (intro exI [of _ a] conjI allI a(1,3) ask_listed [OF a(1,3,2,4)])
qed

text \<open>A process with one hysteria node without a name; its panel has other users when it is asked again.\<close>

definition demo_plain_decode :: "conf decode" where
  "demo_plain_decode data p = (None, (snd (demo_conf_decode data p))\<lparr>cn_NodeConfig :=
     [\<lparr>nc_ApiConfig = default_api\<lparr>api_NodeType := ''Hysteria2'', api_NodeID := 1\<rparr>, nc_Options = demo_named_options\<lparr>op_Name := ''''\<rparr>\<rparr>]\<rparr>)"

definition demo_first_env :: "unit ctrl_env" where
  "demo_first_env = demo_change_env\<lparr>ev_codec := (ev_codec demo_change_env)\<lparr>cd_UserList := (\<lambda>_. Inr \<lparr>ub_Users = Some demo_old_users\<rparr>)\<rparr>\<rparr>"

definition demo_plain_process :: "(service_error + (unit, hysteria2) service) option" where
  "demo_plain_process = serverHandle demo_plain_decode (\<lambda>_. Inr (''{}'', None)) demo_cores demo_any_server (\<lambda>_. demo_first_env)
     ''config.json'' None"

definition demo_plain_service :: "(unit, hysteria2) service" where
  "demo_plain_service = projr (the demo_plain_process)"

definition demo_events :: "(unit, hysteria2) event list" where
  "demo_events = [HyRequest 0 ''[http://127.0.0.1]-hysteria2:1'' (UDPAddr ''1.2.3.4'') ''a'', Monitor 0 demo_ctrl_env,
     Request 0 ''[http://127.0.0.1]-hysteria2:1'' ''c'' ''1.2.3.4'' True True, Report 0 demo_ctrl_env]"

definition demo_after :: "(unit, hysteria2) process" where
  "demo_after = the (run_ops (process_step demo_cores demo_any_server) (demo_plain_service, []) demo_events)"

lemma demo_lists: "distinct_lists (ev_codec demo_first_env)" "distinct_lists (ev_codec demo_ctrl_env)"
  by (auto simp: distinct_lists_def demo_first_env_def demo_ctrl_env_def demo_codec_def demo_old_users_def demo_new_users_def)

lemma running_nodes_admit_users_witness:
  "\<exists>n. runs (sx_nodes (fst demo_after)) 0 n \<and> map ui_Uuid (nd_userList n) = [''b'', ''c''] \<and>
     (\<forall>now ip tcp su. \<exists>r. ask now (nd_tag n) ''a'' ip tcp su (sx_registry (fst demo_after)) = Some (True, r))"
proof -
  let ?n = "the (sx_nodes (fst demo_after) ! 0)"
  have 1: "demo_plain_process = Some (Inr demo_plain_service)" unfolding demo_plain_service_def by (rule from_computed(1)) code_simp
  have 2: "plain_config (cn_NodeConfig (snd (LoadFromPath demo_plain_decode (\<lambda>_. Inr (''{}'', None)) ''config.json'' NewConf)))"
    by code_simp
  have "rereads demo_conf_codec"
    by (simp add: rereads_def demo_conf_codec_def same_options_def)
  then have 3: "keeps_options (sv_ops demo_any_server)"
    unfolding demo_any_server_def core_server.simps by (intro any_keeps_options cores_keep_options)
  have 4: "\<forall>x \<in> set demo_events. event_ok x" by (simp add: demo_events_def demo_lists)
  have 5: "run_ops (process_step demo_cores demo_any_server) (demo_plain_service, []) demo_events = Some (fst demo_after, snd demo_after)"
    unfolding demo_after_def prod.collapse by (rule from_computed(2)) code_simp
  have 6: "runs (sx_nodes (fst demo_after)) 0 ?n" "map ui_Uuid (nd_userList ?n) = [''b'', ''c'']"
    by code_simp+
  obtain a where a: "\<forall>now uuid ip tcp su. \<exists>rejected r. ask now (nd_tag ?n) uuid ip tcp su (sx_registry (fst demo_after)) = Some (rejected, r) \<and>
      (rejected \<longleftrightarrow>
        (\<exists>c. AddConnCount (ConnLimiter (rg_heap (sx_registry (fst demo_after)) ! a)) now (UserTag (nd_tag ?n) uuid) (NormalizeIP ip) tcp = Some (True, c)) \<or>
        (case filter (\<lambda>u. ui_Uuid u = uuid) (nd_userList ?n) of [] \<Rightarrow> True
         | u # _ \<Rightarrow> su \<and> device_refused (rg_heap (sx_registry (fst demo_after)) ! a) (UserTag (nd_tag ?n) uuid) (NormalizeIP ip) (ui_Id u) (ui_DeviceLimit u)))"
    using running_nodes_admit_users [OF 1 [unfolded demo_plain_process_def] 2 _ 3 4 5 6(1)] demo_lists(1) by blast
  have "''a'' \<notin> set (map ui_Uuid (nd_userList ?n))" by (simp add: 6(2))
  then have nil: "filter (\<lambda>u. ui_Uuid u = ''a'') (nd_userList ?n) = []" unfolding filter_empty_conv by (metis image_eqI set_map)
  have "\<exists>r. ask now (nd_tag ?n) ''a'' ip tcp su (sx_registry (fst demo_after)) = Some (True, r)" for now ip tcp su
    using a [rule_format, where uuid = "''a''" and now = now and ip = ip and tcp = tcp and su = su] by (auto simp: nil)
  then show ?thesis by (intro exI [of _ ?n] conjI 6 allI impI)
qed

end
