(* ===== verification/Sys_Status.thy ===== *)
theory Sys_Status
  imports Controller_Laws
begin

text \<open>
  The status of the machine and its report: \<^verbatim>\<open>common/serverstatus\<close>, the end of \<^verbatim>\<open>reportUserTrafficTask\<close>, and
  \<^verbatim>\<open>ReportNodeStatus\<close> of the panel client. What gopsutil measures is an argument; a floating point number is of some type
  \<open>'f\<close>, and the share of one size in another in percent, rounded as the machine rounds, a function.
\<close>

section \<open>Measuring\<close>

record 'f system_status =
  st_CPU :: 'f
  st_MemTotal :: int
  st_MemUsed :: int
  st_SwapTotal :: int
  st_SwapUsed :: int
  st_DiskTotal :: int
  st_DiskUsed :: int
  st_Uptime :: int

text \<open>The load of each processor with its error, three pairs of total and used sizes, and the uptime.\<close>

record 'f probe =
  pb_CPU :: "'f list \<times> string option"
  pb_Memory :: "string + (int \<times> int)"
  pb_Swap :: "string + (int \<times> int)"
  pb_Disk :: "string + (int \<times> int)"
  pb_Uptime :: "string + int"
  pb_zero :: 'f
  pb_percent :: "int \<Rightarrow> int \<Rightarrow> 'f"

definition failed :: "string \<Rightarrow> string \<Rightarrow> string" where
  "failed what err = ''get '' @ what @ '' failed: '' @ err @ '' ''"

definition cpu_part :: "'f probe \<Rightarrow> 'f \<times> string" where
  "cpu_part pb = (case pb_CPU pb of
     (c # _, None) \<Rightarrow> (c, '''')
   | (_, None) \<Rightarrow> (pb_zero pb, failed ''cpu usage'' ''%!s(<nil>)'')
   | (_, Some err) \<Rightarrow> (pb_zero pb, failed ''cpu usage'' err))"

definition size_part :: "string \<Rightarrow> string + (int \<times> int) \<Rightarrow> (int \<times> int) \<times> string" where
  "size_part what r = (case r of Inl err \<Rightarrow> ((0, 0), failed what err) | Inr sizes \<Rightarrow> (sizes, ''''))"

definition uptime_part :: "string + int \<Rightarrow> int \<times> string" where
  "uptime_part r = (case r of Inl err \<Rightarrow> (0, failed ''uptime'' err) | Inr t \<Rightarrow> (t, ''''))"

text \<open>The status is never nil. The last \<^verbatim>\<open>err\<close> is that of the uptime, so without a message it is nil.\<close>

definition GetSystemStatus :: "'f probe \<Rightarrow> 'f system_status \<times> string option" where
  "GetSystemStatus pb =
     (let (cpu, e1) = cpu_part pb; ((mt, mu), e2) = size_part ''mem usage'' (pb_Memory pb);
          ((wt, wu), e3) = size_part ''swap usage'' (pb_Swap pb); ((dt, du), e4) = size_part ''disk usage'' (pb_Disk pb);
          (up, e5) = uptime_part (pb_Uptime pb); errorString = e1 @ e2 @ e3 @ e4 @ e5
      in (\<lparr>st_CPU = cpu, st_MemTotal = mt, st_MemUsed = mu, st_SwapTotal = wt, st_SwapUsed = wu, st_DiskTotal = dt,
           st_DiskUsed = du, st_Uptime = up\<rparr>,
          if errorString \<noteq> '''' then Some errorString else None))"

definition share :: "'f probe \<Rightarrow> int \<Rightarrow> int \<Rightarrow> 'f" where
  "share pb used whole = (if whole > 0 then pb_percent pb used whole else pb_zero pb)"

definition GetSystemInfo :: "'f probe \<Rightarrow> string + ('f \<times> 'f \<times> 'f \<times> int)" where
  "GetSystemInfo pb =
     (case GetSystemStatus pb of
        (_, Some err) \<Rightarrow> Inl err
      | (st, None) \<Rightarrow> Inr (st_CPU st, share pb (st_MemUsed st) (st_MemTotal st), share pb (st_DiskUsed st) (st_DiskTotal st), st_Uptime st))"

section \<open>The report\<close>

record 'f node_status =
  ns_CPU :: 'f
  ns_Mem :: 'f
  ns_Disk :: 'f
  ns_Uptime :: int
  ns_MemTotal :: int
  ns_MemUsed :: int
  ns_SwapTotal :: int
  ns_SwapUsed :: int
  ns_DiskTotal :: int
  ns_DiskUsed :: int

definition node_status_of :: "'f probe \<Rightarrow> 'f system_status \<Rightarrow> 'f node_status" where
  "node_status_of pb st =
     \<lparr>ns_CPU = st_CPU st, ns_Mem = share pb (st_MemUsed st) (st_MemTotal st), ns_Disk = share pb (st_DiskUsed st) (st_DiskTotal st),
      ns_Uptime = st_Uptime st, ns_MemTotal = st_MemTotal st, ns_MemUsed = st_MemUsed st, ns_SwapTotal = st_SwapTotal st,
      ns_SwapUsed = st_SwapUsed st, ns_DiskTotal = st_DiskTotal st, ns_DiskUsed = st_DiskUsed st\<rparr>"

text \<open>The body for ppanel, with the time in milliseconds, and for the other panels, with each total and use.\<close>

datatype 'f status_body =
    PushStatus 'f 'f 'f int
  | FullStatus 'f "int \<times> int" "int \<times> int" "int \<times> int"

type_synonym 'f status_post = "string \<times> 'f status_body"

definition full_status :: "'f node_status \<Rightarrow> 'f status_body" where
  "full_status ns = FullStatus (ns_CPU ns) (ns_MemTotal ns, ns_MemUsed ns) (ns_SwapTotal ns, ns_SwapUsed ns)
     (ns_DiskTotal ns, ns_DiskUsed ns)"

definition status_paths :: "string list" where
  "status_paths = [''/api/v1/server/UniProxy/status'', ''/api/v2/server/status'']"

fun status_posts :: "('f status_post list \<Rightarrow> 'f status_post \<Rightarrow> http_result) \<Rightarrow> panel_client \<Rightarrow> 'f status_body \<Rightarrow> string option \<Rightarrow>
    'f status_post list \<Rightarrow> string list \<Rightarrow> (string option \<times> 'f status_post list) option" where
  "status_posts srv c body lastErr log [] = Some (lastErr, log)"
| "status_posts srv c body lastErr log (path # paths) =
     (case checkResponse c (srv log (path, body)) path of
        None \<Rightarrow> panic
      | Some None \<Rightarrow> Some (None, log @ [(path, body)])
      | Some (Some err) \<Rightarrow> status_posts srv c body (Some err) (log @ [(path, body)]) paths)"

text \<open>ppanel's answer is not looked at, only whether there was one.\<close>

definition ReportNodeStatus :: "('f status_post list \<Rightarrow> 'f status_post \<Rightarrow> http_result) \<Rightarrow> int \<Rightarrow> panel_client \<Rightarrow> 'f node_status \<Rightarrow>
    (string option \<times> 'f status_post list) option" where
  "ReportNodeStatus srv now c ns =
     (if pc_PanelType c = ''ppanel'' then
        (let path = ''/v1/server/status''; p = (path, PushStatus (ns_CPU ns) (ns_Mem ns) (ns_Disk ns) (now div 1000000)) in
         Some (map_option (\<lambda>err. ''request '' @ assembleURL c path @ '' failed: '' @ err) (snd (srv [] p)), [p]))
      else status_posts srv c (full_status ns) None [] status_paths)"

text \<open>The end of the report of traffic: the warning, the error that is logged, and what was posted.\<close>

definition report_status :: "'f probe \<Rightarrow> ('f status_post list \<Rightarrow> 'f status_post \<Rightarrow> http_result) \<Rightarrow> int \<Rightarrow> panel_client \<Rightarrow>
    (string option \<times> string option \<times> 'f status_post list) option" where
  "report_status pb srv now c =
     (case GetSystemStatus pb of
        (st, warning) \<Rightarrow>
          map_option (\<lambda>(err, log). (warning, err, log)) (ReportNodeStatus srv now c (node_status_of pb st)))"

section \<open>Properties\<close>

lemma failed_nonempty [simp]: "failed what err \<noteq> ''''"
  by (simp add: failed_def)

lemma part_simps:
  "fst (size_part what r) = case_sum (\<lambda>_. (0, 0)) id r" "snd (size_part what r) = '''' \<longleftrightarrow> \<not> isl r"
  "fst (uptime_part q) = case_sum (\<lambda>_. 0) id q" "snd (uptime_part q) = '''' \<longleftrightarrow> \<not> isl q"
  "snd (cpu_part pb) = '''' \<longleftrightarrow> snd (pb_CPU pb) = None \<and> fst (pb_CPU pb) \<noteq> []"
  by (auto simp: size_part_def uptime_part_def cpu_part_def split: sum.splits prod.splits option.splits list.splits)

text \<open>A measurement that fails does not stop the others: each size that could be measured is reported as it is, one that could not
  be is zero, and there is an error exactly when some measurement failed.\<close>

theorem system_status_partial:
  "GetSystemStatus pb = (st, err) \<Longrightarrow>
     (st_MemTotal st, st_MemUsed st) = case_sum (\<lambda>_. (0, 0)) id (pb_Memory pb) \<and>
     (st_SwapTotal st, st_SwapUsed st) = case_sum (\<lambda>_. (0, 0)) id (pb_Swap pb) \<and>
     (st_DiskTotal st, st_DiskUsed st) = case_sum (\<lambda>_. (0, 0)) id (pb_Disk pb) \<and>
     st_Uptime st = case_sum (\<lambda>_. 0) id (pb_Uptime pb) \<and>
     (err = None \<longleftrightarrow> snd (pb_CPU pb) = None \<and> fst (pb_CPU pb) \<noteq> [] \<and> \<not> isl (pb_Memory pb) \<and> \<not> isl (pb_Swap pb) \<and>
        \<not> isl (pb_Disk pb) \<and> \<not> isl (pb_Uptime pb))"
proof -
  let ?m = "size_part ''mem usage'' (pb_Memory pb)" and ?w = "size_part ''swap usage'' (pb_Swap pb)"
    and ?d = "size_part ''disk usage'' (pb_Disk pb)" and ?u = "uptime_part (pb_Uptime pb)"
  assume "GetSystemStatus pb = (st, err)"
  then have "(st_MemTotal st, st_MemUsed st) = fst ?m" "(st_SwapTotal st, st_SwapUsed st) = fst ?w"
    "(st_DiskTotal st, st_DiskUsed st) = fst ?d" "st_Uptime st = fst ?u"
    "err = None \<longleftrightarrow> snd (cpu_part pb) = '''' \<and> snd ?m = '''' \<and> snd ?w = '''' \<and> snd ?d = '''' \<and> snd ?u = ''''"
    by (auto simp: GetSystemStatus_def Let_def split_beta split: if_splits)
  then show ?thesis unfolding part_simps by blast
qed

definition demo_probe :: "nat probe" where
  "demo_probe = \<lparr>pb_CPU = ([], None), pb_Memory = Inr (100, 25), pb_Swap = Inl ''no swap'', pb_Disk = Inr (10, 5), pb_Uptime = Inr 7,
     pb_zero = 0, pb_percent = (\<lambda>u t. nat (100 * u div t))\<rparr>"

lemma system_status_partial_witness:
  "st_MemUsed (fst (GetSystemStatus demo_probe)) = 25 \<and> st_SwapTotal (fst (GetSystemStatus demo_probe)) = 0 \<and>
   snd (GetSystemStatus demo_probe) = Some (''get cpu usage failed: %!s(<nil>) get swap usage failed: no swap '')"
proof -
  have "snd (GetSystemStatus demo_probe) = Some (''get cpu usage failed: %!s(<nil>) get swap usage failed: no swap '')" by code_simp
  then show ?thesis
    using system_status_partial [OF surjective_pairing, of demo_probe] by (simp add: demo_probe_def)
qed

text \<open>ppanel may answer with any status; the report still counts as made.\<close>

lemma ppanel_status_ignored:
  "pc_PanelType c = ''ppanel'' \<Longrightarrow> snd (srv [] (''/v1/server/status'', PushStatus (ns_CPU ns) (ns_Mem ns) (ns_Disk ns) (now div 1000000))) = None \<Longrightarrow>
     map_option fst (ReportNodeStatus srv now c ns) = Some None"
  by (simp add: ReportNodeStatus_def)

text \<open>The second path is tried when the first one fails.\<close>

lemma status_second_path:
  "map_option (map fst \<circ> snd \<circ> snd) (report_status demo_probe (\<lambda>log p. answer (if log = [] then 404 else 200)) 0 demo_panel_client) =
     Some status_paths"
  by code_simp

end
