(* ===== verification/Keys.thy ===== *)
theory Keys
  imports Xray_Laws "HOL-Library.Word"
begin

text \<open>
  \<^verbatim>\<open>common/crypt\<close> and the command \<^verbatim>\<open>x25519\<close> (\<^verbatim>\<open>cmd/x25519.go\<close>): the private key derived from a node, and the encryption of one
  block. The hash, the cipher, the curve and the random source are functions; the bytes of a key are words.
\<close>

unbundle bit_operations_syntax

section \<open>The private key\<close>

text \<open>\<^verbatim>\<open>GenX25519Private\<close> on a hash of 32 bytes.\<close>

definition GenX25519Private :: "('a \<Rightarrow> 8 word list) \<Rightarrow> 'a \<Rightarrow> 8 word list" where
  "GenX25519Private sha256 data =
     (let key = sha256 data;
          key = key[0 := key ! 0 AND 248];
          key = key[31 := key ! 31 AND 127];
          key = key[31 := key ! 31 OR 64]
      in take 32 key)"

section \<open>The command\<close>

text \<open>\<^verbatim>\<open>fmt.Scan\<close> of one word; at the end of the input the variable keeps its value.\<close>

definition scan :: "string \<Rightarrow> string list \<Rightarrow> string \<times> string list" where
  "scan var inputs = (case inputs of [] \<Rightarrow> (var, []) | t # ts \<Rightarrow> (t, ts))"

definition red :: string where "red = CHR 0x1B # ''[0;31m''"
definition green :: string where "green = CHR 0x1B # ''[0;32m''"
definition yellow :: string where "yellow = CHR 0x1B # ''[0;33m''"
definition plain_colour :: string where "plain_colour = CHR 0x1B # ''[0m''"

definition Err :: "string \<Rightarrow> string" where "Err msg = red @ msg @ plain_colour"
definition Ok :: "string \<Rightarrow> string" where "Ok msg = green @ msg @ plain_colour"
definition Warn :: "string \<Rightarrow> string" where "Warn msg = yellow @ msg @ plain_colour"

definition bytes_string :: "8 word list \<Rightarrow> string" where
  "bytes_string bs = map (\<lambda>b. char_of (unat b)) bs"

text \<open>The last line that is printed; the questions before it are left out.\<close>

definition node_key :: "string list \<Rightarrow> string" where
  "node_key inputs =
     (case scan '''' inputs of (temp, inputs) \<Rightarrow>
        let key = temp in
        (case scan temp inputs of (temp, inputs) \<Rightarrow>
           let key = key @ ToLower temp in
           (case scan temp inputs of (temp, inputs) \<Rightarrow> key @ temp)))"

definition executeX25519 :: "(string \<Rightarrow> 8 word list) \<Rightarrow> string + 8 word list \<Rightarrow> (8 word list \<Rightarrow> string + 8 word list) \<Rightarrow> string list \<Rightarrow> string" where
  "executeX25519 sha256 rand_bytes curve inputs =
     (case scan '''' inputs of (yes, inputs) \<Rightarrow>
        (case (if ToLower yes = ''y'' then Inr (GenX25519Private sha256 (node_key inputs)) else rand_bytes) of
           Inl err \<Rightarrow> Err (''read rand error: '' @ err)
         | Inr privateKey \<Rightarrow>
             (case curve privateKey of
                Inl err \<Rightarrow> Err (''gen X25519 error: '' @ err)
              | Inr publicKey \<Rightarrow>
                  ''Private key: '' @ RawURLEncoding (bytes_string privateKey) @ [CHR 0x0A] @
                  ''Public key: '' @ RawURLEncoding (bytes_string publicKey))))"

section \<open>One block\<close>

text \<open>A cipher of 16-byte blocks, for keys of 16, 24 or 32 bytes; it panics on less than a block and looks at no more.\<close>

record cipher =
  ci_Encrypt :: "string \<Rightarrow> string \<Rightarrow> string"
  ci_Decrypt :: "string \<Rightarrow> string \<Rightarrow> string"

definition NewCipher :: "string \<Rightarrow> string option" where
  "NewCipher key = (if length key \<in> {16, 24, 32} then None else Some (''crypto/aes: invalid key size '' @ Itoa (int (length key))))"

text \<open>The result in a buffer of the given length, whose rest is zero.\<close>

definition one_block :: "(string \<Rightarrow> string) \<Rightarrow> nat \<Rightarrow> string \<Rightarrow> string option" where
  "one_block f n src = (if length src < 16 \<or> n < 16 then panic else Some (f (take 16 src) @ replicate (n - 16) (CHR 0x00)))"

fun std_vals :: "string \<Rightarrow> nat list option" where
  "std_vals [] = Some []"
| "std_vals (c # cs) = do { v \<leftarrow> b64_val (CHR ''+'') (CHR ''/'') c; vs \<leftarrow> std_vals cs; Some (v # vs) }"

text \<open>\<^verbatim>\<open>base64.StdEncoding.DecodeString\<close>: whole groups of four, the last with up to two signs of padding.\<close>

definition StdDecode :: "string \<Rightarrow> string option" where
  "StdDecode s =
     (let t = filter (\<lambda>c. c \<noteq> CHR 0x0A \<and> c \<noteq> CHR 0x0D) s;
          core = (if HasSuffix t ''=='' then take (length t - 2) t else if HasSuffix t ''='' then butlast t else t)
      in if length t mod 4 \<noteq> 0 then None else do { vs \<leftarrow> std_vals core; bs \<leftarrow> b64_join vs; Some (map char_of bs) })"

definition AesEncrypt :: "cipher \<Rightarrow> string \<Rightarrow> string \<Rightarrow> (string + string) option" where
  "AesEncrypt ci data key =
     (case NewCipher key of
        Some err \<Rightarrow> Some (Inl err)
      | None \<Rightarrow> map_option (\<lambda>en. Inr (StdEncoding en)) (one_block (ci_Encrypt ci key) (length data) data))"

text \<open>The buffer has the length of the text, not of what it decodes to.\<close>

definition AesDecrypt :: "cipher \<Rightarrow> string \<Rightarrow> string \<Rightarrow> (string + string) option" where
  "AesDecrypt ci data key =
     (case StdDecode data of
        None \<Rightarrow> Some (Inl ''illegal base64 data'')
      | Some d \<Rightarrow>
          (case NewCipher key of
             Some err \<Rightarrow> Some (Inl err)
           | None \<Rightarrow> map_option Inr (one_block (ci_Decrypt ci key) (length data) d)))"

section \<open>Properties\<close>

text \<open>The number that the bytes stand for, the least one first.\<close>

fun le_value :: "8 word list \<Rightarrow> nat" where
  "le_value [] = 0"
| "le_value (b # bs) = unat b + 256 * le_value bs"

lemma le_value_append: "le_value (xs @ ys) = le_value xs + 256 ^ length xs * le_value ys"
  by (induction xs) (simp_all add: algebra_simps)

lemma le_value_less: "le_value bs < 256 ^ length bs"
proof (induction bs)
  case (Cons b bs)
  have "unat b < 256" using unsigned_less [of b, where 'a = nat] by simp
  with Cons show ?case by simp
qed simp

lemma low_bits_clear: "8 dvd unat (b AND 248)" for b :: "8 word"
proof -
  have "take_bit 3 (b AND 248) = 0"
    by (simp add: take_bit_and)
  then have "take_bit 3 (unat (b AND 248)) = 0" by (metis unsigned_0 unsigned_take_bit_eq)
  then show ?thesis by (simp add: take_bit_eq_mod mod_eq_0_iff_dvd)
qed

lemma high_bits_set: "64 \<le> unat ((b AND 127) OR 64) \<and> unat ((b AND 127) OR 64) < 128" for b :: "8 word"
proof -
  let ?c = "(b AND 127) OR 64"
  have "b AND 127 = take_bit 7 b" by (simp add: take_bit_eq_mask mask_eq_exp_minus_1)
  then have "take_bit 7 ?c = ?c" by (simp add: take_bit_or)
  then have "unat ?c < 2 ^ 7" by (metis take_bit_nat_less_exp unsigned_take_bit_eq)
  moreover have "\<not> unat ?c < 2 ^ 6"
  proof
    assume "unat ?c < 2 ^ 6"
    then have "take_bit 6 (unat ?c) = unat ?c" by (rule take_bit_nat_eq_self)
    moreover have "bit (unat ?c) 6" by (simp add: bit_unsigned_iff bit_or_iff)
    ultimately show False by (metis bit_take_bit_iff less_irrefl)
  qed
  ultimately show ?thesis by simp
qed

text \<open>C39: The private key derived from a node has the form that X25519 asks for: a number of 32 bytes that is a multiple of eight,
  with bit 254 set and no bit above it.\<close>

theorem x25519_key_clamped:
  assumes "length (sha256 data) = 32"
  shows "length (GenX25519Private sha256 data) = 32 \<and> 8 dvd le_value (GenX25519Private sha256 data) \<and>
    2 ^ 254 \<le> le_value (GenX25519Private sha256 data) \<and> le_value (GenX25519Private sha256 data) < 2 ^ 255"
proof -
  let ?h = "sha256 data"
  define m where "m = take 30 (drop 1 ?h)"
  have m: "length m = 30" using assms by (simp add: m_def)
  have h: "?h = (?h ! 0) # m @ [?h ! 31]"
  proof (rule nth_equalityI)
    fix i assume i: "i < length ?h"
    then consider "i = 0" | "0 < i" "i < 31" | "i = 31" using assms by linarith
    then show "?h ! i = ((?h ! 0) # m @ [?h ! 31]) ! i"
      by cases (use assms m in \<open>auto simp: m_def nth_Cons' nth_append\<close>)
  qed (use assms m in simp)
  define b c where "b = ?h ! 0 AND 248" and "c = (?h ! 31 AND 127) OR 64"
  have k: "GenX25519Private sha256 data = b # m @ [c]"
  proof -
    have "GenX25519Private sha256 data = (?h[0 := b])[31 := c]"
      using assms by (simp add: GenX25519Private_def b_def c_def Let_def)
    also have "\<dots> = b # m @ [c]" using m by (subst h) (simp add: list_update_append)
    finally show ?thesis .
  qed
  have v: "le_value (b # m @ [c]) = unat b + 256 * (le_value m + 256 ^ 30 * unat c)"
    using m by (simp add: le_value_append)
  have b: "8 dvd unat b" "unat b < 256" using low_bits_clear unsigned_less [of b, where 'a = nat] by (simp_all add: b_def)
  have c: "64 \<le> unat c" "unat c < 128" using high_bits_set by (simp_all add: c_def)
  have lm: "le_value m < 256 ^ 30" using le_value_less [of m] m by simp
  have "8 dvd le_value (b # m @ [c])" unfolding v using b(1) by (intro dvd_add) simp_all
  moreover have "256 * (256 ^ 30 * 64) \<le> le_value (b # m @ [c])" unfolding v using c(1) by simp
  moreover have "le_value (b # m @ [c]) < 256 * (256 ^ 30 * 128)"
  proof -
    have "le_value m + 256 ^ 30 * unat c < 256 ^ 30 * 128"
    proof -
      have "256 ^ 30 * unat c \<le> 256 ^ 30 * (127 :: nat)" using c(2) by simp
      then show ?thesis using lm by simp
    qed
    then show ?thesis unfolding v using b(2) by simp
  qed
  ultimately show ?thesis using k m by simp
qed

lemma x25519_key_clamped_witness:
  "8 dvd le_value (GenX25519Private (\<lambda>_. replicate 32 255) ()) \<and> le_value (GenX25519Private (\<lambda>_. replicate 32 255) ()) < 2 ^ 255"
  using x25519_key_clamped [of "\<lambda>_. replicate 32 255" "()"] by simp

text \<open>A block that is encrypted and decrypted, here by the cipher that changes nothing, comes back with eight zero bytes
  behind it.\<close>

lemma aes_roundtrip_grows:
  "(case AesEncrypt \<lparr>ci_Encrypt = \<lambda>_ b. b, ci_Decrypt = \<lambda>_ b. b\<rparr> ''0123456789abcdef'' ''0123456789abcdef'' of
      Some (Inr e) \<Rightarrow> AesDecrypt \<lparr>ci_Encrypt = \<lambda>_ b. b, ci_Decrypt = \<lambda>_ b. b\<rparr> e ''0123456789abcdef'' | _ \<Rightarrow> None) =
   Some (Inr (''0123456789abcdef'' @ replicate 8 (CHR 0x00)))"
  by code_simp

end
