(* ===== verification/Commands.thy ===== *)
theory Commands
  imports Keys
begin

text \<open>
  The commands that manage the service: \<^verbatim>\<open>cmd/action_linux.go\<close>, \<^verbatim>\<open>install_linux.go\<close>, \<^verbatim>\<open>synctime.go\<close> and
  \<^verbatim>\<open>common/exec\<close>. A command is a sequence of actions; what a program that is run prints and returns may depend on all
  actions before it. The Chinese messages are named by constructors.
\<close>

datatype notice =
    CheckStatusError string
  | StartFailed
  | AlreadyRunning
  | ExecStartError string
  | MayNotHaveStarted
  | Started
  | ExecStopError string
  | StopFailed
  | StillRunning
  | Stopped
  | ExecRestartError string
  | RestartFailed
  | Restarted
  | AskUninstall
  | UninstallCancelled
  | ExecCmdError string
  | UninstallFailed
  | Uninstalled
  | UpdateFailed string
  | TimeServerError string
  | SetTimeError string
  | SyncFailed
  | Synced

text \<open>\<open>Run\<close> is a shell with its command line, \<open>RunStd\<close> a program on the terminal.\<close>

datatype action =
    Run string string
  | RunStd string "string list"
  | RemoveAll string
  | SetClock int
  | Sleep int
  | PrintErr notice
  | PrintOk notice
  | PrintWarn notice

text \<open>The error of a program: that it was not found, or another one.\<close>

datatype exec_error = NotFound string | ExecError string

fun exec_message :: "exec_error \<Rightarrow> string" where
  "exec_message (NotFound e) = e"
| "exec_message (ExecError e) = e"

type_synonym host_env = "action list \<Rightarrow> string \<Rightarrow> string \<Rightarrow> string \<times> exec_error option"

section \<open>Running programs\<close>

definition RunCommandByShell :: "host_env \<Rightarrow> string \<Rightarrow> action list \<Rightarrow> (string \<times> string option) \<times> action list" where
  "RunCommandByShell ev cmd h =
     (case ev h ''bash'' cmd of
        (out, err) \<Rightarrow>
          let h = h @ [Run ''bash'' cmd] in
          (case err of
             Some (NotFound _) \<Rightarrow> (case ev h ''sh'' cmd of (out, err) \<Rightarrow> ((out, map_option exec_message err), h @ [Run ''sh'' cmd]))
           | _ \<Rightarrow> ((out, map_option exec_message err), h)))"

definition RunCommandStd :: "string \<Rightarrow> string list \<Rightarrow> action list \<Rightarrow> action list" where
  "RunCommandStd name args h = h @ [RunStd name args]"

definition checkRunning :: "host_env \<Rightarrow> action list \<Rightarrow> (bool \<times> string option) \<times> action list" where
  "checkRunning ev h =
     (case RunCommandByShell ev ''systemctl status V2bX | grep Active'' h of
        ((_, Some err), h) \<Rightarrow> ((False, Some err), h)
      | ((out, None), h) \<Rightarrow> ((Contains out ''running'', None), h))"

section \<open>Starting and stopping\<close>

definition startHandle :: "host_env \<Rightarrow> action list \<Rightarrow> action list" where
  "startHandle ev h =
     (case checkRunning ev h of
        ((_, Some err), h) \<Rightarrow> h @ [PrintErr (CheckStatusError err), PrintErr StartFailed]
      | ((r, None), h) \<Rightarrow>
          let h = (if r then h @ [PrintOk AlreadyRunning] else h) in
          (case RunCommandByShell ev ''systemctl start V2bX.service'' h of
             ((_, Some err), h) \<Rightarrow> h @ [PrintErr (ExecStartError err), PrintErr StartFailed]
           | ((_, None), h) \<Rightarrow>
               (case checkRunning ev (h @ [Sleep (3 * Second)]) of
                  ((r, err), h) \<Rightarrow>
                    let h = (case err of None \<Rightarrow> h | Some err \<Rightarrow> h @ [PrintErr (CheckStatusError err), PrintErr StartFailed]) in
                    if \<not> r then h @ [PrintErr MayNotHaveStarted] else h @ [PrintOk Started])))"

definition stopHandle :: "host_env \<Rightarrow> action list \<Rightarrow> action list" where
  "stopHandle ev h =
     (case RunCommandByShell ev ''systemctl stop V2bX.service'' h of
        ((_, Some err), h) \<Rightarrow> h @ [PrintErr (ExecStopError err), PrintErr StopFailed]
      | ((_, None), h) \<Rightarrow>
          (case checkRunning ev (h @ [Sleep (2 * Second)]) of
             ((_, Some err), h) \<Rightarrow> h @ [PrintErr (CheckStatusError err), PrintErr StopFailed]
           | ((r, None), h) \<Rightarrow> if r then h @ [PrintErr StillRunning] else h @ [PrintOk Stopped]))"

definition restartHandle :: "host_env \<Rightarrow> action list \<Rightarrow> action list" where
  "restartHandle ev h =
     (case RunCommandByShell ev ''systemctl restart V2bX.service'' h of
        ((_, Some err), h) \<Rightarrow> h @ [PrintErr (ExecRestartError err), PrintErr RestartFailed]
      | ((_, None), h) \<Rightarrow>
          (case checkRunning ev h of
             ((_, Some err), h) \<Rightarrow> h @ [PrintErr (CheckStatusError err), PrintErr RestartFailed]
           | ((r, None), h) \<Rightarrow> if \<not> r then h @ [PrintErr MayNotHaveStarted] else h @ [PrintOk Restarted]))"

definition log_command :: "action list \<Rightarrow> action list" where
  "log_command h = RunCommandStd ''journalctl'' [''-u'', ''V2bX.service'', ''-e'', ''--no-pager'', ''-f''] h"

section \<open>Updating and uninstalling\<close>

definition update_line :: "string \<Rightarrow> string" where
  "update_line targetVersion =
     ''wget -N -O /tmp/v2bx_install.sh https://raw.githubusercontent.com/yamatu/yabx/main/install.sh && bash /tmp/v2bx_install.sh'' @
     (if targetVersion \<noteq> '''' then '' '' @ targetVersion else '''')"

definition update_command :: "host_env \<Rightarrow> string \<Rightarrow> action list \<Rightarrow> action list" where
  "update_command ev targetVersion h =
     (case RunCommandByShell ev (update_line targetVersion) h of
        ((_, Some err), h) \<Rightarrow> h @ [PrintErr (UpdateFailed err)]
      | ((_, None), h) \<Rightarrow> h)"

definition uninstall_paths :: "string list" where
  "uninstall_paths = [''/etc/systemd/system/V2bX.service'', ''/etc/V2bX/'', ''/usr/local/V2bX/'', ''/usr/bin/V2bX'',
     ''/usr/bin/v2bx'', ''/usr/bin/v2bx-bin'', ''/bin/V2bX'']"

text \<open>What follows the question.\<close>

definition uninstall_steps :: "host_env \<Rightarrow> action list \<Rightarrow> action list" where
  "uninstall_steps ev h =
     (case RunCommandByShell ev ''systemctl stop V2bX&&systemctl disable V2bX'' h of
        ((_, Some err), h) \<Rightarrow> h @ [PrintErr (ExecCmdError err), PrintErr UninstallFailed]
      | ((_, None), h) \<Rightarrow>
          (case RunCommandByShell ev ''systemctl daemon-reload&&systemctl reset-failed'' (h @ map RemoveAll uninstall_paths) of
             ((_, Some err), h) \<Rightarrow> h @ [PrintErr (ExecCmdError err), PrintErr UninstallFailed]
           | ((_, None), h) \<Rightarrow> h @ [PrintOk Uninstalled]))"

definition uninstallHandle :: "host_env \<Rightarrow> string list \<Rightarrow> action list \<Rightarrow> action list" where
  "uninstallHandle ev inputs h =
     (let yes = fst (scan '''' inputs);
          h = h @ [PrintWarn AskUninstall];
          h = (if ToLower yes \<noteq> ''y'' then h @ [PrintOk UninstallCancelled] else h)
      in uninstall_steps ev h)"

section \<open>The clock\<close>

text \<open>The time of the server, and the error of setting the clock.\<close>

definition synctimeHandle :: "string + int \<Rightarrow> (int \<Rightarrow> string option) \<Rightarrow> action list \<Rightarrow> action list" where
  "synctimeHandle server_time set_time h =
     (case server_time of
        Inl err \<Rightarrow> h @ [PrintErr (TimeServerError err), PrintErr SyncFailed]
      | Inr t \<Rightarrow>
          (case set_time t of
             Some err \<Rightarrow> h @ [SetClock t, PrintErr (SetTimeError err), PrintErr SyncFailed]
           | None \<Rightarrow> h @ [SetClock t, PrintOk Synced]))"

section \<open>Properties\<close>

text \<open>What a command does apart from its messages.\<close>

fun is_message :: "action \<Rightarrow> bool" where
  "is_message (PrintErr _) = True"
| "is_message (PrintOk _) = True"
| "is_message (PrintWarn _) = True"
| "is_message _ = False"

definition effects :: "action list \<Rightarrow> action list" where
  "effects h = filter (\<lambda>a. \<not> is_message a) h"

text \<open>Programs do not see what was printed.\<close>

definition blind :: "host_env \<Rightarrow> bool" where
  "blind ev \<longleftrightarrow> (\<forall>h h'. effects h = effects h' \<longrightarrow> ev h = ev h')"

lemma effects_simps [simp]:
  "effects [] = []" "effects (h @ h') = effects h @ effects h'" "effects (a # h) = (if is_message a then effects h else a # effects h)"
  "effects (map RemoveAll ps) = map RemoveAll ps"
  by (simp_all add: effects_def)

lemma run_blind:
  assumes "blind ev" "effects h = effects h'"
  shows "fst (RunCommandByShell ev cmd h) = fst (RunCommandByShell ev cmd h')"
    "effects (snd (RunCommandByShell ev cmd h)) = effects (snd (RunCommandByShell ev cmd h'))"
proof -
  obtain out err where 1: "ev h ''bash'' cmd = (out, err)" by fastforce
  obtain out' err' where 2: "ev (h @ [Run ''bash'' cmd]) ''sh'' cmd = (out', err')" by fastforce
  have "ev h' = ev h" "ev (h' @ [Run ''bash'' cmd]) = ev (h @ [Run ''bash'' cmd])"
    by (rule assms(1) [unfolded blind_def, rule_format]; simp add: assms(2))+
  then have 3: "ev h' ''bash'' cmd = (out, err)" "ev (h' @ [Run ''bash'' cmd]) ''sh'' cmd = (out', err')" using 1 2 by simp_all
  show "fst (RunCommandByShell ev cmd h) = fst (RunCommandByShell ev cmd h')"
    "effects (snd (RunCommandByShell ev cmd h)) = effects (snd (RunCommandByShell ev cmd h'))"
    using 1 2 3 assms(2) by (simp_all add: RunCommandByShell_def Let_def split: option.splits exec_error.splits)
qed

lemma uninstall_steps_blind:
  assumes "blind ev" "effects h = effects h'"
  shows "effects (uninstall_steps ev h) = effects (uninstall_steps ev h')"
proof -
  let ?stop = "''systemctl stop V2bX&&systemctl disable V2bX''" and ?reload = "''systemctl daemon-reload&&systemctl reset-failed''"
  obtain o1 e1 g where 1: "RunCommandByShell ev ?stop h = ((o1, e1), g)" by (metis surj_pair)
  obtain g' where 2: "RunCommandByShell ev ?stop h' = ((o1, e1), g')" "effects g = effects g'"
    using run_blind [OF assms, of ?stop] 1 by (metis fst_conv snd_conv surj_pair)
  have e: "effects (g @ map RemoveAll uninstall_paths) = effects (g' @ map RemoveAll uninstall_paths)" using 2(2) by simp
  obtain o2 e2 k where 3: "RunCommandByShell ev ?reload (g @ map RemoveAll uninstall_paths) = ((o2, e2), k)" by (metis surj_pair)
  obtain k' where 4: "RunCommandByShell ev ?reload (g' @ map RemoveAll uninstall_paths) = ((o2, e2), k')" "effects k = effects k'"
    using run_blind [OF assms(1) e, of ?reload] 3 by (metis fst_conv snd_conv surj_pair)
  show ?thesis using 1 2 3 4 by (simp add: uninstall_steps_def split: option.splits)
qed

text \<open>Uninstalling does not heed the answer to its question: whatever is typed, or nothing, the same programs are run and the
  same files are removed; the refusal only prints that it was cancelled.\<close>

theorem uninstall_ignores_answer:
  assumes "blind ev"
  shows "effects (uninstallHandle ev inputs h) = effects (uninstallHandle ev [''y''] h)"
  unfolding uninstallHandle_def Let_def by (rule uninstall_steps_blind [OF assms]) simp

definition demo_host :: host_env where
  "demo_host h sh cmd = (if sh = ''bash'' then ('''', Some (NotFound ''bash'')) else (''Active: active (running)'', None))"

lemma uninstall_ignores_answer_witness:
  "RemoveAll ''/etc/V2bX/'' \<in> set (effects (uninstallHandle demo_host [''n''] []))"
proof -
  have "blind demo_host" by (simp add: blind_def demo_host_def fun_eq_iff)
  then have "effects (uninstallHandle demo_host [''n''] []) = effects (uninstallHandle demo_host [''y''] [])"
    by (rule uninstall_ignores_answer)
  moreover have "RemoveAll ''/etc/V2bX/'' \<in> set (effects (uninstallHandle demo_host [''y''] []))" by code_simp
  ultimately show ?thesis by simp
qed

text \<open>A service that runs is started again, after the message that this is not needed.\<close>

lemma start_although_running:
  "PrintOk AlreadyRunning \<in> set (startHandle demo_host []) \<and>
   Run ''sh'' ''systemctl start V2bX.service'' \<in> set (startHandle demo_host [])"
  by code_simp

end
