(* ===== verification/Masquerade.thy ===== *)
theory Masquerade
  imports Hy2_Build
begin

text \<open>
  What a client that is not one of hysteria's sees: the handlers of \<^verbatim>\<open>getMasqHandler\<close> (\<^verbatim>\<open>core/hy2/config.go\<close>) at work,
  and the server of their own that they may get. The file server, the URL parser and the backend of the proxy are
  arguments. A header is a map from canonical names to values.
\<close>

type_synonym headers = "(string, string list) gomap"

record http_request =
  hq_Scheme :: string
  hq_Host :: string
  hq_Path :: string
  hq_HostHeader :: string
  hq_RemoteAddr :: string
  hq_Header :: headers

record http_response =
  hr_Status :: int
  hr_Header :: headers
  hr_Body :: string

text \<open>\<^verbatim>\<open>Get\<close> and \<^verbatim>\<open>Set\<close> of \<^verbatim>\<open>http.Header\<close>.\<close>

definition header_Get :: "string \<Rightarrow> headers \<Rightarrow> string" where
  "header_Get k h = (case map_get [] h k of [] \<Rightarrow> '''' | v # _ \<Rightarrow> v)"

definition header_Set :: "string \<Rightarrow> string \<Rightarrow> headers \<Rightarrow> headers" where
  "header_Set k v h = sm_store k [v] h"

record masq_env =
  ms_Canonical :: "string \<Rightarrow> string"
  ms_URL :: "string \<Rightarrow> string \<times> string"
  ms_SplitHostPort :: "string \<Rightarrow> (string \<times> string) option"
  ms_Files :: "string \<Rightarrow> http_request \<Rightarrow> http_response"
  ms_Backend :: "http_request \<Rightarrow> string + http_response"

section \<open>The proxy\<close>

definition forwarded :: string where "forwarded = ''X-Forwarded-For''"

text \<open>The \<^verbatim>\<open>Director\<close>: scheme and host of the URL; its path is not used.\<close>

definition Director :: "masq_env \<Rightarrow> string \<times> string \<Rightarrow> bool \<Rightarrow> http_request \<Rightarrow> http_request" where
  "Director mv u rewriteHost req0 =
     (let req = req0\<lparr>hq_Scheme := fst u, hq_Host := snd u\<rparr>;
          req = (case ms_SplitHostPort mv (hq_RemoteAddr req) of
             None \<Rightarrow> req
           | Some (clientIP, _) \<Rightarrow>
               let xff = header_Get forwarded (hq_Header req);
                   clientIP = (if xff \<noteq> '''' then xff @ '', '' @ clientIP else clientIP)
               in req\<lparr>hq_Header := header_Set forwarded clientIP (hq_Header req)\<rparr>)
      in if rewriteHost then req\<lparr>hq_HostHeader := hq_Host req\<rparr> else req)"

text \<open>What \<^verbatim>\<open>httputil.ReverseProxy\<close> itself does to the request after its \<^verbatim>\<open>Director\<close>: it appends the address of the client too.\<close>

definition proxy_appends :: "masq_env \<Rightarrow> http_request \<Rightarrow> http_request \<Rightarrow> http_request" where
  "proxy_appends mv req out =
     (case ms_SplitHostPort mv (hq_RemoteAddr req) of
        None \<Rightarrow> out
      | Some (clientIP, _) \<Rightarrow>
          (case sm_load (hq_Header out) forwarded of
             Some [] \<Rightarrow> out
           | Some prior \<Rightarrow> out\<lparr>hq_Header := header_Set forwarded (Join prior '', '' @ '', '' @ clientIP) (hq_Header out)\<rparr>
           | None \<Rightarrow> out\<lparr>hq_Header := header_Set forwarded clientIP (hq_Header out)\<rparr>))"

text \<open>\<^verbatim>\<open>ErrorHandler\<close>: 502.\<close>

definition proxy_answer :: "masq_env \<Rightarrow> string \<Rightarrow> bool \<Rightarrow> http_request \<Rightarrow> http_response" where
  "proxy_answer mv url rewriteHost req =
     (case ms_Backend mv (proxy_appends mv req (Director mv (ms_URL mv url) rewriteHost req)) of
        Inl _ \<Rightarrow> \<lparr>hr_Status = 502, hr_Header = [], hr_Body = ''''\<rparr>
      | Inr res \<Rightarrow> res)"

section \<open>The handlers\<close>

definition string_answer :: "masq_env \<Rightarrow> string \<Rightarrow> (string, string) gomap \<Rightarrow> int \<Rightarrow> http_response" where
  "string_answer mv content hs status =
     \<lparr>hr_Status = status, hr_Header = fold (\<lambda>(k, v) h. header_Set (ms_Canonical mv k) v h) hs [], hr_Body = content\<rparr>"

text \<open>\<^verbatim>\<open>masqHandlerLogWrapper\<close> only logs.\<close>

fun ServeHTTP :: "masq_env \<Rightarrow> masq_handler \<Rightarrow> http_request \<Rightarrow> http_response" where
  "ServeHTTP mv NotFoundHandler req = \<lparr>hr_Status = 404, hr_Header = [], hr_Body = ''404 page not found'' @ [CHR 0x0A]\<rparr>"
| "ServeHTTP mv (FileServer dir) req = ms_Files mv dir req"
| "ServeHTTP mv (ReverseProxy url rewriteHost) req = proxy_answer mv url rewriteHost req"
| "ServeHTTP mv (StringHandler content hs status) req = string_answer mv content hs status"

section \<open>The server of the masquerade\<close>

datatype masq_server_end = Serving | ReturnsAfter string | Fatal string

text \<open>The first of the servers that ends decides: with an error the process exits. An address may be empty; both never are.
  The argument is how each server ends, and which of them first.\<close>

definition runMasqTCPServer :: "string \<Rightarrow> string \<Rightarrow> (string \<Rightarrow> string option option) \<Rightarrow> (string list \<Rightarrow> string option) \<Rightarrow> masq_server_end" where
  "runMasqTCPServer httpAddr httpsAddr end_of first =
     (case first (filter (\<lambda>a. a \<noteq> '''' \<and> end_of a \<noteq> None) [httpAddr, httpsAddr]) of
        None \<Rightarrow> Serving
      | Some a \<Rightarrow>
          (case end_of a of
             Some (Some err) \<Rightarrow> Fatal (''failed to serve masquerade HTTP(S): '' @ err)
           | _ \<Rightarrow> ReturnsAfter a))"

section \<open>Laws\<close>

lemma header_simps [simp]:
  "sm_load (header_Set k v h) k' = (if k' = k then Some [v] else sm_load h k')"
  "header_Get k (header_Set k v h) = v"
  by (simp_all add: header_Set_def header_Get_def map_get_def sm.load_store)

text \<open>The status 233, by which hysteria tells its own clients that they are let in, is never answered by the masquerade
  itself: only the backend of a proxy, or a file server, could give it. Without these the status is between 200 and 599.\<close>

theorem masquerade_never_lets_in:
  assumes "getMasqHandler he conn c = Inr (h, srv)"
  shows "(\<exists>dir. h = FileServer dir) \<or> (\<exists>url b. h = ReverseProxy url b \<and> (\<exists>out res. ms_Backend mv out = Inr res \<and> ServeHTTP mv h req = res)) \<or>
    200 \<le> hr_Status (ServeHTTP mv h req) \<and> hr_Status (ServeHTTP mv h req) \<le> 599 \<and> hr_Status (ServeHTTP mv h req) \<noteq> 233"
proof -
  have m: "masq_of he (hs_Masquerade c) = Inr h"
    using assms by (auto simp: getMasqHandler_def and_then_def split: sum.splits)
  have "h = NotFoundHandler \<or> (\<exists>dir. h = FileServer dir) \<or> (\<exists>url b. h = ReverseProxy url b) \<or> masq_string (mq_String (hs_Masquerade c)) = Inr h"
    using m by (simp add: masq_of_def Let_def split: if_split_asm option.split_asm) blast+
  then consider "h = NotFoundHandler" | dir where "h = FileServer dir" | url b where "h = ReverseProxy url b"
    | s where "masq_string s = Inr h"
    by blast
  then show ?thesis
  proof cases
    case (3 url b)
    then show ?thesis by (auto simp: proxy_answer_def split: sum.splits)
  next
    case (4 s)
    then show ?thesis by (auto simp: masq_string_def string_answer_def string_status_def split: if_splits)
  qed simp_all
qed

text \<open>The backend of the proxy sees the address of the client twice, once from the \<^verbatim>\<open>Director\<close> and once from the proxy.\<close>

lemma client_address_twice:
  assumes "ms_SplitHostPort mv (hq_RemoteAddr req) = Some (ip, port)" "sm_load (hq_Header req) forwarded = None"
  shows "header_Get forwarded (hq_Header (proxy_appends mv req (Director mv u b req))) = ip @ '', '' @ ip"
  using assms by (simp add: proxy_appends_def Director_def Let_def header_Get_def map_get_def header_Set_def sm.load_store)

text \<open>The path of the request is passed on as it is; that of the configured URL is not used.\<close>

lemma proxy_keeps_path: "hq_Path (proxy_appends mv req (Director mv u b req)) = hq_Path req"
  by (simp add: proxy_appends_def Director_def Let_def split: option.splits list.splits)

end
