(* ===== verification/Spec2Isabelle.thy ===== *)
theory Spec2Isabelle
  imports Conn_Ledger Limiter_Check Limiter_Online User_Diff Online_Report Periodic_Task Json5
    Traffic_Counter Panel_Node_Laws Panel_User_Laws Conf Selector_Laws Xray_Laws Traffic_Report Node_Start Dispatcher_Laws Xray_Node_Laws Sing_Laws
    Cert_Laws Geo_Loader Process_Laws Sys_Status Commands Masquerade
begin

text \<open>
  A model of V2bX, a node agent for proxy panels, and what has been proved of it. The agent asks a panel for the description
  of a node and its users (\<^verbatim>\<open>api/panel\<close>), runs the node on one of several proxy cores (\<^verbatim>\<open>core\<close>), limits speed,
  devices and connections of the users (\<^verbatim>\<open>limiter\<close>), and reports traffic and online addresses back (\<^verbatim>\<open>node\<close>). A
  controller per node ties the parts together: periodic tasks call its handlers, which call the panel client, the core
  and the limiter; the core's dispatcher calls the limiter for each connection. The server command (\<^verbatim>\<open>cmd/server.go\<close>)
  reads the configuration, makes the core and starts the nodes, and does so again when a watched file changes.

  \<^bold>\<open>Conventions.\<close> A struct is a record, an enumeration a datatype, a Go string the list of its bytes, a Go map or
  \<^verbatim>\<open>sync.Map\<close> an association list with distinct keys whose order is the order of one visit, so that a theorem about all
  such lists covers every order. A panic is \<^term>\<open>None\<close>, a returned error the left side of a sum or a message. State is
  passed explicitly. Code of other packages (JSON decoders, regular expressions, the libraries of the proxy cores,
  network answers, the clock) is an argument: a function, or a record of functions such as \<open>codec\<close>, \<open>hy2_env\<close>,
  \<open>xray_env\<close> or \<open>inbound_env\<close>. Go's 64-bit integers are integers with the wrap-around written out
  (\<open>i64\<close>, \<open>u64\<close>).

  \<^bold>\<open>Foundations.\<close> \<open>Prelude\<close> (strings, decimal texts, integers), \<open>GoMap\<close> (maps; the locale \<open>kv_store\<close> and its
  interpretation \<open>sm\<close>), \<open>Machine\<close> (the locales \<open>inv_machine\<close>, \<open>safe_machine\<close>, \<open>bounded_machine\<close> of
  components with an invariant), \<open>Shared_Types\<close> (users, rules, tags, addresses; \<open>online_user\<close> is a linear
  order) and \<open>Go_Std\<close> (hosts and ports, splitting, files).

  \<^bold>\<open>Limits.\<close> \<open>Conn_Limiter\<close> models \<^verbatim>\<open>limiter/conn.go\<close>; \<open>Conn_Ledger\<close> refines it to a ledger of open
  connections and accounts for every slot. \<open>Limiter\<close> models the rest of \<^verbatim>\<open>limiter/\<close>; \<open>Limiter_Check\<close> has the
  decision, the rate and the safety of every run, \<open>Limiter_Online\<close> the reports and the registry. The machines are
  interpreted as \<open>conn\<close>, \<open>ledger\<close> and \<open>limiter_machine\<close>.

  \<^bold>\<open>Panel.\<close> \<open>Panel_Types\<close>, \<open>Panel_Node\<close> and \<open>Panel_User\<close> model \<^verbatim>\<open>api/panel\<close>; \<open>Panel_Node_Laws\<close> has the routes
  and the cache of the last answer, \<open>Panel_User_Laws\<close> the decoding of alive counts and the reports. A payload may be wrapped
  in others; \<open>decodeAliveMap\<close> has fuel one more than the length of the body, which is enough since an unwrapped payload is
  shorter (\<open>payload_shrinks\<close>).

  \<^bold>\<open>Configuration.\<close> \<open>Json5\<close> models the cleaning reader of \<^verbatim>\<open>common/json5\<close>, \<open>Conf\<close> the structs and decoders of
  \<^verbatim>\<open>conf/\<close>.

  \<^bold>\<open>Cores.\<close> \<open>Selector\<close> models \<^verbatim>\<open>core/interface.go\<close>, \<^verbatim>\<open>core.go\<close> and \<^verbatim>\<open>selector.go\<close>. The locale
  \<open>core_contract\<close> states what a core promises of the nodes it serves; \<open>Selector_Laws\<close> shows that a selector keeps
  it and sends each call to the right member. \<open>Hy2_Config\<close>, \<open>Hy2_Build\<close> and \<open>Hy2_Core\<close> model \<^verbatim>\<open>core/hy2\<close>;
  \<open>Hy2_Laws\<close> interprets the contract (\<open>hy2\<close>) and states who may connect, what is cut off and what is counted; \<open>Masquerade\<close>
  has the handlers that other clients meet, and that they do not let them in.
  \<open>Xray_Users\<close>, \<open>Xray_Inbound\<close>, \<open>Xray_Node\<close> and \<open>Xray_Instance\<close> model \<^verbatim>\<open>core/xray\<close>: users and keys, the
  inbound of a node, nodes and the shared DNS file, and the construction of the instance. \<open>Xray_Laws\<close> is about keys and
  online users, \<open>Inbound_Laws\<close> about the shape of an inbound and when building it panics, \<open>Xray_Node_Laws\<close> shows the
  contract of a core from documented laws of xray-core's managers (\<open>manager_laws\<close>, a predicate with an instance, since
  these managers are not part of the repository). \<open>Xray_Sniffer\<close> and \<open>Xray_Dispatcher\<close> model \<^verbatim>\<open>app/dispatcher\<close> and
  \<^verbatim>\<open>common/rate\<close>: \<open>Sniffer_Laws\<close> shows that sniffing takes nothing from a stream, \<open>Dispatcher_Laws\<close> that links are
  limited, rules enforced and places given back. The loop that sniffs content tries twice, as the code does.

  \<open>Sing_Options\<close> and \<open>Sing_Core\<close> model \<^verbatim>\<open>core/sing\<close>; \<open>Sing_Laws\<close> shows its contract from documented laws of the box
  (\<open>box_laws\<close>), that the inbounds of naive follow their users, that it meters (\<open>sing_traffic\<close>,
  \<open>sel_sing_traffic\<close>), and that its hooks let in a bounded number of connections for good.

  \<^bold>\<open>Controller.\<close> \<open>Controller\<close> models the helpers and reports of \<^verbatim>\<open>node/\<close>, \<open>Controller_Run\<close> start, close and the
  monitor, \<open>User_Diff\<close> and \<open>Online_Report\<close> the pure functions of \<^verbatim>\<open>node/user.go\<close>. \<open>Controller_Laws\<close> has bounds of
  intervals, \<open>Node_Start\<close> and \<open>Node_Sync\<close> the invariant that the limiter holds the controller's users, from the
  start through every change, and where it breaks. \<open>Traffic_Counter\<close> models \<^verbatim>\<open>common/counter\<close>; \<open>Traffic_Report\<close>
  shows that traffic is read once and passed on, over the locale \<open>traffic_meter\<close>, interpreted for the hysteria core
  (\<open>hy_traffic\<close>) and for a selector over such cores (\<open>sel_traffic\<close>). \<open>Periodic_Task\<close> models \<^verbatim>\<open>common/task\<close> as
  threads under a mutex, one step for each section of code between calls; when a timer fires is open.

  \<^bold>\<open>Process.\<close> \<open>Service\<close> models \<^verbatim>\<open>conf/conf.go\<close>, \<^verbatim>\<open>conf/watch.go\<close> and \<^verbatim>\<open>cmd/server.go\<close>: reading the
  configuration, the watcher, the start and the reload, over a record of the operations of any core (\<open>any_ops\<close>).
  \<open>Service_Laws\<close> shows the contract of a core for it (\<open>any_contract\<close>) and that a start or reload that succeeds
  serves exactly the nodes of the new configuration, how far apart reloads are, and that one that fails to read the file
  stops the process. \<open>Process_Run\<close> lets the tasks of all controllers, the requests of the cores and reloads happen in any
  order, on the core and the registry they share; \<open>Node_Frame\<close> has what a handler of one node may do to the others, and
  \<open>Process_Laws\<close> the invariant of every run: each node has a limiter under its tag that holds exactly its users.

  \<^bold>\<open>Certificates and databases.\<close> \<open>Disk\<close> is the file system with faults that an environment chooses. \<open>Lego\<close> models the
  ACME client of \<^verbatim>\<open>node/lego.go\<close>, \<open>Cert_Files\<close> the rest of \<^verbatim>\<open>node/cert.go\<close>; \<open>Cert_Laws\<close> shows that an
  account is found again as it was stored, when a certificate is renewed, and that the files refine the abstract request
  the controller was modelled with (\<open>request_cert_refines\<close>). \<open>Geo_Loader\<close> models \<^verbatim>\<open>core/hy2/geoloader.go\<close>: a
  database is replaced as a whole or not at all, and one that is there is still used when a download fails.

  \<^bold>\<open>Commands and status.\<close> \<open>Sys_Status\<close> models \<^verbatim>\<open>common/serverstatus\<close> and the report of the status to the panel,
  \<open>Keys\<close> models \<^verbatim>\<open>common/crypt\<close> and the key command, \<open>Commands\<close> the other commands of \<^verbatim>\<open>cmd/\<close> as histories of
  the shell calls they make with the answers as arguments.

  \<^bold>\<open>Not modelled.\<close> The registration of commands with cobra and the banner (\<^verbatim>\<open>main.go\<close>, \<^verbatim>\<open>cmd/cmd.go\<close>,
  \<^verbatim>\<open>version.go\<close>), imports, log entries, the sockets that the wrappers of connections hold, and generated code
  (\<^verbatim>\<open>config.pb.go\<close>): they have no state or decision of their own. ACME, TLS, the panel, the measurements of the host and
  the proxy cores are other packages and hence arguments.
  Of the concurrency only the periodic task is interleaved: the other operations run in one step each,
  in any order (\<open>Process_Run\<close>); races inside a handler, between the calls it makes, are not covered, nor is
  what happens after a reload waits for a monitor that hangs.
\<close>

end
